(* ===== verification/Prelude.thy ===== *)
theory Prelude
  imports Complex_Main "HOL-Library.Word" "HOL-Library.Log_Nat"
begin

text \<open>
  Shared vocabulary of the development: machine integer types, the conversions C++ performs
  between \<open>double\<close>, \<open>float\<close> and integers, the printing functions of \<open>snprintf\<close> that the code
  uses, and the theorem collections the component theories fill.

  Doubles are modelled by the rational numbers they denote (parson only yields finite numbers);
  \<open>f32\<close> and \<open>f64\<close> are IEEE rounding to nearest, ties to even, with gradual underflow. A
  conversion whose value does not fit the target type is undefined in C++; the functions below
  take the value the compiled program yields there as a parameter.
\<close>

named_theorems frame "what an operation leaves unchanged"
named_theorems res_simps "the effect of the response-reporting operations"
named_theorems ctx_simps "projections of the context after an update"

type_synonym u8 = "8 word"
type_synonym u16 = "16 word"
type_synonym u32 = "32 word"
type_synonym u64 = "64 word"

section \<open>Conversions between number types\<close>

definition trunc_rat :: "rat \<Rightarrow> int" where
  "trunc_rat x = (if 0 \<le> x then \<lfloor>x\<rfloor> else \<lceil>x\<rceil>)"

text \<open>\<open>(uint32_t)x\<close>: the truncated value where it fits, otherwise \<open>undef x\<close>.\<close>

definition cast_u32 :: "(rat \<Rightarrow> int) \<Rightarrow> rat \<Rightarrow> u32" where
  "cast_u32 undef x =
     (if -1 < x \<and> x < 4294967296 then word_of_int (trunc_rat x) else word_of_int (undef x))"

text \<open>\<open>(int)x\<close>, also the conversion to an enumeration with underlying type \<open>int\<close>.\<close>

definition cast_i32 :: "(rat \<Rightarrow> int) \<Rightarrow> rat \<Rightarrow> int" where
  "cast_i32 undef x =
     (if -2147483649 < x \<and> x < 2147483648 then trunc_rat x else undef x)"

definition rat_of_u32 :: "u32 \<Rightarrow> rat" where
  "rat_of_u32 w = of_int (uint w)"

definition rat_of_bool :: "bool \<Rightarrow> rat" where
  "rat_of_bool b = (if b then 1 else 0)"

lemma trunc_rat_of_int [simp]: "trunc_rat (of_int n) = n"
  by (simp add: trunc_rat_def)

lemma trunc_rat_numeral [simp]:
  "trunc_rat 0 = 0" "trunc_rat 1 = 1" "trunc_rat (numeral k) = numeral k"
  by (simp_all add: trunc_rat_def)

lemma trunc_rat_bounds:
  assumes "-1 < x" "x < of_int n" "0 < n"
  shows "0 \<le> trunc_rat x" and "trunc_rat x < n"
  using assms by (auto simp: trunc_rat_def floor_less_iff zero_le_ceiling ceiling_less_iff)

lemma uint_u32_less: "uint (w :: u32) < 4294967296"
  using uint_lt2p [of w] by simp

lemma cast_u32_rat_of_u32 [simp]: "cast_u32 undef (rat_of_u32 w) = w"
proof -
  have "0 \<le> uint w" by (rule uint_ge_0)
  then have "(of_int 0 :: rat) \<le> of_int (uint w)" by (simp only: of_int_le_iff)
  then have "-1 < (of_int (uint w) :: rat)" by linarith
  moreover have "(of_int (uint w) :: rat) < of_int 4294967296"
    using uint_u32_less [of w] by (simp only: of_int_less_iff)
  moreover have "trunc_rat (of_int (uint w)) = uint w" by (rule trunc_rat_of_int)
  moreover have "(of_int 4294967296 :: rat) = 4294967296" by simp
  ultimately show ?thesis
    by (simp only: cast_u32_def rat_of_u32_def if_True simp_thms word_of_int_uint)
qed

section \<open>IEEE rounding\<close>

definition pow2 :: "int \<Rightarrow> rat" where
  "pow2 e = (if 0 \<le> e then 2 ^ nat e else 1 / 2 ^ nat (- e))"

text \<open>The exponent \<open>e\<close> with \<open>2 ^ e \<le> x < 2 ^ (e + 1)\<close>, for positive \<open>x\<close>.\<close>

definition ilog2 :: "rat \<Rightarrow> int" where
  "ilog2 x = (let (n, d) = quotient_of x; k = bitlen n - bitlen d
              in if pow2 k \<le> x then k else k - 1)"

definition round_half_even :: "rat \<Rightarrow> int" where
  "round_half_even x =
     (let f = \<lfloor>x\<rfloor>; r = x - of_int f
      in if r < 1 / 2 then f else if 1 / 2 < r then f + 1 else if even f then f else f + 1)"

definition round_to :: "int \<Rightarrow> int \<Rightarrow> rat \<Rightarrow> rat" where
  "round_to prec emin x =
     (if x = 0 then 0
      else let u = pow2 (max emin (ilog2 \<bar>x\<bar>) - (prec - 1))
           in of_int (round_half_even (x / u)) * u)"

definition f32 :: "rat \<Rightarrow> rat" where "f32 = round_to 24 (-126)"
definition f64 :: "rat \<Rightarrow> rat" where "f64 = round_to 53 (-1022)"

lemma round_to_0 [simp]: "round_to p e 0 = 0"
  by (simp add: round_to_def)

lemma f32_0 [simp]: "f32 0 = 0" and f64_0 [simp]: "f64 0 = 0"
  by (simp_all add: f32_def f64_def)

section \<open>Printing numbers\<close>

fun show_nat :: "nat \<Rightarrow> string" where
  "show_nat n = (if n < 10 then [char_of (48 + n)] else show_nat (n div 10) @ [char_of (48 + n mod 10)])"

declare show_nat.simps [simp del]

text \<open>\<open>%f\<close>: six decimals, rounded to nearest.\<close>

definition pad_left :: "nat \<Rightarrow> char \<Rightarrow> string \<Rightarrow> string" where
  "pad_left n c xs = replicate (n - length xs) c @ xs"

definition fmt_f :: "rat \<Rightarrow> string" where
  "fmt_f x =
     (let n = nat (round_half_even (\<bar>x\<bar> * 1000000))
      in (if x < 0 then ''-'' else '''') @ show_nat (n div 1000000) @ ''.''
         @ pad_left 6 (CHR ''0'') (show_nat (n mod 1000000)))"

text \<open>\<open>snprintf (buf, n, ...)\<close> writes at most \<open>n - 1\<close> characters.\<close>

definition snprintf :: "nat \<Rightarrow> string \<Rightarrow> string" where
  "snprintf n out = take (n - 1) out"

lemma length_snprintf: "0 < n \<Longrightarrow> length (snprintf n out) < n"
  by (simp add: snprintf_def)

text \<open>\<open>%d\<close>.\<close>

definition show_int :: "int \<Rightarrow> string" where
  "show_int i = (if i < 0 then ''-'' else '''') @ show_nat (nat \<bar>i\<bar>)"

end
