(* ===== verification/Json.thy ===== *)
theory Json
  imports Prelude "HOL-Library.AList"
begin

text \<open>
  JSON values and the JSON library. The values are the trees of the JSON format. The library,
  parson, is a git submodule that is not part of the repository: its functions are the fields of
  the record \<open>parson\<close>, an argument of every definition that calls it, and \<open>parson_ok\<close> collects
  the behaviour its header documents and the code relies on. A \<open>JSON_Object *\<close> the code obtains
  from a configuration may be NULL; it is a \<open>jobj option\<close>, and \<open>const char *\<close> a
  \<open>string option\<close>.
\<close>

datatype json =
    JNull
  | JBool bool
  | JNumber rat
  | JString string
  | JObject "(string \<times> json) list"
  | JArray "json list"

type_synonym jobj = "(string \<times> json) list"

datatype json_type = JSONNull | JSONString | JSONNumber | JSONObject | JSONArray | JSONBoolean

fun json_value_get_type :: "json \<Rightarrow> json_type" where
  "json_value_get_type JNull = JSONNull"
| "json_value_get_type (JString _) = JSONString"
| "json_value_get_type (JNumber _) = JSONNumber"
| "json_value_get_type (JObject _) = JSONObject"
| "json_value_get_type (JArray _) = JSONArray"
| "json_value_get_type (JBool _) = JSONBoolean"

text \<open>
  The \<open>dot\<close> variants of the accessors split a name at its dots; on a name without a dot they are
  the plain ones, and the model calls those.
  \<open>json_object_names obj\<close> is the sequence \<open>json_object_get_name obj 0\<close>,
  \<open>json_object_get_name obj 1\<close>, ... up to the first NULL.
\<close>

record parson =
  json_parse_string :: "string \<Rightarrow> json option"
  json_serialize_to_string :: "json option \<Rightarrow> string option"
  json_value_equals :: "json option \<Rightarrow> json option \<Rightarrow> bool"
  json_object_names :: "jobj option \<Rightarrow> string list"
  json_object_has_value :: "jobj option \<Rightarrow> string \<Rightarrow> bool"
  json_object_has_value_of_type :: "jobj option \<Rightarrow> string \<Rightarrow> json_type \<Rightarrow> bool"
  json_object_get_number :: "jobj option \<Rightarrow> string \<Rightarrow> rat"
  json_object_get_string :: "jobj option \<Rightarrow> string \<Rightarrow> string option"
  json_object_get_boolean :: "jobj option \<Rightarrow> string \<Rightarrow> int"
  json_object_get_object :: "jobj option \<Rightarrow> string \<Rightarrow> jobj option"
  json_object_get_array :: "jobj option \<Rightarrow> string \<Rightarrow> json list option"
  json_object_set_value :: "jobj \<Rightarrow> string \<Rightarrow> json \<Rightarrow> jobj"
  json_object_remove :: "jobj \<Rightarrow> string \<Rightarrow> jobj"
  json_object_dotget_string :: "jobj \<Rightarrow> string \<Rightarrow> string option"
  json_object_dotset_value :: "jobj \<Rightarrow> string \<Rightarrow> json \<Rightarrow> jobj"

definition json_lookup :: "jobj option \<Rightarrow> string \<Rightarrow> json option" where
  "json_lookup obj k = (case obj of None \<Rightarrow> None | Some o' \<Rightarrow> map_of o' k)"

lemma json_lookup_simps [simp]:
  "json_lookup None k = None" "json_lookup (Some o') k = map_of o' k"
  by (simp_all add: json_lookup_def)

text \<open>\<open>json_value_get_object\<close>, and \<open>json_array_get_object\<close> on an element.\<close>

definition json_as_object :: "json \<Rightarrow> jobj option" where
  "json_as_object j = (case j of JObject o' \<Rightarrow> Some o' | _ \<Rightarrow> None)"

text \<open>
  What \<open>parson.h\<close> documents. The getters return 0, NULL or -1 (for booleans) when the member is
  missing or has another type, or when the object itself is NULL.
\<close>

definition parson_ok :: "('a) parson_scheme \<Rightarrow> bool" where
  "parson_ok E \<longleftrightarrow>
     (\<forall>obj. json_object_names E obj = (case obj of None \<Rightarrow> [] | Some o' \<Rightarrow> map fst o'))
   \<and> (\<forall>obj k. json_object_has_value E obj k \<longleftrightarrow> json_lookup obj k \<noteq> None)
   \<and> (\<forall>obj k t. json_object_has_value_of_type E obj k t
          \<longleftrightarrow> map_option json_value_get_type (json_lookup obj k) = Some t)
   \<and> (\<forall>obj k. json_object_get_number E obj k
          = (case json_lookup obj k of Some (JNumber x) \<Rightarrow> x | _ \<Rightarrow> 0))
   \<and> (\<forall>obj k. json_object_get_string E obj k
          = (case json_lookup obj k of Some (JString x) \<Rightarrow> Some x | _ \<Rightarrow> None))
   \<and> (\<forall>obj k. json_object_get_boolean E obj k
          = (case json_lookup obj k of Some (JBool b) \<Rightarrow> (if b then 1 else 0) | _ \<Rightarrow> -1))
   \<and> (\<forall>obj k. json_object_get_object E obj k
          = (case json_lookup obj k of Some (JObject x) \<Rightarrow> Some x | _ \<Rightarrow> None))
   \<and> (\<forall>obj k. json_object_get_array E obj k
          = (case json_lookup obj k of Some (JArray x) \<Rightarrow> Some x | _ \<Rightarrow> None))
   \<and> (\<forall>o' k v. map_of (json_object_set_value E o' k v) = (map_of o')(k \<mapsto> v))
   \<and> (\<forall>o' k. map_of (json_object_remove E o' k) = (map_of o')(k := None))
   \<and> json_serialize_to_string E None = None"

lemma parson_simps:
  assumes "parson_ok E"
  shows "json_object_names E obj = (case obj of None \<Rightarrow> [] | Some o' \<Rightarrow> map fst o')"
    and "json_object_has_value E obj k \<longleftrightarrow> json_lookup obj k \<noteq> None"
    and "json_object_has_value_of_type E obj k t
          \<longleftrightarrow> map_option json_value_get_type (json_lookup obj k) = Some t"
    and "json_object_get_number E obj k
          = (case json_lookup obj k of Some (JNumber x) \<Rightarrow> x | _ \<Rightarrow> 0)"
    and "json_object_get_string E obj k
          = (case json_lookup obj k of Some (JString x) \<Rightarrow> Some x | _ \<Rightarrow> None)"
    and "json_object_get_boolean E obj k
          = (case json_lookup obj k of Some (JBool b) \<Rightarrow> (if b then 1 else 0) | _ \<Rightarrow> -1)"
    and "json_object_get_object E obj k
          = (case json_lookup obj k of Some (JObject x) \<Rightarrow> Some x | _ \<Rightarrow> None)"
    and "json_object_get_array E obj k
          = (case json_lookup obj k of Some (JArray x) \<Rightarrow> Some x | _ \<Rightarrow> None)"
    and "map_of (json_object_set_value E o' k v) = (map_of o')(k \<mapsto> v)"
    and "map_of (json_object_remove E o' k) = (map_of o')(k := None)"
    and "json_serialize_to_string E None = None"
  using assms by (auto simp: parson_ok_def)

section \<open>The typed setters\<close>

text \<open>
  \<open>json_object_set_number\<close> and its kin wrap \<open>json_object_set_value\<close>. Setting a NULL string is
  refused and leaves the object as it is.
\<close>

definition json_object_set_number :: "'a parson_scheme \<Rightarrow> jobj \<Rightarrow> string \<Rightarrow> rat \<Rightarrow> jobj" where
  "json_object_set_number E o' k x = json_object_set_value E o' k (JNumber x)"

definition json_object_set_string :: "'a parson_scheme \<Rightarrow> jobj \<Rightarrow> string \<Rightarrow> string option \<Rightarrow> jobj" where
  "json_object_set_string E o' k x =
     (case x of None \<Rightarrow> o' | Some t \<Rightarrow> json_object_set_value E o' k (JString t))"

definition json_object_set_boolean :: "'a parson_scheme \<Rightarrow> jobj \<Rightarrow> string \<Rightarrow> int \<Rightarrow> jobj" where
  "json_object_set_boolean E o' k b = json_object_set_value E o' k (JBool (b \<noteq> 0))"

lemma map_of_setters [simp]:
  assumes "parson_ok E"
  shows "map_of (json_object_set_number E o' k x) = (map_of o')(k \<mapsto> JNumber x)"
    and "map_of (json_object_set_string E o' k (Some t)) = (map_of o')(k \<mapsto> JString t)"
    and "map_of (json_object_set_boolean E o' k b) = (map_of o')(k \<mapsto> JBool (b \<noteq> 0))"
  using assms
  by (simp_all add: json_object_set_number_def json_object_set_string_def
        json_object_set_boolean_def parson_simps)

lemma set_string_None [simp]: "json_object_set_string E o' k None = o'"
  by (simp add: json_object_set_string_def)

section \<open>A concrete library\<close>

text \<open>
  The library on association lists, with no parser and a serializer that prints nothing: it shows
  that the hypotheses \<open>parson_ok\<close> states can hold, and the examples of the component theories
  evaluate over it.
\<close>

definition list_parson :: parson where
  "list_parson = \<lparr>
     json_parse_string = (\<lambda>_. None),
     json_serialize_to_string = map_option (\<lambda>_. ''''),
     json_value_equals = (=),
     json_object_names = (\<lambda>obj. case obj of None \<Rightarrow> [] | Some o' \<Rightarrow> map fst o'),
     json_object_has_value = (\<lambda>obj k. json_lookup obj k \<noteq> None),
     json_object_has_value_of_type = (\<lambda>obj k t. map_option json_value_get_type (json_lookup obj k) = Some t),
     json_object_get_number = (\<lambda>obj k. case json_lookup obj k of Some (JNumber x) \<Rightarrow> x | _ \<Rightarrow> 0),
     json_object_get_string = (\<lambda>obj k. case json_lookup obj k of Some (JString x) \<Rightarrow> Some x | _ \<Rightarrow> None),
     json_object_get_boolean =
       (\<lambda>obj k. case json_lookup obj k of Some (JBool b) \<Rightarrow> (if b then 1 else 0) | _ \<Rightarrow> -1),
     json_object_get_object = (\<lambda>obj k. case json_lookup obj k of Some (JObject x) \<Rightarrow> Some x | _ \<Rightarrow> None),
     json_object_get_array = (\<lambda>obj k. case json_lookup obj k of Some (JArray x) \<Rightarrow> Some x | _ \<Rightarrow> None),
     json_object_set_value = (\<lambda>o' k v. AList.update k v o'),
     json_object_remove = (\<lambda>o' k. AList.delete k o'),
     json_object_dotget_string = (\<lambda>o' k.
       case json_lookup (Some o') (takeWhile (\<lambda>c. c \<noteq> CHR ''.'') k) of
         Some (JObject m) \<Rightarrow>
           (case map_of m (tl (dropWhile (\<lambda>c. c \<noteq> CHR ''.'') k)) of
              Some (JString x) \<Rightarrow> Some x | _ \<Rightarrow> None)
       | _ \<Rightarrow> None),
     json_object_dotset_value = (\<lambda>o' k v.
       let a = takeWhile (\<lambda>c. c \<noteq> CHR ''.'') k; b = tl (dropWhile (\<lambda>c. c \<noteq> CHR ''.'') k)
       in case json_lookup (Some o') a of
            Some (JObject m) \<Rightarrow> AList.update a (JObject (AList.update b v m)) o'
          | None \<Rightarrow> AList.update a (JObject [(b, v)]) o'
          | _ \<Rightarrow> o')\<rparr>"

lemma parson_ok_list: "parson_ok list_parson"
  by (auto simp: parson_ok_def list_parson_def update_conv' delete_conv' fun_upd_def)

end
