(* ===== verification/Dtdl_Types.thy ===== *)
theory Dtdl_Types
  imports Json
begin

text \<open>
  The data of the device model: the property structures of \<open>include/sensor.h\<close>, the objects of
  \<open>libs/sm/src/dtdl_model\<close> (one record per class, in which a class that derives from
  \<open>JsonObject\<close> carries its \<open>json_obj\<close>), the states of the state machine and the result codes.

  In the program the \<open>json_obj\<close> of a part is a node of the tree of its parent: the constructors
  link them once and every later write goes to the node. The records therefore hold only the
  scalar members of each node, and \<open>DtdlModel_json\<close> puts the tree together.
\<close>

section \<open>State machine states\<close>

datatype STATE =
    STATE_CREATING | STATE_IDLE | STATE_RUNNING | STATE_DESTROYING | STATE_EXITING
  | STATE_COOLINGDOWN | STATE_APPLYING | STATE_COUNT

definition STATE_num :: "STATE \<Rightarrow> int" where
  "STATE_num st = (case st of STATE_CREATING \<Rightarrow> 0 | STATE_IDLE \<Rightarrow> 1 | STATE_RUNNING \<Rightarrow> 2
     | STATE_DESTROYING \<Rightarrow> 3 | STATE_EXITING \<Rightarrow> 4 | STATE_COOLINGDOWN \<Rightarrow> 5
     | STATE_APPLYING \<Rightarrow> 6 | STATE_COUNT \<Rightarrow> 7)"

text \<open>The cast \<open>(STATE)n\<close>; the enumeration has the values 0 to 7.\<close>

definition STATE_of_num :: "int \<Rightarrow> STATE" where
  "STATE_of_num n =
     (if n = 0 then STATE_CREATING else if n = 1 then STATE_IDLE
      else if n = 2 then STATE_RUNNING else if n = 3 then STATE_DESTROYING
      else if n = 4 then STATE_EXITING else if n = 5 then STATE_COOLINGDOWN
      else if n = 6 then STATE_APPLYING else STATE_COUNT)"

lemma STATE_of_num_num [simp]: "STATE_of_num (STATE_num st) = st"
  by (cases st) (simp_all add: STATE_of_num_def STATE_num_def)

instantiation STATE :: enum
begin

definition "enum_STATE = [STATE_CREATING, STATE_IDLE, STATE_RUNNING, STATE_DESTROYING,
  STATE_EXITING, STATE_COOLINGDOWN, STATE_APPLYING, STATE_COUNT]"

definition "enum_all_STATE (P :: STATE \<Rightarrow> bool) \<longleftrightarrow> list_all P [STATE_CREATING, STATE_IDLE,
  STATE_RUNNING, STATE_DESTROYING, STATE_EXITING, STATE_COOLINGDOWN, STATE_APPLYING, STATE_COUNT]"

definition "enum_ex_STATE (P :: STATE \<Rightarrow> bool) \<longleftrightarrow> list_ex P [STATE_CREATING, STATE_IDLE,
  STATE_RUNNING, STATE_DESTROYING, STATE_EXITING, STATE_COOLINGDOWN, STATE_APPLYING, STATE_COUNT]"

instance
proof
  show UNIV: "(UNIV :: STATE set) = set enum_class.enum"
    by (auto simp: enum_STATE_def) (metis STATE.exhaust)
  show "distinct (enum_class.enum :: STATE list)"
    by (simp add: enum_STATE_def)
  show "enum_class.enum_all P = Ball UNIV P" for P :: "STATE \<Rightarrow> bool"
    by (simp add: enum_all_STATE_def UNIV enum_STATE_def)
  show "enum_class.enum_ex P = Bex UNIV P" for P :: "STATE \<Rightarrow> bool"
    by (simp add: enum_ex_STATE_def UNIV enum_STATE_def)
qed

end

datatype IterateStatus = Ok | Error | Break

datatype Command = UNINITIALIZED | RUNNING | EXIT

section \<open>Result codes\<close>

datatype CODE =
    CODE_OK | CODE_CANCELLED | CODE_UNKNOWN | CODE_INVALID_ARGUMENT | CODE_DEADLINE_EXCEEDED
  | CODE_NOT_FOUND | CODE_ALREADY_EXISTS | CODE_PERMISSION_DENIED | CODE_RESOURCE_EXHAUSTED
  | CODE_FAILED_PRECONDITION | CODE_ABORTED | CODE_OUT_OF_RANGE | CODE_UNIMPLEMENTED
  | CODE_INTERNAL | CODE_UNAVAILABLE | CODE_DATA_LOSS | CODE_UNAUTHENTICATED

definition CODE_num :: "CODE \<Rightarrow> int" where
  "CODE_num c = (case c of CODE_OK \<Rightarrow> 0 | CODE_CANCELLED \<Rightarrow> 1 | CODE_UNKNOWN \<Rightarrow> 2
     | CODE_INVALID_ARGUMENT \<Rightarrow> 3 | CODE_DEADLINE_EXCEEDED \<Rightarrow> 4 | CODE_NOT_FOUND \<Rightarrow> 5
     | CODE_ALREADY_EXISTS \<Rightarrow> 6 | CODE_PERMISSION_DENIED \<Rightarrow> 7 | CODE_RESOURCE_EXHAUSTED \<Rightarrow> 8
     | CODE_FAILED_PRECONDITION \<Rightarrow> 9 | CODE_ABORTED \<Rightarrow> 10 | CODE_OUT_OF_RANGE \<Rightarrow> 11
     | CODE_UNIMPLEMENTED \<Rightarrow> 12 | CODE_INTERNAL \<Rightarrow> 13 | CODE_UNAVAILABLE \<Rightarrow> 14
     | CODE_DATA_LOSS \<Rightarrow> 15 | CODE_UNAUTHENTICATED \<Rightarrow> 16)"

datatype SensorErrorCause =
    AITRIOS_SENSOR_ERROR_NONE | AITRIOS_SENSOR_ERROR_NOT_FOUND
  | AITRIOS_SENSOR_ERROR_INVALID_ARGUMENT | AITRIOS_SENSOR_ERROR_RESOURCE_EXHAUSTED
  | AITRIOS_SENSOR_ERROR_PERMISSION_DENIED | AITRIOS_SENSOR_ERROR_BUSY
  | AITRIOS_SENSOR_ERROR_TIMEOUT | AITRIOS_SENSOR_ERROR_CANCELLED
  | AITRIOS_SENSOR_ERROR_ABORTED | AITRIOS_SENSOR_ERROR_ALREADY_EXISTS
  | AITRIOS_SENSOR_ERROR_INVALID_OPERATION | AITRIOS_SENSOR_ERROR_OUT_OF_RANGE
  | AITRIOS_SENSOR_ERROR_DATA_LOSS | AITRIOS_SENSOR_ERROR_HARDWARE_ERROR
  | AITRIOS_SENSOR_ERROR_UNKNOWN
  | AITRIOS_SENSOR_ERROR_INVALID_CAMERA_OPERATION_PARAMETER

definition CodeFromSensorErrorCause :: "SensorErrorCause \<Rightarrow> CODE \<Rightarrow> CODE" where
  "CodeFromSensorErrorCause error_cause code =
     (if error_cause = AITRIOS_SENSOR_ERROR_OUT_OF_RANGE then CODE_OUT_OF_RANGE
      else if error_cause = AITRIOS_SENSOR_ERROR_INVALID_CAMERA_OPERATION_PARAMETER
      then CODE_INVALID_ARGUMENT
      else code)"

datatype EVP_RESULT = EVP_OK | EVP_SHOULDEXIT | EVP_TIMEDOUT | EVP_ERROR

datatype EdgeAppLibReceiveDataResult =
    EdgeAppLibReceiveDataResultSuccess | EdgeAppLibReceiveDataResultFailure
  | EdgeAppLibReceiveDataResultTimeout | EdgeAppLibReceiveDataResultInvalidParam
  | EdgeAppLibReceiveDataResultDataTooLarge | EdgeAppLibReceiveDataResultDenied
  | EdgeAppLibReceiveDataResultEnqueued | EdgeAppLibReceiveDataResultUninitialized

datatype LogLevel =
  kCriticalLevel | kErrorLevel | kWarnLevel | kInfoLevel | kDebugLevel | kTraceLevel

section \<open>Sensor properties\<close>

record CameraImageSizeProperty =
  cis_width :: u32
  cis_height :: u32
  cis_scaling_policy :: int

record CameraImageFlipProperty =
  cif_flip_horizontal :: bool
  cif_flip_vertical :: bool

record ImageCropProperty =
  icr_left :: u32
  icr_top :: u32
  icr_width :: u32
  icr_height :: u32

record AutoExposureProperty =
  ae_max_exposure_time :: u32
  ae_min_exposure_time :: u32
  ae_max_gain :: rat
  ae_convergence_speed :: u32

record AutoExposureMeteringProperty =
  aem_mode :: int
  aem_top :: u32
  aem_left :: u32
  aem_bottom :: u32
  aem_right :: u32

record ManualExposureProperty =
  me_exposure_time :: u32
  me_gain :: rat

record FrameRateProperty =
  fr_num :: u32
  fr_denom :: u32

record AutoWhiteBalanceProperty =
  awb_convergence_speed :: u32

record ManualWhiteBalancePresetProperty =
  mwb_color_temperature :: u32

text \<open>
  The union \<open>RegisterData\<close> is one 64-bit little-endian cell; the members are its low bits.
\<close>

record RegisterAccessProperty =
  rap_id :: u32
  rap_address :: u64
  rap_data :: u64
  rap_bit_length :: int

text \<open>\<open>gamma_parameter\<close> is an array of \<open>AI_MODEL_GAMMA_PARAMETER_SIZE\<close> bytes.\<close>

record GammaParameterProperty =
  gp_gamma_mode :: int
  gp_param_size :: u32
  gp_gamma_parameter :: "u8 list"

text \<open>
  The value an application or the model passes to \<open>SensorStreamSetProperty\<close> together with its
  key. \<open>OtherProperty\<close> stands for the keys \<open>updateProperty\<close> does not know.
\<close>

datatype sensor_property =
    CameraImageSize CameraImageSizeProperty
  | CameraImageFlip CameraImageFlipProperty
  | DigitalZoom rat
  | ExposureMode int
  | AutoExposure AutoExposureProperty
  | AutoExposureMetering AutoExposureMeteringProperty
  | EvCompensation rat
  | AntiFlickerMode int
  | ManualExposure ManualExposureProperty
  | FrameRate FrameRateProperty
  | WhiteBalanceMode int
  | AutoWhiteBalance AutoWhiteBalanceProperty
  | ManualWhiteBalancePreset ManualWhiteBalancePresetProperty
  | ImageCrop ImageCropProperty
  | ImageRotation int
  | RegisterAccess8 u32 u64 u8
  | RegisterAccess16 u32 u64 u16
  | RegisterAccess32 u32 u64 u32
  | RegisterAccess64 u32 u64 u64
  | AiModelBundleId string
  | GammaMode int
  | GammaParameter GammaParameterProperty
  | InputDataType "u32 list"
  | IspFrameRate FrameRateProperty
  | OtherProperty string

section \<open>The objects of the model\<close>

record 'p node =
  json_obj :: jobj
  stored :: 'p

record RegisterAccess =
  ra_json_obj :: jobj
  ra_property :: RegisterAccessProperty
  ra_failed :: bool

text \<open>
  \<open>json_array\<close> holds pointers to the \<open>json_obj\<close> of items; it is the list of their indices.
\<close>

record RegisterAccessArray =
  register_access_array :: "RegisterAccess list"
  register_access_array_index :: int
  raa_json_array :: "nat list"

text \<open>A \<open>float\<close> member starts as NAN, which is \<open>None\<close>; \<open>_gamma_param\<close> may be NULL.\<close>

record PqSettings =
  pq_json_obj :: jobj
  camera_image_size :: "CameraImageSizeProperty node"
  camera_image_flip :: "CameraImageFlipProperty node"
  frame_rate :: "FrameRateProperty node"
  auto_white_balance :: "AutoWhiteBalanceProperty node"
  manual_white_balance_preset :: "ManualWhiteBalancePresetProperty node"
  image_cropping :: "ImageCropProperty node"
  auto_exposure :: "AutoExposureProperty node"
  auto_exposure_metering :: "AutoExposureMeteringProperty node"
  manual_exposure :: "ManualExposureProperty node"
  pq_register_access :: RegisterAccessArray
  digital_zoom :: "rat option"
  exposure_mode :: "rat option"
  image_rotation :: "rat option"
  ev_compensation_val :: "rat option"
  ae_anti_flicker_mode :: "rat option"
  white_balance_mode :: "rat option"
  gamma_mode :: "rat option"
  gamma_param :: "GammaParameterProperty option"

record PortSettings =
  ps_metadata :: jobj
  ps_input_tensor :: jobj

record InferenceSettings =
  is_json_obj :: jobj
  number_iterations :: u32

record AiModel =
  aim_json_obj :: jobj
  aim_failed :: bool

record AiModels =
  ai_model_array :: "AiModel list"
  ai_model_array_index :: int
  aim_json_array :: "nat list"

record CommonSettings =
  cs_json_obj :: jobj
  port_settings :: PortSettings
  pq_settings :: PqSettings
  inference_settings :: InferenceSettings
  codec_settings :: jobj
  ai_models :: AiModels

text \<open>
  \<open>custom_settings\<close> is the value in the tree; the \<open>json_obj\<close> of \<open>CustomSettings\<close> is that value if it
  is an object and NULL otherwise.
\<close>

record DtdlModel =
  req_info :: jobj
  res_info :: jobj
  common_settings :: CommonSettings
  custom_settings :: json

end
