(* ===== verification/FuturesMap.thy ===== *)
theory FuturesMap
  imports Prelude
begin

text \<open>
  \<open>libs/common/src/map.cpp\<close>: the table of operations in flight, an array of
  \<open>MAX_FUTURES_QUEUE\<close> slots that the data-export and the receive-data library share. A pointer is
  a natural number and the null pointer is 0; a slot is free when its key is null. Every function
  holds one mutex from its first to its last access, so each is one step.

  The locale \<open>futures_table\<close> states what the callers rely on: a partial map with a bounded domain.
\<close>

type_synonym ptr = nat
type_synonym map_vec = "(ptr \<times> ptr) list"

definition MAX_FUTURES_QUEUE :: nat where "MAX_FUTURES_QUEUE = 100"

fun map_set_loop :: "ptr \<Rightarrow> ptr \<Rightarrow> map_vec \<Rightarrow> map_vec \<times> bool" where
  "map_set_loop key val [] = ([], False)"
| "map_set_loop key val ((k, v) # xs) =
     (if k = 0 then ((key, val) # xs, True)
      else let (ys, is_set) = map_set_loop key val xs in ((k, v) # ys, is_set))"

definition map_set :: "ptr \<Rightarrow> ptr \<Rightarrow> map_vec \<Rightarrow> map_vec \<times> int" where
  "map_set key val m = (let (m', is_set) = map_set_loop key val m in (m', if is_set then 0 else -1))"

fun map_remained :: "map_vec \<Rightarrow> ptr" where
  "map_remained [] = 0"
| "map_remained ((k, v) # xs) = (if k \<noteq> 0 then k else map_remained xs)"

text \<open>The loop of \<open>map_pop\<close> goes on while the value found is null.\<close>

fun map_pop :: "ptr \<Rightarrow> map_vec \<Rightarrow> ptr \<times> map_vec" where
  "map_pop key [] = (0, [])"
| "map_pop key ((k, v) # xs) =
     (if k = key then
        (if v \<noteq> 0 then (v, (0, 0) # xs)
         else let (res, ys) = map_pop key xs in (res, (0, 0) # ys))
      else let (res, ys) = map_pop key xs in (res, (k, v) # ys))"

fun map_is_empty :: "map_vec \<Rightarrow> bool" where
  "map_is_empty [] = True"
| "map_is_empty ((k, v) # xs) = (if k \<noteq> 0 then False else map_is_empty xs)"

definition map_clear :: "map_vec \<Rightarrow> map_vec" where
  "map_clear m = replicate (length m) (0, 0)"

definition map_init :: map_vec where
  "map_init = replicate MAX_FUTURES_QUEUE (0, 0)"

section \<open>The table as a partial map\<close>

definition used :: "map_vec \<Rightarrow> map_vec" where
  "used m = filter (\<lambda>(k, v). k \<noteq> 0) m"

definition map_lookup :: "map_vec \<Rightarrow> ptr \<Rightarrow> ptr option" where
  "map_lookup m k = map_of (used m) k"

definition map_invar :: "map_vec \<Rightarrow> bool" where
  "map_invar m \<longleftrightarrow> length m = MAX_FUTURES_QUEUE \<and> distinct (map fst (used m))
     \<and> (\<forall>(k, v) \<in> set (used m). v \<noteq> 0)"

lemma used_simps [simp]:
  "used [] = []" "used ((0, v) # xs) = used xs" "k \<noteq> 0 \<Longrightarrow> used ((k, v) # xs) = (k, v) # used xs"
  by (simp_all add: used_def)

lemma used_replicate [simp]: "used (replicate n (0, 0)) = []"
  by (induction n) simp_all

lemma length_used: "length (used m) \<le> length m"
  by (simp add: used_def)

lemma map_lookup_None_iff: "map_lookup m k = None \<longleftrightarrow> k \<notin> set (map fst (used m))"
  by (simp add: map_lookup_def map_of_eq_None_iff)

lemma dom_map_lookup: "dom (map_lookup m) = set (map fst (used m))"
  by (simp add: map_lookup_def [abs_def] dom_map_of_conv_image_fst)

lemma map_set_loop_used:
  "key \<noteq> 0 \<Longrightarrow> map_set_loop key val m = (m', b) \<Longrightarrow>
     (b \<longrightarrow> (\<exists>xs ys. used m = xs @ ys \<and> used m' = xs @ (key, val) # ys)) \<and> (\<not> b \<longrightarrow> m' = m)
     \<and> length m' = length m \<and> (b \<longleftrightarrow> length (used m) < length m)"
proof (induction m arbitrary: m' b)
  case Nil
  then show ?case by simp
next
  case (Cons s m)
  obtain k v where s: "s = (k, v)" by (cases s)
  show ?case
  proof (cases "k = 0")
    case True
    with Cons.prems s show ?thesis
      using length_used [of m] by (auto intro: exI [of _ "[]"])
  next
    case False
    obtain ys c where r: "map_set_loop key val m = (ys, c)" by fastforce
    with Cons.prems s False have m': "m' = (k, v) # ys" "b = c" by auto
    note IH = Cons.IH [OF Cons.prems(1) r]
    show ?thesis
    proof (cases c)
      case True
      with IH obtain as bs where "used m = as @ bs" "used ys = as @ (key, val) # bs" by blast
      then have "used (s # m) = ((k, v) # as) @ bs \<and> used m' = ((k, v) # as) @ (key, val) # bs"
        using s m' False by simp
      then have "\<exists>xs ys. used (s # m) = xs @ ys \<and> used m' = xs @ (key, val) # ys"
        by blast
      with IH m' s False True show ?thesis by auto
    next
      case False': False
      with IH m' s False show ?thesis by simp
    qed
  qed
qed

lemma map_pop_used:
  assumes "key \<noteq> 0" "distinct (map fst (used m))" "\<forall>(k, v) \<in> set (used m). v \<noteq> 0"
  shows "fst (map_pop key m) = (case map_of (used m) key of None \<Rightarrow> 0 | Some v \<Rightarrow> v)
     \<and> used (snd (map_pop key m)) = filter (\<lambda>(k, v). k \<noteq> key) (used m)
     \<and> length (snd (map_pop key m)) = length m"
  using assms(2,3)
proof (induction m)
  case Nil
  then show ?case by simp
next
  case (Cons s m)
  obtain k v where s: "s = (k, v)" by (cases s)
  obtain res ys where r: "map_pop key m = (res, ys)" by fastforce
  show ?case
  proof (cases "k = key")
    case True
    with assms(1) Cons.prems s have "key \<notin> fst ` set (used m)" "v \<noteq> 0" by auto
    then have "filter (\<lambda>(k, v). k \<noteq> key) (used m) = used m"
      by (intro filter_True) force
    with True s assms(1) \<open>v \<noteq> 0\<close> show ?thesis by simp
  next
    case False
    with Cons s r show ?thesis by (cases "k = 0") auto
  qed
qed

lemma map_is_empty_used: "map_is_empty m \<longleftrightarrow> used m = []"
  by (induction m rule: map_is_empty.induct) auto

lemma map_remained_used: "map_remained m = (case used m of [] \<Rightarrow> 0 | (k, v) # _ \<Rightarrow> k)"
  by (induction m rule: map_remained.induct) auto

section \<open>The interface\<close>

locale futures_table =
  fixes init :: 'm
    and set_op :: "ptr \<Rightarrow> ptr \<Rightarrow> 'm \<Rightarrow> 'm \<times> int"
    and pop_op :: "ptr \<Rightarrow> 'm \<Rightarrow> ptr \<times> 'm"
    and empty_op :: "'m \<Rightarrow> bool"
    and lookup :: "'m \<Rightarrow> ptr \<Rightarrow> ptr option"
    and invar :: "'m \<Rightarrow> bool"
    and capacity :: nat
  assumes invar_init: "invar init"
    and lookup_init: "lookup init k = None"
    and set_ok: "\<lbrakk>invar m; key \<noteq> 0; val \<noteq> 0; lookup m key = None; set_op key val m = (m', r)\<rbrakk>
          \<Longrightarrow> invar m' \<and> (r = 0 \<or> r = -1) \<and> (r = 0 \<longrightarrow> lookup m' = (lookup m)(key \<mapsto> val))
              \<and> (r = -1 \<longrightarrow> m' = m) \<and> (r = -1 \<longleftrightarrow> card (dom (lookup m)) = capacity)"
    and pop_ok: "\<lbrakk>invar m; key \<noteq> 0; pop_op key m = (v, m')\<rbrakk>
          \<Longrightarrow> invar m' \<and> v = (case lookup m key of None \<Rightarrow> 0 | Some w \<Rightarrow> w)
              \<and> lookup m' = (lookup m)(key := None)"
    and empty_ok: "invar m \<Longrightarrow> empty_op m \<longleftrightarrow> lookup m = Map.empty"
    and bounded: "invar m \<Longrightarrow> finite (dom (lookup m)) \<and> card (dom (lookup m)) \<le> capacity"
    and no_null: "invar m \<Longrightarrow> lookup m key = Some v \<Longrightarrow> key \<noteq> 0 \<and> v \<noteq> 0"
begin

text \<open>An operation that was entered and then completed leaves the table as it was.\<close>

lemma pop_after_set:
  assumes "invar m" "key \<noteq> 0" "val \<noteq> 0" "lookup m key = None"
    and s: "set_op key val m = (m', 0)" and p: "pop_op key m' = (v, m'')"
  shows "v = val" and "lookup m'' = lookup m"
proof -
  from set_ok [OF assms(1-4) s] have m': "invar m'" "lookup m' = (lookup m)(key \<mapsto> val)" by auto
  from pop_ok [OF m'(1) assms(2) p] m'(2) assms(4) show "v = val" "lookup m'' = lookup m"
    by (auto simp: fun_upd_idem_iff)
qed

text \<open>A second completion of the same operation finds nothing.\<close>

lemma pop_twice:
  assumes "invar m" "key \<noteq> 0" "pop_op key m = (v, m')" "pop_op key m' = (v', m'')"
  shows "v' = 0" and "lookup m'' = lookup m'"
proof -
  from pop_ok [OF assms(1-3)] have m': "invar m'" "lookup m' = (lookup m)(key := None)" by auto
  from pop_ok [OF m'(1) assms(2,4)] m'(2) show "v' = 0" "lookup m'' = lookup m'"
    by (auto simp: fun_upd_idem_iff)
qed

text \<open>The measure that decreases while the table drains.\<close>

definition pending :: "'m \<Rightarrow> nat" where
  "pending m = card (dom (lookup m))"

lemma pending_bound: "invar m \<Longrightarrow> pending m \<le> capacity"
  using bounded by (simp add: pending_def)

lemma pending_pop:
  assumes "invar m" "lookup m key = Some w" "pop_op key m = (v, m')"
  shows "pending m' < pending m" and "v = w"
proof -
  from no_null [OF assms(1,2)] have "key \<noteq> 0" by simp
  from pop_ok [OF assms(1) this assms(3)] assms(2)
  have "v = w" "dom (lookup m') = dom (lookup m) - {key}" by auto
  moreover have "key \<in> dom (lookup m)" using assms(2) by blast
  ultimately have "v = w" "dom (lookup m') \<subset> dom (lookup m)" by auto
  then show "v = w" "pending m' < pending m"
    using bounded [OF assms(1)] by (simp_all add: pending_def psubset_card_mono)
qed

lemma pending_pop_le:
  assumes "invar m" "key \<noteq> 0" "pop_op key m = (v, m')"
  shows "pending m' \<le> pending m"
  using pop_ok [OF assms] bounded [OF assms(1)]
  by (auto simp: pending_def intro!: card_mono)

end

lemma used_distinct_insert:
  "distinct (map fst (xs @ ys)) \<Longrightarrow> key \<notin> set (map fst (xs @ ys)) \<Longrightarrow>
     distinct (map fst (xs @ (key, val) # ys)) \<and>
     map_of (xs @ (key, val) # ys) = (map_of (xs @ ys))(key \<mapsto> val)"
  by (auto simp: fun_eq_iff map_of_eq_None_iff map_add_def split: option.splits dest: map_of_SomeD)
    (force dest: map_of_SomeD)+

section \<open>The array implements the interface\<close>

lemma card_lookup: "map_invar m \<Longrightarrow> card (dom (map_lookup m)) = length (used m)"
  by (simp add: map_invar_def dom_map_lookup distinct_card del: set_map)

lemma map_set_invar:
  assumes "map_invar m" "key \<noteq> 0" "val \<noteq> 0" "map_lookup m key = None"
    and "map_set key val m = (m', r)"
  shows "map_invar m' \<and> (r = 0 \<or> r = -1)
    \<and> (r = 0 \<longrightarrow> map_lookup m' = (map_lookup m)(key \<mapsto> val)) \<and> (r = -1 \<longrightarrow> m' = m)
    \<and> (r = -1 \<longleftrightarrow> card (dom (map_lookup m)) = MAX_FUTURES_QUEUE)"
proof -
  obtain b where b: "map_set_loop key val m = (m', b)" "r = (if b then 0 else -1)"
    using assms(5) by (auto simp: map_set_def split: prod.splits)
  note L = map_set_loop_used [OF assms(2) b(1)]
  have full: "b \<longleftrightarrow> card (dom (map_lookup m)) \<noteq> MAX_FUTURES_QUEUE"
    using L assms(1) length_used [of m] by (auto simp: card_lookup map_invar_def)
  show ?thesis
  proof (cases b)
    case True
    with L obtain xs ys where xy: "used m = xs @ ys" "used m' = xs @ (key, val) # ys" by blast
    with assms(1,4) have "distinct (map fst (xs @ ys))" "key \<notin> set (map fst (xs @ ys))"
      by (auto simp: map_invar_def map_lookup_None_iff)
    note I = used_distinct_insert [OF this, of val]
    have "map_invar m'"
      using I L assms(1,3) xy by (auto simp: map_invar_def)
    moreover have "map_lookup m' = (map_lookup m)(key \<mapsto> val)"
      using I xy by (simp add: map_lookup_def [abs_def])
    ultimately show ?thesis using b full True by simp
  next
    case False
    with L b full assms(1) show ?thesis by simp
  qed
qed

lemma map_pop_invar:
  assumes "map_invar m" "key \<noteq> 0" "map_pop key m = (v, m')"
  shows "map_invar m' \<and> v = (case map_lookup m key of None \<Rightarrow> 0 | Some w \<Rightarrow> w)
    \<and> map_lookup m' = (map_lookup m)(key := None)"
proof -
  from assms have P: "v = (case map_of (used m) key of None \<Rightarrow> 0 | Some v \<Rightarrow> v)"
    "used m' = filter (\<lambda>(k, v). k \<noteq> key) (used m)" "length m' = length m"
    using map_pop_used [of key m] by (auto simp: map_invar_def)
  moreover have "map_of (filter (\<lambda>(k, v). k \<noteq> key) xs) = (map_of xs)(key := None)"
    for xs :: map_vec
    by (induction xs) (auto simp: fun_eq_iff)
  moreover have "distinct (map fst (filter P xs))" if "distinct (map fst xs)" for P and xs :: map_vec
    using that by (simp add: distinct_map_filter)
  ultimately show ?thesis using assms(1)
    by (auto simp: map_invar_def map_lookup_def [abs_def])
qed

interpretation fq: futures_table map_init map_set map_pop map_is_empty map_lookup map_invar
  MAX_FUTURES_QUEUE
proof (unfold_locales, goal_cases)
  case 1
  show ?case by (simp add: map_invar_def map_init_def)
next
  case (2 k)
  show ?case by (simp add: map_lookup_def map_init_def)
next
  case (3 m key val m' r)
  then show ?case by (rule map_set_invar)
next
  case (4 m key v m')
  then show ?case by (rule map_pop_invar)
next
  case (5 m)
  show ?case
    by (cases "used m") (auto simp: map_is_empty_used map_lookup_def [abs_def] fun_eq_iff)
next
  case (6 m)
  then show ?case
    using length_used [of m] by (simp add: card_lookup) (simp add: map_invar_def dom_map_lookup)
next
  case (7 m key v)
  then have "(key, v) \<in> set (used m)" by (auto simp: map_lookup_def dest: map_of_SomeD)
  with 7 show ?case by (auto simp: map_invar_def used_def)
qed

lemma map_clear_lookup: "map_invar m \<Longrightarrow> map_invar (map_clear m) \<and> map_lookup (map_clear m) = Map.empty"
  by (simp add: map_invar_def map_clear_def map_lookup_def [abs_def])

end
