(* ===== verification/Context.thy ===== *)
theory Context
  imports Dtdl_Types FuturesMap
begin

text \<open>
  The process-wide context (\<open>libs/common/src/context.cpp\<close>, \<open>libs/sm/src/sm_context.cpp\<close>) as an
  explicit state, the surroundings of the program as parameters, and the objects every other
  part writes to: the request and the response information.

  \<open>'w ctx\<close> is the state of the process; its field \<open>world\<close>, of an arbitrary type \<open>'w\<close>, is the
  state of everything outside it (the sensor, the EVP agent, the memory of the application).
  \<open>'w env\<close> collects the code that is not part of the repository: parson, base64, senscord, EVP,
  the application's event handlers, and the scheduler's choices. A handler of the application is
  a tree of the calls it makes into the library (\<open>'w app\<close>): it may look at the whole state
  between two calls, so a handler can be any terminating program over that interface.
\<close>

section \<open>The state of the process\<close>

datatype EdgeAppLibDataExportResult =
    EdgeAppLibDataExportResultSuccess | EdgeAppLibDataExportResultFailure
  | EdgeAppLibDataExportResultTimeout | EdgeAppLibDataExportResultInvalidParam
  | EdgeAppLibDataExportResultDataTooLarge | EdgeAppLibDataExportResultDenied
  | EdgeAppLibDataExportResultEnqueued | EdgeAppLibDataExportResultUninitialized

record EdgeAppLibDataExportFuture =
  fut_result :: EdgeAppLibDataExportResult
  is_processed :: bool
  is_cleanup_requested :: bool
  is_cleanup_sent_data :: bool
  blob_buff :: ptr

text \<open>
  The object of the state \<open>Running\<close> with its \<open>RunningThread\<close>: whether the thread is alive, the
  loop counter \<open>i\<close> and the number of iterations the thread read when it started.
\<close>

record Running =
  is_failed_on_start :: bool
  command :: Command
  thread_alive :: bool
  thread_i :: int
  num_iters :: u32

text \<open>Calls of the program to its surroundings, in order.\<close>

datatype ext_call =
    OnCreate | OnConfigure string string | OnStart | OnIterate | OnStop | OnDestroy
  | SendStateCall string

text \<open>
  \<open>undefined_behaviour\<close> is set, and stays set, when the program reads or writes memory it must
  not (a null pointer, a buffer's end, a freed object).
\<close>

record 'w ctx =
  next_state :: STATE
  is_pending_notification :: bool
  current_state :: STATE
  running :: "Running option"
  pending_configuration :: "string option"
  sensor_core :: u64
  sensor_stream :: u64
  dtdl_model :: DtdlModel
  is_initialized :: bool
  log_level :: nat
  map_vec :: "map_vec"
  futures :: "ptr \<Rightarrow> EdgeAppLibDataExportFuture option"
  freed_buffers :: "ptr list"
  trace :: "ext_call list"
  undefined_behaviour :: bool
  world :: 'w

section \<open>The surroundings\<close>

datatype 'w app_call =
    ApiSetProperty u64 sensor_property
  | ApiSendState string
  | ApiStopSelf
  | ApiCleanup ptr
  | ApiLocal "'w \<Rightarrow> 'w"

datatype (dead 'w) app = AppReturn int | AppCall "'w app_call" "'w ctx \<Rightarrow> 'w app"

datatype EVP_BLOB_CALLBACK_REASON =
  EVP_BLOB_CALLBACK_REASON_DONE int int | EVP_BLOB_CALLBACK_REASON_EXIT | EVP_BLOB_CALLBACK_REASON_OTHER

datatype EVP_TELEMETRY_CALLBACK_REASON =
    EVP_TELEMETRY_CALLBACK_REASON_SENT | EVP_TELEMETRY_CALLBACK_REASON_DENIED
  | EVP_TELEMETRY_CALLBACK_REASON_EXIT | EVP_TELEMETRY_CALLBACK_REASON_ERROR
  | EVP_TELEMETRY_CALLBACK_REASON_OTHER

text \<open>A callback that \<open>EVP_processEvent\<close> invokes.\<close>

datatype evp_event =
    ConfigurationEvent string string
  | BlobDoneEvent ptr EVP_BLOB_CALLBACK_REASON
  | TelemetryDoneEvent ptr EVP_TELEMETRY_CALLBACK_REASON

text \<open>What happens while the main thread waits for the iteration thread to end.\<close>

datatype join_event = JoinThreadRuns | JoinProcessEvent

record 'w env = parson +
  undef_conv :: "rat \<Rightarrow> int"
  b64e_size :: "nat \<Rightarrow> nat"
  b64_encode :: "u8 list \<Rightarrow> string"
  b64_decode :: "string \<Rightarrow> u8 list"
  malloc_ok :: "'w \<Rightarrow> bool"
  senscord_core_init :: "'w \<Rightarrow> int \<times> u64 \<times> 'w"
  senscord_core_exit :: "u64 \<Rightarrow> 'w \<Rightarrow> int \<times> 'w"
  senscord_core_open_stream :: "u64 \<Rightarrow> string \<Rightarrow> 'w \<Rightarrow> int \<times> u64 \<times> 'w"
  senscord_core_close_stream :: "u64 \<Rightarrow> u64 \<Rightarrow> 'w \<Rightarrow> int \<times> 'w"
  senscord_stream_get_property :: "u64 \<Rightarrow> sensor_property \<Rightarrow> 'w \<Rightarrow> int \<times> sensor_property \<times> 'w"
  senscord_stream_set_property :: "u64 \<Rightarrow> sensor_property \<Rightarrow> 'w \<Rightarrow> int \<times> 'w"
  senscord_last_error_cause :: "'w \<Rightarrow> SensorErrorCause"
  receive_data :: "string \<Rightarrow> string \<Rightarrow> string \<Rightarrow> 'w ctx \<Rightarrow>
     EdgeAppLibReceiveDataResult \<times> evp_event list \<times> 'w"
  EVP_sendState :: "string \<Rightarrow> 'w \<Rightarrow> EVP_RESULT \<times> 'w"
  EVP_processEvent :: "'w ctx \<Rightarrow> evp_event list \<times> EVP_RESULT \<times> 'w"
  join_schedule :: "'w ctx \<Rightarrow> join_event list"
  thread_runs_start :: "'w ctx \<Rightarrow> nat"
  thread_runs_switch :: "'w ctx \<Rightarrow> nat"
  onCreate :: "'w app"
  onConfigure :: "string \<Rightarrow> string \<Rightarrow> 'w app"
  onStart :: "'w app"
  onIterate :: "'w app"
  onStop :: "'w app"
  onDestroy :: "'w app"

section \<open>Context\<close>

definition EnableNotification :: "'w ctx \<Rightarrow> 'w ctx" where
  "EnableNotification s = s\<lparr>is_pending_notification := True\<rparr>"

definition ClearNotification :: "'w ctx \<Rightarrow> 'w ctx" where
  "ClearNotification s = s\<lparr>is_pending_notification := False\<rparr>"

definition SetNextState :: "STATE \<Rightarrow> 'w ctx \<Rightarrow> 'w ctx" where
  "SetNextState st s = s\<lparr>next_state := st\<rparr>"

text \<open>
  \<open>SetPendingConfiguration\<close> replaces what an earlier configuration left; when the copy cannot be
  allocated nothing is pending.
\<close>

definition SetPendingConfiguration :: "'w env \<Rightarrow> string \<Rightarrow> 'w ctx \<Rightarrow> 'w ctx" where
  "SetPendingConfiguration E config s =
     s\<lparr>pending_configuration := (if malloc_ok E (world s) then Some config else None)\<rparr>"

definition ClearPendingConfiguration :: "'w ctx \<Rightarrow> 'w ctx" where
  "ClearPendingConfiguration s = s\<lparr>pending_configuration := None\<rparr>"

definition undefined_step :: "'w ctx \<Rightarrow> 'w ctx" where
  "undefined_step s = s\<lparr>undefined_behaviour := True\<rparr>"

definition log_call :: "ext_call \<Rightarrow> 'w ctx \<Rightarrow> 'w ctx" where
  "log_call c s = s\<lparr>trace := trace s @ [c]\<rparr>"

section \<open>Parts of the model\<close>

abbreviation common :: "'w ctx \<Rightarrow> CommonSettings" where
  "common s \<equiv> common_settings (dtdl_model s)"

abbreviation pq :: "'w ctx \<Rightarrow> PqSettings" where
  "pq s \<equiv> pq_settings (common_settings (dtdl_model s))"

abbreviation upd_common :: "(CommonSettings \<Rightarrow> CommonSettings) \<Rightarrow> 'w ctx \<Rightarrow> 'w ctx" where
  "upd_common f s \<equiv> dtdl_model_update (common_settings_update f) s"

abbreviation upd_pq :: "(PqSettings \<Rightarrow> PqSettings) \<Rightarrow> 'w ctx \<Rightarrow> 'w ctx" where
  "upd_pq f s \<equiv> dtdl_model_update (common_settings_update (pq_settings_update f)) s"

section \<open>Request and response information\<close>

definition REQ_ID :: string where "REQ_ID = ''req_id''"
definition RES_ID :: string where "RES_ID = ''res_id''"
definition RES_CODE :: string where "RES_CODE = ''code''"
definition DETAIL_MSG :: string where "DETAIL_MSG = ''detail_msg''"

definition ReqInfo_Verify :: "'w env \<Rightarrow> jobj option \<Rightarrow> int" where
  "ReqInfo_Verify E obj = (if \<not> json_object_has_value_of_type E obj REQ_ID JSONString then -1 else 0)"

definition ReqInfo_Apply :: "'w env \<Rightarrow> jobj option \<Rightarrow> 'w ctx \<Rightarrow> 'w ctx" where
  "ReqInfo_Apply E obj s =
     dtdl_model_update (req_info_update
       (\<lambda>o'. json_object_set_string E o' REQ_ID (json_object_get_string E obj REQ_ID))) s"

definition GetReqId :: "'w env \<Rightarrow> 'w ctx \<Rightarrow> string option" where
  "GetReqId E s = json_object_get_string E (Some (req_info (dtdl_model s))) REQ_ID"

definition ResInfo_Reset :: "'w env \<Rightarrow> 'w ctx \<Rightarrow> 'w ctx" where
  "ResInfo_Reset E s = dtdl_model_update (res_info_update (\<lambda>o'.
     json_object_set_string E (json_object_set_string E
       (json_object_set_number E o' RES_CODE 0) RES_ID (Some '''')) DETAIL_MSG (Some ''''))) s"

definition SetResId :: "'w env \<Rightarrow> string option \<Rightarrow> 'w ctx \<Rightarrow> 'w ctx" where
  "SetResId E v s = dtdl_model_update (res_info_update
     (\<lambda>o'. json_object_set_string E o' RES_ID v)) (EnableNotification s)"

definition SetCode :: "'w env \<Rightarrow> CODE \<Rightarrow> 'w ctx \<Rightarrow> 'w ctx" where
  "SetCode E c s = dtdl_model_update (res_info_update
     (\<lambda>o'. json_object_set_number E o' RES_CODE (of_int (CODE_num c)))) (EnableNotification s)"

definition SetDetailMsg :: "'w env \<Rightarrow> string \<Rightarrow> 'w ctx \<Rightarrow> 'w ctx" where
  "SetDetailMsg E msg s = dtdl_model_update (res_info_update
     (\<lambda>o'. json_object_set_string E o' DETAIL_MSG (Some msg))) (EnableNotification s)"

text \<open>The pair of calls with which every part reports a failure.\<close>

definition report :: "'w env \<Rightarrow> string \<Rightarrow> CODE \<Rightarrow> 'w ctx \<Rightarrow> 'w ctx" where
  "report E msg c s = SetCode E c (SetDetailMsg E msg s)"

text \<open>What the cloud reads in \<open>res_info\<close>.\<close>

definition res_code :: "'w env \<Rightarrow> 'w ctx \<Rightarrow> rat" where
  "res_code E s = json_object_get_number E (Some (res_info (dtdl_model s))) RES_CODE"

definition res_msg :: "'w env \<Rightarrow> 'w ctx \<Rightarrow> string option" where
  "res_msg E s = json_object_get_string E (Some (res_info (dtdl_model s))) DETAIL_MSG"

definition res_id :: "'w env \<Rightarrow> 'w ctx \<Rightarrow> string option" where
  "res_id E s = json_object_get_string E (Some (res_info (dtdl_model s))) RES_ID"

lemmas res_key_defs = REQ_ID_def RES_ID_def RES_CODE_def DETAIL_MSG_def

lemma res_keys_distinct [simp]:
  "RES_ID \<noteq> RES_CODE" "RES_ID \<noteq> DETAIL_MSG" "RES_CODE \<noteq> DETAIL_MSG"
  "RES_CODE \<noteq> RES_ID" "DETAIL_MSG \<noteq> RES_ID" "DETAIL_MSG \<noteq> RES_CODE"
  by (simp_all add: res_key_defs)

lemma CODE_num_inject [simp]: "CODE_num a = CODE_num b \<longleftrightarrow> a = b"
  by (cases a; cases b; simp add: CODE_num_def)

lemma report_res [simp]:
  assumes "parson_ok E"
  shows "res_code E (report E msg c s) = of_int (CODE_num c)"
    and "res_msg E (report E msg c s) = Some msg"
    and "res_id E (report E msg c s) = res_id E s"
  using assms
  by (simp_all add: report_def SetCode_def SetDetailMsg_def res_code_def res_msg_def res_id_def
        EnableNotification_def parson_simps)

lemma SetResId_res [simp]:
  assumes "parson_ok E"
  shows "res_code E (SetResId E v s) = res_code E s"
    and "res_msg E (SetResId E v s) = res_msg E s"
    and "res_id E (SetResId E (Some w) s) = Some w"
  using assms
  by (cases v; simp add: SetResId_def res_code_def res_msg_def res_id_def EnableNotification_def
        parson_simps)+

lemma ResInfo_Reset_res [simp]:
  assumes "parson_ok E"
  shows "res_code E (ResInfo_Reset E s) = 0"
    and "res_msg E (ResInfo_Reset E s) = Some ''''"
    and "res_id E (ResInfo_Reset E s) = Some ''''"
  using assms
  by (simp_all add: ResInfo_Reset_def res_code_def res_msg_def res_id_def parson_simps)

section \<open>What reporting leaves alone\<close>

text \<open>
  \<open>core_of\<close> is the part of the state that decides which state the machine is in and what the
  cloud has set: reporting and the device settings do not touch it.
\<close>

definition core_of :: "'w ctx \<Rightarrow> _" where
  "core_of s = (next_state s, current_state s, running s, pending_configuration s,
     (sensor_core s, sensor_stream s, is_initialized s, log_level s),
     (map_vec s, futures s, freed_buffers s, trace s),
     (req_info (dtdl_model s), custom_settings (dtdl_model s), cs_json_obj (common s),
      inference_settings (common s)))"

lemma core_of_eq:
  assumes "core_of s = core_of t"
  shows "next_state s = next_state t" "current_state s = current_state t"
    "running s = running t" "pending_configuration s = pending_configuration t"
    "sensor_core s = sensor_core t" "sensor_stream s = sensor_stream t"
    "is_initialized s = is_initialized t" "log_level s = log_level t" "map_vec s = map_vec t"
    "futures s = futures t" "freed_buffers s = freed_buffers t" "trace s = trace t"
    "req_info (dtdl_model s) = req_info (dtdl_model t)"
    "custom_settings (dtdl_model s) = custom_settings (dtdl_model t)"
    "cs_json_obj (common s) = cs_json_obj (common t)"
    "inference_settings (common s) = inference_settings (common t)"
  using assms by (simp_all add: core_of_def)

lemma core_of_simps [simp]:
  "core_of (EnableNotification s) = core_of s"
  "core_of (ClearNotification s) = core_of s"
  "core_of (undefined_step s) = core_of s"
  "core_of (s\<lparr>is_pending_notification := b\<rparr>) = core_of s"
  "core_of (s\<lparr>world := w\<rparr>) = core_of s"
  "core_of (s\<lparr>undefined_behaviour := b\<rparr>) = core_of s"
  "core_of (upd_pq f s) = core_of s"
  "core_of (dtdl_model_update (res_info_update g) s) = core_of s"
  "core_of (upd_common (port_settings_update h) s) = core_of s"
  "core_of (upd_common (codec_settings_update k) s) = core_of s"
  "core_of (upd_common (ai_models_update l) s) = core_of s"
  by (simp_all add: core_of_def EnableNotification_def ClearNotification_def undefined_step_def)

lemma core_of_report [simp]:
  "core_of (report E msg c s) = core_of s"
  "core_of (SetCode E c s) = core_of s"
  "core_of (SetDetailMsg E msg s) = core_of s"
  "core_of (SetResId E v s) = core_of s"
  "core_of (ResInfo_Reset E s) = core_of s"
  by (simp_all add: report_def SetCode_def SetDetailMsg_def SetResId_def ResInfo_Reset_def)

lemma report_frame [simp]:
  "common (report E msg c s) = common s" "world (report E msg c s) = world s"
  "undefined_behaviour (report E msg c s) = undefined_behaviour s"
  "is_pending_notification (report E msg c s)"
  "req_info (dtdl_model (report E msg c s)) = req_info (dtdl_model s)"
  "custom_settings (dtdl_model (report E msg c s)) = custom_settings (dtdl_model s)"
  by (simp_all add: report_def SetCode_def SetDetailMsg_def EnableNotification_def)

end
