(* ===== verification/JsonObject.thy ===== *)
theory JsonObject
  imports Context
begin

text \<open>
  \<open>libs/sm/src/dtdl_model/objects/json_object.cpp\<close>: the base class of every object of the device
  model. A class gives it a table of validations and a table of properties (members that are
  objects themselves); \<open>JsonObject_Verify\<close> walks over the members of an incoming object, verifies
  the nested objects and checks the constraints, \<open>JsonObject_Apply\<close> applies the nested objects.
  The virtual functions of the nested objects are the functions in the property tables.
\<close>

section \<open>Constraints\<close>

datatype Constraint = kGt | kGe | kLt | kLe | kNe | kType

text \<open>
  \<open>value\<close> is a double in the source; a validation of kind \<open>kType\<close> stores the \<open>JSON_Value_Type\<close>
  in it.
\<close>

datatype validation_value = VNum rat | VType json_type

record Validation =
  v_property :: string
  v_validation :: Constraint
  v_value :: validation_value

definition ConstraintStr :: "Constraint \<Rightarrow> string" where
  "ConstraintStr c = (case c of kGt \<Rightarrow> ''>'' | kGe \<Rightarrow> ''>='' | kLt \<Rightarrow> ''<'' | kLe \<Rightarrow> ''<=''
     | kNe \<Rightarrow> ''!='' | kType \<Rightarrow> '''')"

text \<open>
  \<open>JSONTypesStr[validation - kType]\<close>: the only validation that reaches the lookup is \<open>kType\<close>
  itself, so the index is 0 whatever type the validation asks for.
\<close>

definition JSONTypesStr :: "nat \<Rightarrow> string" where
  "JSONTypesStr i = (if i = 0 then ''number'' else ''string'')"

abbreviation VGe :: "string \<Rightarrow> rat \<Rightarrow> Validation" where
  "VGe p x \<equiv> \<lparr>v_property = p, v_validation = kGe, v_value = VNum x\<rparr>"

abbreviation VLe :: "string \<Rightarrow> rat \<Rightarrow> Validation" where
  "VLe p x \<equiv> \<lparr>v_property = p, v_validation = kLe, v_value = VNum x\<rparr>"

abbreviation VNe :: "string \<Rightarrow> rat \<Rightarrow> Validation" where
  "VNe p x \<equiv> \<lparr>v_property = p, v_validation = kNe, v_value = VNum x\<rparr>"

abbreviation VTy :: "string \<Rightarrow> json_type \<Rightarrow> Validation" where
  "VTy p t \<equiv> \<lparr>v_property = p, v_validation = kType, v_value = VType t\<rparr>"

definition BUFSIZE :: nat where "BUFSIZE = 256"

text \<open>The numeric half of the condition in \<open>JsonObject::Verify\<close>: true where it is violated.\<close>

definition num_violated :: "Constraint \<Rightarrow> rat \<Rightarrow> rat \<Rightarrow> bool" where
  "num_violated c val bound \<longleftrightarrow>
     (c = kGt \<and> val \<le> bound) \<or> (c = kGe \<and> val < bound) \<or> (c = kLt \<and> bound \<le> val)
     \<or> (c = kLe \<and> bound < val) \<or> (c = kNe \<and> val = bound)"

text \<open>The message a failed validation writes to \<open>msg\<close>, \<open>None\<close> where it holds.\<close>

definition check_validation :: "'w env \<Rightarrow> jobj option \<Rightarrow> string \<Rightarrow> Validation \<Rightarrow> string option" where
  "check_validation E obj name v =
     (case v_value v of
        VNum bound \<Rightarrow>
          if num_violated (v_validation v) (json_object_get_number E obj name) bound
          then Some (snprintf BUFSIZE
                 (name @ '' not '' @ ConstraintStr (v_validation v) @ '' '' @ fmt_f bound))
          else None
      | VType ty \<Rightarrow>
          if v_validation v = kType \<and> \<not> json_object_has_value_of_type E obj name ty
          then Some (snprintf BUFSIZE (name @ '' not of type '' @ JSONTypesStr 0))
          else None)"

text \<open>The loop over the validations of one member stops at the first failure.\<close>

fun check_validations :: "'w env \<Rightarrow> jobj option \<Rightarrow> string \<Rightarrow> Validation list \<Rightarrow> string option" where
  "check_validations E obj name [] = None"
| "check_validations E obj name (v # vs) =
     (if name = v_property v
      then (case check_validation E obj name v of
              Some msg \<Rightarrow> Some msg
            | None \<Rightarrow> check_validations E obj name vs)
      else check_validations E obj name vs)"

section \<open>Verify\<close>

type_synonym 'w verifier = "jobj option \<Rightarrow> 'w ctx \<Rightarrow> int \<times> 'w ctx"

text \<open>The loop over the properties: -1 as soon as a nested object is refused.\<close>

fun verify_properties ::
  "'w env \<Rightarrow> (string \<times> 'w verifier) list \<Rightarrow> jobj option \<Rightarrow> string \<Rightarrow> 'w ctx \<Rightarrow> int \<times> 'w ctx" where
  "verify_properties E [] obj name s = (0, s)"
| "verify_properties E ((p, verify) # ps) obj name s =
     (if name = p
      then (let (r, s') = verify (json_object_get_object E obj name) s
            in if r \<noteq> 0 then (-1, s') else verify_properties E ps obj name s')
      else verify_properties E ps obj name s)"

fun verify_names ::
  "'w env \<Rightarrow> Validation list \<Rightarrow> (string \<times> 'w verifier) list \<Rightarrow> jobj option \<Rightarrow> string list \<Rightarrow>
   'w ctx \<Rightarrow> int \<times> 'w ctx" where
  "verify_names E vs ps obj [] s = (0, s)"
| "verify_names E vs ps obj (name # names) s =
     (let (r, s') = verify_properties E ps obj name s
      in if r \<noteq> 0 then (-1, s')
         else (case check_validations E obj name vs of
                 Some msg \<Rightarrow> (-1, report E msg CODE_INVALID_ARGUMENT s')
               | None \<Rightarrow> verify_names E vs ps obj names s'))"

definition JsonObject_Verify ::
  "'w env \<Rightarrow> Validation list \<Rightarrow> (string \<times> 'w verifier) list \<Rightarrow> jobj option \<Rightarrow> 'w ctx \<Rightarrow>
   int \<times> 'w ctx" where
  "JsonObject_Verify E vs ps obj s = verify_names E vs ps obj (json_object_names E obj) s"

section \<open>Apply\<close>

fun apply_properties ::
  "'w env \<Rightarrow> (string \<times> 'w verifier) list \<Rightarrow> jobj option \<Rightarrow> string \<Rightarrow> 'w ctx \<Rightarrow> int \<times> 'w ctx" where
  "apply_properties E [] obj name s = (0, s)"
| "apply_properties E ((p, app_fun) # ps) obj name s =
     (if name = p \<and> json_object_has_value E obj name
      then (let (r, s') = app_fun (json_object_get_object E obj name) s;
                (ret, s'') = apply_properties E ps obj name s'
            in (if r \<noteq> 0 then -1 else ret, s''))
      else apply_properties E ps obj name s)"

fun apply_names ::
  "'w env \<Rightarrow> (string \<times> 'w verifier) list \<Rightarrow> jobj option \<Rightarrow> string list \<Rightarrow> 'w ctx \<Rightarrow> int \<times> 'w ctx" where
  "apply_names E ps obj [] s = (0, s)"
| "apply_names E ps obj (name # names) s =
     (let (r, s') = apply_properties E ps obj name s;
          (ret, s'') = apply_names E ps obj names s'
      in (if r \<noteq> 0 then -1 else ret, s''))"

definition JsonObject_Apply ::
  "'w env \<Rightarrow> (string \<times> 'w verifier) list \<Rightarrow> jobj option \<Rightarrow> 'w ctx \<Rightarrow> int \<times> 'w ctx" where
  "JsonObject_Apply E ps obj s = apply_names E ps obj (json_object_names E obj) s"

section \<open>What a successful verification guarantees\<close>

text \<open>
  The specification of a table of validations: every constraint on a member that is present
  holds.
\<close>

definition satisfies :: "Validation \<Rightarrow> json \<Rightarrow> bool" where
  "satisfies v j \<longleftrightarrow>
     (case v_value v of
        VNum bound \<Rightarrow> \<not> num_violated (v_validation v) (case j of JNumber x \<Rightarrow> x | _ \<Rightarrow> 0) bound
      | VType ty \<Rightarrow> v_validation v = kType \<longrightarrow> json_value_get_type j = ty)"

definition valid_members :: "Validation list \<Rightarrow> jobj option \<Rightarrow> bool" where
  "valid_members vs obj \<longleftrightarrow>
     (\<forall>v \<in> set vs. \<forall>j. json_lookup obj (v_property v) = Some j \<longrightarrow> satisfies v j)"

lemma check_validation_None:
  assumes "parson_ok E" "json_lookup obj name = Some j"
  shows "check_validation E obj name v = None \<longleftrightarrow> satisfies v j"
  using assms
  by (auto simp: check_validation_def satisfies_def parson_simps
        split: validation_value.splits json.splits)

lemma check_validations_None:
  assumes "parson_ok E" "json_lookup obj name = Some j"
  shows "check_validations E obj name vs = None
     \<longleftrightarrow> (\<forall>v \<in> set vs. v_property v = name \<longrightarrow> satisfies v j)"
  using assms
  by (induction vs)
    (auto split: option.splits simp: check_validation_None, metis check_validation_None option.distinct(1))

lemma verify_names_0:
  "verify_names E vs ps obj names s = (0, s') \<Longrightarrow> name \<in> set names \<Longrightarrow>
     check_validations E obj name vs = None"
  by (induction names arbitrary: s) (auto simp: Let_def split: prod.splits if_splits option.splits)

lemma JsonObject_Verify_valid:
  assumes E: "parson_ok E" and v: "JsonObject_Verify E vs ps obj s = (0, s')"
  shows "valid_members vs obj"
  unfolding valid_members_def
proof (intro ballI allI impI)
  fix v j assume v': "v \<in> set vs" and j: "json_lookup obj (v_property v) = Some j"
  then have "v_property v \<in> set (json_object_names E obj)"
    using E domI [of "map_of (the obj)"]
    by (force simp: parson_simps json_lookup_def dom_map_of_conv_image_fst split: option.splits)
  with v have "check_validations E obj (v_property v) vs = None"
    unfolding JsonObject_Verify_def by (rule verify_names_0)
  then show "satisfies v j" using check_validations_None [OF E j] v' by blast
qed

text \<open>Without nested objects a verification only reads, or reports the first failure.\<close>

lemma verify_names_leaf:
  "verify_names E vs [] obj names s =
     (case find (\<lambda>n. check_validations E obj n vs \<noteq> None) names of
        None \<Rightarrow> (0, s)
      | Some n \<Rightarrow> (-1, report E (the (check_validations E obj n vs)) CODE_INVALID_ARGUMENT s))"
  by (induction names) (auto split: option.splits)

lemma JsonObject_Verify_ret:
  "JsonObject_Verify E vs ps obj s = (r, s') \<Longrightarrow> r = 0 \<or> r = -1"
proof -
  have "verify_names E vs ps obj names s = (r, s') \<Longrightarrow> r = 0 \<or> r = -1" for names s
    by (induction names arbitrary: s) (auto simp: Let_def split: prod.splits if_splits option.splits)
  then show "JsonObject_Verify E vs ps obj s = (r, s') \<Longrightarrow> r = 0 \<or> r = -1"
    by (simp add: JsonObject_Verify_def)
qed

section \<open>The interface between the base class and the classes that derive from it\<close>

text \<open>
  A relation between the state before and after that the functions of the nested objects respect
  is respected by the walks over the members: the base class adds nothing but reports.
\<close>

locale nested_objects =
  fixes E :: "'w env"
    and ps :: "(string \<times> 'w verifier) list"
    and rel :: "'w ctx \<Rightarrow> 'w ctx \<Rightarrow> bool"
  assumes rel_refl: "rel s s"
    and rel_trans: "rel s t \<Longrightarrow> rel t u \<Longrightarrow> rel s u"
    and rel_report: "rel s (report E msg c s)"
    and nested: "(p, f) \<in> set ps \<Longrightarrow> f obj s = (r, s') \<Longrightarrow> rel s s'"
begin

lemma verify_properties_rel:
  assumes "set qs \<subseteq> set ps" "verify_properties E qs obj name s = (r, s')"
  shows "rel s s'"
  using assms
proof (induction qs arbitrary: s)
  case Nil
  then show ?case by (simp add: rel_refl)
next
  case (Cons q qs)
  then show ?case
    by (cases q) (auto split: prod.splits if_splits intro: rel_trans dest: nested)
qed

lemma verify_names_rel:
  "verify_names E vs ps obj names s = (r, s') \<Longrightarrow> rel s s'"
proof (induction names arbitrary: s)
  case Nil
  then show ?case by (simp add: rel_refl)
next
  case (Cons n names)
  obtain q t where q: "verify_properties E ps obj n s = (q, t)" by fastforce
  then have "rel s t" by (rule verify_properties_rel [OF order_refl])
  with Cons q show ?case
    by (auto split: if_splits option.splits intro: rel_trans rel_report)
qed

lemma Verify_rel: "JsonObject_Verify E vs ps obj s = (r, s') \<Longrightarrow> rel s s'"
  unfolding JsonObject_Verify_def by (rule verify_names_rel)

lemma apply_properties_rel:
  assumes "set qs \<subseteq> set ps" "apply_properties E qs obj name s = (r, s')"
  shows "rel s s'"
  using assms
proof (induction qs arbitrary: s r)
  case Nil
  then show ?case by (simp add: rel_refl)
next
  case (Cons q qs)
  then show ?case
    by (cases q) (fastforce simp: Let_def split: prod.splits if_splits intro: rel_trans dest: nested)
qed

lemma Apply_rel: "JsonObject_Apply E ps obj s = (r, s') \<Longrightarrow> rel s s'"
proof -
  have "apply_names E ps obj names s = (r, s') \<Longrightarrow> rel s s'" for names s r
  proof (induction names arbitrary: s r)
    case Nil
    then show ?case by (simp add: rel_refl)
  next
    case (Cons n names)
    then show ?case
      by (fastforce simp: Let_def split: prod.splits intro: rel_trans
            dest: apply_properties_rel [OF order_refl])
  qed
  then show "JsonObject_Apply E ps obj s = (r, s') \<Longrightarrow> rel s s'"
    by (simp add: JsonObject_Apply_def)
qed

end

end
