(* ===== verification/CStrings.thy ===== *)
theory CStrings
  imports Prelude
begin

text \<open>
  The two standard-library functions that the register access settings use to carry 64-bit
  values through JSON strings: \<open>snprintf\<close> with \<open>%016llX\<close> and \<open>%llu\<close>, and \<open>strtoull\<close>. The round
  trip lemmas say that what is printed is read back.
\<close>

definition hex_digit :: "nat \<Rightarrow> char" where
  "hex_digit d = (if d < 10 then char_of (48 + d) else char_of (55 + d))"

fun show_hex :: "nat \<Rightarrow> string" where
  "show_hex n = (if n < 16 then [hex_digit n] else show_hex (n div 16) @ [hex_digit (n mod 16)])"

declare show_hex.simps [simp del]

text \<open>\<open>"%016" PRIX64\<close> and \<open>"%" PRIu64\<close>.\<close>

definition fmt_016X :: "u64 \<Rightarrow> string" where
  "fmt_016X w = pad_left 16 (CHR ''0'') (show_hex (unat w))"

definition fmt_u64 :: "u64 \<Rightarrow> string" where
  "fmt_u64 w = show_nat (unat w)"

text \<open>\<open>strtoull\<close>: white space, a sign, for base 16 a prefix, then the longest run of digits.\<close>

definition digit_val :: "nat \<Rightarrow> char \<Rightarrow> nat option" where
  "digit_val base c =
     (let n = of_char c :: nat;
          d = (if 48 \<le> n \<and> n \<le> 57 then n - 48
               else if 65 \<le> n \<and> n \<le> 90 then n - 55
               else if 97 \<le> n \<and> n \<le> 122 then n - 87 else 99)
      in if d < base then Some d else None)"

fun take_digits :: "nat \<Rightarrow> string \<Rightarrow> nat list" where
  "take_digits base [] = []"
| "take_digits base (c # cs) =
     (case digit_val base c of None \<Rightarrow> [] | Some d \<Rightarrow> d # take_digits base cs)"

definition nat_of_digits :: "nat \<Rightarrow> nat list \<Rightarrow> nat" where
  "nat_of_digits base ds = foldl (\<lambda>a d. a * base + d) 0 ds"

definition is_space :: "char \<Rightarrow> bool" where
  "is_space c \<longleftrightarrow> (let n = of_char c :: nat in n = 32 \<or> (9 \<le> n \<and> n \<le> 13))"

definition skip_sign :: "string \<Rightarrow> bool \<times> string" where
  "skip_sign s = (case s of
       c # cs \<Rightarrow> if c = CHR ''-'' then (True, cs) else if c = CHR ''+'' then (False, cs) else (False, s)
     | [] \<Rightarrow> (False, s))"

definition skip_prefix :: "nat \<Rightarrow> string \<Rightarrow> string" where
  "skip_prefix base s = (case s of
       z # x # d # cs \<Rightarrow>
         if base = 16 \<and> z = CHR ''0'' \<and> (x = CHR ''x'' \<or> x = CHR ''X'') \<and> digit_val 16 d \<noteq> None
         then d # cs else s
     | _ \<Rightarrow> s)"

definition strtoull :: "string \<Rightarrow> nat \<Rightarrow> u64" where
  "strtoull s base =
     (let (neg, t) = skip_sign (dropWhile is_space s);
          n = nat_of_digits base (take_digits base (skip_prefix base t))
      in if 2 ^ 64 \<le> n then -1 else if neg then - of_nat n else of_nat n)"

section \<open>Digits\<close>

lemma of_char_digit: "d < 10 \<Longrightarrow> (of_char (char_of (48 + d) :: char) :: nat) = 48 + d"
  and of_char_letter: "10 \<le> d \<Longrightarrow> d < 16 \<Longrightarrow> (of_char (char_of (55 + d) :: char) :: nat) = 55 + d"
  by simp_all

lemma of_char_hex_digit:
  "d < 16 \<Longrightarrow> (of_char (hex_digit d) :: nat) = (if d < 10 then 48 + d else 55 + d)"
  by (simp add: hex_digit_def)

lemma digit_val_hex: "d < 16 \<Longrightarrow> digit_val 16 (hex_digit d) = Some d"
  by (simp add: digit_val_def of_char_hex_digit Let_def)

lemma digit_val_dec: "d < 10 \<Longrightarrow> digit_val 10 (char_of (48 + d)) = Some d"
  by (simp add: digit_val_def Let_def)

lemma digits_append:
  assumes "\<forall>c \<in> set xs. digit_val b c \<noteq> None"
  shows "take_digits b (xs @ ys) = take_digits b xs @ take_digits b ys"
  using assms by (induction xs) auto

lemma nat_of_digits_snoc: "nat_of_digits b (ds @ [d]) = nat_of_digits b ds * b + d"
  by (simp add: nat_of_digits_def)

lemma show_nat_digits:
  "(\<forall>c \<in> set (show_nat n). digit_val 10 c \<noteq> None)
     \<and> nat_of_digits 10 (take_digits 10 (show_nat n)) = n \<and> show_nat n \<noteq> []"
proof (induction n rule: show_nat.induct)
  case (1 n)
  show ?case
  proof (cases "n < 10")
    case True
    then show ?thesis
      by (simp add: show_nat.simps [of n] digit_val_dec nat_of_digits_def)
  next
    case False
    with 1 have IH: "\<forall>c \<in> set (show_nat (n div 10)). digit_val 10 c \<noteq> None"
      "nat_of_digits 10 (take_digits 10 (show_nat (n div 10))) = n div 10" by blast+
    then show ?thesis
      using False by (simp add: show_nat.simps [of n] digits_append digit_val_dec nat_of_digits_snoc)
  qed
qed

lemma show_hex_digits:
  "(\<forall>c \<in> set (show_hex n). \<exists>d < 16. c = hex_digit d)
     \<and> nat_of_digits 16 (take_digits 16 (show_hex n)) = n \<and> show_hex n \<noteq> []"
proof (induction n rule: show_hex.induct)
  case (1 n)
  show ?case
  proof (cases "n < 16")
    case True
    then show ?thesis
      by (auto simp add: show_hex.simps [of n] digit_val_hex nat_of_digits_def)
  next
    case False
    with 1 have IH: "\<forall>c \<in> set (show_hex (n div 16)). \<exists>d < 16. c = hex_digit d"
      "nat_of_digits 16 (take_digits 16 (show_hex (n div 16))) = n div 16" by blast+
    then have "\<forall>c \<in> set (show_hex (n div 16)). digit_val 16 c \<noteq> None"
      by (auto simp: digit_val_hex)
    moreover have "\<exists>d < 16. hex_digit (n mod 16) = hex_digit d"
      by (rule exI [of _ "n mod 16"]) simp
    ultimately show ?thesis
      using IH False by (simp add: show_hex.simps [of n] digits_append digit_val_hex nat_of_digits_snoc)
  qed
qed

lemma length_show_hex: "n < 16 ^ Suc k \<Longrightarrow> length (show_hex n) \<le> Suc k"
proof (induction k arbitrary: n)
  case 0
  then show ?case by (simp add: show_hex.simps [of n])
next
  case (Suc k)
  then have "n div 16 < 16 ^ Suc k" by (simp add: less_mult_imp_div_less mult.commute)
  with Suc.IH [of "n div 16"] show ?case by (simp add: show_hex.simps [of n])
qed

lemma length_show_nat: "n < 10 ^ Suc k \<Longrightarrow> length (show_nat n) \<le> Suc k"
proof (induction k arbitrary: n)
  case 0
  then show ?case by (simp add: show_nat.simps [of n])
next
  case (Suc k)
  then have "n div 10 < 10 ^ Suc k" by (simp add: less_mult_imp_div_less mult.commute)
  with Suc.IH [of "n div 10"] show ?case by (simp add: show_nat.simps [of n])
qed

lemma unat_u64: "unat (w :: u64) < 18446744073709551616"
  using unsigned_less [of w] by simp

text \<open>The buffers the code prints into, 17 and 21 bytes, hold every 64-bit value.\<close>

lemma fmt_016X_length: "length (fmt_016X w) = 16"
  using length_show_hex [of "unat w" 15] unat_u64 [of w] by (simp add: fmt_016X_def pad_left_def)

lemma fmt_u64_length: "length (fmt_u64 w) \<le> 20"
  using length_show_nat [of "unat w" 19] unat_u64 [of w] by (simp add: fmt_u64_def)

section \<open>Round trips\<close>

lemma digit_not_blank: "digit_val b c \<noteq> None \<Longrightarrow> b \<le> 36 \<Longrightarrow> \<not> is_space c \<and> c \<noteq> CHR ''-'' \<and> c \<noteq> CHR ''+''"
  by (auto simp: digit_val_def is_space_def Let_def split: if_splits)

lemma hex_digit_not_x:
  assumes "d < 16"
  shows "hex_digit d \<noteq> CHR ''x'' \<and> hex_digit d \<noteq> CHR ''X''"
proof -
  have "(of_char (hex_digit d) :: nat) < 72" using assms by (simp add: of_char_hex_digit)
  moreover have "(of_char (CHR ''x'') :: nat) = 120" "(of_char (CHR ''X'') :: nat) = 88" by simp_all
  ultimately show ?thesis by auto
qed

lemma strtoull_digits:
  assumes "s \<noteq> []" "\<forall>c \<in> set s. digit_val b c \<noteq> None" "b \<le> 36" "skip_prefix b s = s"
    and "nat_of_digits b (take_digits b s) < 2 ^ 64"
  shows "strtoull s b = of_nat (nat_of_digits b (take_digits b s))"
proof -
  obtain c cs where s: "s = c # cs" using assms(1) by (cases s) auto
  with assms(2,3) have "\<not> is_space c \<and> c \<noteq> CHR ''-'' \<and> c \<noteq> CHR ''+''"
    by (intro digit_not_blank) auto
  with s have "skip_sign (dropWhile is_space s) = (False, s)"
    by (simp add: skip_sign_def)
  with assms(4,5) show ?thesis by (simp add: strtoull_def)
qed

lemma strtoull_fmt_u64: "strtoull (fmt_u64 w) 10 = w"
proof -
  note D = show_nat_digits [of "unat w"]
  have "strtoull (show_nat (unat w)) 10 = of_nat (nat_of_digits 10 (take_digits 10 (show_nat (unat w))))"
    using D unat_u64 [of w]
    by (intro strtoull_digits) (auto simp: skip_prefix_def split: list.splits)
  with D show ?thesis by (simp add: fmt_u64_def)
qed

lemma fmt_016X_digits:
  "\<forall>c \<in> set (fmt_016X w). \<exists>d < 16. c = hex_digit d"
  "nat_of_digits 16 (take_digits 16 (fmt_016X w)) = unat w"
proof -
  have z: "hex_digit 0 = CHR ''0''" by code_simp
  note D = show_hex_digits [of "unat w"]
  show "\<forall>c \<in> set (fmt_016X w). \<exists>d < 16. c = hex_digit d"
    using D z by (auto simp: fmt_016X_def pad_left_def intro: exI [of _ 0])
  have pad: "take_digits 16 (replicate k (CHR ''0'') @ s) = replicate k 0 @ take_digits 16 s" for k s
    using digit_val_hex [of 0] z by (induction k) auto
  have zero: "nat_of_digits b (replicate k 0 @ ds) = nat_of_digits b ds" for b k ds
    by (induction k) (simp_all add: nat_of_digits_def)
  show "nat_of_digits 16 (take_digits 16 (fmt_016X w)) = unat w"
    using D by (simp add: fmt_016X_def pad_left_def pad zero)
qed

lemma skip_prefix_hex:
  assumes "\<forall>c \<in> set s. \<exists>d < 16. c = hex_digit d"
  shows "skip_prefix b s = s"
proof (cases "length s < 3")
  case True
  then show ?thesis by (auto simp: skip_prefix_def split: list.splits)
next
  case False
  then obtain z x y cs where s: "s = z # x # y # cs"
    by (metis One_nat_def Suc_1 length_Cons lessI list.exhaust list.size(3) not_less_eq numeral_3_eq_3
        zero_less_Suc)
  with assms have "x \<noteq> CHR ''x''" "x \<noteq> CHR ''X''" by (auto dest: hex_digit_not_x)
  with s show ?thesis by (simp add: skip_prefix_def)
qed

lemma strtoull_fmt_016X: "strtoull (fmt_016X w) 16 = w"
proof -
  note D = fmt_016X_digits [of w]
  have "strtoull (fmt_016X w) 16 = of_nat (nat_of_digits 16 (take_digits 16 (fmt_016X w)))"
    using D unat_u64 [of w] fmt_016X_length [of w]
    by (intro strtoull_digits skip_prefix_hex) (auto simp: digit_val_hex)
  with D show ?thesis by simp
qed

end
