(* ===== verification/PqStore.thy ===== *)
theory PqStore
  imports JsonObject CStrings
begin

text \<open>
  The store side of the picture-quality settings (\<open>libs/sm/src/dtdl_model/utils.cpp\<close>, the
  \<open>StoreValue\<close> and \<open>Store...\<close> functions under \<open>objects/common_settings/pq_settings\<close> and in
  \<open>pq_settings.cpp\<close>): the sensor wrapper calls them after a property was set, they keep the JSON
  that is reported to the cloud equal to the value the sensor has, and they ask for a
  notification when the value changed.

  The locale \<open>settings_store\<close> is that contract; every object of the settings interprets it.
\<close>

section \<open>Comparing floating-point values\<close>

definition TOLERANCE :: rat where "TOLERANCE = f64 (10 / 100000000)"

definition IsAlmostEqual :: "rat \<Rightarrow> rat \<Rightarrow> bool" where
  "IsAlmostEqual a b \<longleftrightarrow> \<bar>f64 (a - b)\<bar> < TOLERANCE"

definition IsInteger :: "rat \<Rightarrow> bool" where
  "IsInteger x \<longleftrightarrow> IsAlmostEqual (f64 (x - of_int \<lfloor>x\<rfloor>)) 0"

lemma TOLERANCE_pos: "0 < TOLERANCE"
  by code_simp

lemma IsAlmostEqual_refl [simp]: "IsAlmostEqual a a"
  by (simp add: IsAlmostEqual_def TOLERANCE_pos)

lemma IsInteger_of_int [simp]: "IsInteger (of_int n)"
  by (simp add: IsInteger_def)

text \<open>\<open>==\<close> between a \<open>float\<close> member, which may be NAN, and an \<open>int\<close> argument.\<close>

definition float_eq_int :: "rat option \<Rightarrow> int \<Rightarrow> bool" where
  "float_eq_int x n \<longleftrightarrow> (case x of None \<Rightarrow> False | Some v \<Rightarrow> v = f32 (of_int n))"

definition float_almost :: "rat option \<Rightarrow> rat \<Rightarrow> bool" where
  "float_almost x v \<longleftrightarrow> (case x of None \<Rightarrow> False | Some u \<Rightarrow> IsAlmostEqual u v)"

lemma float_eq_simps [simp]:
  "\<not> float_eq_int None n" "float_eq_int (Some v) n \<longleftrightarrow> v = f32 (of_int n)"
  "\<not> float_almost None w" "float_almost (Some v) w \<longleftrightarrow> IsAlmostEqual v w"
  by (simp_all add: float_eq_int_def float_almost_def)

section \<open>Writing the members of an object\<close>

abbreviation "WIDTH \<equiv> ''width''"
abbreviation "HEIGHT \<equiv> ''height''"
abbreviation "SCALING_POLICY \<equiv> ''scaling_policy''"
abbreviation "FLIP_HORIZONTAL \<equiv> ''flip_horizontal''"
abbreviation "FLIP_VERTICAL \<equiv> ''flip_vertical''"
abbreviation "NUM \<equiv> ''num''"
abbreviation "DEN \<equiv> ''denom''"
abbreviation "MAX_EXPOSURE_TIME \<equiv> ''max_exposure_time''"
abbreviation "MIN_EXPOSURE_TIME \<equiv> ''min_exposure_time''"
abbreviation "MAX_GAIN \<equiv> ''max_gain''"
abbreviation "CONVERGENCE_SPEED \<equiv> ''convergence_speed''"
abbreviation "MODE \<equiv> ''metering_mode''"
abbreviation "TOP \<equiv> ''top''"
abbreviation "LEFT \<equiv> ''left''"
abbreviation "BOTTOM \<equiv> ''bottom''"
abbreviation "RIGHT \<equiv> ''right''"
abbreviation "EXPOSURE_TIME \<equiv> ''exposure_time''"
abbreviation "GAIN \<equiv> ''gain''"
abbreviation "COLOR_TEMPERATURE \<equiv> ''color_temperature''"
abbreviation "BIT_LENGTH \<equiv> ''bit_length''"
abbreviation "ID \<equiv> ''id''"
abbreviation "ADDRESS \<equiv> ''address''"
abbreviation "DATA \<equiv> ''data''"

text \<open>A run of \<open>json_object_set_number\<close> calls.\<close>

primrec set_numbers :: "'a parson_scheme \<Rightarrow> (string \<times> rat) list \<Rightarrow> jobj \<Rightarrow> jobj" where
  "set_numbers E [] o' = o'"
| "set_numbers E (m # ms) o' = set_numbers E ms (json_object_set_number E o' (fst m) (snd m))"

lemma map_of_set_numbers:
  assumes "parson_ok E" "distinct (map fst ms)"
  shows "map_of (set_numbers E ms o') k =
    (case map_of ms k of None \<Rightarrow> map_of o' k | Some x \<Rightarrow> Some (JNumber x))"
  using assms(2)
proof (induction ms arbitrary: o')
  case Nil
  then show ?case by simp
next
  case (Cons m ms)
  obtain a b where m: "m = (a, b)" by (cases m)
  with Cons.prems have "map_of ms a = None" by (simp add: map_of_eq_None_iff)
  with Cons m assms(1) show ?case by (auto split: option.splits)
qed

text \<open>The JSON of a node shows the given members.\<close>

definition shows_members :: "(string \<times> rat) list \<Rightarrow> jobj \<Rightarrow> bool" where
  "shows_members ms o' \<longleftrightarrow> (\<forall>(k, x) \<in> set ms. map_of o' k = Some (JNumber x))"

lemma shows_members_set_numbers:
  "parson_ok E \<Longrightarrow> distinct (map fst ms) \<Longrightarrow> shows_members ms (set_numbers E ms o')"
  by (auto simp: shows_members_def map_of_set_numbers split: option.splits)

definition node_reports :: "('p \<Rightarrow> (string \<times> rat) list) \<Rightarrow> 'p node \<Rightarrow> bool" where
  "node_reports members n \<longleftrightarrow> shows_members (members (stored n)) (json_obj n)"

section \<open>The contract of a stored setting\<close>

text \<open>
  \<open>get\<close> is the node of the setting, \<open>same\<close> the test the code uses to decide that nothing changed,
  \<open>members\<close> what the JSON of the node shows for a value.
\<close>

locale settings_store =
  fixes E :: "'w env"
    and get :: "'w ctx \<Rightarrow> 'p node"
    and members :: "'p \<Rightarrow> (string \<times> rat) list"
    and same :: "'p \<Rightarrow> 'p \<Rightarrow> bool"
    and store :: "'p \<Rightarrow> 'w ctx \<Rightarrow> 'w ctx"
  assumes same_refl: "same p p"
    and members_distinct: "distinct (map fst (members p))"
    and store_same: "same (stored (get s)) p \<Longrightarrow> store p s = s"
    and store_new: "\<not> same (stored (get s)) p \<Longrightarrow>
          get (store p s) = \<lparr>json_obj = set_numbers E (members p) (json_obj (get s)), stored = p\<rparr>"
    and store_notifies: "\<not> same (stored (get s)) p \<Longrightarrow> is_pending_notification (store p s)"
    and store_frame: "core_of (store p s) = core_of s"
    and store_world: "world (store p s) = world s"
begin

text \<open>Whatever is stored, the JSON goes on showing the stored value.\<close>

lemma store_reports:
  "parson_ok E \<Longrightarrow> node_reports members (get s) \<Longrightarrow> node_reports members (get (store p s))"
  by (cases "same (stored (get s)) p")
    (simp_all add: store_same store_new node_reports_def shows_members_set_numbers members_distinct)

lemma store_value: "same (stored (get (store p s))) p"
  by (cases "same (stored (get s)) p") (simp_all add: store_same store_new same_refl)

text \<open>Setting a value the setting has is not an update: nothing changes and nothing is reported.\<close>

lemma store_idem: "store p (store p s) = store p s"
  by (rule store_same) (rule store_value)

lemma store_pending:
  "is_pending_notification (store p s) \<longleftrightarrow>
     is_pending_notification s \<or> \<not> same (stored (get s)) p"
  by (cases "same (stored (get s)) p") (simp_all add: store_same store_notifies)

lemma store_JSON:
  "parson_ok E \<Longrightarrow> \<not> same (stored (get s)) p \<Longrightarrow> (k, x) \<in> set (members p) \<Longrightarrow>
     map_of (json_obj (get (store p s))) k = Some (JNumber x)"
  using members_distinct by (simp add: store_new map_of_set_numbers)

end

section \<open>The objects\<close>

definition CameraImageSize_members :: "CameraImageSizeProperty \<Rightarrow> (string \<times> rat) list" where
  "CameraImageSize_members p = [(WIDTH, rat_of_u32 (cis_width p)), (HEIGHT, rat_of_u32 (cis_height p)),
     (SCALING_POLICY, of_int (cis_scaling_policy p))]"

definition CameraImageSize_StoreValue ::
  "'w env \<Rightarrow> u32 \<Rightarrow> u32 \<Rightarrow> int \<Rightarrow> 'w ctx \<Rightarrow> 'w ctx" where
  "CameraImageSize_StoreValue E width height scaling_policy s =
     (let camera_size = stored (camera_image_size (pq s));
          p = \<lparr>cis_width = width, cis_height = height, cis_scaling_policy = scaling_policy\<rparr>
      in if cis_width camera_size = width \<and> cis_height camera_size = height
            \<and> cis_scaling_policy camera_size = scaling_policy
         then s
         else upd_pq (camera_image_size_update
                (\<lambda>n. \<lparr>json_obj = set_numbers E (CameraImageSize_members p) (json_obj n), stored = p\<rparr>))
              (EnableNotification s))"

definition CameraImageFlip_members :: "CameraImageFlipProperty \<Rightarrow> (string \<times> rat) list" where
  "CameraImageFlip_members p = [(FLIP_HORIZONTAL, rat_of_bool (cif_flip_horizontal p)),
     (FLIP_VERTICAL, rat_of_bool (cif_flip_vertical p))]"

definition CameraImageFlip_StoreValue :: "'w env \<Rightarrow> bool \<Rightarrow> bool \<Rightarrow> 'w ctx \<Rightarrow> 'w ctx" where
  "CameraImageFlip_StoreValue E flip_horizontal flip_vertical s =
     (let camera_flip = stored (camera_image_flip (pq s));
          p = \<lparr>cif_flip_horizontal = flip_horizontal, cif_flip_vertical = flip_vertical\<rparr>
      in if flip_horizontal = cif_flip_horizontal camera_flip
            \<and> flip_vertical = cif_flip_vertical camera_flip
         then s
         else upd_pq (camera_image_flip_update
                (\<lambda>n. \<lparr>json_obj = set_numbers E (CameraImageFlip_members p) (json_obj n), stored = p\<rparr>))
              (EnableNotification s))"

definition FrameRate_members :: "FrameRateProperty \<Rightarrow> (string \<times> rat) list" where
  "FrameRate_members p = [(NUM, rat_of_u32 (fr_num p)), (DEN, rat_of_u32 (fr_denom p))]"

definition FrameRate_StoreValue :: "'w env \<Rightarrow> u32 \<Rightarrow> u32 \<Rightarrow> 'w ctx \<Rightarrow> 'w ctx" where
  "FrameRate_StoreValue E num denom s =
     (let framerate = stored (frame_rate (pq s)); p = \<lparr>fr_num = num, fr_denom = denom\<rparr>
      in if fr_num framerate = num \<and> fr_denom framerate = denom then s
         else upd_pq (frame_rate_update
                (\<lambda>n. \<lparr>json_obj = set_numbers E (FrameRate_members p) (json_obj n), stored = p\<rparr>))
              (EnableNotification s))"

definition AutoExposure_members :: "AutoExposureProperty \<Rightarrow> (string \<times> rat) list" where
  "AutoExposure_members p = [(MAX_EXPOSURE_TIME, rat_of_u32 (ae_max_exposure_time p)),
     (MIN_EXPOSURE_TIME, rat_of_u32 (ae_min_exposure_time p)), (MAX_GAIN, ae_max_gain p),
     (CONVERGENCE_SPEED, rat_of_u32 (ae_convergence_speed p))]"

definition AutoExposure_StoreValue ::
  "'w env \<Rightarrow> u32 \<Rightarrow> u32 \<Rightarrow> rat \<Rightarrow> u32 \<Rightarrow> 'w ctx \<Rightarrow> 'w ctx" where
  "AutoExposure_StoreValue E max_exp min_exp max_gain max_conv_sp s =
     (let ae = stored (auto_exposure (pq s));
          p = \<lparr>ae_max_exposure_time = max_exp, ae_min_exposure_time = min_exp,
               ae_max_gain = max_gain, ae_convergence_speed = max_conv_sp\<rparr>
      in if max_exp = ae_max_exposure_time ae \<and> min_exp = ae_min_exposure_time ae
            \<and> IsAlmostEqual max_gain (ae_max_gain ae) \<and> max_conv_sp = ae_convergence_speed ae
         then s
         else upd_pq (auto_exposure_update
                (\<lambda>n. \<lparr>json_obj = set_numbers E (AutoExposure_members p) (json_obj n), stored = p\<rparr>))
              (EnableNotification s))"

text \<open>\<open>mode\<close> arrives as a double that is the value of an enumeration.\<close>

definition AutoExposureMetering_members :: "AutoExposureMeteringProperty \<Rightarrow> (string \<times> rat) list" where
  "AutoExposureMetering_members p = [(MODE, of_int (aem_mode p)), (TOP, rat_of_u32 (aem_top p)),
     (LEFT, rat_of_u32 (aem_left p)), (BOTTOM, rat_of_u32 (aem_bottom p)),
     (RIGHT, rat_of_u32 (aem_right p))]"

definition AutoExposureMetering_StoreValue ::
  "'w env \<Rightarrow> int \<Rightarrow> u32 \<Rightarrow> u32 \<Rightarrow> u32 \<Rightarrow> u32 \<Rightarrow> 'w ctx \<Rightarrow> 'w ctx" where
  "AutoExposureMetering_StoreValue E mode top' left bottom right s =
     (let aem = stored (auto_exposure_metering (pq s));
          p = \<lparr>aem_mode = mode, aem_top = top', aem_left = left, aem_bottom = bottom,
               aem_right = right\<rparr>
      in if mode = aem_mode aem \<and> top' = aem_top aem \<and> left = aem_left aem
            \<and> bottom = aem_bottom aem \<and> right = aem_right aem
         then s
         else upd_pq (auto_exposure_metering_update
                (\<lambda>n. \<lparr>json_obj = set_numbers E (AutoExposureMetering_members p) (json_obj n), stored = p\<rparr>))
              (EnableNotification s))"

definition ManualExposure_members :: "ManualExposureProperty \<Rightarrow> (string \<times> rat) list" where
  "ManualExposure_members p = [(EXPOSURE_TIME, rat_of_u32 (me_exposure_time p)), (GAIN, me_gain p)]"

definition ManualExposure_StoreValue :: "'w env \<Rightarrow> u32 \<Rightarrow> rat \<Rightarrow> 'w ctx \<Rightarrow> 'w ctx" where
  "ManualExposure_StoreValue E exposure gain s =
     (let me = stored (manual_exposure (pq s)); p = \<lparr>me_exposure_time = exposure, me_gain = gain\<rparr>
      in if me_exposure_time me = exposure \<and> IsAlmostEqual (me_gain me) gain then s
         else upd_pq (manual_exposure_update
                (\<lambda>n. \<lparr>json_obj = set_numbers E (ManualExposure_members p) (json_obj n), stored = p\<rparr>))
              (EnableNotification s))"

definition AutoWhiteBalance_members :: "AutoWhiteBalanceProperty \<Rightarrow> (string \<times> rat) list" where
  "AutoWhiteBalance_members p = [(CONVERGENCE_SPEED, rat_of_u32 (awb_convergence_speed p))]"

definition AutoWhiteBalance_StoreValue :: "'w env \<Rightarrow> u32 \<Rightarrow> 'w ctx \<Rightarrow> 'w ctx" where
  "AutoWhiteBalance_StoreValue E speed s =
     (let wb_speed = stored (auto_white_balance (pq s)); p = \<lparr>awb_convergence_speed = speed\<rparr>
      in if speed = awb_convergence_speed wb_speed then s
         else upd_pq (auto_white_balance_update
                (\<lambda>n. \<lparr>json_obj = set_numbers E (AutoWhiteBalance_members p) (json_obj n), stored = p\<rparr>))
              (EnableNotification s))"

definition ImageCropping_members :: "ImageCropProperty \<Rightarrow> (string \<times> rat) list" where
  "ImageCropping_members p = [(LEFT, rat_of_u32 (icr_left p)), (TOP, rat_of_u32 (icr_top p)),
     (WIDTH, rat_of_u32 (icr_width p)), (HEIGHT, rat_of_u32 (icr_height p))]"

definition ImageCropping_StoreValue ::
  "'w env \<Rightarrow> u32 \<Rightarrow> u32 \<Rightarrow> u32 \<Rightarrow> u32 \<Rightarrow> 'w ctx \<Rightarrow> 'w ctx" where
  "ImageCropping_StoreValue E left top' width height s =
     (let icr = stored (image_cropping (pq s));
          p = \<lparr>icr_left = left, icr_top = top', icr_width = width, icr_height = height\<rparr>
      in if left = icr_left icr \<and> top' = icr_top icr \<and> width = icr_width icr \<and> height = icr_height icr
         then s
         else upd_pq (image_cropping_update
                (\<lambda>n. \<lparr>json_obj = set_numbers E (ImageCropping_members p) (json_obj n), stored = p\<rparr>))
              (EnableNotification s))"

section \<open>Color temperature\<close>

datatype TEMP = TEMP_3200K | TEMP_4300K | TEMP_5600K | TEMP_6500K

definition TEMP_num :: "TEMP \<Rightarrow> u32" where
  "TEMP_num t = (case t of TEMP_3200K \<Rightarrow> 0 | TEMP_4300K \<Rightarrow> 1 | TEMP_5600K \<Rightarrow> 2 | TEMP_6500K \<Rightarrow> 3)"

text \<open>The switch takes the enumeration's number; any other number is the default case.\<close>

definition temperature_enum_to_value :: "int \<Rightarrow> u32" where
  "temperature_enum_to_value t =
     (if t = 0 then 3200 else if t = 1 then 4300 else if t = 2 then 5600 else if t = 3 then 6500
      else 3200)"

definition temperature_value_to_enum :: "u32 \<Rightarrow> TEMP" where
  "temperature_value_to_enum temperature =
     (if temperature = 3200 then TEMP_3200K else if temperature = 4300 then TEMP_4300K
      else if temperature = 5600 then TEMP_5600K else if temperature = 6500 then TEMP_6500K
      else TEMP_3200K)"

definition ManualWhiteBalancePreset_members ::
  "ManualWhiteBalancePresetProperty \<Rightarrow> (string \<times> rat) list" where
  "ManualWhiteBalancePreset_members p = [(COLOR_TEMPERATURE, rat_of_u32 (mwb_color_temperature p))]"

text \<open>The argument is overwritten with the enumeration's number before it is compared and stored.\<close>

definition ManualWhiteBalancePreset_StoreValue :: "'w env \<Rightarrow> u32 \<Rightarrow> 'w ctx \<Rightarrow> 'w ctx" where
  "ManualWhiteBalancePreset_StoreValue E temperature s =
     (let temperature = TEMP_num (temperature_value_to_enum temperature);
          p = \<lparr>mwb_color_temperature = temperature\<rparr>
      in if temperature = mwb_color_temperature (stored (manual_white_balance_preset (pq s))) then s
         else upd_pq (manual_white_balance_preset_update
                (\<lambda>n. \<lparr>json_obj = set_numbers E (ManualWhiteBalancePreset_members p) (json_obj n),
                      stored = p\<rparr>))
              (EnableNotification s))"

section \<open>Every object meets the contract\<close>

definition same_AutoExposure :: "AutoExposureProperty \<Rightarrow> AutoExposureProperty \<Rightarrow> bool" where
  "same_AutoExposure a b \<longleftrightarrow> ae_max_exposure_time b = ae_max_exposure_time a
     \<and> ae_min_exposure_time b = ae_min_exposure_time a \<and> IsAlmostEqual (ae_max_gain b) (ae_max_gain a)
     \<and> ae_convergence_speed b = ae_convergence_speed a"

definition same_ManualExposure :: "ManualExposureProperty \<Rightarrow> ManualExposureProperty \<Rightarrow> bool" where
  "same_ManualExposure a b \<longleftrightarrow> me_exposure_time a = me_exposure_time b
     \<and> IsAlmostEqual (me_gain a) (me_gain b)"

lemmas StoreValue_defs = CameraImageSize_StoreValue_def CameraImageFlip_StoreValue_def
  FrameRate_StoreValue_def AutoExposure_StoreValue_def AutoExposureMetering_StoreValue_def
  ManualExposure_StoreValue_def AutoWhiteBalance_StoreValue_def ImageCropping_StoreValue_def
  ManualWhiteBalancePreset_StoreValue_def

lemmas members_defs = CameraImageSize_members_def CameraImageFlip_members_def FrameRate_members_def
  AutoExposure_members_def AutoExposureMetering_members_def ManualExposure_members_def
  AutoWhiteBalance_members_def ImageCropping_members_def ManualWhiteBalancePreset_members_def

lemmas same_defs = same_AutoExposure_def same_ManualExposure_def

lemma EnableNotification_simps [simp]:
  "dtdl_model (EnableNotification s) = dtdl_model s" "world (EnableNotification s) = world s"
  "is_pending_notification (EnableNotification s)"
  "undefined_behaviour (EnableNotification s) = undefined_behaviour s"
  by (simp_all add: EnableNotification_def)

interpretation cis_store: settings_store E "\<lambda>s. camera_image_size (pq s)" CameraImageSize_members
  "(=)" "(\<lambda>p. CameraImageSize_StoreValue E (cis_width p) (cis_height p) (cis_scaling_policy p))"
  for E :: "'w env"
  by unfold_locales (auto simp: StoreValue_defs members_defs same_defs Let_def)

interpretation cif_store: settings_store E "\<lambda>s. camera_image_flip (pq s)" CameraImageFlip_members
  "(=)" "(\<lambda>p. CameraImageFlip_StoreValue E (cif_flip_horizontal p) (cif_flip_vertical p))"
  for E :: "'w env"
  by unfold_locales (auto simp: StoreValue_defs members_defs same_defs Let_def)

interpretation fr_store: settings_store E "\<lambda>s. frame_rate (pq s)" FrameRate_members
  "(=)" "(\<lambda>p. FrameRate_StoreValue E (fr_num p) (fr_denom p))"
  for E :: "'w env"
  by unfold_locales (auto simp: StoreValue_defs members_defs same_defs Let_def)

interpretation ae_store: settings_store E "\<lambda>s. auto_exposure (pq s)" AutoExposure_members
  "same_AutoExposure" "(\<lambda>p. AutoExposure_StoreValue E (ae_max_exposure_time p) (ae_min_exposure_time p)
    (ae_max_gain p) (ae_convergence_speed p))"
  for E :: "'w env"
  by unfold_locales (auto simp: StoreValue_defs members_defs same_defs Let_def)

interpretation aem_store: settings_store E "\<lambda>s. auto_exposure_metering (pq s)" AutoExposureMetering_members
  "(=)" "(\<lambda>p. AutoExposureMetering_StoreValue E (aem_mode p) (aem_top p) (aem_left p) (aem_bottom p)
    (aem_right p))"
  for E :: "'w env"
  by unfold_locales (auto simp: StoreValue_defs members_defs same_defs Let_def)

interpretation me_store: settings_store E "\<lambda>s. manual_exposure (pq s)" ManualExposure_members
  "same_ManualExposure" "(\<lambda>p. ManualExposure_StoreValue E (me_exposure_time p) (me_gain p))"
  for E :: "'w env"
  by unfold_locales (auto simp: StoreValue_defs members_defs same_defs Let_def)

interpretation awb_store: settings_store E "\<lambda>s. auto_white_balance (pq s)" AutoWhiteBalance_members
  "(=)" "(\<lambda>p. AutoWhiteBalance_StoreValue E (awb_convergence_speed p))"
  for E :: "'w env"
  by unfold_locales (auto simp: StoreValue_defs members_defs same_defs Let_def)

interpretation icr_store: settings_store E "\<lambda>s. image_cropping (pq s)" ImageCropping_members
  "(=)" "(\<lambda>p. ImageCropping_StoreValue E (icr_left p) (icr_top p) (icr_width p) (icr_height p))"
  for E :: "'w env"
  by unfold_locales (auto simp: StoreValue_defs members_defs same_defs Let_def)

section \<open>The scalar settings\<close>

abbreviation "CAMERA_IMAGE_SIZE \<equiv> ''camera_image_size''"
abbreviation "CAMERA_IMAGE_FLIP \<equiv> ''camera_image_flip''"
abbreviation "DIGITAL_ZOOM \<equiv> ''digital_zoom''"
abbreviation "EXPOSURE_MODE \<equiv> ''exposure_mode''"
abbreviation "AUTO_EXPOSURE \<equiv> ''auto_exposure''"
abbreviation "AUTO_EXPOSURE_METERING \<equiv> ''auto_exposure_metering''"
abbreviation "EV_COMPENSATION \<equiv> ''ev_compensation''"
abbreviation "AE_ANTI_FLICKER_MODE \<equiv> ''ae_anti_flicker_mode''"
abbreviation "MANUAL_EXPOSURE \<equiv> ''manual_exposure''"
abbreviation "FRAME_RATE \<equiv> ''frame_rate''"
abbreviation "WHITE_BALANCE_MODE \<equiv> ''white_balance_mode''"
abbreviation "AUTO_WHITE_BALANCE \<equiv> ''auto_white_balance''"
abbreviation "MANUAL_WHITE_BALANCE_PRESET \<equiv> ''manual_white_balance_preset''"
abbreviation "IMAGE_CROPPING \<equiv> ''image_cropping''"
abbreviation "IMAGE_ROTATION \<equiv> ''image_rotation''"
abbreviation "REGISTER_ACCESS \<equiv> ''register_access''"
abbreviation "GAMMA_MODE \<equiv> ''gamma_mode''"
abbreviation "GAMMA_PARAMETER \<equiv> ''gamma_parameter''"

definition StoreDigitalZoom :: "'w env \<Rightarrow> rat \<Rightarrow> 'w ctx \<Rightarrow> 'w ctx" where
  "StoreDigitalZoom E v s =
     (if float_almost (digital_zoom (pq s)) v then s
      else upd_pq (\<lambda>q. q\<lparr>pq_json_obj := json_object_set_number E (pq_json_obj q) DIGITAL_ZOOM v,
                        digital_zoom := Some v\<rparr>) (EnableNotification s))"

definition StoreExposureMode :: "'w env \<Rightarrow> int \<Rightarrow> 'w ctx \<Rightarrow> 'w ctx" where
  "StoreExposureMode E mode s =
     (if float_eq_int (exposure_mode (pq s)) mode then s
      else upd_pq (\<lambda>q. q\<lparr>pq_json_obj := json_object_set_number E (pq_json_obj q) EXPOSURE_MODE (of_int mode),
                        exposure_mode := Some (f32 (of_int mode))\<rparr>) (EnableNotification s))"

definition StoreImageRotation :: "'w env \<Rightarrow> int \<Rightarrow> 'w ctx \<Rightarrow> 'w ctx" where
  "StoreImageRotation E rotation s =
     (if float_eq_int (image_rotation (pq s)) rotation then s
      else upd_pq (\<lambda>q. q\<lparr>pq_json_obj := json_object_set_number E (pq_json_obj q) IMAGE_ROTATION (of_int rotation),
                        image_rotation := Some (f32 (of_int rotation))\<rparr>) (EnableNotification s))"

definition StoreEvCompensationVal :: "'w env \<Rightarrow> rat \<Rightarrow> 'w ctx \<Rightarrow> 'w ctx" where
  "StoreEvCompensationVal E v s =
     (if float_almost (ev_compensation_val (pq s)) v then s
      else upd_pq (\<lambda>q. q\<lparr>pq_json_obj := json_object_set_number E (pq_json_obj q) EV_COMPENSATION v,
                        ev_compensation_val := Some v\<rparr>) (EnableNotification s))"

definition StoreAeAntiFlickerMode :: "'w env \<Rightarrow> int \<Rightarrow> 'w ctx \<Rightarrow> 'w ctx" where
  "StoreAeAntiFlickerMode E mode s =
     (if float_eq_int (ae_anti_flicker_mode (pq s)) mode then s
      else upd_pq (\<lambda>q. q\<lparr>pq_json_obj := json_object_set_number E (pq_json_obj q) AE_ANTI_FLICKER_MODE (of_int mode),
                        ae_anti_flicker_mode := Some (f32 (of_int mode))\<rparr>) (EnableNotification s))"

definition StoreWhiteBalanceMode :: "'w env \<Rightarrow> int \<Rightarrow> 'w ctx \<Rightarrow> 'w ctx" where
  "StoreWhiteBalanceMode E mode s =
     (if float_eq_int (white_balance_mode (pq s)) mode then s
      else upd_pq (\<lambda>q. q\<lparr>pq_json_obj := json_object_set_number E (pq_json_obj q) WHITE_BALANCE_MODE (of_int mode),
                        white_balance_mode := Some (f32 (of_int mode))\<rparr>) (EnableNotification s))"

text \<open>The gamma mode is also written into the gamma parameter, where there is one.\<close>

definition StoreGammaMode :: "'w env \<Rightarrow> int \<Rightarrow> 'w ctx \<Rightarrow> 'w ctx" where
  "StoreGammaMode E mode s =
     (if float_eq_int (gamma_mode (pq s)) mode then s
      else upd_pq (\<lambda>q. q\<lparr>pq_json_obj := json_object_set_number E (pq_json_obj q) GAMMA_MODE (of_int mode),
                        gamma_mode := Some (f32 (of_int mode)),
                        gamma_param := map_option (gp_gamma_mode_update (\<lambda>_. mode)) (gamma_param q)\<rparr>)
             (EnableNotification s))"

text \<open>
  \<open>StoreGammaParameter\<close> copies as many bytes as the caller's \<open>param_size\<close> says, from an array of
  \<open>AI_MODEL_GAMMA_PARAMETER_SIZE\<close> bytes into another: a larger size reads and writes out of
  bounds. The result of \<open>malloc\<close> is read after the comparison with the stored value.
\<close>

definition AI_MODEL_GAMMA_PARAMETER_SIZE :: nat where "AI_MODEL_GAMMA_PARAMETER_SIZE = 2208"

definition overwrite :: "'a list \<Rightarrow> 'a list \<Rightarrow> 'a list" where
  "overwrite xs ys = xs @ drop (length xs) ys"

definition StoreGammaParameter :: "'w env \<Rightarrow> u8 list \<Rightarrow> u32 \<Rightarrow> 'w ctx \<Rightarrow> 'w ctx" where
  "StoreGammaParameter E bin bin_size s =
     (case gamma_param (pq s) of
        None \<Rightarrow> s
      | Some gp \<Rightarrow>
          if bin_size = 0 then s
          else if bin_size = gp_param_size gp
                  \<and> take (unat bin_size) bin = take (unat bin_size) (gp_gamma_parameter gp)
          then s
          else if \<not> malloc_ok E (world s) then s
          else if AI_MODEL_GAMMA_PARAMETER_SIZE < unat bin_size then undefined_step s
          else upd_pq (\<lambda>q. q\<lparr>
                 pq_json_obj := json_object_set_string E (pq_json_obj q) GAMMA_PARAMETER
                   (Some (b64_encode E (take (unat bin_size) bin))),
                 gamma_param := Some (gp\<lparr>
                   gp_gamma_parameter := overwrite (take (unat bin_size) bin)
                     (overwrite (replicate (unat (gp_param_size gp)) 0) (gp_gamma_parameter gp)),
                   gp_param_size := bin_size\<rparr>)\<rparr>) (EnableNotification s))"

section \<open>Register access\<close>

text \<open>A write to a member of the union keeps the bits above it.\<close>

definition union_store :: "nat \<Rightarrow> u64 \<Rightarrow> u64 \<Rightarrow> u64" where
  "union_store n data cell =
     or (and data (mask n)) (and cell (not (mask n)))"

text \<open>The width that \<open>EdgeAppLibSensorRegisterBitLength\<close> stands for.\<close>

definition register_bits :: "int \<Rightarrow> nat option" where
  "register_bits bit_length =
     (if bit_length = 0 then Some 8 else if bit_length = 1 then Some 16
      else if bit_length = 2 then Some 32 else if bit_length = 3 then Some 64 else None)"

text \<open>
  Writing to an item whose \<open>json_obj\<close> was freed by \<open>SetFailed\<close> is a use after free.
\<close>

definition RegisterAccess_json :: "'w env \<Rightarrow> u32 \<Rightarrow> u64 \<Rightarrow> u64 \<Rightarrow> int \<Rightarrow> jobj \<Rightarrow> jobj" where
  "RegisterAccess_json E rid address data bit_length o' =
     json_object_set_string E
       (json_object_set_string E
         (json_object_set_number E
           (json_object_set_number E o' BIT_LENGTH (of_int bit_length)) ID (rat_of_u32 rid))
         ADDRESS (Some (snprintf 17 (fmt_016X address))))
       DATA (Some (snprintf 21 (fmt_u64 data)))"

definition RegisterAccess_same :: "RegisterAccessProperty \<Rightarrow> u32 \<Rightarrow> u64 \<Rightarrow> u64 \<Rightarrow> int \<Rightarrow> bool" where
  "RegisterAccess_same p rid address data bit_length \<longleftrightarrow>
     rap_id p = rid \<and> rap_address p = address \<and> rap_bit_length p = bit_length
     \<and> (case register_bits bit_length of
           None \<Rightarrow> False
         | Some n \<Rightarrow> take_bit n (rap_data p) = take_bit n data)"

definition RegisterAccess_StoreValue ::
  "'w env \<Rightarrow> RegisterAccess \<Rightarrow> u32 \<Rightarrow> u64 \<Rightarrow> u64 \<Rightarrow> int \<Rightarrow> RegisterAccess" where
  "RegisterAccess_StoreValue E ra rid address data bit_length =
     ra\<lparr>ra_json_obj := RegisterAccess_json E rid address data bit_length (ra_json_obj ra),
        ra_property := \<lparr>rap_id = rid, rap_address = address,
          rap_data = (case register_bits bit_length of
               None \<Rightarrow> rap_data (ra_property ra)
             | Some n \<Rightarrow> union_store n data (rap_data (ra_property ra))),
          rap_bit_length = bit_length\<rparr>\<rparr>"

text \<open>
  The comparison of the index, an \<open>int32_t\<close>, with the count, a \<open>uint32_t\<close>, is unsigned: the index
  -1 of an array that was never applied is out of range as well.
\<close>

definition RegisterAccessArray_StoreValue ::
  "'w env \<Rightarrow> u32 \<Rightarrow> u64 \<Rightarrow> u64 \<Rightarrow> int \<Rightarrow> 'w ctx \<Rightarrow> 'w ctx" where
  "RegisterAccessArray_StoreValue E rid address data bit_length s =
     (let raa = pq_register_access (pq s);
          index = unat (word_of_int (register_access_array_index raa) :: u32)
      in if length (register_access_array raa) \<le> index then s
         else let ra = register_access_array raa ! index;
                  s' = (if RegisterAccess_same (ra_property ra) rid address data bit_length then s
                        else EnableNotification s);
                  s'' = (if ra_failed ra then undefined_step s' else s')
              in upd_pq (pq_register_access_update (register_access_array_update
                   (\<lambda>xs. xs[index := RegisterAccess_StoreValue E ra rid address data bit_length]))) s'')"

end
