(* ===== verification/Sensor.thy ===== *)
theory Sensor
  imports PqStore
begin

text \<open>
  \<open>libs/sm/src/sm_api.cpp\<close> and the property functions of \<open>libs/sensor/src/sensor_wrapper.cpp\<close>: the
  path on which a property reaches the sensor. A property that senscord accepted is handed to
  \<open>updateProperty\<close>, which stores it in the device model; one that it refused leaves the model as
  it is. Senscord itself is a parameter.
\<close>

section \<open>updateProperty\<close>

definition updateProperty :: "'w env \<Rightarrow> sensor_property \<Rightarrow> 'w ctx \<Rightarrow> 'w ctx" where
  "updateProperty E value s =
     (case value of
        CameraImageSize p \<Rightarrow>
          CameraImageSize_StoreValue E (cis_width p) (cis_height p) (cis_scaling_policy p) s
      | CameraImageFlip p \<Rightarrow>
          CameraImageFlip_StoreValue E (cif_flip_horizontal p) (cif_flip_vertical p) s
      | DigitalZoom v \<Rightarrow> StoreDigitalZoom E v s
      | ExposureMode mode \<Rightarrow> StoreExposureMode E mode s
      | AutoExposure p \<Rightarrow>
          AutoExposure_StoreValue E (ae_max_exposure_time p) (ae_min_exposure_time p)
            (ae_max_gain p) (ae_convergence_speed p) s
      | AutoExposureMetering p \<Rightarrow>
          AutoExposureMetering_StoreValue E (aem_mode p) (aem_top p) (aem_left p) (aem_bottom p)
            (aem_right p) s
      | EvCompensation v \<Rightarrow> StoreEvCompensationVal E v s
      | AntiFlickerMode mode \<Rightarrow> StoreAeAntiFlickerMode E mode s
      | ManualExposure p \<Rightarrow> ManualExposure_StoreValue E (me_exposure_time p) (me_gain p) s
      | FrameRate p \<Rightarrow> FrameRate_StoreValue E (fr_num p) (fr_denom p) s
      | WhiteBalanceMode mode \<Rightarrow> StoreWhiteBalanceMode E mode s
      | AutoWhiteBalance p \<Rightarrow> AutoWhiteBalance_StoreValue E (awb_convergence_speed p) s
      | ManualWhiteBalancePreset p \<Rightarrow>
          ManualWhiteBalancePreset_StoreValue E (mwb_color_temperature p) s
      | ImageCrop p \<Rightarrow>
          ImageCropping_StoreValue E (icr_left p) (icr_top p) (icr_width p) (icr_height p) s
      | ImageRotation angle \<Rightarrow> StoreImageRotation E angle s
      | RegisterAccess8 rid address data \<Rightarrow>
          RegisterAccessArray_StoreValue E rid address (ucast data) 0 s
      | RegisterAccess16 rid address data \<Rightarrow>
          RegisterAccessArray_StoreValue E rid address (ucast data) 1 s
      | RegisterAccess32 rid address data \<Rightarrow>
          RegisterAccessArray_StoreValue E rid address (ucast data) 2 s
      | RegisterAccess64 rid address data \<Rightarrow>
          RegisterAccessArray_StoreValue E rid address data 3 s
      | AiModelBundleId _ \<Rightarrow> s
      | GammaMode mode \<Rightarrow> StoreGammaMode E mode s
      | GammaParameter p \<Rightarrow> StoreGammaParameter E (gp_gamma_parameter p) (gp_param_size p) s
      | InputDataType _ \<Rightarrow> s
      | IspFrameRate _ \<Rightarrow> s
      | OtherProperty _ \<Rightarrow> s)"

definition getPortSettings :: "'w ctx \<Rightarrow> PortSettings" where
  "getPortSettings s = port_settings (common s)"

definition getCodecSettings :: "'w ctx \<Rightarrow> jobj" where
  "getCodecSettings s = codec_settings (common s)"

definition getNumOfInfPerMsg :: "'w ctx \<Rightarrow> u32" where
  "getNumOfInfPerMsg s = number_iterations (inference_settings (common s))"

section \<open>The sensor wrapper\<close>

definition SensorStreamGetProperty ::
  "'w env \<Rightarrow> u64 \<Rightarrow> sensor_property \<Rightarrow> 'w ctx \<Rightarrow> int \<times> sensor_property \<times> 'w ctx" where
  "SensorStreamGetProperty E stream value s =
     (if stream = 0 then (-1, value, s)
      else let (result, value', w) = senscord_stream_get_property E stream value (world s)
           in (result, value', s\<lparr>world := w\<rparr>))"

definition SensorStreamSetProperty ::
  "'w env \<Rightarrow> u64 \<Rightarrow> sensor_property \<Rightarrow> 'w ctx \<Rightarrow> int \<times> 'w ctx" where
  "SensorStreamSetProperty E stream value s =
     (if stream = 0 then (-1, s)
      else let (result, w) = senscord_stream_set_property E stream value (world s);
               s' = s\<lparr>world := w\<rparr>
           in (result, if result = 0 then updateProperty E value s' else s'))"

text \<open>
  The frame rate of the ISP must not exceed that of the camera; the quotients are integer
  divisions. \<open>frameRate\<close> is \<open>{0, 0}\<close> before senscord fills it.
\<close>

definition SensorStreamSetIspFrameRate ::
  "'w env \<Rightarrow> u64 \<Rightarrow> FrameRateProperty \<Rightarrow> 'w ctx \<Rightarrow> int \<times> 'w ctx" where
  "SensorStreamSetIspFrameRate E stream ispFrameRate s =
     (if fr_num ispFrameRate = 0 \<or> fr_denom ispFrameRate = 0 then (-1, s)
      else case SensorStreamGetProperty E stream (FrameRate \<lparr>fr_num = 0, fr_denom = 0\<rparr>) s of
        (result, value, s') \<Rightarrow>
          let frameRate = (case value of FrameRate p \<Rightarrow> p | _ \<Rightarrow> \<lparr>fr_num = 0, fr_denom = 0\<rparr>)
          in if result \<noteq> 0 then (-1, s')
             else if (fr_num frameRate = 0 \<or> fr_denom frameRate = 0)
                     \<or> fr_num frameRate div fr_denom frameRate
                        < fr_num ispFrameRate div fr_denom ispFrameRate
             then (-1, s')
             else SensorStreamSetProperty E stream (IspFrameRate ispFrameRate) s')"

section \<open>Frames\<close>

lemma union_StoreValue_frame [simp]:
  "core_of (RegisterAccessArray_StoreValue E rid address data bl s) = core_of s"
  "world (RegisterAccessArray_StoreValue E rid address data bl s) = world s"
  by (auto simp: RegisterAccessArray_StoreValue_def undefined_step_def Let_def)

lemma Store_scalar_frame [simp]:
  "core_of (StoreDigitalZoom E v s) = core_of s" "world (StoreDigitalZoom E v s) = world s"
  "core_of (StoreExposureMode E n s) = core_of s" "world (StoreExposureMode E n s) = world s"
  "core_of (StoreImageRotation E n s) = core_of s" "world (StoreImageRotation E n s) = world s"
  "core_of (StoreEvCompensationVal E v s) = core_of s"
  "world (StoreEvCompensationVal E v s) = world s"
  "core_of (StoreAeAntiFlickerMode E n s) = core_of s"
  "world (StoreAeAntiFlickerMode E n s) = world s"
  "core_of (StoreWhiteBalanceMode E n s) = core_of s"
  "world (StoreWhiteBalanceMode E n s) = world s"
  "core_of (StoreGammaMode E n s) = core_of s" "world (StoreGammaMode E n s) = world s"
  "core_of (StoreGammaParameter E bs k s) = core_of s"
  "world (StoreGammaParameter E bs k s) = world s"
  by (simp_all add: StoreDigitalZoom_def StoreExposureMode_def StoreImageRotation_def
      StoreEvCompensationVal_def StoreAeAntiFlickerMode_def StoreWhiteBalanceMode_def
      StoreGammaMode_def StoreGammaParameter_def undefined_step_def split: option.splits)

lemma updateProperty_frame [simp]:
  "core_of (updateProperty E v s) = core_of s"
  "world (updateProperty E v s) = world s"
  by (auto simp: updateProperty_def StoreValue_defs Let_def split: sensor_property.splits)

lemma SensorStreamSetProperty_core:
  "SensorStreamSetProperty E stream v s = (r, s') \<Longrightarrow> core_of s' = core_of s"
  by (auto simp: SensorStreamSetProperty_def Let_def split: if_splits prod.splits)

lemma SensorStreamGetProperty_frame:
  "SensorStreamGetProperty E stream v s = (r, v', s') \<Longrightarrow>
     core_of s' = core_of s \<and> dtdl_model s' = dtdl_model s
     \<and> is_pending_notification s' = is_pending_notification s
     \<and> undefined_behaviour s' = undefined_behaviour s"
  by (auto simp: SensorStreamGetProperty_def split: if_splits prod.splits)

text \<open>A property that is refused leaves the model and the pending notification as they are.\<close>

lemma SensorStreamSetProperty_refused:
  "SensorStreamSetProperty E stream v s = (r, s') \<Longrightarrow> r \<noteq> 0 \<Longrightarrow>
     dtdl_model s' = dtdl_model s \<and> is_pending_notification s' = is_pending_notification s"
  by (auto simp: SensorStreamSetProperty_def Let_def split: if_splits prod.splits)

end
