(* ===== verification/PqObjects.thy ===== *)
theory PqObjects
  imports Sensor
begin

text \<open>
  The apply side of the objects under \<open>objects/common_settings/pq_settings\<close>:
  \<open>InitializeValues\<close> reads a property from the sensor, \<open>Verify\<close> checks an incoming object and
  \<open>Apply\<close> sends the stored value, with the members of the object written over it, to the sensor.
\<close>

section \<open>Reading the members of an incoming object\<close>

definition get_u32 :: "'w env \<Rightarrow> jobj option \<Rightarrow> string \<Rightarrow> u32 \<Rightarrow> u32" where
  "get_u32 E obj k old =
     (if json_object_has_value E obj k then cast_u32 (undef_conv E) (json_object_get_number E obj k)
      else old)"

definition get_i32 :: "'w env \<Rightarrow> jobj option \<Rightarrow> string \<Rightarrow> int \<Rightarrow> int" where
  "get_i32 E obj k old =
     (if json_object_has_value E obj k then cast_i32 (undef_conv E) (json_object_get_number E obj k)
      else old)"

definition get_f32 :: "'w env \<Rightarrow> jobj option \<Rightarrow> string \<Rightarrow> rat \<Rightarrow> rat" where
  "get_f32 E obj k old =
     (if json_object_has_value E obj k then f32 (json_object_get_number E obj k) else old)"

definition get_bool :: "'w env \<Rightarrow> jobj option \<Rightarrow> string \<Rightarrow> bool \<Rightarrow> bool" where
  "get_bool E obj k old =
     (if json_object_has_value E obj k then json_object_get_number E obj k \<noteq> 0 else old)"

text \<open>The end of every \<open>Apply\<close>: set the property, report a refusal.\<close>

definition apply_property ::
  "'w env \<Rightarrow> sensor_property \<Rightarrow> string \<Rightarrow> 'w ctx \<Rightarrow> int \<times> 'w ctx" where
  "apply_property E value msg s =
     (let (res, s') = SensorStreamSetProperty E (sensor_stream s) value s
      in (res, if res \<noteq> 0 then report E msg CODE_INVALID_ARGUMENT s' else s'))"

text \<open>The end of every \<open>InitializeValues\<close>: the value and its JSON.\<close>

definition write_node ::
  "'w env \<Rightarrow> ('p \<Rightarrow> (string \<times> rat) list) \<Rightarrow> 'p \<Rightarrow> 'p node \<Rightarrow> 'p node" where
  "write_node E members p n = \<lparr>json_obj = set_numbers E (members p) (json_obj n), stored = p\<rparr>"

section \<open>Camera image size\<close>

definition CameraImageSize_validations :: "Validation list" where
  "CameraImageSize_validations = [VGe WIDTH 0, VGe HEIGHT 0, VGe SCALING_POLICY 1,
     VLe SCALING_POLICY 2, VTy WIDTH JSONNumber, VTy HEIGHT JSONNumber, VTy SCALING_POLICY JSONNumber]"

definition CameraImageSize_InitializeValues :: "'w env \<Rightarrow> 'w ctx \<Rightarrow> 'w ctx" where
  "CameraImageSize_InitializeValues E s =
     (let old = stored (camera_image_size (pq s));
          (res, value, s') = SensorStreamGetProperty E (sensor_stream s) (CameraImageSize old) s;
          p = (case value of CameraImageSize p \<Rightarrow> p | _ \<Rightarrow> old)
      in upd_pq (camera_image_size_update (write_node E CameraImageSize_members p)) s')"

definition CameraImageSize_Verify :: "'w env \<Rightarrow> jobj option \<Rightarrow> 'w ctx \<Rightarrow> int \<times> 'w ctx" where
  "CameraImageSize_Verify E obj s = JsonObject_Verify E CameraImageSize_validations [] obj s"

definition CameraImageSize_Apply :: "'w env \<Rightarrow> jobj option \<Rightarrow> 'w ctx \<Rightarrow> int \<times> 'w ctx" where
  "CameraImageSize_Apply E obj s =
     (let camera_size = stored (camera_image_size (pq s));
          aux = \<lparr>cis_width = get_u32 E obj WIDTH (cis_width camera_size),
                 cis_height = get_u32 E obj HEIGHT (cis_height camera_size),
                 cis_scaling_policy = get_i32 E obj SCALING_POLICY (cis_scaling_policy camera_size)\<rparr>
      in apply_property E (CameraImageSize aux)
           ''Camera Image Size property failed to be set. Please use valid values for width, height and scaling_policy.'' s)"

section \<open>Camera image flip\<close>

definition CameraImageFlip_validations :: "Validation list" where
  "CameraImageFlip_validations = [VGe FLIP_HORIZONTAL 0, VGe FLIP_VERTICAL 0, VLe FLIP_HORIZONTAL 1,
     VLe FLIP_VERTICAL 1, VTy FLIP_VERTICAL JSONNumber, VTy FLIP_HORIZONTAL JSONNumber]"

definition CameraImageFlip_InitializeValues :: "'w env \<Rightarrow> 'w ctx \<Rightarrow> 'w ctx" where
  "CameraImageFlip_InitializeValues E s =
     (let old = stored (camera_image_flip (pq s));
          (res, value, s') = SensorStreamGetProperty E (sensor_stream s) (CameraImageFlip old) s;
          p = (case value of CameraImageFlip p \<Rightarrow> p | _ \<Rightarrow> old)
      in upd_pq (camera_image_flip_update (write_node E CameraImageFlip_members p)) s')"

definition CameraImageFlip_Verify :: "'w env \<Rightarrow> jobj option \<Rightarrow> 'w ctx \<Rightarrow> int \<times> 'w ctx" where
  "CameraImageFlip_Verify E obj s = JsonObject_Verify E CameraImageFlip_validations [] obj s"

definition CameraImageFlip_Apply :: "'w env \<Rightarrow> jobj option \<Rightarrow> 'w ctx \<Rightarrow> int \<times> 'w ctx" where
  "CameraImageFlip_Apply E obj s =
     (let camera_flip = stored (camera_image_flip (pq s));
          aux = \<lparr>cif_flip_horizontal = get_bool E obj FLIP_HORIZONTAL (cif_flip_horizontal camera_flip),
                 cif_flip_vertical = get_bool E obj FLIP_VERTICAL (cif_flip_vertical camera_flip)\<rparr>
      in apply_property E (CameraImageFlip aux)
           ''Camera Image Flip property failed to be set. Please use valid values for flip_horizontal and flip_vertical.'' s)"

section \<open>Frame rate\<close>

definition FrameRate_validations :: "Validation list" where
  "FrameRate_validations = [VGe NUM 0, VGe DEN 0, VTy NUM JSONNumber, VTy DEN JSONNumber]"

definition FrameRate_InitializeValues :: "'w env \<Rightarrow> 'w ctx \<Rightarrow> 'w ctx" where
  "FrameRate_InitializeValues E s =
     (let old = stored (frame_rate (pq s));
          (res, value, s') = SensorStreamGetProperty E (sensor_stream s) (FrameRate old) s;
          p = (case value of FrameRate p \<Rightarrow> p | _ \<Rightarrow> old);
          s'' = (if res \<noteq> 0
                 then report E ''Camera FrameRate property failed to be get.'' CODE_INVALID_ARGUMENT s'
                 else s')
      in upd_pq (frame_rate_update (write_node E FrameRate_members p)) s'')"

definition FrameRate_Verify :: "'w env \<Rightarrow> jobj option \<Rightarrow> 'w ctx \<Rightarrow> int \<times> 'w ctx" where
  "FrameRate_Verify E obj s =
     (let (r, s') = JsonObject_Verify E FrameRate_validations [] obj s
      in if r \<noteq> 0 then (-1, s')
         else if json_object_has_value E obj NUM \<and> \<not> IsInteger (json_object_get_number E obj NUM)
         then (-1, report E ''Num property has to be an integer'' CODE_INVALID_ARGUMENT s')
         else if json_object_has_value E obj DEN \<and> \<not> IsInteger (json_object_get_number E obj DEN)
         then (-1, report E ''Denom property has to be an integer'' CODE_INVALID_ARGUMENT s')
         else (0, s'))"

definition FrameRate_Apply :: "'w env \<Rightarrow> jobj option \<Rightarrow> 'w ctx \<Rightarrow> int \<times> 'w ctx" where
  "FrameRate_Apply E obj s =
     (let framerate = stored (frame_rate (pq s));
          aux = \<lparr>fr_num = get_u32 E obj NUM (fr_num framerate),
                 fr_denom = get_u32 E obj DEN (fr_denom framerate)\<rparr>
      in apply_property E (FrameRate aux)
           ''FrameRate property failed to be set. Please use valid values for num and denom.'' s)"

section \<open>Auto exposure\<close>

definition AutoExposure_validations :: "Validation list" where
  "AutoExposure_validations = [VGe MAX_EXPOSURE_TIME 0, VGe MIN_EXPOSURE_TIME 0,
     VGe CONVERGENCE_SPEED 0, VTy MAX_EXPOSURE_TIME JSONNumber, VTy MIN_EXPOSURE_TIME JSONNumber,
     VTy MAX_GAIN JSONNumber, VTy CONVERGENCE_SPEED JSONNumber]"

definition AutoExposure_InitializeValues :: "'w env \<Rightarrow> 'w ctx \<Rightarrow> 'w ctx" where
  "AutoExposure_InitializeValues E s =
     (let old = stored (auto_exposure (pq s));
          (res, value, s') = SensorStreamGetProperty E (sensor_stream s) (AutoExposure old) s;
          p = (case value of AutoExposure p \<Rightarrow> p | _ \<Rightarrow> old)
      in upd_pq (auto_exposure_update (write_node E AutoExposure_members p)) s')"

definition AutoExposure_Verify :: "'w env \<Rightarrow> jobj option \<Rightarrow> 'w ctx \<Rightarrow> int \<times> 'w ctx" where
  "AutoExposure_Verify E obj s =
     (let (r, s') = JsonObject_Verify E AutoExposure_validations [] obj s;
          ae = stored (auto_exposure (pq s'));
          aux_min = get_u32 E obj MIN_EXPOSURE_TIME (ae_min_exposure_time ae);
          aux_max = get_u32 E obj MAX_EXPOSURE_TIME (ae_max_exposure_time ae)
      in if r \<noteq> 0 then (-1, s')
         else if aux_max < aux_min
         then (-1, report E ''Parameter min_exposure_time can not be greater than max_exposure_time''
                 CODE_INVALID_ARGUMENT s')
         else (0, s'))"

definition AutoExposure_Apply :: "'w env \<Rightarrow> jobj option \<Rightarrow> 'w ctx \<Rightarrow> int \<times> 'w ctx" where
  "AutoExposure_Apply E obj s =
     (let ae = stored (auto_exposure (pq s));
          aux = \<lparr>ae_max_exposure_time = get_u32 E obj MAX_EXPOSURE_TIME (ae_max_exposure_time ae),
                 ae_min_exposure_time = get_u32 E obj MIN_EXPOSURE_TIME (ae_min_exposure_time ae),
                 ae_max_gain = get_f32 E obj MAX_GAIN (ae_max_gain ae),
                 ae_convergence_speed = get_u32 E obj CONVERGENCE_SPEED (ae_convergence_speed ae)\<rparr>
      in apply_property E (AutoExposure aux)
           ''Auto Exposure property failed to be set. Please use valid values for max_exposure_time, min_exposure_time, max_gain and convergence_speed.'' s)"

section \<open>Auto exposure metering\<close>

definition AutoExposureMetering_validations :: "Validation list" where
  "AutoExposureMetering_validations = [VGe MODE 0, VLe MODE 1, VTy MODE JSONNumber, VGe TOP 0,
     VTy TOP JSONNumber, VGe LEFT 0, VTy LEFT JSONNumber, VGe BOTTOM 0, VTy BOTTOM JSONNumber,
     VGe RIGHT 0, VTy RIGHT JSONNumber]"

definition AutoExposureMetering_InitializeValues :: "'w env \<Rightarrow> 'w ctx \<Rightarrow> 'w ctx" where
  "AutoExposureMetering_InitializeValues E s =
     (let old = stored (auto_exposure_metering (pq s));
          (res, value, s') = SensorStreamGetProperty E (sensor_stream s) (AutoExposureMetering old) s;
          p = (case value of AutoExposureMetering p \<Rightarrow> p | _ \<Rightarrow> old)
      in upd_pq (auto_exposure_metering_update (write_node E AutoExposureMetering_members p)) s')"

text \<open>\<open>aux_auto_exposure_metering\<close> of both \<open>Verify\<close> and \<open>Apply\<close>.\<close>

definition AutoExposureMetering_aux ::
  "'w env \<Rightarrow> jobj option \<Rightarrow> AutoExposureMeteringProperty \<Rightarrow> AutoExposureMeteringProperty" where
  "AutoExposureMetering_aux E obj aem =
     \<lparr>aem_mode = get_i32 E obj MODE (aem_mode aem), aem_top = get_u32 E obj TOP (aem_top aem),
      aem_left = get_u32 E obj LEFT (aem_left aem), aem_bottom = get_u32 E obj BOTTOM (aem_bottom aem),
      aem_right = get_u32 E obj RIGHT (aem_right aem)\<rparr>"

definition AutoExposureMetering_Verify :: "'w env \<Rightarrow> jobj option \<Rightarrow> 'w ctx \<Rightarrow> int \<times> 'w ctx" where
  "AutoExposureMetering_Verify E obj s =
     (let (r, s') = JsonObject_Verify E AutoExposureMetering_validations [] obj s;
          aux = AutoExposureMetering_aux E obj (stored (auto_exposure_metering (pq s')))
      in if r \<noteq> 0 then (-1, s')
         else if aem_mode aux = 0 then (0, s')
         else if \<not> aem_top aux < aem_bottom aux
         then (-1, report E ''top not top < bottom'' CODE_INVALID_ARGUMENT s')
         else if \<not> aem_left aux < aem_right aux
         then (-1, report E ''left not left < right'' CODE_INVALID_ARGUMENT s')
         else (0, s'))"

definition AutoExposureMetering_Apply :: "'w env \<Rightarrow> jobj option \<Rightarrow> 'w ctx \<Rightarrow> int \<times> 'w ctx" where
  "AutoExposureMetering_Apply E obj s =
     apply_property E (AutoExposureMetering
         (AutoExposureMetering_aux E obj (stored (auto_exposure_metering (pq s)))))
       ''Auto Exposure Metering property failed to be set. Please use valid values for mode, top, left, bottom and right.'' s"

section \<open>Manual exposure\<close>

definition ManualExposure_validations :: "Validation list" where
  "ManualExposure_validations = [VGe EXPOSURE_TIME 0, VTy EXPOSURE_TIME JSONNumber,
     VTy GAIN JSONNumber]"

definition ManualExposure_InitializeValues :: "'w env \<Rightarrow> 'w ctx \<Rightarrow> 'w ctx" where
  "ManualExposure_InitializeValues E s =
     (let old = stored (manual_exposure (pq s));
          (res, value, s') = SensorStreamGetProperty E (sensor_stream s) (ManualExposure old) s;
          p = (case value of ManualExposure p \<Rightarrow> p | _ \<Rightarrow> old)
      in upd_pq (manual_exposure_update (write_node E ManualExposure_members p)) s')"

definition ManualExposure_Verify :: "'w env \<Rightarrow> jobj option \<Rightarrow> 'w ctx \<Rightarrow> int \<times> 'w ctx" where
  "ManualExposure_Verify E obj s = JsonObject_Verify E ManualExposure_validations [] obj s"

definition ManualExposure_Apply :: "'w env \<Rightarrow> jobj option \<Rightarrow> 'w ctx \<Rightarrow> int \<times> 'w ctx" where
  "ManualExposure_Apply E obj s =
     (let me = stored (manual_exposure (pq s));
          aux = \<lparr>me_exposure_time = get_u32 E obj EXPOSURE_TIME (me_exposure_time me),
                 me_gain = get_f32 E obj GAIN (me_gain me)\<rparr>
      in apply_property E (ManualExposure aux)
           ''Manual Exposure property failed to be set. Please use valid values for exposure_time and gain.'' s)"

section \<open>Auto white balance\<close>

definition AutoWhiteBalance_validations :: "Validation list" where
  "AutoWhiteBalance_validations = [VGe CONVERGENCE_SPEED 0, VTy CONVERGENCE_SPEED JSONNumber]"

definition AutoWhiteBalance_InitializeValues :: "'w env \<Rightarrow> 'w ctx \<Rightarrow> 'w ctx" where
  "AutoWhiteBalance_InitializeValues E s =
     (let old = stored (auto_white_balance (pq s));
          (res, value, s') = SensorStreamGetProperty E (sensor_stream s) (AutoWhiteBalance old) s;
          p = (case value of AutoWhiteBalance p \<Rightarrow> p | _ \<Rightarrow> old)
      in upd_pq (auto_white_balance_update (write_node E AutoWhiteBalance_members p)) s')"

definition AutoWhiteBalance_Verify :: "'w env \<Rightarrow> jobj option \<Rightarrow> 'w ctx \<Rightarrow> int \<times> 'w ctx" where
  "AutoWhiteBalance_Verify E obj s = JsonObject_Verify E AutoWhiteBalance_validations [] obj s"

definition AutoWhiteBalance_Apply :: "'w env \<Rightarrow> jobj option \<Rightarrow> 'w ctx \<Rightarrow> int \<times> 'w ctx" where
  "AutoWhiteBalance_Apply E obj s =
     (let wb_speed = stored (auto_white_balance (pq s));
          aux = \<lparr>awb_convergence_speed = get_u32 E obj CONVERGENCE_SPEED (awb_convergence_speed wb_speed)\<rparr>
      in apply_property E (AutoWhiteBalance aux)
           ''Auto White Balance property failed to be set. Please use valid values for convergence_speed.'' s)"

section \<open>Manual white balance preset\<close>

definition ManualWhiteBalancePreset_validations :: "Validation list" where
  "ManualWhiteBalancePreset_validations = [VGe COLOR_TEMPERATURE 0, VLe COLOR_TEMPERATURE 3,
     VTy COLOR_TEMPERATURE JSONNumber]"

text \<open>Here the JSON shows the enumeration's number while the member keeps the value in kelvin.\<close>

definition ManualWhiteBalancePreset_InitializeValues :: "'w env \<Rightarrow> 'w ctx \<Rightarrow> 'w ctx" where
  "ManualWhiteBalancePreset_InitializeValues E s =
     (let old = stored (manual_white_balance_preset (pq s));
          (res, value, s') = SensorStreamGetProperty E (sensor_stream s) (ManualWhiteBalancePreset old) s;
          p = (case value of ManualWhiteBalancePreset p \<Rightarrow> p | _ \<Rightarrow> old)
      in upd_pq (manual_white_balance_preset_update (write_node E
           (\<lambda>p. [(COLOR_TEMPERATURE, rat_of_u32 (TEMP_num (temperature_value_to_enum (mwb_color_temperature p))))])
           p)) s')"

definition ManualWhiteBalancePreset_Verify :: "'w env \<Rightarrow> jobj option \<Rightarrow> 'w ctx \<Rightarrow> int \<times> 'w ctx" where
  "ManualWhiteBalancePreset_Verify E obj s =
     JsonObject_Verify E ManualWhiteBalancePreset_validations [] obj s"

definition ManualWhiteBalancePreset_Apply :: "'w env \<Rightarrow> jobj option \<Rightarrow> 'w ctx \<Rightarrow> int \<times> 'w ctx" where
  "ManualWhiteBalancePreset_Apply E obj s =
     (let aux = \<lparr>mwb_color_temperature =
            (if json_object_has_value E obj COLOR_TEMPERATURE
             then temperature_enum_to_value
               (cast_i32 (undef_conv E) (json_object_get_number E obj COLOR_TEMPERATURE))
             else mwb_color_temperature (stored (manual_white_balance_preset (pq s))))\<rparr>
      in apply_property E (ManualWhiteBalancePreset aux)
           ''Manual White Balance property failed to be set. Please use valid values for color_temperature.'' s)"

section \<open>Image cropping\<close>

definition ImageCropping_validations :: "Validation list" where
  "ImageCropping_validations = [VGe LEFT 0, VGe TOP 0, VGe WIDTH 0, VGe HEIGHT 0,
     VTy LEFT JSONNumber, VTy TOP JSONNumber, VTy WIDTH JSONNumber, VTy HEIGHT JSONNumber]"

definition ImageCropping_InitializeValues :: "'w env \<Rightarrow> 'w ctx \<Rightarrow> 'w ctx" where
  "ImageCropping_InitializeValues E s =
     (let old = stored (image_cropping (pq s));
          (res, value, s') = SensorStreamGetProperty E (sensor_stream s) (ImageCrop old) s;
          p = (case value of ImageCrop p \<Rightarrow> p | _ \<Rightarrow> old)
      in upd_pq (image_cropping_update (write_node E ImageCropping_members p)) s')"

definition ImageCropping_Verify :: "'w env \<Rightarrow> jobj option \<Rightarrow> 'w ctx \<Rightarrow> int \<times> 'w ctx" where
  "ImageCropping_Verify E obj s = JsonObject_Verify E ImageCropping_validations [] obj s"

text \<open>The only object whose response code depends on what senscord says went wrong.\<close>

definition ImageCropping_Apply :: "'w env \<Rightarrow> jobj option \<Rightarrow> 'w ctx \<Rightarrow> int \<times> 'w ctx" where
  "ImageCropping_Apply E obj s =
     (let icr = stored (image_cropping (pq s));
          aux = \<lparr>icr_left = get_u32 E obj LEFT (icr_left icr), icr_top = get_u32 E obj TOP (icr_top icr),
                 icr_width = get_u32 E obj WIDTH (icr_width icr),
                 icr_height = get_u32 E obj HEIGHT (icr_height icr)\<rparr>;
          (res, s') = SensorStreamSetProperty E (sensor_stream s) (ImageCrop aux) s;
          code = CodeFromSensorErrorCause (senscord_last_error_cause E (world s')) CODE_INVALID_ARGUMENT
      in (res, if res \<noteq> 0
               then report E ''Image Crop property failed to be set. Please use valid values for left, top, width and height.''
                      code s'
               else s'))"

end
