(* ===== verification/Registers.thy ===== *)
theory Registers
  imports PqObjects
begin

text \<open>
  \<open>register_access.cpp\<close> and \<open>register_access_array.cpp\<close>: an array of at most four register writes.
  The items are kept between two configurations, an item whose write failed has its JSON object
  freed, and the reported array holds the objects of the items that succeeded.
\<close>

definition MAX_REGISTER_ACCESS_COUNT :: nat where "MAX_REGISTER_ACCESS_COUNT = 4"

definition LOGBUGSIZE :: nat where "LOGBUGSIZE = 256"

section \<open>One item\<close>

definition RegisterAccess_validations :: "Validation list" where
  "RegisterAccess_validations = [VTy BIT_LENGTH JSONNumber, VGe BIT_LENGTH 0, VLe BIT_LENGTH 3,
     VGe ID 0, VLe ID 4294967295, VTy ID JSONNumber, VTy ADDRESS JSONString, VTy DATA JSONString]"

definition RegisterAccess_new :: RegisterAccess where
  "RegisterAccess_new = \<lparr>ra_json_obj = [],
     ra_property = \<lparr>rap_id = 0, rap_address = 0, rap_data = 0, rap_bit_length = 0\<rparr>,
     ra_failed = False\<rparr>"

definition RegisterAccess_InitializeValues :: "'w env \<Rightarrow> RegisterAccess \<Rightarrow> RegisterAccess" where
  "RegisterAccess_InitializeValues E ra = ra\<lparr>ra_json_obj :=
     json_object_set_string E
       (json_object_set_string E
         (json_object_set_number E (json_object_set_number E (ra_json_obj ra) BIT_LENGTH 0) ID 0)
         ADDRESS (Some ''''))
       DATA (Some '''')\<rparr>"

definition RegisterAccess_SetFailed :: "RegisterAccess \<Rightarrow> RegisterAccess" where
  "RegisterAccess_SetFailed ra =
     (if \<not> ra_failed ra then ra\<lparr>ra_failed := True, ra_json_obj := []\<rparr> else ra)"

definition RegisterAccess_Reuse :: "RegisterAccess \<Rightarrow> RegisterAccess" where
  "RegisterAccess_Reuse ra = ra\<lparr>ra_json_obj := [], ra_failed := False\<rparr>"

definition RegisterAccess_Verify :: "'w env \<Rightarrow> jobj option \<Rightarrow> 'w ctx \<Rightarrow> int \<times> 'w ctx" where
  "RegisterAccess_Verify E obj s =
     (let (r, s') = JsonObject_Verify E RegisterAccess_validations [] obj s
      in if r = 0
            \<and> (\<not> json_object_has_value E obj BIT_LENGTH \<or> \<not> json_object_has_value E obj ID
               \<or> \<not> json_object_has_value E obj ADDRESS \<or> \<not> json_object_has_value E obj DATA)
         then (-1, report E ''Some register access property missing. Please set valid values for bit_length, id, address and data.''
                 CODE_INVALID_ARGUMENT s')
         else (r, s'))"

text \<open>
  The string of a member, parsed; 0 where it is missing. \<open>None\<close> is \<open>strtoull\<close> on a null pointer,
  the member being present but no string.
\<close>

definition get_u64 :: "'w env \<Rightarrow> jobj option \<Rightarrow> string \<Rightarrow> nat \<Rightarrow> u64 option" where
  "get_u64 E obj k base =
     (if json_object_has_value E obj k
      then map_option (\<lambda>t. strtoull t base) (json_object_get_string E obj k)
      else Some 0)"

definition register_property :: "int \<Rightarrow> u32 \<Rightarrow> u64 \<Rightarrow> u64 \<Rightarrow> sensor_property option" where
  "register_property bit_length rid address data =
     (if bit_length = 0 then Some (RegisterAccess8 rid address (ucast data))
      else if bit_length = 1 then Some (RegisterAccess16 rid address (ucast data))
      else if bit_length = 2 then Some (RegisterAccess32 rid address (ucast data))
      else if bit_length = 3 then Some (RegisterAccess64 rid address data)
      else None)"

definition RegisterAccess_Apply :: "'w env \<Rightarrow> jobj option \<Rightarrow> 'w ctx \<Rightarrow> int \<times> 'w ctx" where
  "RegisterAccess_Apply E obj s =
     (case (get_u64 E obj ADDRESS 16, get_u64 E obj DATA 10) of
        (Some address, Some data) \<Rightarrow>
          (let bit_length = get_i32 E obj BIT_LENGTH 0;
               rid = get_u32 E obj ID 0;
               (res, s') = (case register_property bit_length rid address data of
                  Some p \<Rightarrow> SensorStreamSetProperty E (sensor_stream s) p s
                | None \<Rightarrow> (-1, s))
           in (res, if res \<noteq> 0
                    then report E ''Register access property failed to be set. Please use valid values for bit_length, id, address and data.''
                           CODE_INVALID_ARGUMENT s'
                    else s'))
      | _ \<Rightarrow> (0, undefined_step s))"

section \<open>The array\<close>

abbreviation upd_raa :: "(RegisterAccessArray \<Rightarrow> RegisterAccessArray) \<Rightarrow> 'w ctx \<Rightarrow> 'w ctx" where
  "upd_raa f s \<equiv> upd_pq (pq_register_access_update f) s"


fun verify_registers :: "'w env \<Rightarrow> json list \<Rightarrow> 'w ctx \<Rightarrow> int \<times> 'w ctx" where
  "verify_registers E [] s = (0, s)"
| "verify_registers E (j # js) s =
     (let (ret2, s') = RegisterAccess_Verify E (json_as_object j) s
      in if ret2 = -1 then (-1, s') else verify_registers E js s')"

text \<open>\<open>%zu\<close> and \<open>%d\<close>.\<close>

definition RegisterAccessArray_Verify :: "'w env \<Rightarrow> json list \<Rightarrow> 'w ctx \<Rightarrow> int \<times> 'w ctx" where
  "RegisterAccessArray_Verify E array s =
     (if MAX_REGISTER_ACCESS_COUNT < length array
      then (-1, report E (snprintf LOGBUGSIZE
              (''register_access array ('' @ show_nat (length array) @ '') over max length (''
                @ show_nat MAX_REGISTER_ACCESS_COUNT @ '').''))
              CODE_INVALID_ARGUMENT s)
      else verify_registers E array s)"

text \<open>Item \<open>k\<close> is appended or reused before it is applied.\<close>

definition prepare_register :: "'w env \<Rightarrow> nat \<Rightarrow> RegisterAccessArray \<Rightarrow> RegisterAccessArray" where
  "prepare_register E k raa =
     (let items = register_access_array raa
      in raa\<lparr>register_access_array :=
              (if length items \<le> k
               then items @ [RegisterAccess_InitializeValues E RegisterAccess_new]
               else items[k := RegisterAccess_Reuse (items ! k)]),
             register_access_array_index := int k\<rparr>)"

definition finish_register :: "int \<Rightarrow> nat \<Rightarrow> RegisterAccessArray \<Rightarrow> RegisterAccessArray" where
  "finish_register ret2 k raa =
     (if ret2 = -1
      then raa\<lparr>register_access_array :=
             (register_access_array raa)[k := RegisterAccess_SetFailed (register_access_array raa ! k)]\<rparr>
      else raa\<lparr>raa_json_array := raa_json_array raa @ [k]\<rparr>)"

fun apply_registers :: "'w env \<Rightarrow> json list \<Rightarrow> nat \<Rightarrow> int \<Rightarrow> 'w ctx \<Rightarrow> int \<times> 'w ctx" where
  "apply_registers E [] k res s = (res, s)"
| "apply_registers E (j # js) k res s =
     (let (ret2, s') = RegisterAccess_Apply E (json_as_object j) (upd_raa (prepare_register E k) s)
      in apply_registers E js (Suc k) (if ret2 = -1 then -1 else res)
           (upd_raa (finish_register ret2 k) s'))"

definition RegisterAccessArray_Apply :: "'w env \<Rightarrow> json list \<Rightarrow> 'w ctx \<Rightarrow> int \<times> 'w ctx" where
  "RegisterAccessArray_Apply E array s =
     (let valid = take MAX_REGISTER_ACCESS_COUNT array;
          (res, s') = apply_registers E valid 0 0 (upd_raa (raa_json_array_update (\<lambda>_. [])) s)
      in (res, upd_raa (register_access_array_update (take (length valid))) s'))"

text \<open>The array as the cloud sees it.\<close>

definition RegisterAccessArray_json :: "RegisterAccessArray \<Rightarrow> json" where
  "RegisterAccessArray_json raa =
     JArray (map (\<lambda>k. JObject (ra_json_obj (register_access_array raa ! k))) (raa_json_array raa))"

end
