(* ===== verification/PqSettingsModel.thy ===== *)
theory PqSettingsModel
  imports Registers
begin

text \<open>
  \<open>objects/common_settings/pq_settings.cpp\<close>: the picture-quality settings as a whole, with the
  tables of validations and of nested objects, the scalar settings and the gamma parameter.
\<close>

section \<open>Tables\<close>

definition PqSettings_validations :: "Validation list" where
  "PqSettings_validations =
    [VTy CAMERA_IMAGE_SIZE JSONObject, VTy CAMERA_IMAGE_FLIP JSONObject, VTy DIGITAL_ZOOM JSONNumber,
     VTy EXPOSURE_MODE JSONNumber, VTy AUTO_EXPOSURE JSONObject, VTy AUTO_EXPOSURE_METERING JSONObject,
     VTy EV_COMPENSATION JSONNumber, VTy AE_ANTI_FLICKER_MODE JSONNumber,
     VTy MANUAL_EXPOSURE JSONObject, VTy FRAME_RATE JSONObject, VTy WHITE_BALANCE_MODE JSONNumber,
     VTy AUTO_WHITE_BALANCE JSONObject, VTy MANUAL_WHITE_BALANCE_PRESET JSONObject,
     VTy IMAGE_CROPPING JSONObject, VTy IMAGE_ROTATION JSONNumber,
     VGe IMAGE_ROTATION 0, VLe IMAGE_ROTATION 3,
     VGe AE_ANTI_FLICKER_MODE 0, VLe AE_ANTI_FLICKER_MODE 3,
     VGe WHITE_BALANCE_MODE 0, VLe WHITE_BALANCE_MODE 1,
     VGe EXPOSURE_MODE 0, VLe EXPOSURE_MODE 3, VNe EXPOSURE_MODE 1, VNe EXPOSURE_MODE 2,
     VTy REGISTER_ACCESS JSONArray,
     VGe GAMMA_MODE 0, VLe GAMMA_MODE 1, VTy GAMMA_PARAMETER JSONString]"

definition PqSettings_verifiers :: "'w env \<Rightarrow> (string \<times> 'w verifier) list" where
  "PqSettings_verifiers E =
    [(CAMERA_IMAGE_SIZE, CameraImageSize_Verify E), (CAMERA_IMAGE_FLIP, CameraImageFlip_Verify E),
     (AUTO_EXPOSURE, AutoExposure_Verify E), (AUTO_EXPOSURE_METERING, AutoExposureMetering_Verify E),
     (MANUAL_EXPOSURE, ManualExposure_Verify E), (FRAME_RATE, FrameRate_Verify E),
     (AUTO_WHITE_BALANCE, AutoWhiteBalance_Verify E),
     (MANUAL_WHITE_BALANCE_PRESET, ManualWhiteBalancePreset_Verify E),
     (IMAGE_CROPPING, ImageCropping_Verify E)]"

definition PqSettings_appliers :: "'w env \<Rightarrow> (string \<times> 'w verifier) list" where
  "PqSettings_appliers E =
    [(CAMERA_IMAGE_SIZE, CameraImageSize_Apply E), (CAMERA_IMAGE_FLIP, CameraImageFlip_Apply E),
     (AUTO_EXPOSURE, AutoExposure_Apply E), (AUTO_EXPOSURE_METERING, AutoExposureMetering_Apply E),
     (MANUAL_EXPOSURE, ManualExposure_Apply E), (FRAME_RATE, FrameRate_Apply E),
     (AUTO_WHITE_BALANCE, AutoWhiteBalance_Apply E),
     (MANUAL_WHITE_BALANCE_PRESET, ManualWhiteBalancePreset_Apply E),
     (IMAGE_CROPPING, ImageCropping_Apply E)]"

section \<open>Initial values\<close>

definition zero_node :: "'p \<Rightarrow> 'p node" where
  "zero_node p = \<lparr>json_obj = [], stored = p\<rparr>"

text \<open>
  The constructor. Its \<open>json_set_null\<close> calls are part of it; \<open>malloc_ok\<close> says whether there is
  memory for the gamma parameter, without which the JSON objects are not linked.
\<close>

definition PqSettings_new :: "'w env \<Rightarrow> bool \<Rightarrow> PqSettings" where
  "PqSettings_new E mem =
     \<lparr>pq_json_obj =
        (if mem
         then foldl (\<lambda>o' k. json_object_set_value E o' k JNull) []
           [DIGITAL_ZOOM, EXPOSURE_MODE, EV_COMPENSATION, AE_ANTI_FLICKER_MODE, WHITE_BALANCE_MODE,
            IMAGE_ROTATION, GAMMA_MODE, GAMMA_PARAMETER]
         else []),
      camera_image_size = zero_node \<lparr>cis_width = 0, cis_height = 0, cis_scaling_policy = 0\<rparr>,
      camera_image_flip = zero_node \<lparr>cif_flip_horizontal = False, cif_flip_vertical = False\<rparr>,
      frame_rate = zero_node \<lparr>fr_num = 0, fr_denom = 0\<rparr>,
      auto_white_balance = zero_node \<lparr>awb_convergence_speed = 0\<rparr>,
      manual_white_balance_preset = zero_node \<lparr>mwb_color_temperature = 0\<rparr>,
      image_cropping = zero_node \<lparr>icr_left = 0, icr_top = 0, icr_width = 0, icr_height = 0\<rparr>,
      auto_exposure = zero_node \<lparr>ae_max_exposure_time = 0, ae_min_exposure_time = 0, ae_max_gain = 0,
        ae_convergence_speed = 0\<rparr>,
      auto_exposure_metering = zero_node \<lparr>aem_mode = 0, aem_top = 0, aem_left = 0, aem_bottom = 0,
        aem_right = 0\<rparr>,
      manual_exposure = zero_node \<lparr>me_exposure_time = 0, me_gain = 0\<rparr>,
      pq_register_access = \<lparr>register_access_array = [], register_access_array_index = -1,
        raa_json_array = []\<rparr>,
      digital_zoom = None, exposure_mode = None, image_rotation = None, ev_compensation_val = None,
      ae_anti_flicker_mode = None, white_balance_mode = None, gamma_mode = None,
      gamma_param = (if mem then Some \<lparr>gp_gamma_mode = 0, gp_param_size = 0,
        gp_gamma_parameter = replicate AI_MODEL_GAMMA_PARAMETER_SIZE 0\<rparr> else None)\<rparr>"

text \<open>Reading a scalar: the buffer is zero before senscord fills it.\<close>

definition get_scalar ::
  "'w env \<Rightarrow> sensor_property \<Rightarrow> (sensor_property \<Rightarrow> rat option) \<Rightarrow> 'w ctx \<Rightarrow> rat \<times> 'w ctx" where
  "get_scalar E zero sel s =
     (let (res, value, s') = SensorStreamGetProperty E (sensor_stream s) zero s
      in (case sel value of Some v \<Rightarrow> v | None \<Rightarrow> 0, s'))"

definition init_DigitalZoom :: "'w env \<Rightarrow> 'w ctx \<Rightarrow> 'w ctx" where
  "init_DigitalZoom E s =
     (let (v, s') = get_scalar E (DigitalZoom 0) (\<lambda>p. case p of DigitalZoom v \<Rightarrow> Some v | _ \<Rightarrow> None) s
      in upd_pq (\<lambda>q. q\<lparr>pq_json_obj := json_object_set_number E (pq_json_obj q) DIGITAL_ZOOM v,
                      digital_zoom := Some v\<rparr>) s')"

definition init_ExposureMode :: "'w env \<Rightarrow> 'w ctx \<Rightarrow> 'w ctx" where
  "init_ExposureMode E s =
     (let (v, s') = get_scalar E (ExposureMode 0)
            (\<lambda>p. case p of ExposureMode n \<Rightarrow> Some (of_int n) | _ \<Rightarrow> None) s
      in upd_pq (\<lambda>q. q\<lparr>pq_json_obj := json_object_set_number E (pq_json_obj q) EXPOSURE_MODE v,
                      exposure_mode := Some (f32 v)\<rparr>) s')"

definition init_EvCompensation :: "'w env \<Rightarrow> 'w ctx \<Rightarrow> 'w ctx" where
  "init_EvCompensation E s =
     (let (v, s') = get_scalar E (EvCompensation 0) (\<lambda>p. case p of EvCompensation v \<Rightarrow> Some v | _ \<Rightarrow> None) s
      in upd_pq (\<lambda>q. q\<lparr>pq_json_obj := json_object_set_number E (pq_json_obj q) EV_COMPENSATION v,
                      ev_compensation_val := Some v\<rparr>) s')"

definition init_AeAntiFlickerMode :: "'w env \<Rightarrow> 'w ctx \<Rightarrow> 'w ctx" where
  "init_AeAntiFlickerMode E s =
     (let (v, s') = get_scalar E (AntiFlickerMode 0)
            (\<lambda>p. case p of AntiFlickerMode n \<Rightarrow> Some (of_int n) | _ \<Rightarrow> None) s
      in upd_pq (\<lambda>q. q\<lparr>pq_json_obj := json_object_set_number E (pq_json_obj q) AE_ANTI_FLICKER_MODE v,
                      ae_anti_flicker_mode := Some (f32 v)\<rparr>) s')"

definition init_WhiteBalanceMode :: "'w env \<Rightarrow> 'w ctx \<Rightarrow> 'w ctx" where
  "init_WhiteBalanceMode E s =
     (let (v, s') = get_scalar E (WhiteBalanceMode 0)
            (\<lambda>p. case p of WhiteBalanceMode n \<Rightarrow> Some (of_int n) | _ \<Rightarrow> None) s
      in upd_pq (\<lambda>q. q\<lparr>pq_json_obj := json_object_set_number E (pq_json_obj q) WHITE_BALANCE_MODE v,
                      white_balance_mode := Some (f32 v)\<rparr>) s')"

definition init_ImageRotation :: "'w env \<Rightarrow> 'w ctx \<Rightarrow> 'w ctx" where
  "init_ImageRotation E s =
     (let (v, s') = get_scalar E (ImageRotation 0)
            (\<lambda>p. case p of ImageRotation n \<Rightarrow> Some (of_int n) | _ \<Rightarrow> None) s
      in upd_pq (\<lambda>q. q\<lparr>pq_json_obj := json_object_set_number E (pq_json_obj q) IMAGE_ROTATION v,
                      image_rotation := Some (f32 v)\<rparr>) s')"

definition init_Gamma :: "'w env \<Rightarrow> 'w ctx \<Rightarrow> 'w ctx" where
  "init_Gamma E s =
     (let (v, s') = get_scalar E (GammaMode 0)
            (\<lambda>p. case p of GammaMode n \<Rightarrow> Some (of_int n) | _ \<Rightarrow> None) s
      in upd_pq (\<lambda>q. q\<lparr>
           pq_json_obj := (let o' = json_object_set_number E (pq_json_obj q) GAMMA_MODE v
             in if gamma_param q = None then o'
                else json_object_set_string E o' GAMMA_PARAMETER (Some '''')),
           gamma_mode := Some (f32 v),
           gamma_param := map_option (\<lambda>_. \<lparr>gp_gamma_mode = cast_i32 (undef_conv E) (f32 v),
             gp_param_size = 0, gp_gamma_parameter = replicate AI_MODEL_GAMMA_PARAMETER_SIZE 0\<rparr>)
             (gamma_param q)\<rparr>) s')"

definition PqSettings_InitializeValues :: "'w env \<Rightarrow> 'w ctx \<Rightarrow> 'w ctx" where
  "PqSettings_InitializeValues E s =
     (let s = CameraImageSize_InitializeValues E s;
          s = CameraImageFlip_InitializeValues E s;
          s = init_DigitalZoom E s;
          s = init_ExposureMode E s;
          s = AutoExposure_InitializeValues E s;
          s = AutoExposureMetering_InitializeValues E s;
          s = init_EvCompensation E s;
          s = init_AeAntiFlickerMode E s;
          s = ManualExposure_InitializeValues E s;
          s = FrameRate_InitializeValues E s;
          s = init_WhiteBalanceMode E s;
          s = AutoWhiteBalance_InitializeValues E s;
          s = ManualWhiteBalancePreset_InitializeValues E s;
          s = ImageCropping_InitializeValues E s;
          s = init_ImageRotation E s
      in init_Gamma E s)"

section \<open>Verify\<close>

definition PqSettings_Verify :: "'w env \<Rightarrow> jobj option \<Rightarrow> 'w ctx \<Rightarrow> int \<times> 'w ctx" where
  "PqSettings_Verify E obj s =
     (let (ret, s') = JsonObject_Verify E PqSettings_validations (PqSettings_verifiers E) obj s
      in if ret = 0 \<and> json_object_has_value E obj REGISTER_ACCESS
         then (case json_object_get_array E obj REGISTER_ACCESS of
                 None \<Rightarrow> (ret, s')
               | Some array \<Rightarrow> RegisterAccessArray_Verify E array s')
         else (ret, s'))"

section \<open>Apply\<close>

definition ApplyDigitalZoom :: "'w env \<Rightarrow> rat \<Rightarrow> 'w ctx \<Rightarrow> int \<times> 'w ctx" where
  "ApplyDigitalZoom E x s = apply_property E (DigitalZoom (f32 x))
     ''Digital Zoom property failed to be set. Please use valid values for digital_zoom.'' s"

definition ApplyExposureMode :: "'w env \<Rightarrow> rat \<Rightarrow> 'w ctx \<Rightarrow> int \<times> 'w ctx" where
  "ApplyExposureMode E x s = apply_property E (ExposureMode (cast_i32 (undef_conv E) x))
     ''Camera Exposure Mode property failed to be set. Please use valid values for exposure_mode.'' s"

definition ApplyImageRotation :: "'w env \<Rightarrow> rat \<Rightarrow> 'w ctx \<Rightarrow> int \<times> 'w ctx" where
  "ApplyImageRotation E x s = apply_property E (ImageRotation (cast_i32 (undef_conv E) x))
     ''Image Rotation property failed to be set. Please use valid values for image_rotation.'' s"

definition ApplyEvCompensationVal :: "'w env \<Rightarrow> rat \<Rightarrow> 'w ctx \<Rightarrow> int \<times> 'w ctx" where
  "ApplyEvCompensationVal E x s = apply_property E (EvCompensation (f32 x))
     ''Ev Compensation property failed to be set. Please use valid values for ev_compensation.'' s"

definition ApplyAeAntiFlickerMode :: "'w env \<Rightarrow> rat \<Rightarrow> 'w ctx \<Rightarrow> int \<times> 'w ctx" where
  "ApplyAeAntiFlickerMode E x s = apply_property E (AntiFlickerMode (cast_i32 (undef_conv E) x))
     ''Anti Flicker Mode property failed to be set. Please use valid values for ae_anti_flicker_mode.'' s"

definition ApplyWhiteBalanceMode :: "'w env \<Rightarrow> rat \<Rightarrow> 'w ctx \<Rightarrow> int \<times> 'w ctx" where
  "ApplyWhiteBalanceMode E x s = apply_property E (WhiteBalanceMode (cast_i32 (undef_conv E) x))
     ''White Balance Mode property failed to be set. Please use valid values for white_balance_mode.'' s"

definition ApplyGammaMode :: "'w env \<Rightarrow> rat \<Rightarrow> 'w ctx \<Rightarrow> int \<times> 'w ctx" where
  "ApplyGammaMode E x s = apply_property E (GammaMode (cast_i32 (undef_conv E) x))
     ''Gamma Mode property failed to be set. Please use valid values for gamma_mode.'' s"

text \<open>
  \<open>b64_decode\<close> writes its result into an array of \<open>AI_MODEL_GAMMA_PARAMETER_SIZE\<close> bytes and returns
  how many it wrote. \<open>strnlen\<close> stops at \<open>max_string_len\<close>.
\<close>

definition ApplyGammaParameter :: "'w env \<Rightarrow> string \<Rightarrow> 'w ctx \<Rightarrow> int \<times> 'w ctx" where
  "ApplyGammaParameter E gamma_parameter s =
     (let max_string_len = b64e_size E AI_MODEL_GAMMA_PARAMETER_SIZE + 1
      in if min (length gamma_parameter) max_string_len = max_string_len then (-1, s)
         else if \<not> malloc_ok E (world s) then (-1, s)
         else let decoded = b64_decode E gamma_parameter
         in if AI_MODEL_GAMMA_PARAMETER_SIZE < length decoded then (0, undefined_step s)
         else apply_property E (GammaParameter
                \<lparr>gp_gamma_mode = (case gamma_mode (pq s) of
                      Some x \<Rightarrow> cast_i32 (undef_conv E) x | None \<Rightarrow> undef_conv E 0),
                 gp_param_size = of_nat (length decoded),
                 gp_gamma_parameter = overwrite decoded (replicate AI_MODEL_GAMMA_PARAMETER_SIZE 0)\<rparr>)
              ''Gamma Parameter property failed to be set. Please use valid values for gamma_parameter.'' s)"

definition PqSettings_funcs :: "'w env \<Rightarrow> (string \<times> (rat \<Rightarrow> 'w ctx \<Rightarrow> int \<times> 'w ctx)) list" where
  "PqSettings_funcs E =
    [(DIGITAL_ZOOM, ApplyDigitalZoom E), (EXPOSURE_MODE, ApplyExposureMode E),
     (EV_COMPENSATION, ApplyEvCompensationVal E), (AE_ANTI_FLICKER_MODE, ApplyAeAntiFlickerMode E),
     (WHITE_BALANCE_MODE, ApplyWhiteBalanceMode E), (IMAGE_ROTATION, ApplyImageRotation E),
     (GAMMA_MODE, ApplyGammaMode E)]"

fun apply_funcs ::
  "'w env \<Rightarrow> (string \<times> (rat \<Rightarrow> 'w ctx \<Rightarrow> int \<times> 'w ctx)) list \<Rightarrow> jobj option \<Rightarrow> int \<Rightarrow> 'w ctx \<Rightarrow>
   int \<times> 'w ctx" where
  "apply_funcs E [] obj ret s = (ret, s)"
| "apply_funcs E ((k, f) # fs) obj ret s =
     (if json_object_has_value E obj k
      then let (ret2, s') = f (json_object_get_number E obj k) s
           in apply_funcs E fs obj (if ret2 \<noteq> 0 then ret2 else ret) s'
      else apply_funcs E fs obj ret s)"

definition PqSettings_Apply :: "'w env \<Rightarrow> jobj option \<Rightarrow> 'w ctx \<Rightarrow> int \<times> 'w ctx" where
  "PqSettings_Apply E obj s =
     (let (ret, s1) = apply_funcs E (PqSettings_funcs E) obj 0 s;
          s2 = (if json_object_has_value E obj GAMMA_PARAMETER
                then case json_object_get_string E obj GAMMA_PARAMETER of
                       Some t \<Rightarrow> snd (ApplyGammaParameter E t s1) | None \<Rightarrow> s1
                else s1);
          s3 = (if json_object_has_value E obj REGISTER_ACCESS
                then case json_object_get_array E obj REGISTER_ACCESS of
                       Some array \<Rightarrow> snd (RegisterAccessArray_Apply E array s2) | None \<Rightarrow> s2
                else s2);
          (ret3, s4) = JsonObject_Apply E (PqSettings_appliers E) obj s3
      in (if ret3 \<noteq> 0 then ret3 else ret, s4))"

section \<open>The JSON of the settings\<close>

text \<open>
  The members in the order in which the constructor sets them; the scalar ones are those of the
  node itself.
\<close>

definition scalar_member :: "jobj \<Rightarrow> string \<Rightarrow> (string \<times> json) list" where
  "scalar_member o' k = (case map_of o' k of None \<Rightarrow> [] | Some v \<Rightarrow> [(k, v)])"

definition PqSettings_json :: "PqSettings \<Rightarrow> json" where
  "PqSettings_json q = (let o' = pq_json_obj q in
     if gamma_param q = None then JObject o'
     else JObject (concat
       [[(CAMERA_IMAGE_SIZE, JObject (json_obj (camera_image_size q)))],
        [(CAMERA_IMAGE_FLIP, JObject (json_obj (camera_image_flip q)))],
        scalar_member o' DIGITAL_ZOOM, scalar_member o' EXPOSURE_MODE,
        [(AUTO_EXPOSURE, JObject (json_obj (auto_exposure q)))],
        [(AUTO_EXPOSURE_METERING, JObject (json_obj (auto_exposure_metering q)))],
        scalar_member o' EV_COMPENSATION, scalar_member o' AE_ANTI_FLICKER_MODE,
        [(MANUAL_EXPOSURE, JObject (json_obj (manual_exposure q)))],
        [(FRAME_RATE, JObject (json_obj (frame_rate q)))],
        scalar_member o' WHITE_BALANCE_MODE,
        [(AUTO_WHITE_BALANCE, JObject (json_obj (auto_white_balance q)))],
        [(MANUAL_WHITE_BALANCE_PRESET, JObject (json_obj (manual_white_balance_preset q)))],
        [(IMAGE_CROPPING, JObject (json_obj (image_cropping q)))],
        scalar_member o' IMAGE_ROTATION,
        [(REGISTER_ACCESS, RegisterAccessArray_json (pq_register_access q))],
        scalar_member o' GAMMA_MODE, scalar_member o' GAMMA_PARAMETER]))"

end
