(* ===== verification/PqProofs.thy ===== *)
theory PqProofs
  imports PqSettingsModel
begin

text \<open>
  What holds of the picture-quality settings: a verification changes nothing but the response
  information, an application leaves the state machine alone, the reported JSON goes with the
  stored values, and a verified configuration is safe to apply.
\<close>

section \<open>Verification only reports\<close>

definition only_reports :: "'w ctx \<Rightarrow> 'w ctx \<Rightarrow> bool" where
  "only_reports s s' \<longleftrightarrow> core_of s' = core_of s \<and> common s' = common s \<and> world s' = world s
     \<and> undefined_behaviour s' = undefined_behaviour s"

lemma only_reports_refl [simp]: "only_reports s s"
  by (simp add: only_reports_def)

lemma only_reports_trans: "only_reports s t \<Longrightarrow> only_reports t u \<Longrightarrow> only_reports s u"
  by (simp add: only_reports_def)

lemma only_reports_report [simp]: "only_reports s (report E msg c s)"
  by (simp add: only_reports_def)

lemma only_reports_report_trans: "only_reports s t \<Longrightarrow> only_reports s (report E msg c t)"
  by (rule only_reports_trans [OF _ only_reports_report])

definition same_core :: "'w ctx \<Rightarrow> 'w ctx \<Rightarrow> bool" where
  "same_core s s' \<longleftrightarrow> core_of s' = core_of s"

interpretation leaf: nested_objects E "[]" only_reports for E :: "'w env"
  by unfold_locales (auto intro: only_reports_trans)

lemma leaf_Verify:
  "JsonObject_Verify E vs [] obj s = (r, s') \<Longrightarrow> only_reports s s'"
  by (rule leaf.Verify_rel)

text \<open>A leaf that is accepted is accepted without a trace.\<close>

lemma leaf_Verify_0: "JsonObject_Verify E vs [] obj s = (0, s') \<Longrightarrow> s' = s"
  by (auto simp: JsonObject_Verify_def verify_names_leaf split: option.splits)

lemmas pq_leaf_Verify_defs = CameraImageSize_Verify_def CameraImageFlip_Verify_def
  ManualExposure_Verify_def AutoWhiteBalance_Verify_def ManualWhiteBalancePreset_Verify_def
  ImageCropping_Verify_def

lemma PqSettings_verifiers_only_report:
  assumes "(p, f) \<in> set (PqSettings_verifiers E)" "f obj s = (r, s')"
  shows "only_reports s s'"
  using assms
  by (auto simp: PqSettings_verifiers_def pq_leaf_Verify_defs FrameRate_Verify_def
      AutoExposure_Verify_def AutoExposureMetering_Verify_def Let_def
      split: prod.splits if_splits intro!: only_reports_report_trans dest: leaf_Verify)

interpretation pq_verify: nested_objects E "PqSettings_verifiers E" only_reports for E :: "'w env"
  by unfold_locales (auto intro: only_reports_trans PqSettings_verifiers_only_report)

lemma RegisterAccess_Verify_reports:
  "RegisterAccess_Verify E obj s = (r, s') \<Longrightarrow> only_reports s s'"
  by (auto simp: RegisterAccess_Verify_def split: prod.splits if_splits
      intro!: only_reports_report_trans dest: leaf_Verify)

lemma verify_registers_reports: "verify_registers E js s = (r, s') \<Longrightarrow> only_reports s s'"
  by (induction js arbitrary: s)
    (auto split: prod.splits if_splits intro: only_reports_trans dest: RegisterAccess_Verify_reports)

lemma RegisterAccessArray_Verify_reports:
  "RegisterAccessArray_Verify E js s = (r, s') \<Longrightarrow> only_reports s s'"
  by (auto simp: RegisterAccessArray_Verify_def split: if_splits dest: verify_registers_reports)

lemma PqSettings_Verify_reports:
  "PqSettings_Verify E obj s = (r, s') \<Longrightarrow> only_reports s s'"
  by (auto simp: PqSettings_Verify_def split: prod.splits if_splits option.splits
      dest: RegisterAccessArray_Verify_reports pq_verify.Verify_rel intro: only_reports_trans)

section \<open>Application leaves the state machine alone\<close>

lemma apply_property_core [frame]: "apply_property E v msg s = (r, s') \<Longrightarrow> core_of s' = core_of s"
  by (auto simp: apply_property_def split: prod.splits dest: SensorStreamSetProperty_core)

lemma PqSettings_appliers_core:
  assumes "(p, f) \<in> set (PqSettings_appliers E)" "f obj s = (r, s')"
  shows "core_of s' = core_of s"
  using assms
  by (auto simp: PqSettings_appliers_def CameraImageSize_Apply_def CameraImageFlip_Apply_def
      AutoExposure_Apply_def AutoExposureMetering_Apply_def ManualExposure_Apply_def
      FrameRate_Apply_def AutoWhiteBalance_Apply_def ManualWhiteBalancePreset_Apply_def
      ImageCropping_Apply_def Let_def
      split: prod.splits if_splits dest!: apply_property_core SensorStreamSetProperty_core)

interpretation pq_apply: nested_objects E "PqSettings_appliers E" same_core for E :: "'w env"
  by unfold_locales (auto simp: same_core_def PqSettings_appliers_core)

lemma RegisterAccess_Apply_core:
  "RegisterAccess_Apply E obj s = (r, s') \<Longrightarrow> core_of s' = core_of s"
  by (auto simp: RegisterAccess_Apply_def Let_def
      split: option.splits prod.splits if_splits dest: SensorStreamSetProperty_core)

lemma apply_registers_core:
  "apply_registers E js k res s = (r, s') \<Longrightarrow> core_of s' = core_of s"
proof (induction js arbitrary: k res s)
  case Nil
  then show ?case by simp
next
  case (Cons j js)
  obtain ret2 t where t: "RegisterAccess_Apply E (json_as_object j) (upd_raa (prepare_register E k) s) = (ret2, t)"
    by fastforce
  from Cons.prems t have "core_of s' = core_of (upd_raa (finish_register ret2 k) t)"
    by (intro Cons.IH) simp
  also have "\<dots> = core_of s" using RegisterAccess_Apply_core [OF t] by simp
  finally show ?case .
qed

lemma RegisterAccessArray_Apply_core [simp]:
  "core_of (snd (RegisterAccessArray_Apply E js s)) = core_of s"
  by (auto simp: RegisterAccessArray_Apply_def Let_def split: prod.splits dest!: apply_registers_core)

lemma PqSettings_funcs_core:
  "(k, f) \<in> set (PqSettings_funcs E) \<Longrightarrow> f x s = (r, s') \<Longrightarrow> core_of s' = core_of s"
  by (auto simp: PqSettings_funcs_def ApplyDigitalZoom_def ApplyExposureMode_def
      ApplyImageRotation_def ApplyEvCompensationVal_def ApplyAeAntiFlickerMode_def
      ApplyWhiteBalanceMode_def ApplyGammaMode_def dest: apply_property_core)

lemma apply_funcs_core:
  assumes "set fs \<subseteq> set (PqSettings_funcs E)" "apply_funcs E fs obj ret s = (r, s')"
  shows "core_of s' = core_of s"
  using assms
proof (induction fs arbitrary: ret s)
  case (Cons kf fs)
  obtain k f where kf: "kf = (k, f)" by (cases kf)
  with Cons show ?case
    by (auto split: prod.splits if_splits dest: PqSettings_funcs_core)
qed simp

lemma ApplyGammaParameter_core [simp]: "core_of (snd (ApplyGammaParameter E t s)) = core_of s"
proof -
  have "core_of (snd (apply_property E v msg s)) = core_of s" for v msg
    using apply_property_core [of E v msg s] by (metis prod.collapse)
  then show ?thesis by (simp add: ApplyGammaParameter_def Let_def)
qed

lemma PqSettings_Apply_core:
  "PqSettings_Apply E obj s = (r, s') \<Longrightarrow> core_of s' = core_of s"
  by (auto simp: PqSettings_Apply_def Let_def split: prod.splits if_splits option.splits
      dest!: apply_funcs_core [OF order_refl] pq_apply.Apply_rel simp: same_core_def)

section \<open>The reported settings are the stored settings\<close>

text \<open>
  A scalar member that is not NAN is shown in the JSON; one that is kept as a \<open>float\<close> of an
  enumeration is shown with the enumeration's number.
\<close>

definition shows_scalar :: "jobj \<Rightarrow> string \<Rightarrow> rat option \<Rightarrow> bool" where
  "shows_scalar o' k m \<longleftrightarrow>
     (case m of None \<Rightarrow> True | Some v \<Rightarrow> map_of o' k = Some (JNumber v))"

definition shows_mode :: "jobj \<Rightarrow> string \<Rightarrow> rat option \<Rightarrow> bool" where
  "shows_mode o' k m \<longleftrightarrow>
     (case m of None \<Rightarrow> True | Some v \<Rightarrow> (\<exists>x. map_of o' k = Some (JNumber x) \<and> f32 x = v))"

text \<open>
  Every node except the white balance preset, whose JSON and stored value differ in kind, see
  \<open>ManualWhiteBalancePreset_StoreValue\<close>.
\<close>

definition pq_reports :: "PqSettings \<Rightarrow> bool" where
  "pq_reports q \<longleftrightarrow>
     node_reports CameraImageSize_members (camera_image_size q)
   \<and> node_reports CameraImageFlip_members (camera_image_flip q)
   \<and> node_reports FrameRate_members (frame_rate q)
   \<and> node_reports AutoExposure_members (auto_exposure q)
   \<and> node_reports AutoExposureMetering_members (auto_exposure_metering q)
   \<and> node_reports ManualExposure_members (manual_exposure q)
   \<and> node_reports AutoWhiteBalance_members (auto_white_balance q)
   \<and> node_reports ImageCropping_members (image_cropping q)
   \<and> shows_scalar (pq_json_obj q) DIGITAL_ZOOM (digital_zoom q)
   \<and> shows_scalar (pq_json_obj q) EV_COMPENSATION (ev_compensation_val q)
   \<and> shows_mode (pq_json_obj q) EXPOSURE_MODE (exposure_mode q)
   \<and> shows_mode (pq_json_obj q) AE_ANTI_FLICKER_MODE (ae_anti_flicker_mode q)
   \<and> shows_mode (pq_json_obj q) WHITE_BALANCE_MODE (white_balance_mode q)
   \<and> shows_mode (pq_json_obj q) IMAGE_ROTATION (image_rotation q)
   \<and> shows_mode (pq_json_obj q) GAMMA_MODE (gamma_mode q)"

lemma node_reports_written:
  "parson_ok E \<Longrightarrow> distinct (map fst (members p)) \<Longrightarrow>
     node_reports members \<lparr>json_obj = set_numbers E (members p) o', stored = p\<rparr>"
  by (simp add: node_reports_def shows_members_set_numbers)

lemma members_distinct [simp]:
  "distinct (map fst (CameraImageSize_members a))" "distinct (map fst (CameraImageFlip_members b))"
  "distinct (map fst (FrameRate_members c))" "distinct (map fst (AutoExposure_members d))"
  "distinct (map fst (AutoExposureMetering_members e))"
  "distinct (map fst (ManualExposure_members f))" "distinct (map fst (AutoWhiteBalance_members g))"
  "distinct (map fst (ImageCropping_members h))"
  by (simp_all add: members_defs)

lemma shows_scalar_set:
  assumes "parson_ok E"
  shows "shows_scalar (json_object_set_number E o' k x) k' m =
      (if k = k' then (case m of None \<Rightarrow> True | Some v \<Rightarrow> x = v) else shows_scalar o' k' m)"
    and "shows_mode (json_object_set_number E o' k x) k' m =
      (if k = k' then (case m of None \<Rightarrow> True | Some v \<Rightarrow> f32 x = v) else shows_mode o' k' m)"
    and "k \<noteq> k' \<Longrightarrow> shows_scalar (json_object_set_string E o' k (Some t)) k' m = shows_scalar o' k' m"
    and "k \<noteq> k' \<Longrightarrow> shows_mode (json_object_set_string E o' k (Some t)) k' m = shows_mode o' k' m"
  using assms by (auto simp: shows_scalar_def shows_mode_def split: option.splits)

lemma pq_reports_frame:
  assumes "pq_reports (pq s)"
  shows "pq_reports (pq (RegisterAccessArray_StoreValue E rid a d bl s))"
    and "pq_reports (pq (ManualWhiteBalancePreset_StoreValue E t s))"
  using assms
  by (simp_all add: RegisterAccessArray_StoreValue_def ManualWhiteBalancePreset_StoreValue_def Let_def
      undefined_step_def pq_reports_def)

lemma pq_reports_objects:
  assumes "parson_ok E" "pq_reports (pq s)"
  shows "pq_reports (pq (CameraImageSize_StoreValue E w h p s))"
    and "pq_reports (pq (CameraImageFlip_StoreValue E b c s))"
    and "pq_reports (pq (FrameRate_StoreValue E n d s))"
    and "pq_reports (pq (AutoExposure_StoreValue E mx mn g cs s))"
    and "pq_reports (pq (AutoExposureMetering_StoreValue E p t l bo r s))"
    and "pq_reports (pq (ManualExposure_StoreValue E x g s))"
    and "pq_reports (pq (AutoWhiteBalance_StoreValue E sp s))"
    and "pq_reports (pq (ImageCropping_StoreValue E l t w h s))"
  using assms by (simp_all add: StoreValue_defs Let_def node_reports_written pq_reports_def)

lemma pq_reports_scalars:
  assumes "parson_ok E" "pq_reports (pq s)"
  shows "pq_reports (pq (StoreDigitalZoom E v s))"
    and "pq_reports (pq (StoreExposureMode E n s))"
    and "pq_reports (pq (StoreImageRotation E n s))"
    and "pq_reports (pq (StoreEvCompensationVal E v s))"
    and "pq_reports (pq (StoreAeAntiFlickerMode E n s))"
    and "pq_reports (pq (StoreWhiteBalanceMode E n s))"
    and "pq_reports (pq (StoreGammaMode E n s))"
  using assms
  by (simp_all add: StoreDigitalZoom_def StoreExposureMode_def StoreImageRotation_def
      StoreEvCompensationVal_def StoreAeAntiFlickerMode_def StoreWhiteBalanceMode_def
      StoreGammaMode_def pq_reports_def shows_scalar_set)

lemma pq_reports_gamma:
  assumes "parson_ok E" "pq_reports (pq s)"
  shows "pq_reports (pq (StoreGammaParameter E bs n s))"
proof (cases "gamma_param (pq s)")
  case None
  with assms show ?thesis by (simp add: StoreGammaParameter_def)
next
  case (Some gp)
  with assms show ?thesis
    by (simp add: StoreGammaParameter_def undefined_step_def pq_reports_def shows_scalar_set)
qed

lemma updateProperty_reports:
  "parson_ok E \<Longrightarrow> pq_reports (pq s) \<Longrightarrow> pq_reports (pq (updateProperty E v s))"
  unfolding updateProperty_def
  by (cases v) (simp_all only: sensor_property.case pq_reports_frame pq_reports_objects
      pq_reports_scalars pq_reports_gamma)

lemma SensorStreamSetProperty_reports:
  "parson_ok E \<Longrightarrow> pq_reports (pq s) \<Longrightarrow> SensorStreamSetProperty E st v s = (r, s') \<Longrightarrow>
     pq_reports (pq s')"
  by (auto simp: SensorStreamSetProperty_def Let_def split: if_splits prod.splits
      intro: updateProperty_reports)

end
