(* ===== verification/Ports.thy ===== *)
theory Ports
  imports PqProofs
begin

text \<open>
  The other objects of the common settings: the two output ports (\<open>port_setting.cpp\<close>,
  \<open>port_settings.cpp\<close>) with the channels they enable on the sensor
  (\<open>SensorInputDataTypeEnableChannel\<close> of \<open>libs/sensor/src/sensor.cpp\<close>), the codec
  (\<open>codec_settings.cpp\<close>) and the inference settings (\<open>inference_settings.cpp\<close>).
\<close>

section \<open>Channels\<close>

definition AITRIOS_SENSOR_CHANNEL_LIST_MAX :: nat where "AITRIOS_SENSOR_CHANNEL_LIST_MAX = 8"

text \<open>
  The property is the list of the first \<open>count\<close> entries of its array. A channel that is disabled
  is removed at its first occurrence.
\<close>

definition SensorInputDataTypeEnableChannel :: "u32 list \<Rightarrow> u32 \<Rightarrow> bool \<Rightarrow> int \<times> u32 list" where
  "SensorInputDataTypeEnableChannel channels channel_id enable =
     (if enable then
        (if channel_id \<in> set channels then (0, channels)
         else if length channels < AITRIOS_SENSOR_CHANNEL_LIST_MAX then (0, channels @ [channel_id])
         else (-1, channels))
      else (0, remove1 channel_id channels))"

lemma EnableChannel_bound:
  "length channels \<le> AITRIOS_SENSOR_CHANNEL_LIST_MAX \<Longrightarrow>
   SensorInputDataTypeEnableChannel channels c b = (r, channels') \<Longrightarrow>
     length channels' \<le> AITRIOS_SENSOR_CHANNEL_LIST_MAX"
  by (auto simp: SensorInputDataTypeEnableChannel_def length_remove1 split: if_splits)

section \<open>One port\<close>

abbreviation "METHOD \<equiv> ''method''"
abbreviation "STORAGE_NAME \<equiv> ''storage_name''"
abbreviation "ENDPOINT \<equiv> ''endpoint''"
abbreviation "PATH \<equiv> ''path''"
abbreviation "ENABLED \<equiv> ''enabled''"
abbreviation "METADATA \<equiv> ''metadata''"
abbreviation "INPUT_TENSOR \<equiv> ''input_tensor''"
abbreviation "FORMAT \<equiv> ''format''"
abbreviation "NUMBER_OF_ITERATIONS \<equiv> ''number_of_iterations''"

definition PortSetting_new :: "'w env \<Rightarrow> jobj" where
  "PortSetting_new E =
     json_object_set_boolean E
       (json_object_set_string E
         (json_object_set_string E
           (json_object_set_string E (json_object_set_number E [] METHOD 0) STORAGE_NAME (Some ''''))
           ENDPOINT (Some ''''))
         PATH (Some ''''))
       ENABLED 0"

definition copy_string :: "'w env \<Rightarrow> jobj option \<Rightarrow> string \<Rightarrow> jobj \<Rightarrow> jobj" where
  "copy_string E obj k o' =
     (if json_object_has_value E obj k
      then json_object_set_string E o' k (json_object_get_string E obj k) else o')"

definition PortSetting_Apply :: "'w env \<Rightarrow> jobj option \<Rightarrow> jobj \<Rightarrow> jobj" where
  "PortSetting_Apply E obj o' =
     (let o1 = (if json_object_has_value E obj METHOD
                then json_object_set_number E o' METHOD (json_object_get_number E obj METHOD) else o');
          o2 = copy_string E obj STORAGE_NAME o1;
          o3 = copy_string E obj ENDPOINT o2;
          o4 = copy_string E obj PATH o3
      in if json_object_has_value E obj ENABLED
         then json_object_set_boolean E o4 ENABLED (json_object_get_boolean E obj ENABLED) else o4)"

text \<open>\<open>(bool)json_object_get_boolean\<close>: the error value -1 counts as true.\<close>

definition PortSetting_GetEnabled :: "'w env \<Rightarrow> jobj \<Rightarrow> bool" where
  "PortSetting_GetEnabled E o' \<longleftrightarrow> json_object_get_boolean E (Some o') ENABLED \<noteq> 0"

section \<open>Both ports\<close>

abbreviation upd_ports :: "(PortSettings \<Rightarrow> PortSettings) \<Rightarrow> 'w ctx \<Rightarrow> 'w ctx" where
  "upd_ports f s \<equiv> upd_common (port_settings_update f) s"

definition PortSettings_validations :: "Validation list" where
  "PortSettings_validations = [VTy METADATA JSONObject, VTy INPUT_TENSOR JSONObject]"

definition PortSettings_new :: "'w env \<Rightarrow> PortSettings" where
  "PortSettings_new E = \<lparr>ps_metadata = PortSetting_new E, ps_input_tensor = PortSetting_new E\<rparr>"

text \<open>The flag a port will have: that of the incoming object, or else the present one.\<close>

definition new_enable :: "'w env \<Rightarrow> jobj option \<Rightarrow> string \<Rightarrow> jobj \<Rightarrow> int" where
  "new_enable E obj k present =
     (let n = (if json_object_has_value E obj k
               then json_object_get_boolean E (json_object_get_object E obj k) ENABLED else -1)
      in if n = -1 then json_object_get_boolean E (Some present) ENABLED else n)"

definition PortSettings_Verify :: "'w env \<Rightarrow> jobj option \<Rightarrow> 'w ctx \<Rightarrow> int \<times> 'w ctx" where
  "PortSettings_Verify E obj s =
     (let (ret, s') = JsonObject_Verify E PortSettings_validations [] obj (EnableNotification s);
          m = new_enable E obj METADATA (ps_metadata (port_settings (common s')));
          t = new_enable E obj INPUT_TENSOR (ps_input_tensor (port_settings (common s')))
      in if ret \<noteq> 0 then (ret, s')
         else if m = 0 \<and> t = 0
         then (-1, SetDetailMsg E ''Neither input tensor nor metadata are enabled''
                 (SetCode E CODE_INVALID_ARGUMENT s'))
         else if m = -1 \<or> t = -1
         then (-1, SetDetailMsg E ''Input tensor or metadata enable setting missing.''
                 (SetCode E CODE_INVALID_ARGUMENT s'))
         else (0, s'))"

definition ApplyStreamChannels :: "'w env \<Rightarrow> 'w ctx \<Rightarrow> int \<times> 'w ctx" where
  "ApplyStreamChannels E s =
     (let ps = port_settings (common s);
          (_, c1) = SensorInputDataTypeEnableChannel [] 0 (PortSetting_GetEnabled E (ps_metadata ps));
          (_, c2) = SensorInputDataTypeEnableChannel c1 1 (PortSetting_GetEnabled E (ps_input_tensor ps))
      in apply_property E (InputDataType c2) ''Input Data Type property failed to be set.'' s)"

definition PortSettings_Apply :: "'w env \<Rightarrow> jobj option \<Rightarrow> 'w ctx \<Rightarrow> int \<times> 'w ctx" where
  "PortSettings_Apply E obj s =
     (let s1 = (if json_object_has_value E obj METADATA
                then upd_ports (ps_metadata_update
                  (PortSetting_Apply E (json_object_get_object E obj METADATA))) s else s);
          s2 = (if json_object_has_value E obj INPUT_TENSOR
                then upd_ports (ps_input_tensor_update
                  (PortSetting_Apply E (json_object_get_object E obj INPUT_TENSOR))) s1 else s1);
          ps = port_settings (common s2)
      in if \<not> PortSetting_GetEnabled E (ps_input_tensor ps)
            \<and> \<not> PortSetting_GetEnabled E (ps_metadata ps)
         then (-1, s2)
         else let (r, s3) = ApplyStreamChannels E s2 in (if r \<noteq> 0 then -1 else 0, s3))"

definition PortSettings_json :: "PortSettings \<Rightarrow> json" where
  "PortSettings_json ps =
     JObject [(METADATA, JObject (ps_metadata ps)), (INPUT_TENSOR, JObject (ps_input_tensor ps))]"

section \<open>Codec and inference settings\<close>

definition CodecSettings_validations :: "Validation list" where
  "CodecSettings_validations = [VTy FORMAT JSONNumber]"

definition CodecSettings_new :: "'w env \<Rightarrow> jobj" where
  "CodecSettings_new E = json_object_set_number E [] FORMAT 1"

definition CodecSettings_Verify :: "'w env \<Rightarrow> jobj option \<Rightarrow> 'w ctx \<Rightarrow> int \<times> 'w ctx" where
  "CodecSettings_Verify E obj s = JsonObject_Verify E CodecSettings_validations [] obj s"

definition CodecSettings_Apply :: "'w env \<Rightarrow> jobj option \<Rightarrow> 'w ctx \<Rightarrow> int \<times> 'w ctx" where
  "CodecSettings_Apply E obj s =
     (let fmt = cast_u32 (undef_conv E) (json_object_get_number E obj FORMAT);
          old = cast_u32 (undef_conv E) (json_object_get_number E (Some (codec_settings (common s))) FORMAT)
      in if \<not> json_object_has_value E obj FORMAT then (0, s)
         else if old = fmt then (0, s)
         else (0, upd_common (codec_settings_update
                (\<lambda>o'. json_object_set_number E o' FORMAT (rat_of_u32 fmt))) (EnableNotification s)))"

definition InferenceSettings_validations :: "Validation list" where
  "InferenceSettings_validations = [VGe NUMBER_OF_ITERATIONS 0]"

definition InferenceSettings_new :: "'w env \<Rightarrow> InferenceSettings" where
  "InferenceSettings_new E = \<lparr>is_json_obj = json_object_set_number E [] NUMBER_OF_ITERATIONS 0,
     number_iterations = 0\<rparr>"

definition InferenceSettings_Verify :: "'w env \<Rightarrow> jobj option \<Rightarrow> 'w ctx \<Rightarrow> int \<times> 'w ctx" where
  "InferenceSettings_Verify E obj s = JsonObject_Verify E InferenceSettings_validations [] obj s"

definition InferenceSettings_Apply :: "'w env \<Rightarrow> jobj option \<Rightarrow> 'w ctx \<Rightarrow> int \<times> 'w ctx" where
  "InferenceSettings_Apply E obj s =
     (let n = cast_u32 (undef_conv E) (json_object_get_number E obj NUMBER_OF_ITERATIONS)
      in if \<not> json_object_has_value E obj NUMBER_OF_ITERATIONS then (0, s)
         else if n = number_iterations (inference_settings (common s)) then (0, s)
         else (0, upd_common (inference_settings_update (\<lambda>i. \<lparr>
                is_json_obj = json_object_set_number E (is_json_obj i) NUMBER_OF_ITERATIONS (rat_of_u32 n),
                number_iterations = n\<rparr>)) (EnableNotification s)))"

end
