(* ===== verification/DataExport.thy ===== *)
theory DataExport
  imports Sensor
begin

text \<open>
  The parts of \<open>libs/send_data/src/data_export/src/data_export.cpp\<close> the state machine meets: the
  life of a future between the callback of its operation and the application's cleanup, the test
  for pending operations, \<open>StopSelf\<close> and \<open>SendState\<close>; and \<open>callbacks/configuration.cpp\<close>, the
  callback with which a new configuration arrives. \<open>handle_event\<close> is one callback invoked by
  \<open>EVP_processEvent\<close>.
\<close>

section \<open>Futures\<close>

abbreviation upd_future ::
  "ptr \<Rightarrow> EdgeAppLibDataExportFuture option \<Rightarrow> 'w ctx \<Rightarrow> 'w ctx" where
  "upd_future p f s \<equiv> s\<lparr>futures := (futures s)(p := f)\<rparr>"

text \<open>\<open>free\<close> of a data buffer; freeing it a second time is undefined.\<close>

definition free_buffer :: "ptr \<Rightarrow> 'w ctx \<Rightarrow> 'w ctx" where
  "free_buffer p s =
     (if p \<in> set (freed_buffers s) then undefined_step s
      else s\<lparr>freed_buffers := p # freed_buffers s\<rparr>)"

definition DataExportCleanupOrUnlock :: "ptr \<Rightarrow> EdgeAppLibDataExportFuture \<Rightarrow> 'w ctx \<Rightarrow> 'w ctx" where
  "DataExportCleanupOrUnlock p future s =
     (if is_processed future \<and> is_cleanup_requested future
      then upd_future p None
             (if is_cleanup_sent_data future \<and> blob_buff future \<noteq> 0
              then free_buffer (blob_buff future) s else s)
      else upd_future p (Some future) s)"

definition SendDataDone_result :: "EVP_BLOB_CALLBACK_REASON \<Rightarrow> EdgeAppLibDataExportResult" where
  "SendDataDone_result reason =
     (case reason of
        EVP_BLOB_CALLBACK_REASON_DONE res err \<Rightarrow>
          if res = 0 \<and> err = 0 then EdgeAppLibDataExportResultSuccess
          else EdgeAppLibDataExportResultFailure
      | EVP_BLOB_CALLBACK_REASON_EXIT \<Rightarrow> EdgeAppLibDataExportResultDenied
      | EVP_BLOB_CALLBACK_REASON_OTHER \<Rightarrow> EdgeAppLibDataExportResultFailure)"

definition TelemetryDone_result :: "EVP_TELEMETRY_CALLBACK_REASON \<Rightarrow> EdgeAppLibDataExportResult" where
  "TelemetryDone_result reason =
     (case reason of
        EVP_TELEMETRY_CALLBACK_REASON_SENT \<Rightarrow> EdgeAppLibDataExportResultSuccess
      | EVP_TELEMETRY_CALLBACK_REASON_DENIED \<Rightarrow> EdgeAppLibDataExportResultDenied
      | EVP_TELEMETRY_CALLBACK_REASON_EXIT \<Rightarrow> EdgeAppLibDataExportResultDenied
      | EVP_TELEMETRY_CALLBACK_REASON_ERROR \<Rightarrow> EdgeAppLibDataExportResultDenied
      | EVP_TELEMETRY_CALLBACK_REASON_OTHER \<Rightarrow> EdgeAppLibDataExportResultFailure)"

text \<open>
  The two callbacks differ in how they read the reason. A completion that is not in the table is
  ignored; a future that is not there any more is a use after free.
\<close>

definition finish_operation :: "ptr \<Rightarrow> EdgeAppLibDataExportResult \<Rightarrow> 'w ctx \<Rightarrow> 'w ctx" where
  "finish_operation module_vars res s =
     (let (p, m) = map_pop module_vars (map_vec s);
          s' = s\<lparr>map_vec := m\<rparr>
      in if p = 0 then s'
         else (case futures s' p of
             None \<Rightarrow> undefined_step s'
           | Some future \<Rightarrow>
               DataExportCleanupOrUnlock p (future\<lparr>is_processed := True, fut_result := res\<rparr>) s'))"

definition DataExportSendDataDoneCallback :: "ptr \<Rightarrow> EVP_BLOB_CALLBACK_REASON \<Rightarrow> 'w ctx \<Rightarrow> 'w ctx" where
  "DataExportSendDataDoneCallback module_vars reason s =
     finish_operation module_vars (SendDataDone_result reason) s"

definition DataExportTelemetryDoneCallback ::
  "ptr \<Rightarrow> EVP_TELEMETRY_CALLBACK_REASON \<Rightarrow> 'w ctx \<Rightarrow> 'w ctx" where
  "DataExportTelemetryDoneCallback module_vars reason s =
     finish_operation module_vars (TelemetryDone_result reason) s"

definition DataExportCleanup :: "ptr \<Rightarrow> 'w ctx \<Rightarrow> 'w ctx" where
  "DataExportCleanup p s =
     (case futures s p of
        None \<Rightarrow> undefined_step s
      | Some future \<Rightarrow> DataExportCleanupOrUnlock p (future\<lparr>is_cleanup_requested := True\<rparr>) s)"

definition DataExportHasPendingOperations :: "'w ctx \<Rightarrow> bool" where
  "DataExportHasPendingOperations s \<longleftrightarrow> \<not> map_is_empty (map_vec s)"

definition DataExportInitialize :: EdgeAppLibDataExportResult where
  "DataExportInitialize = EdgeAppLibDataExportResultSuccess"

definition DataExportUnInitialize :: EdgeAppLibDataExportResult where
  "DataExportUnInitialize = EdgeAppLibDataExportResultSuccess"

text \<open>The same two functions of \<open>libs/receive_data/src/receive_data.cpp\<close>.\<close>

definition ReceiveDataInitialize :: EdgeAppLibReceiveDataResult where
  "ReceiveDataInitialize = EdgeAppLibReceiveDataResultSuccess"

definition ReceiveDataUnInitialize :: EdgeAppLibReceiveDataResult where
  "ReceiveDataUnInitialize = EdgeAppLibReceiveDataResultSuccess"

definition DataExportStopSelf :: "'w ctx \<Rightarrow> 'w ctx" where
  "DataExportStopSelf s = EnableNotification (SetNextState STATE_IDLE s)"

definition DataExportIsEnabled :: "'w env \<Rightarrow> bool \<Rightarrow> 'w ctx \<Rightarrow> bool" where
  "DataExportIsEnabled E is_raw s \<longleftrightarrow>
     json_object_get_boolean E
       (Some (if is_raw then ps_input_tensor (getPortSettings s) else ps_metadata (getPortSettings s)))
       ''enabled'' = 1"

section \<open>Settings the application sends\<close>

text \<open>\<open>CustomSettings::Store\<close>, \<open>updateCustomSettings\<close> and \<open>DataExportSendState\<close> are one call chain.\<close>

definition CustomSettings_Store :: "'w env \<Rightarrow> string \<Rightarrow> 'w ctx \<Rightarrow> 'w ctx" where
  "CustomSettings_Store E state s =
     (case json_parse_string E state of
        None \<Rightarrow> s
      | Some v \<Rightarrow> EnableNotification (dtdl_model_update (custom_settings_update (\<lambda>_. v)) s))"

definition updateCustomSettings :: "'w env \<Rightarrow> string \<Rightarrow> 'w ctx \<Rightarrow> 'w ctx" where
  "updateCustomSettings E state s = CustomSettings_Store E state s"

definition DataExportSendState :: "'w env \<Rightarrow> string \<Rightarrow> 'w ctx \<Rightarrow> 'w ctx" where
  "DataExportSendState E state s = updateCustomSettings E state s"

section \<open>Calls of the application\<close>

definition api_call :: "'w env \<Rightarrow> 'w app_call \<Rightarrow> 'w ctx \<Rightarrow> 'w ctx" where
  "api_call E c s =
     (case c of
        ApiSetProperty stream value \<Rightarrow> snd (SensorStreamSetProperty E stream value s)
      | ApiSendState state \<Rightarrow> DataExportSendState E state s
      | ApiStopSelf \<Rightarrow> DataExportStopSelf s
      | ApiCleanup future \<Rightarrow> DataExportCleanup future s
      | ApiLocal f \<Rightarrow> s\<lparr>world := f (world s)\<rparr>)"

primrec run_app :: "'w env \<Rightarrow> 'w app \<Rightarrow> 'w ctx \<Rightarrow> int \<times> 'w ctx" where
  "run_app E (AppReturn r) s = (r, s)"
| "run_app E (AppCall c k) s = (let s' = api_call E c s in run_app E (k s') s')"

section \<open>The configuration callback\<close>

definition configuration_cb :: "'w env \<Rightarrow> string \<Rightarrow> string \<Rightarrow> 'w ctx \<Rightarrow> 'w ctx" where
  "configuration_cb E topic config s =
     (case json_parse_string E config of
        None \<Rightarrow> s
      | Some config_value \<Rightarrow>
          (case json_as_object config_value of
             None \<Rightarrow> s
           | Some config_obj \<Rightarrow>
               (case json_object_dotget_string E config_obj ''req_info.req_id'' of
                  None \<Rightarrow> s
                | Some req_id \<Rightarrow>
                    if GetReqId E s = Some req_id then s
                    else SetNextState STATE_APPLYING (SetPendingConfiguration E config s))))"

definition handle_event :: "'w env \<Rightarrow> evp_event \<Rightarrow> 'w ctx \<Rightarrow> 'w ctx" where
  "handle_event E ev s =
     (case ev of
        ConfigurationEvent topic config \<Rightarrow> configuration_cb E topic config s
      | BlobDoneEvent module_vars reason \<Rightarrow> DataExportSendDataDoneCallback module_vars reason s
      | TelemetryDoneEvent module_vars reason \<Rightarrow>
          DataExportTelemetryDoneCallback module_vars reason s)"

definition handle_events :: "'w env \<Rightarrow> evp_event list \<Rightarrow> 'w ctx \<Rightarrow> 'w ctx" where
  "handle_events E evs s = fold (handle_event E) evs s"

text \<open>\<open>EVP_processEvent\<close> with the callbacks it invokes.\<close>

definition processEvent :: "'w env \<Rightarrow> 'w ctx \<Rightarrow> EVP_RESULT \<times> 'w ctx" where
  "processEvent E s =
     (let (evs, res, w) = EVP_processEvent E s in (res, handle_events E evs (s\<lparr>world := w\<rparr>)))"

end
