(* ===== verification/AiModelsModel.thy ===== *)
theory AiModelsModel
  imports Ports DataExport
begin

text \<open>
  \<open>ai_model.cpp\<close> and \<open>ai_models.cpp\<close>: the list of at most eight AI models of the common settings,
  each downloaded when it is applied. The download is \<open>EdgeAppLibReceiveData\<close>; it may process
  events of EVP while it waits, and those are handled before its result is looked at.
\<close>

definition MAX_AI_MODELS_COUNT :: nat where "MAX_AI_MODELS_COUNT = 8"

abbreviation "NAME \<equiv> ''name''"
abbreviation "TARGET \<equiv> ''target''"
abbreviation "URL_PATH \<equiv> ''url_path''"
abbreviation "HASH \<equiv> ''hash''"

section \<open>One model\<close>

definition AiModel_validations :: "Validation list" where
  "AiModel_validations = [VTy NAME JSONString, VTy TARGET JSONString, VTy URL_PATH JSONString,
     VTy HASH JSONString]"

definition set_strings :: "'w env \<Rightarrow> (string \<times> string) list \<Rightarrow> jobj \<Rightarrow> jobj" where
  "set_strings E ms o' = fold (\<lambda>(k, t) o'. json_object_set_string E o' k (Some t)) ms o'"

definition AiModel_new :: AiModel where
  "AiModel_new = \<lparr>aim_json_obj = [], aim_failed = False\<rparr>"

definition AiModel_InitializeValues :: "'w env \<Rightarrow> AiModel \<Rightarrow> AiModel" where
  "AiModel_InitializeValues E m =
     m\<lparr>aim_json_obj := set_strings E [(NAME, ''''), (TARGET, ''''), (URL_PATH, ''''), (HASH, '''')]
         (aim_json_obj m)\<rparr>"

definition AiModel_Verify :: "'w env \<Rightarrow> jobj option \<Rightarrow> 'w ctx \<Rightarrow> int \<times> 'w ctx" where
  "AiModel_Verify E obj s =
     (let (r, s') = JsonObject_Verify E AiModel_validations [] obj s
      in if r = 0
            \<and> (\<not> json_object_has_value E obj NAME \<or> \<not> json_object_has_value E obj TARGET
               \<or> \<not> json_object_has_value E obj URL_PATH \<or> \<not> json_object_has_value E obj HASH)
         then (-1, report E ''Some register access property missing. Please set valid values for name, target, url_path and hash.''
                 CODE_INVALID_ARGUMENT s')
         else (r, s'))"

definition AiModel_SetFailed :: "AiModel \<Rightarrow> AiModel" where
  "AiModel_SetFailed m =
     (if \<not> aim_failed m then m\<lparr>aim_failed := True, aim_json_obj := []\<rparr> else m)"

definition AiModel_Reuse :: "AiModel \<Rightarrow> AiModel" where
  "AiModel_Reuse m = m\<lparr>aim_json_obj := [], aim_failed := False\<rparr>"

definition download_error :: "EdgeAppLibReceiveDataResult \<Rightarrow> string \<times> CODE" where
  "download_error ret = (case ret of
       EdgeAppLibReceiveDataResultTimeout \<Rightarrow> (''ReceiveDataAwait timeout.'', CODE_DEADLINE_EXCEEDED)
     | EdgeAppLibReceiveDataResultUninitialized \<Rightarrow>
         (''EVP client or workspace is not initialized.'', CODE_FAILED_PRECONDITION)
     | EdgeAppLibReceiveDataResultDenied \<Rightarrow> (''EVP_BLOB_CALLBACK denied.'', CODE_CANCELLED)
     | EdgeAppLibReceiveDataResultDataTooLarge \<Rightarrow>
         (''map_set or malloc failed.'', CODE_RESOURCE_EXHAUSTED)
     | EdgeAppLibReceiveDataResultInvalidParam \<Rightarrow>
         (''Invalid parameters for EdgeAppLibReceiveData.'', CODE_INVALID_ARGUMENT)
     | _ \<Rightarrow> (''EVP_blobOperation AI Model Download failed.'', CODE_INTERNAL))"

definition get_string_member :: "'w env \<Rightarrow> jobj option \<Rightarrow> string \<Rightarrow> string option" where
  "get_string_member E obj k =
     (if json_object_has_value E obj k then json_object_get_string E obj k else None)"

abbreviation upd_aims :: "(AiModels \<Rightarrow> AiModels) \<Rightarrow> 'w ctx \<Rightarrow> 'w ctx" where
  "upd_aims f s \<equiv> upd_common (ai_models_update f) s"

text \<open>\<open>k\<close> is the position of the model in the array.\<close>

definition AiModel_Apply :: "'w env \<Rightarrow> nat \<Rightarrow> jobj option \<Rightarrow> 'w ctx \<Rightarrow> int \<times> 'w ctx" where
  "AiModel_Apply E k obj s =
     (case (get_string_member E obj NAME, get_string_member E obj TARGET,
            get_string_member E obj URL_PATH, get_string_member E obj HASH) of
        (Some name, Some target, Some url_path, Some hash) \<Rightarrow>
          (let s1 = upd_aims (ai_model_array_update (\<lambda>xs. xs[k := (xs ! k)\<lparr>aim_json_obj :=
                 set_strings E [(NAME, name), (TARGET, target), (URL_PATH, url_path), (HASH, hash)]
                   (aim_json_obj (xs ! k))\<rparr>])) s;
               (ret, evs, w) = receive_data E name url_path hash s1;
               s2 = handle_events E evs (s1\<lparr>world := w\<rparr>)
           in if ret \<noteq> EdgeAppLibReceiveDataResultSuccess
              then (-1, report E (fst (download_error ret)) (snd (download_error ret)) s2)
              else (0, report E '''' CODE_OK s2))
      | _ \<Rightarrow> (-1, report E ''Some AI model property missing. Please set valid values for name, target, url_path, and hash.''
                 CODE_INVALID_ARGUMENT s))"

section \<open>The array\<close>

fun verify_ai_models :: "'w env \<Rightarrow> json list \<Rightarrow> 'w ctx \<Rightarrow> int \<times> 'w ctx" where
  "verify_ai_models E [] s = (0, s)"
| "verify_ai_models E (j # js) s =
     (let (ret2, s') = AiModel_Verify E (json_as_object j) s
      in if ret2 = -1 then (-1, s') else verify_ai_models E js s')"

text \<open>Nothing in the program calls this function.\<close>

definition AiModels_Verify :: "'w env \<Rightarrow> json list \<Rightarrow> 'w ctx \<Rightarrow> int \<times> 'w ctx" where
  "AiModels_Verify E array s =
     (if MAX_AI_MODELS_COUNT < length array
      then (-1, report E (snprintf LOGBUGSIZE
              (''ai_model array ('' @ show_nat (length array) @ '') over max length (''
                @ show_nat MAX_AI_MODELS_COUNT @ '').''))
              CODE_INVALID_ARGUMENT s)
      else verify_ai_models E array s)"

definition prepare_ai_model :: "'w env \<Rightarrow> nat \<Rightarrow> AiModels \<Rightarrow> AiModels" where
  "prepare_ai_model E k m =
     (let items = ai_model_array m
      in m\<lparr>ai_model_array :=
             (if length items \<le> k then items @ [AiModel_InitializeValues E AiModel_new]
              else items[k := AiModel_Reuse (items ! k)]),
           ai_model_array_index := int k\<rparr>)"

definition finish_ai_model :: "int \<Rightarrow> nat \<Rightarrow> AiModels \<Rightarrow> AiModels" where
  "finish_ai_model ret2 k m =
     (if ret2 = -1
      then m\<lparr>ai_model_array := (ai_model_array m)[k := AiModel_SetFailed (ai_model_array m ! k)]\<rparr>
      else m\<lparr>aim_json_array := aim_json_array m @ [k]\<rparr>)"

fun apply_ai_models :: "'w env \<Rightarrow> json list \<Rightarrow> nat \<Rightarrow> int \<Rightarrow> 'w ctx \<Rightarrow> int \<times> 'w ctx" where
  "apply_ai_models E [] k res s = (res, s)"
| "apply_ai_models E (j # js) k res s =
     (let (ret2, s') = AiModel_Apply E k (json_as_object j) (upd_aims (prepare_ai_model E k) s)
      in apply_ai_models E js (Suc k) (if ret2 = -1 then -1 else res)
           (upd_aims (finish_ai_model ret2 k) s'))"

definition AiModels_Apply :: "'w env \<Rightarrow> json list \<Rightarrow> 'w ctx \<Rightarrow> int \<times> 'w ctx" where
  "AiModels_Apply E array s =
     (let valid = take MAX_AI_MODELS_COUNT array;
          (res, s') = apply_ai_models E valid 0 0 (upd_aims (aim_json_array_update (\<lambda>_. [])) s)
      in (res, upd_aims (ai_model_array_update (take (length valid))) s'))"

definition AiModels_json :: "AiModels \<Rightarrow> json" where
  "AiModels_json m = JArray (map (\<lambda>k. JObject (aim_json_obj (ai_model_array m ! k))) (aim_json_array m))"

end
