(* ===== verification/ModelOps.thy ===== *)
theory ModelOps
  imports AiModelsModel
begin

text \<open>
  The top of the device model: which transitions a configuration may ask for
  (\<open>states/state_utils.cpp\<close>, \<open>sm_configurator.cpp\<close>), how a failing event handler is answered
  (\<open>EventHandleError\<close>), the common settings (\<open>common_settings.cpp\<close>), the custom settings
  (\<open>custom_settings.cpp\<close>) and the model itself (\<open>dtdl_model.cpp\<close>).
\<close>

section \<open>Feasible transitions\<close>

text \<open>One row per state, in the order create, idle, run, destroy, exiting, coolingdown, applying.\<close>

definition kFeasibleTransitionBitmap :: "nat list list" where
  "kFeasibleTransitionBitmap =
    [[1, 0, 1, 1, 0, 0, 0],
     [0, 1, 1, 1, 0, 0, 1],
     [0, 1, 1, 1, 0, 1, 1],
     [0, 0, 0, 1, 1, 0, 0],
     [0, 0, 0, 0, 1, 0, 0],
     [0, 0, 0, 1, 0, 1, 0],
     [0, 1, 1, 1, 0, 0, 0]]"

definition IsFeasibleTransition :: "STATE \<Rightarrow> STATE \<Rightarrow> bool" where
  "IsFeasibleTransition start end' \<longleftrightarrow>
     kFeasibleTransitionBitmap ! nat (STATE_num start) ! nat (STATE_num end') \<noteq> 0"

definition UpdateProcessState :: "STATE \<Rightarrow> 'w ctx \<Rightarrow> int \<times> 'w ctx" where
  "UpdateProcessState st s =
     (if st = next_state s then (0, s)
      else if IsFeasibleTransition (current_state s) st
      then (0, EnableNotification (SetNextState st s))
      else (-1, s))"

section \<open>Process state\<close>

abbreviation "LOG_LEVEL \<equiv> ''log_level''"
abbreviation "PROCESS_STATE \<equiv> ''process_state''"
abbreviation "INFERENCE_SETTINGS \<equiv> ''inference_settings''"
abbreviation "PQ_SETTINGS \<equiv> ''pq_settings''"
abbreviation "PORT_SETTINGS \<equiv> ''port_settings''"
abbreviation "CODEC_SETTINGS \<equiv> ''codec_settings''"
abbreviation "NUMBER_OF_INFERENCE_PER_MESSAGE \<equiv> ''number_of_inference_per_message''"
abbreviation "AI_MODELS \<equiv> ''ai_models''"

definition EnumToState :: "int \<Rightarrow> STATE" where
  "EnumToState n =
     (if n = 1 then STATE_IDLE else if n = 2 then STATE_RUNNING else if n = 3 then STATE_DESTROYING
      else STATE_EXITING)"

abbreviation upd_cs_json :: "(jobj \<Rightarrow> jobj) \<Rightarrow> 'w ctx \<Rightarrow> 'w ctx" where
  "upd_cs_json f s \<equiv> upd_common (cs_json_obj_update f) s"

definition get_cs_u32 :: "'w env \<Rightarrow> jobj option \<Rightarrow> string \<Rightarrow> u32" where
  "get_cs_u32 E obj k = cast_u32 (undef_conv E) (json_object_get_number E obj k)"

definition GetProcessState :: "'w env \<Rightarrow> 'w ctx \<Rightarrow> u32" where
  "GetProcessState E s = get_cs_u32 E (Some (cs_json_obj (common s))) PROCESS_STATE"

definition SetProcessState :: "'w env \<Rightarrow> u32 \<Rightarrow> 'w ctx \<Rightarrow> 'w ctx" where
  "SetProcessState E value s =
     (let st = EnumToState (sint value); (r, s') = UpdateProcessState st s
      in if r \<noteq> 0 then s'
         else if st = STATE_RUNNING \<or> st = STATE_IDLE
         then upd_cs_json (\<lambda>o'. json_object_set_number E o' PROCESS_STATE (rat_of_u32 value)) s'
         else s')"

text \<open>The caller passes a \<open>STATE\<close>, which is converted to its number.\<close>

definition STATE_u32 :: "STATE \<Rightarrow> u32" where
  "STATE_u32 st = word_of_int (STATE_num st)"

definition ON_START :: string where "ON_START = ''onStart''"
definition ON_ITERATE :: string where "ON_ITERATE = ''onIterate''"
definition ON_STOP :: string where "ON_STOP = ''onStop''"
definition ON_CREATE :: string where "ON_CREATE = ''onCreate''"
definition ON_DESTROY :: string where "ON_DESTROY = ''onDestroy''"
definition ON_CONFIGURE :: string where "ON_CONFIGURE = ''onConfigure''"

definition error_message :: "string \<Rightarrow> int \<Rightarrow> string" where
  "error_message event res = snprintf LOGBUGSIZE (event @ '' call gave error res='' @ show_int res)"

definition EventHandleError ::
  "'w env \<Rightarrow> string \<Rightarrow> int \<Rightarrow> STATE \<Rightarrow> bool \<Rightarrow> CODE \<Rightarrow> 'w ctx \<Rightarrow> 'w ctx" where
  "EventHandleError E event res next is_update_res_info code s =
     (let s' = SetProcessState E (STATE_u32 next) s
      in if is_update_res_info then report E (error_message event res) code s' else s')"

definition StateHandleError :: "'w env \<Rightarrow> string \<Rightarrow> int \<Rightarrow> 'w ctx \<Rightarrow> 'w ctx" where
  "StateHandleError E event res s =
     EventHandleError E event res STATE_DESTROYING True CODE_FAILED_PRECONDITION s"

section \<open>Logging level and inferences per message\<close>

definition SetLoggingLevel :: "'w env \<Rightarrow> u32 \<Rightarrow> 'w ctx \<Rightarrow> 'w ctx" where
  "SetLoggingLevel E value s =
     (if get_cs_u32 E (Some (cs_json_obj (common s))) LOG_LEVEL = value then s
      else upd_cs_json (\<lambda>o'. json_object_set_number E o' LOG_LEVEL (rat_of_u32 value))
             ((EnableNotification s)\<lparr>log_level := unat value\<rparr>))"

definition SetInferencePerMessage :: "'w env \<Rightarrow> u32 \<Rightarrow> 'w ctx \<Rightarrow> 'w ctx" where
  "SetInferencePerMessage E value s =
     (if get_cs_u32 E (Some (cs_json_obj (common s))) NUMBER_OF_INFERENCE_PER_MESSAGE = value then s
      else upd_cs_json
             (\<lambda>o'. json_object_set_number E o' NUMBER_OF_INFERENCE_PER_MESSAGE (rat_of_u32 value))
             (EnableNotification s))"

section \<open>Common settings\<close>

definition CommonSettings_validations :: "Validation list" where
  "CommonSettings_validations = [VGe PROCESS_STATE 1, VLe PROCESS_STATE 2]"

definition CommonSettings_verifiers :: "'w env \<Rightarrow> (string \<times> 'w verifier) list" where
  "CommonSettings_verifiers E =
    [(PQ_SETTINGS, PqSettings_Verify E), (PORT_SETTINGS, PortSettings_Verify E),
     (INFERENCE_SETTINGS, InferenceSettings_Verify E), (CODEC_SETTINGS, CodecSettings_Verify E)]"

definition CommonSettings_appliers :: "'w env \<Rightarrow> (string \<times> 'w verifier) list" where
  "CommonSettings_appliers E =
    [(PQ_SETTINGS, PqSettings_Apply E), (PORT_SETTINGS, PortSettings_Apply E),
     (INFERENCE_SETTINGS, InferenceSettings_Apply E), (CODEC_SETTINGS, CodecSettings_Apply E)]"

definition CommonSettings_Verify :: "'w env \<Rightarrow> jobj option \<Rightarrow> 'w ctx \<Rightarrow> int \<times> 'w ctx" where
  "CommonSettings_Verify E obj s =
     JsonObject_Verify E CommonSettings_validations (CommonSettings_verifiers E) obj s"

text \<open>
  \<open>GetSettingsJson\<close> and \<open>GetSettingsJsonArray\<close> as the values that wrap their results; there is
  none for the inferences per message.
\<close>

definition GetSettingsJson :: "'w ctx \<Rightarrow> string \<Rightarrow> json option" where
  "GetSettingsJson s setting =
     (if setting = PQ_SETTINGS then Some (PqSettings_json (pq s))
      else if setting = PORT_SETTINGS then Some (PortSettings_json (port_settings (common s)))
      else if setting = CODEC_SETTINGS then Some (JObject (codec_settings (common s)))
      else None)"

definition settings_equal :: "'w env \<Rightarrow> jobj option \<Rightarrow> 'w ctx \<Rightarrow> bool" where
  "settings_equal E obj s \<longleftrightarrow>
     get_cs_u32 E (Some (cs_json_obj (common s))) NUMBER_OF_INFERENCE_PER_MESSAGE
       = get_cs_u32 E obj NUMBER_OF_INFERENCE_PER_MESSAGE
     \<and> list_all (\<lambda>setting. json_value_equals E
           (map_option JObject (json_object_get_object E obj setting)) (GetSettingsJson s setting))
         [PQ_SETTINGS, PORT_SETTINGS, CODEC_SETTINGS, NUMBER_OF_INFERENCE_PER_MESSAGE]
     \<and> json_value_equals E (map_option JArray (json_object_get_array E obj AI_MODELS))
         (Some (AiModels_json (ai_models (common s))))"

definition remove_settings :: "'w env \<Rightarrow> jobj option \<Rightarrow> jobj option" where
  "remove_settings E obj =
     map_option (fold (\<lambda>k o'. json_object_remove E o' k)
       [PQ_SETTINGS, PORT_SETTINGS, CODEC_SETTINGS, NUMBER_OF_INFERENCE_PER_MESSAGE, AI_MODELS]) obj"

text \<open>The part of \<open>Apply\<close> after the guard on the state: AI models, then the nested objects.\<close>

definition CommonSettings_apply_rest :: "'w env \<Rightarrow> jobj option \<Rightarrow> 'w ctx \<Rightarrow> int \<times> 'w ctx" where
  "CommonSettings_apply_rest E obj s =
     (let s' = (if json_object_has_value E obj AI_MODELS
                then case json_object_get_array E obj AI_MODELS of
                       Some array \<Rightarrow> snd (AiModels_Apply E array s) | None \<Rightarrow> s
                else s)
      in JsonObject_Apply E (CommonSettings_appliers E) obj s')"

definition CommonSettings_Apply :: "'w env \<Rightarrow> jobj option \<Rightarrow> 'w ctx \<Rightarrow> int \<times> 'w ctx" where
  "CommonSettings_Apply E obj s =
     (let s1 = (if json_object_has_value E obj PROCESS_STATE
                then SetProcessState E (get_cs_u32 E obj PROCESS_STATE) s else s);
          s2 = (if json_object_has_value E obj LOG_LEVEL
                then SetLoggingLevel E (get_cs_u32 E obj LOG_LEVEL) s1 else s1)
      in if current_state s2 = STATE_RUNNING
         then CommonSettings_apply_rest E (remove_settings E obj)
                (if settings_equal E obj s2 then s2
                 else report E ''Ignoring Port Settings and Pq Settings since state is Running.''
                        CODE_FAILED_PRECONDITION s2)
         else if json_object_has_value E obj NUMBER_OF_INFERENCE_PER_MESSAGE
         then if get_cs_u32 E obj NUMBER_OF_INFERENCE_PER_MESSAGE = 0
              then (-1, report E ''The value of number_of_inference_per_message is below minimum.''
                      CODE_OUT_OF_RANGE s2)
              else CommonSettings_apply_rest E obj
                     (SetInferencePerMessage E (get_cs_u32 E obj NUMBER_OF_INFERENCE_PER_MESSAGE) s2)
         else CommonSettings_apply_rest E obj s2)"

section \<open>Custom settings\<close>

text \<open>
  \<open>obj\<close> replaces the custom settings, its \<open>res_info\<close> is filled in and the whole is handed to
  the application. If \<open>obj\<close> is NULL the serializer returns NULL and \<open>strlen\<close> is called on it.
\<close>

definition CustomSettings_Apply :: "'w env \<Rightarrow> jobj option \<Rightarrow> 'w ctx \<Rightarrow> int \<times> 'w ctx" where
  "CustomSettings_Apply E obj s =
     (case obj of
        None \<Rightarrow> (0, undefined_step s)
      | Some o' \<Rightarrow>
          (let o1 = json_object_dotset_value E o' ''res_info.code'' (JNumber 0);
               o2 = (case GetReqId E s of
                       Some t \<Rightarrow> json_object_dotset_value E o1 ''res_info.res_id'' (JString t)
                     | None \<Rightarrow> o1);
               o3 = json_object_dotset_value E o2 ''res_info.detail_msg'' (JString '''');
               s1 = dtdl_model_update (custom_settings_update (\<lambda>_. JObject o3)) s
           in case json_serialize_to_string E (Some (JObject o3)) of
                None \<Rightarrow> (0, undefined_step s1)
              | Some text \<Rightarrow>
                  (let (res, s2) = run_app E (onConfigure E ''custom_settings'' text)
                         (log_call (OnConfigure ''custom_settings'' text) s1);
                       s3 = (if res \<noteq> 0
                             then EventHandleError E ON_CONFIGURE res STATE_IDLE True
                                    CODE_FAILED_PRECONDITION s2
                             else s2)
                   in (res, EnableNotification s3))))"

section \<open>The model\<close>

abbreviation "REQ_INFO \<equiv> ''req_info''"
abbreviation "RES_INFO \<equiv> ''res_info''"
abbreviation "COMMON_SETTINGS \<equiv> ''common_settings''"
abbreviation "CUSTOM_SETTINGS \<equiv> ''custom_settings''"

definition DtdlModel_verifiers :: "'w env \<Rightarrow> (string \<times> 'w verifier) list" where
  "DtdlModel_verifiers E =
    [(REQ_INFO, \<lambda>obj s. (ReqInfo_Verify E obj, s)), (RES_INFO, \<lambda>obj s. (0, s)),
     (COMMON_SETTINGS, CommonSettings_Verify E), (CUSTOM_SETTINGS, \<lambda>obj s. (0, s))]"

definition DtdlModel_Verify :: "'w env \<Rightarrow> jobj option \<Rightarrow> 'w ctx \<Rightarrow> int \<times> 'w ctx" where
  "DtdlModel_Verify E obj s =
     (let s1 = ReqInfo_Apply E (json_object_get_object E obj REQ_INFO) s;
          s2 = SetResId E (GetReqId E s1) s1
      in JsonObject_Verify E [] (DtdlModel_verifiers E) obj s2)"

definition DtdlModel_Apply :: "'w env \<Rightarrow> jobj option \<Rightarrow> 'w ctx \<Rightarrow> int \<times> 'w ctx" where
  "DtdlModel_Apply E obj s =
     (let (ret, s1) = (if json_object_has_value E obj COMMON_SETTINGS
                       then CommonSettings_Apply E (json_object_get_object E obj COMMON_SETTINGS) s
                       else (0, s))
      in if json_object_has_value E obj CUSTOM_SETTINGS
         then CustomSettings_Apply E (json_object_get_object E obj CUSTOM_SETTINGS) s1
         else (ret, s1))"

text \<open>The result of \<open>Apply\<close> is not looked at.\<close>

definition DtdlModel_Update :: "'w env \<Rightarrow> string \<Rightarrow> 'w ctx \<Rightarrow> int \<times> 'w ctx" where
  "DtdlModel_Update E config s =
     (case json_parse_string E config of
        None \<Rightarrow> (-1, s)
      | Some v \<Rightarrow>
          (case json_as_object v of
             None \<Rightarrow> (-1, s)
           | Some new_json_obj \<Rightarrow>
               (let (res, s1) = DtdlModel_Verify E (Some new_json_obj) (ResInfo_Reset E s);
                    s2 = (if res = 0 then snd (DtdlModel_Apply E (Some new_json_obj) s1) else s1)
                in (res, s2))))"

definition DtdlModel_InitializeValues :: "'w env \<Rightarrow> 'w ctx \<Rightarrow> 'w ctx" where
  "DtdlModel_InitializeValues E s = PqSettings_InitializeValues E s"

definition CommonSettings_json :: "CommonSettings \<Rightarrow> json" where
  "CommonSettings_json c = (let o' = cs_json_obj c in JObject (concat
     [scalar_member o' PROCESS_STATE, scalar_member o' LOG_LEVEL,
      [(INFERENCE_SETTINGS, JObject (is_json_obj (inference_settings c)))],
      [(PQ_SETTINGS, PqSettings_json (pq_settings c))],
      [(PORT_SETTINGS, PortSettings_json (port_settings c))],
      [(CODEC_SETTINGS, JObject (codec_settings c))],
      scalar_member o' NUMBER_OF_INFERENCE_PER_MESSAGE,
      [(AI_MODELS, AiModels_json (ai_models c))]]))"

definition DtdlModel_json :: "DtdlModel \<Rightarrow> json" where
  "DtdlModel_json m = JObject
     [(RES_INFO, JObject (res_info m)), (COMMON_SETTINGS, CommonSettings_json (common_settings m)),
      (CUSTOM_SETTINGS, custom_settings m)]"

text \<open>
  The buffer has 512 bytes more than the serializer asks for, so the length check after it cannot
  fail; without memory for it there is no text.
\<close>

definition DtdlModel_Serialize :: "'w env \<Rightarrow> 'w ctx \<Rightarrow> string option" where
  "DtdlModel_Serialize E s =
     (case json_serialize_to_string E (Some (DtdlModel_json (dtdl_model s))) of
        None \<Rightarrow> None
      | Some text \<Rightarrow>
          (let safe_size = length text + 1 + 512;
               actual_length = length (takeWhile (\<lambda>c. c \<noteq> CHR 0x00) text)
           in if \<not> malloc_ok E (world s) then None
              else if safe_size - 1 \<le> actual_length then None
              else Some (take actual_length text)))"

end
