(* ===== verification/States.thy ===== *)
theory States
  imports ModelOps
begin

text \<open>
  The states of the machine (\<open>libs/sm/src/states\<close>): the constructor, destructor and \<open>Iterate\<close> of
  each, the iteration thread of \<open>Running\<close>, and \<open>StateMachineContext::SetCurrentState\<close> and
  \<open>SendState\<close>.

  A step of the thread is one \<open>ThreadLoopIterate\<close>. The scheduler is part of the environment:
  \<open>thread_runs_start\<close> and \<open>thread_runs_switch\<close> say how many steps the thread takes while the main
  thread is between creating a state and installing it, \<open>join_schedule\<close> what happens while the main
  thread waits for it in \<open>ThreadStop\<close>; in between, \<open>sm_step\<close> of theory \<open>Machine\<close> interleaves the
  two freely. \<open>pthread_create\<close> is taken to succeed.
\<close>

section \<open>Reporting to the cloud\<close>

definition SendState :: "'w env \<Rightarrow> 'w ctx \<Rightarrow> 'w ctx" where
  "SendState E s =
     (case DtdlModel_Serialize E s of
        None \<Rightarrow> undefined_step s
      | Some text \<Rightarrow> (let (res, w) = EVP_sendState E text (world s)
                     in log_call (SendStateCall text) (s\<lparr>world := w\<rparr>)))"

section \<open>The iteration thread\<close>

definition upd_running :: "(Running \<Rightarrow> Running) \<Rightarrow> 'w ctx \<Rightarrow> 'w ctx" where
  "upd_running f s = s\<lparr>running := map_option f (running s)\<rparr>"

definition Running_new :: Running where
  "Running_new = \<lparr>is_failed_on_start = False, command = UNINITIALIZED, thread_alive = False,
     thread_i = 0, num_iters = 0\<rparr>"

definition ThreadLoopIterate :: "'w env \<Rightarrow> 'w ctx \<Rightarrow> IterateStatus \<times> 'w ctx" where
  "ThreadLoopIterate E s =
     (let (res, s1) = run_app E (onIterate E) (log_call OnIterate s)
      in if res \<noteq> 0
         then (Error, EventHandleError E ON_ITERATE res STATE_IDLE True CODE_FAILED_PRECONDITION s1)
         else if map_option command (running s1) = Some EXIT then (Break, s1)
         else (Ok, s1))"

text \<open>The end of \<open>ThreadEntrypoint\<close>, reached when the loop is left with status \<open>ls\<close>.\<close>

definition ThreadExit :: "IterateStatus \<Rightarrow> Running \<Rightarrow> 'w ctx \<Rightarrow> 'w ctx" where
  "ThreadExit ls r s =
     upd_running (thread_alive_update (\<lambda>_. False))
       (if 0 < num_iters r \<and> ls \<noteq> Error then SetNextState STATE_COOLINGDOWN s else s)"

text \<open>
  One turn of the loop in \<open>ThreadEntrypoint\<close>. The counter is an \<open>int\<close>: incrementing it past its
  maximum is undefined, and so is every later turn of an infinite run. In the loop condition it is
  compared as an unsigned number.
\<close>

definition thread_step :: "'w env \<Rightarrow> 'w ctx \<Rightarrow> 'w ctx" where
  "thread_step E s =
     (case running s of
        None \<Rightarrow> s
      | Some r \<Rightarrow>
          if \<not> thread_alive r then s
          else (let (ls, s1) = ThreadLoopIterate E s
                in if ls \<noteq> Ok then ThreadExit ls r s1
                   else (let i = thread_i r + 1;
                             s2 = (if 2147483647 < i then undefined_step s1 else s1);
                             s3 = upd_running (thread_i_update (\<lambda>_. i)) s2
                         in if num_iters r = 0 \<or> i < uint (num_iters r) then s3
                            else ThreadExit ls r s3)))"

definition thread_steps :: "'w env \<Rightarrow> nat \<Rightarrow> 'w ctx \<Rightarrow> 'w ctx" where
  "thread_steps E n s = (thread_step E ^^ n) s"

definition ThreadStart :: "'w ctx \<Rightarrow> 'w ctx" where
  "ThreadStart s =
     upd_running (\<lambda>r. r\<lparr>command := RUNNING, thread_alive := True, thread_i := 0,
       num_iters := number_iterations (inference_settings (common s))\<rparr>) s"

definition is_thread_alive :: "'w ctx \<Rightarrow> bool" where
  "is_thread_alive s \<longleftrightarrow> (case running s of None \<Rightarrow> False | Some r \<Rightarrow> thread_alive r)"

text \<open>
  The loop around \<open>pthread_tryjoin_np\<close>; the schedule is used up when the 60 seconds are over. The
  result of \<open>EVP_processEvent\<close> is not looked at.
\<close>

fun join_loop :: "'w env \<Rightarrow> join_event list \<Rightarrow> 'w ctx \<Rightarrow> 'w ctx" where
  "join_loop E [] s = s"
| "join_loop E (JoinThreadRuns # es) s =
     (if is_thread_alive s then join_loop E es (thread_step E s) else s)"
| "join_loop E (JoinProcessEvent # es) s =
     (if is_thread_alive s then join_loop E es (snd (processEvent E s)) else s)"

definition ThreadStop :: "'w env \<Rightarrow> 'w ctx \<Rightarrow> 'w ctx" where
  "ThreadStop E s =
     (case running s of
        None \<Rightarrow> s
      | Some r \<Rightarrow>
          if command r = UNINITIALIZED \<or> command r = EXIT then s
          else (let s' = upd_running (command_update (\<lambda>_. EXIT)) s
                in join_loop E (join_schedule E s') s'))"

section \<open>Running\<close>

definition Running_ctor :: "'w env \<Rightarrow> 'w ctx \<Rightarrow> 'w ctx" where
  "Running_ctor E s =
     (let (res, s1) = run_app E (onStart E) (log_call OnStart (s\<lparr>running := Some Running_new\<rparr>))
      in if res \<noteq> 0
         then EventHandleError E ON_START res STATE_IDLE True
                (CodeFromSensorErrorCause (senscord_last_error_cause E (world s1))
                   CODE_FAILED_PRECONDITION)
                (upd_running (is_failed_on_start_update (\<lambda>_. True)) s1)
         else ThreadStart (SendState E s1))"

text \<open>Deleting the thread object while the thread runs is a use after free.\<close>

definition Running_dtor :: "'w env \<Rightarrow> 'w ctx \<Rightarrow> 'w ctx" where
  "Running_dtor E s =
     (let s1 = ThreadStop E s;
          s2 = (if is_thread_alive s1 then undefined_step s1 else s1);
          failed = (case running s2 of None \<Rightarrow> False | Some r \<Rightarrow> is_failed_on_start r);
          (res, s3) = run_app E (onStop E) (log_call OnStop s2);
          s4 = (if res \<noteq> 0
                then EventHandleError E ON_STOP res STATE_IDLE (\<not> failed) CODE_FAILED_PRECONDITION s3
                else s3)
      in s4\<lparr>running := None\<rparr>)"

definition Running_Iterate :: "'w env \<Rightarrow> 'w ctx \<Rightarrow> IterateStatus \<times> 'w ctx" where
  "Running_Iterate E s =
     (let (res, s') = processEvent E s
      in (Ok, if res = EVP_SHOULDEXIT then SetNextState STATE_DESTROYING s' else s'))"

section \<open>The other states\<close>

definition Creating_Iterate :: "'w env \<Rightarrow> 'w ctx \<Rightarrow> IterateStatus \<times> 'w ctx" where
  "Creating_Iterate E s =
     (if DataExportInitialize \<noteq> EdgeAppLibDataExportResultSuccess
      then (Error, StateHandleError E ''EdgeAppLibDataExportInitialize'' 1 s)
      else if ReceiveDataInitialize \<noteq> EdgeAppLibReceiveDataResultSuccess then (Error, s)
      else (Ok, EnableNotification (SetNextState STATE_IDLE s)))"

definition Idle_Iterate :: "'w env \<Rightarrow> 'w ctx \<Rightarrow> IterateStatus \<times> 'w ctx" where
  "Idle_Iterate E s =
     (let (res, s') = processEvent E s
      in (Ok, if res = EVP_SHOULDEXIT then SetNextState STATE_DESTROYING s' else s'))"

definition SensorCoreInit :: "'w env \<Rightarrow> 'w ctx \<Rightarrow> int \<times> u64 \<times> 'w ctx" where
  "SensorCoreInit E s =
     (let (res, core, w) = senscord_core_init E (world s) in (res, core, s\<lparr>world := w\<rparr>))"

definition SensorCoreExit :: "'w env \<Rightarrow> u64 \<Rightarrow> 'w ctx \<Rightarrow> int \<times> 'w ctx" where
  "SensorCoreExit E core s =
     (if core = 0 then (-1, s)
      else let (res, w) = senscord_core_exit E core (world s) in (res, s\<lparr>world := w\<rparr>))"

definition SensorCoreOpenStream :: "'w env \<Rightarrow> u64 \<Rightarrow> string \<Rightarrow> 'w ctx \<Rightarrow> int \<times> u64 \<times> 'w ctx" where
  "SensorCoreOpenStream E core key s =
     (if core = 0 then (-1, 0, s)
      else let (res, stream, w) = senscord_core_open_stream E core key (world s)
           in (res, stream, s\<lparr>world := w\<rparr>))"

definition SensorCoreCloseStream :: "'w env \<Rightarrow> u64 \<Rightarrow> u64 \<Rightarrow> 'w ctx \<Rightarrow> int \<times> 'w ctx" where
  "SensorCoreCloseStream E core stream s =
     (if core = 0 \<or> stream = 0 then (-1, s)
      else let (res, w) = senscord_core_close_stream E core stream (world s) in (res, s\<lparr>world := w\<rparr>))"

text \<open>The first half of \<open>Applying::Iterate\<close>: opening the sensor and creating the application.\<close>

definition Applying_initialize :: "'w env \<Rightarrow> 'w ctx \<Rightarrow> bool \<times> 'w ctx" where
  "Applying_initialize E s =
     (case SensorCoreInit E s of (ret, core, s1) \<Rightarrow>
        if ret < 0 then (False, StateHandleError E ''EdgeAppLibSensorCoreInit'' ret s1)
        else (case SensorCoreOpenStream E core ''inference_stream'' s1 of (ret, stream, s2) \<Rightarrow>
          if ret < 0
          then (False, StateHandleError E ''EdgeAppLibSensorCoreOpenStream'' ret
                  (snd (SensorCoreExit E core s2)))
          else (let s3 = DtdlModel_InitializeValues E (s2\<lparr>sensor_core := core, sensor_stream := stream\<rparr>);
                    (res, s4) = run_app E (onCreate E) (log_call OnCreate s3)
                in if res \<noteq> 0
                   then (let s5 = EventHandleError E ON_CREATE res STATE_IDLE True
                                    CODE_FAILED_PRECONDITION s4;
                             s6 = snd (SensorCoreCloseStream E core stream s5);
                             s7 = snd (SensorCoreExit E core s6)
                         in (False, s7\<lparr>sensor_core := 0, sensor_stream := 0\<rparr>))
                   else (True, s4\<lparr>is_initialized := True\<rparr>))))"

definition Applying_Iterate :: "'w env \<Rightarrow> 'w ctx \<Rightarrow> IterateStatus \<times> 'w ctx" where
  "Applying_Iterate E s =
     (let (ready, s1) = (if is_initialized s then (True, s) else Applying_initialize E s)
      in if \<not> ready then (Error, s1)
         else (let (res, s2) = (case pending_configuration s1 of
                       None \<Rightarrow> (1, s1)
                     | Some config \<Rightarrow> DtdlModel_Update E config s1);
                   s3 = ClearPendingConfiguration s2
               in if res \<noteq> 0 then (Error, EnableNotification (SetNextState STATE_IDLE s3))
                  else (Ok, SetNextState (STATE_of_num (uint (GetProcessState E s3))) s3)))"

text \<open>The wait for the operations in flight need not end.\<close>

partial_function (option) CoolingDown_wait :: "'w env \<Rightarrow> 'w ctx \<Rightarrow> 'w ctx option" where
  "CoolingDown_wait E s =
     (if DataExportHasPendingOperations s then CoolingDown_wait E (snd (processEvent E s)) else Some s)"

definition CoolingDown_Iterate :: "'w env \<Rightarrow> 'w ctx \<Rightarrow> (IterateStatus \<times> 'w ctx) option" where
  "CoolingDown_Iterate E s =
     (if next_state s = STATE_DESTROYING then Some (Break, s)
      else map_option (\<lambda>s'. (Ok, SetNextState STATE_IDLE (EnableNotification s')))
             (CoolingDown_wait E s))"

text \<open>The last part of \<open>Destroying::Iterate\<close>, after the sensor.\<close>

definition Destroying_uninitialize :: "'w env \<Rightarrow> 'w ctx \<Rightarrow> IterateStatus \<times> 'w ctx" where
  "Destroying_uninitialize E s =
     (if DataExportUnInitialize \<noteq> EdgeAppLibDataExportResultSuccess
      then (Error, StateHandleError E ''EdgeAppLibDataExportUnInitialize'' 1 s)
      else if ReceiveDataUnInitialize \<noteq> EdgeAppLibReceiveDataResultSuccess then (Error, s)
      else (Ok, SetNextState STATE_EXITING s))"

definition Destroying_Iterate :: "'w env \<Rightarrow> 'w ctx \<Rightarrow> IterateStatus \<times> 'w ctx" where
  "Destroying_Iterate E s =
     (let (res, s1) = run_app E (onDestroy E) (log_call OnDestroy s);
          core = sensor_core s1; stream = sensor_stream s1
      in if res \<noteq> 0 then (Error, StateHandleError E ON_DESTROY res s1)
         else if core \<noteq> 0 \<and> stream \<noteq> 0
         then (case SensorCoreCloseStream E core stream s1 of (ret, s2) \<Rightarrow>
           if ret < 0 then (Error, StateHandleError E ''EdgeAppLibSensorCoreCloseStream'' ret s2)
           else (case SensorCoreExit E core s2 of (ret, s3) \<Rightarrow>
             if ret < 0 then (Error, StateHandleError E ''EdgeAppLibSensorCoreExit'' ret s3)
             else Destroying_uninitialize E s3))
         else Destroying_uninitialize E s1)"

section \<open>Changing the state\<close>

text \<open>
  The object \<open>StateFactory::Create\<close> returns is named by its state; \<open>STATE_COUNT\<close> is the null
  pointer. Only the constructor of \<open>Running\<close> does anything.
\<close>

definition StateFactory_Create :: "'w env \<Rightarrow> STATE \<Rightarrow> 'w ctx \<Rightarrow> STATE \<times> 'w ctx" where
  "StateFactory_Create E st s =
     (case st of
        STATE_CREATING \<Rightarrow> (STATE_CREATING, s)
      | STATE_IDLE \<Rightarrow> (STATE_IDLE, s)
      | STATE_RUNNING \<Rightarrow> (STATE_RUNNING, Running_ctor E s)
      | STATE_DESTROYING \<Rightarrow> (STATE_DESTROYING, s)
      | STATE_COOLINGDOWN \<Rightarrow> (STATE_COOLINGDOWN, s)
      | STATE_APPLYING \<Rightarrow> (STATE_APPLYING, s)
      | _ \<Rightarrow> (STATE_COUNT, s))"

definition delete_state :: "'w env \<Rightarrow> STATE \<Rightarrow> 'w ctx \<Rightarrow> 'w ctx" where
  "delete_state E st s = (if st = STATE_RUNNING then Running_dtor E s else s)"

definition SetCurrentState :: "'w env \<Rightarrow> STATE \<Rightarrow> 'w ctx \<Rightarrow> 'w ctx" where
  "SetCurrentState E st s =
     (let s1 = (delete_state E (current_state s) s)\<lparr>current_state := st\<rparr>
      in if st = STATE_COUNT then s1
         else if next_state s1 = STATE_DESTROYING then s1
         else SetNextState st
                (if (st = STATE_IDLE \<or> st = STATE_RUNNING) \<and> GetProcessState E s1 \<noteq> STATE_u32 st
                 then SetProcessState E (STATE_u32 st) s1 else s1))"

end
