(* ===== verification/Machine.thy ===== *)
theory Machine
  imports States
begin

text \<open>
  The state machine (\<open>libs/sm/src/sm_core.cpp\<close>, \<open>main.cpp\<close>): \<open>LoopIterate\<close>, \<open>Run\<close>, the state the
  program starts in, and the step relation that interleaves the main thread with the iteration
  thread of \<open>Running\<close>.
\<close>

section \<open>One turn of the loop\<close>

text \<open>\<open>None\<close> is a turn that does not end; calling a method of the null state is undefined.\<close>

definition State_Iterate :: "'w env \<Rightarrow> 'w ctx \<Rightarrow> (IterateStatus \<times> 'w ctx) option" where
  "State_Iterate E s =
     (case current_state s of
        STATE_CREATING \<Rightarrow> Some (Creating_Iterate E s)
      | STATE_IDLE \<Rightarrow> Some (Idle_Iterate E s)
      | STATE_RUNNING \<Rightarrow> Some (Running_Iterate E s)
      | STATE_DESTROYING \<Rightarrow> Some (Destroying_Iterate E s)
      | STATE_COOLINGDOWN \<Rightarrow> CoolingDown_Iterate E s
      | STATE_APPLYING \<Rightarrow> Some (Applying_Iterate E s)
      | _ \<Rightarrow> Some (Ok, undefined_step s))"

definition change_state :: "'w env \<Rightarrow> STATE \<Rightarrow> 'w ctx \<Rightarrow> 'w ctx" where
  "change_state E next s =
     (let (st, s1) = StateFactory_Create E next s;
          s2 = thread_steps E (thread_runs_start E s1) s1;
          new_next = next_state s2;
          (st, s3) = (if new_next \<noteq> next \<and> next = STATE_RUNNING \<and> new_next = STATE_IDLE
                      then StateFactory_Create E new_next (delete_state E st s2)
                      else (st, s2));
          s4 = thread_steps E (thread_runs_switch E s3) s3
      in SetCurrentState E st s4)"

definition LoopIterate :: "'w env \<Rightarrow> 'w ctx \<Rightarrow> (IterateStatus \<times> 'w ctx) option" where
  "LoopIterate E s =
     (case State_Iterate E s of
        None \<Rightarrow> None
      | Some (status, s1) \<Rightarrow>
          if current_state s1 = STATE_DESTROYING then Some (Break, s1)
          else (let s2 = (if next_state s1 \<noteq> current_state s1 then change_state E (next_state s1) s1
                          else s1)
                in Some (Ok, if is_pending_notification s2 then ClearNotification (SendState E s2)
                             else s2)))"

partial_function (option) Run :: "'w env \<Rightarrow> 'w ctx \<Rightarrow> 'w ctx option" where
  "Run E s =
     (case LoopIterate E s of
        None \<Rightarrow> None
      | Some (status, s') \<Rightarrow> if status \<noteq> Ok then Some s' else Run E s')"

section \<open>The initial state\<close>

definition CommonSettings_new :: "'w env \<Rightarrow> bool \<Rightarrow> CommonSettings" where
  "CommonSettings_new E mem = \<lparr>
     cs_json_obj =
       json_object_set_number E
         (json_object_set_number E (json_object_set_number E [] PROCESS_STATE 1) LOG_LEVEL 2)
         NUMBER_OF_INFERENCE_PER_MESSAGE 1,
     port_settings = PortSettings_new E, pq_settings = PqSettings_new E mem,
     inference_settings = InferenceSettings_new E, codec_settings = CodecSettings_new E,
     ai_models = \<lparr>ai_model_array = [], ai_model_array_index = -1, aim_json_array = []\<rparr>\<rparr>"

definition ResInfo_new :: "'w env \<Rightarrow> jobj" where
  "ResInfo_new E =
     json_object_set_string E (json_object_set_string E
       (json_object_set_number E [] RES_CODE 0) RES_ID (Some '''')) DETAIL_MSG (Some '''')"

definition DtdlModel_new :: "'w env \<Rightarrow> bool \<Rightarrow> DtdlModel" where
  "DtdlModel_new E mem = \<lparr>req_info = json_object_set_string E [] REQ_ID (Some ''''),
     res_info = ResInfo_new E, common_settings = CommonSettings_new E mem,
     custom_settings = JObject []\<rparr>"

definition StateMachine_init :: "'w env \<Rightarrow> 'w \<Rightarrow> 'w ctx" where
  "StateMachine_init E w =
     \<lparr>next_state = STATE_CREATING, is_pending_notification = False, current_state = STATE_CREATING,
      running = None, pending_configuration = None, sensor_core = 0, sensor_stream = 0,
      dtdl_model = DtdlModel_new E (malloc_ok E w), is_initialized = False, log_level = 2,
      map_vec = map_init, futures = (\<lambda>_. None), freed_buffers = [], trace = [],
      undefined_behaviour = False, world = w\<rparr>"

section \<open>Interleaving\<close>

inductive sm_step :: "'w env \<Rightarrow> 'w ctx \<Rightarrow> 'w ctx \<Rightarrow> bool" for E :: "'w env" where
  main_step: "LoopIterate E s = Some (Ok, s') \<Longrightarrow> sm_step E s s'"
| thread_turn: "is_thread_alive s \<Longrightarrow> sm_step E s (thread_step E s)"

inductive reachable :: "'w env \<Rightarrow> 'w \<Rightarrow> 'w ctx \<Rightarrow> bool" for E :: "'w env" and w :: 'w where
  start: "reachable E w (StateMachine_init E w)"
| step: "reachable E w s \<Longrightarrow> sm_step E s s' \<Longrightarrow> reachable E w s'"

inductive_cases sm_stepE: "sm_step E s s'"

end
