(* ===== verification/ControlProofs.thy ===== *)
theory ControlProofs
  imports Machine
begin

text \<open>
  What the parts of the program may do to the control state: which state object exists, whether
  the object \<open>Running\<close> exists, the process state reported to the cloud and the calls made to the
  application. The relations are closed under composition, so they pass from the operations to
  the event handlers and from there to the states.
\<close>

section \<open>The reported process state\<close>

text \<open>The cloud is only ever told 1 (idle) or 2 (running).\<close>

definition good_ps :: "'w env \<Rightarrow> 'w ctx \<Rightarrow> bool" where
  "good_ps E s \<longleftrightarrow> map_of (cs_json_obj (common s)) PROCESS_STATE \<in> {Some (JNumber 1), Some (JNumber 2)}"

lemma good_ps_cong: "cs_json_obj (common s') = cs_json_obj (common s) \<Longrightarrow> good_ps E s' = good_ps E s"
  by (simp add: good_ps_def)

lemma rat_of_u32_simps [simp]: "rat_of_u32 1 = 1" "rat_of_u32 2 = 2" "rat_of_u32 0 = 0"
  by (simp_all add: rat_of_u32_def)

lemma cast_u32_12 [simp]: "cast_u32 u 1 = 1" "cast_u32 u 2 = 2"
  using cast_u32_rat_of_u32 [of u 1] cast_u32_rat_of_u32 [of u 2] by simp_all

lemma good_ps_GetProcessState:
  "parson_ok E \<Longrightarrow> good_ps E s \<Longrightarrow> GetProcessState E s = 1 \<or> GetProcessState E s = 2"
  by (auto simp: good_ps_def GetProcessState_def get_cs_u32_def parson_simps)

lemma EnumToState_12:
  "EnumToState (sint (v :: u32)) = STATE_IDLE \<longleftrightarrow> v = 1"
  "EnumToState (sint (v :: u32)) = STATE_RUNNING \<longleftrightarrow> v = 2"
proof -
  have "sint v = 1 \<longleftrightarrow> v = 1" "sint v = 2 \<longleftrightarrow> v = 2" "sint v = 3 \<longleftrightarrow> v = 3"
    using signed_word_eqI [of v 1] signed_word_eqI [of v 2] signed_word_eqI [of v 3] by auto
  then show "EnumToState (sint v) = STATE_IDLE \<longleftrightarrow> v = 1"
    "EnumToState (sint v) = STATE_RUNNING \<longleftrightarrow> v = 2"
    by (auto simp: EnumToState_def)
qed

lemma STATE_u32_simps [simp]:
  "STATE_u32 STATE_IDLE = 1" "STATE_u32 STATE_RUNNING = 2" "STATE_u32 STATE_DESTROYING = 3"
  by (simp_all add: STATE_u32_def STATE_num_def)

lemma EnumToState_simps [simp]:
  "EnumToState 1 = STATE_IDLE" "EnumToState 2 = STATE_RUNNING" "EnumToState 3 = STATE_DESTROYING"
  by (simp_all add: EnumToState_def)

section \<open>Keeping the control state\<close>

text \<open>\<open>keeps\<close>: the state object and \<open>Running\<close> stay, no call of a handler other than
  \<open>onConfigure\<close> is made, and the reported process state stays valid.\<close>

definition app_calls :: "ext_call list \<Rightarrow> ext_call list" where
  "app_calls tr = filter (\<lambda>c. case c of SendStateCall _ \<Rightarrow> False | OnConfigure _ _ \<Rightarrow> False | _ \<Rightarrow> True) tr"

definition keeps :: "'w env \<Rightarrow> 'w ctx \<Rightarrow> 'w ctx \<Rightarrow> bool" where
  "keeps E s s' \<longleftrightarrow> current_state s' = current_state s \<and> running s' = running s
     \<and> is_initialized s' = is_initialized s
     \<and> app_calls (trace s') = app_calls (trace s) \<and> (good_ps E s \<longrightarrow> good_ps E s')"

text \<open>\<open>tame\<close>: the next state stays, or becomes one that the loop can go to without ending.\<close>

definition tame :: "'w ctx \<Rightarrow> 'w ctx \<Rightarrow> bool" where
  "tame s s' \<longleftrightarrow> next_state s' \<in> {next_state s, STATE_IDLE, STATE_APPLYING, STATE_COOLINGDOWN}"

lemma keeps_refl [simp]: "keeps E s s" and tame_refl [simp]: "tame s s"
  by (simp_all add: keeps_def tame_def)

lemma keeps_trans [trans]: "keeps E s t \<Longrightarrow> keeps E t u \<Longrightarrow> keeps E s u"
  by (simp add: keeps_def)

lemma tame_trans [trans]: "tame s t \<Longrightarrow> tame t u \<Longrightarrow> tame s u"
  by (auto simp: tame_def)

lemma core_keeps: "core_of s' = core_of s \<Longrightarrow> keeps E s s'"
  using core_of_eq [of s' s] by (simp add: keeps_def good_ps_def)

lemma core_tame: "core_of s' = core_of s \<Longrightarrow> tame s s'"
  using core_of_eq [of s' s] by (simp add: tame_def)

lemma keeps_simps [simp]:
  "keeps E t0 (EnableNotification s) \<longleftrightarrow> keeps E t0 s"
  "keeps E t0 (ClearNotification s) \<longleftrightarrow> keeps E t0 s"
  "keeps E t0 (undefined_step s) \<longleftrightarrow> keeps E t0 s"
  "keeps E t0 (SetNextState st s) \<longleftrightarrow> keeps E t0 s"
  "keeps E t0 (report E msg c s) \<longleftrightarrow> keeps E t0 s"
  "keeps E t0 (s\<lparr>world := w\<rparr>) \<longleftrightarrow> keeps E t0 s"
  "keeps E t0 (s\<lparr>pending_configuration := p\<rparr>) \<longleftrightarrow> keeps E t0 s"
  "keeps E t0 (s\<lparr>map_vec := m\<rparr>) \<longleftrightarrow> keeps E t0 s"
  "keeps E t0 (s\<lparr>futures := f\<rparr>) \<longleftrightarrow> keeps E t0 s"
  "keeps E t0 (s\<lparr>freed_buffers := b\<rparr>) \<longleftrightarrow> keeps E t0 s"
  "keeps E t0 (s\<lparr>sensor_core := c1\<rparr>) \<longleftrightarrow> keeps E t0 s"
  "keeps E t0 (s\<lparr>sensor_stream := c2\<rparr>) \<longleftrightarrow> keeps E t0 s"
  "keeps E t0 (s\<lparr>log_level := n\<rparr>) \<longleftrightarrow> keeps E t0 s"
  "keeps E t0 (log_call (SendStateCall t) s) \<longleftrightarrow> keeps E t0 s"
  "keeps E t0 (log_call (OnConfigure a b') s) \<longleftrightarrow> keeps E t0 s"
  by (simp_all add: keeps_def good_ps_def EnableNotification_def ClearNotification_def
      undefined_step_def SetNextState_def report_def SetCode_def SetDetailMsg_def log_call_def
      app_calls_def)

lemma keeps_model [simp]:
  assumes "\<And>m. cs_json_obj (common_settings (f m)) = cs_json_obj (common_settings m)"
  shows "keeps E t0 (dtdl_model_update f s) \<longleftrightarrow> keeps E t0 s"
    and "keeps E (dtdl_model_update f s) t0 \<longleftrightarrow> keeps E s t0"
  using assms by (simp_all add: keeps_def good_ps_def)

lemma keeps_world [simp]: "keeps E (s\<lparr>world := w\<rparr>) t0 \<longleftrightarrow> keeps E s t0"
  by (simp add: keeps_def good_ps_def)

lemma tame_simps [simp]:
  "tame t0 (dtdl_model_update g s) \<longleftrightarrow> tame t0 s"
  "tame t0 (EnableNotification s) \<longleftrightarrow> tame t0 s"
  "tame t0 (ClearNotification s) \<longleftrightarrow> tame t0 s"
  "tame t0 (undefined_step s) \<longleftrightarrow> tame t0 s"
  "tame t0 (report E msg c s) \<longleftrightarrow> tame t0 s"
  "tame t0 (s\<lparr>world := w\<rparr>) \<longleftrightarrow> tame t0 s"
  "tame t0 (s\<lparr>pending_configuration := p\<rparr>) \<longleftrightarrow> tame t0 s"
  "tame t0 (s\<lparr>map_vec := m\<rparr>) \<longleftrightarrow> tame t0 s"
  "tame t0 (s\<lparr>futures := f\<rparr>) \<longleftrightarrow> tame t0 s"
  "tame t0 (s\<lparr>freed_buffers := b\<rparr>) \<longleftrightarrow> tame t0 s"
  "tame t0 (s\<lparr>sensor_core := c1\<rparr>) \<longleftrightarrow> tame t0 s"
  "tame t0 (s\<lparr>sensor_stream := c2\<rparr>) \<longleftrightarrow> tame t0 s"
  "tame t0 (s\<lparr>log_level := n\<rparr>) \<longleftrightarrow> tame t0 s"
  "tame t0 (log_call (SendStateCall t) s) \<longleftrightarrow> tame t0 s"
  "tame t0 (log_call (OnConfigure a b') s) \<longleftrightarrow> tame t0 s"
  "tame t0 (SetNextState STATE_IDLE s)" "tame t0 (SetNextState STATE_APPLYING s)"
  "tame t0 (SetNextState STATE_COOLINGDOWN s)"
  by (simp_all add: tame_def EnableNotification_def ClearNotification_def
      undefined_step_def SetNextState_def report_def SetCode_def SetDetailMsg_def log_call_def)

section \<open>Events and application code\<close>

lemma finish_operation_keeps: "keeps E s (finish_operation p r s)"
  and finish_operation_tame: "tame s (finish_operation p r s)"
  by (simp_all add: finish_operation_def DataExportCleanupOrUnlock_def free_buffer_def Let_def
      split: prod.splits option.splits)

lemma configuration_cb_keeps: "keeps E s (configuration_cb E t c s)"
  and configuration_cb_tame: "tame s (configuration_cb E t c s)"
  by (simp_all add: configuration_cb_def SetPendingConfiguration_def split: option.splits)

lemma handle_event_keeps: "keeps E s (handle_event E ev s)"
  and handle_event_tame: "tame s (handle_event E ev s)"
  by (simp_all add: handle_event_def DataExportSendDataDoneCallback_def
      DataExportTelemetryDoneCallback_def finish_operation_keeps finish_operation_tame
      configuration_cb_keeps configuration_cb_tame split: evp_event.splits)

lemma handle_events_keeps: "keeps E s (handle_events E evs s)"
  unfolding handle_events_def
  by (induction evs arbitrary: s) (auto intro: keeps_trans handle_event_keeps)

lemma handle_events_tame: "tame s (handle_events E evs s)"
  unfolding handle_events_def
  by (induction evs arbitrary: s) (auto intro: tame_trans handle_event_tame)

lemma processEvent_keeps: "processEvent E s = (r, s') \<Longrightarrow> keeps E s s'"
  by (auto simp: processEvent_def split: prod.splits intro!: keeps_trans [OF _ handle_events_keeps])

lemma processEvent_tame: "processEvent E s = (r, s') \<Longrightarrow> tame s s'"
  by (auto simp: processEvent_def split: prod.splits intro!: tame_trans [OF _ handle_events_tame])

lemma SetProperty_core: "core_of (snd (SensorStreamSetProperty E st v s)) = core_of s"
  using SensorStreamSetProperty_core [of E st v s] by (metis prod.collapse)

lemma api_call_keeps: "keeps E s (api_call E c s)"
  by (cases c) (simp_all add: api_call_def DataExportSendState_def updateCustomSettings_def
      CustomSettings_Store_def DataExportStopSelf_def DataExportCleanup_def
      DataExportCleanupOrUnlock_def free_buffer_def core_keeps SetProperty_core split: option.splits)

lemma api_call_tame: "tame s (api_call E c s)"
  by (cases c) (simp_all add: api_call_def DataExportSendState_def updateCustomSettings_def
      CustomSettings_Store_def DataExportStopSelf_def DataExportCleanup_def
      DataExportCleanupOrUnlock_def free_buffer_def core_tame SetProperty_core split: option.splits)

lemma run_app_keeps: "run_app E a s = (r, s') \<Longrightarrow> keeps E s s'"
proof (induction a arbitrary: s)
  case (AppCall c k)
  then have "keeps E (api_call E c s) s'" by (auto simp: Let_def)
  with api_call_keeps show ?case by (rule keeps_trans)
qed simp

lemma run_app_tame: "run_app E a s = (r, s') \<Longrightarrow> tame s s'"
proof (induction a arbitrary: s)
  case (AppCall c k)
  then have "tame (api_call E c s) s'" by (auto simp: Let_def)
  with api_call_tame show ?case by (rule tame_trans)
qed simp

section \<open>Error handling\<close>

lemma UpdateProcessState_simps:
  "UpdateProcessState st s = (r, s') \<Longrightarrow> keeps E s s'"
  "UpdateProcessState st s = (r, s') \<Longrightarrow> next_state s' \<in> {next_state s, st}"
  "UpdateProcessState st s = (r, s') \<Longrightarrow> cs_json_obj (common s') = cs_json_obj (common s)"
  by (auto simp: UpdateProcessState_def EnableNotification_def SetNextState_def split: if_splits)
    (simp_all add: keeps_def good_ps_def)

lemma SetProcessState_keeps:
  assumes E: "parson_ok E"
  shows "keeps E s (SetProcessState E v s)"
proof -
  obtain r t where u: "UpdateProcessState (EnumToState (sint v)) s = (r, t)" by fastforce
  note k = UpdateProcessState_simps(1) [OF u, of E]
  have "keeps E t (upd_cs_json (\<lambda>o'. json_object_set_number E o' PROCESS_STATE (rat_of_u32 v)) t)"
    if "EnumToState (sint v) = STATE_RUNNING \<or> EnumToState (sint v) = STATE_IDLE"
    using that E by (auto simp: keeps_def good_ps_def EnumToState_12)
  with k u show ?thesis
    by (auto simp: SetProcessState_def Let_def intro: keeps_trans)
qed

lemma SetProcessState_next:
  "next_state (SetProcessState E v s) \<in> {next_state s, EnumToState (sint v)}"
  using UpdateProcessState_simps(2) [of "EnumToState (sint v)" s]
  by (auto simp: SetProcessState_def Let_def split: prod.splits)

lemma EventHandleError_keeps:
  "parson_ok E \<Longrightarrow> keeps E s (EventHandleError E ev res st b c s)"
  by (simp add: EventHandleError_def SetProcessState_keeps Let_def)

lemma report_next [simp]: "next_state (report E msg c s) = next_state s"
  by (simp add: report_def SetCode_def SetDetailMsg_def EnableNotification_def)

lemma EventHandleError_next:
  "next_state (EventHandleError E ev res st b c s)
     \<in> {next_state s, EnumToState (sint (STATE_u32 st))}"
  using SetProcessState_next [of E "STATE_u32 st" s] by (auto simp: EventHandleError_def Let_def)

lemma EventHandleError_tame: "tame s (EventHandleError E ev res STATE_IDLE b c s)"
  using EventHandleError_next [of E ev res STATE_IDLE b c s] by (auto simp: tame_def)

text \<open>
  Where the present state may go to idle, a failing handler is answered with the request to go
  there, unless the machine is about to do so anyway.
\<close>

lemma EventHandleError_idle:
  assumes "IsFeasibleTransition (current_state s) STATE_IDLE"
  shows "next_state (EventHandleError E ev res STATE_IDLE b c s) = STATE_IDLE"
  using assms by (simp add: EventHandleError_def SetProcessState_def UpdateProcessState_def
      EnableNotification_def SetNextState_def Let_def)

lemma EventHandleError_destroying:
  assumes "IsFeasibleTransition (current_state s) STATE_DESTROYING"
  shows "next_state (EventHandleError E ev res STATE_DESTROYING b c s) = STATE_DESTROYING"
  using assms by (simp add: EventHandleError_def SetProcessState_def UpdateProcessState_def
      EnableNotification_def SetNextState_def Let_def)

section \<open>Applying a configuration\<close>

lemma keeps_common:
  assumes "parson_ok E"
  shows "keeps E s (SetLoggingLevel E v s)" "keeps E s (SetInferencePerMessage E v s)"
  using assms
  by (auto simp: SetLoggingLevel_def SetInferencePerMessage_def keeps_def good_ps_def
      EnableNotification_def)

lemma PortSettings_Apply_keeps: "PortSettings_Apply E obj s = (r, s') \<Longrightarrow> keeps E s s'"
proof -
  have ch: "keeps E t u" if "ApplyStreamChannels E t = (q, u)" for t u q
    using that by (auto simp: ApplyStreamChannels_def Let_def split: prod.splits
        intro: core_keeps dest: apply_property_core)
  show "PortSettings_Apply E obj s = (r, s') \<Longrightarrow> keeps E s s'"
    by (auto simp: PortSettings_Apply_def Let_def split: if_splits prod.splits dest!: ch)
qed

lemma CommonSettings_appliers_keep:
  assumes "(p, f) \<in> set (CommonSettings_appliers E)" "f obj s = (r, s')"
  shows "keeps E s s'"
  using assms
  by (auto simp: CommonSettings_appliers_def CodecSettings_Apply_def InferenceSettings_Apply_def
      Let_def split: if_splits intro: core_keeps PqSettings_Apply_core PortSettings_Apply_keeps)

interpretation cs_apply: nested_objects E "CommonSettings_appliers E" "keeps E" for E :: "'w env"
  by unfold_locales (auto intro: keeps_trans CommonSettings_appliers_keep)

lemma AiModel_Apply_keeps: "AiModel_Apply E k obj s = (r, s') \<Longrightarrow> keeps E s s'"
proof -
  have "keeps E s (handle_events E evs (u\<lparr>world := w\<rparr>))" if "keeps E s u" for evs u w
    using keeps_trans [OF that handle_events_keeps [of E "u\<lparr>world := w\<rparr>" evs, simplified]]
    by simp
  then show "AiModel_Apply E k obj s = (r, s') \<Longrightarrow> keeps E s s'"
    by (auto simp: AiModel_Apply_def Let_def split: option.splits prod.splits if_splits)
qed

lemma apply_ai_models_keeps: "apply_ai_models E js k res s = (r, s') \<Longrightarrow> keeps E s s'"
proof (induction js arbitrary: k res s)
  case (Cons j js)
  obtain q t where t: "AiModel_Apply E k (json_as_object j) (upd_aims (prepare_ai_model E k) s) = (q, t)"
    by fastforce
  from Cons.prems t have
    "apply_ai_models E js (Suc k) (if q = -1 then -1 else res) (upd_aims (finish_ai_model q k) t) = (r, s')"
    by simp
  then have "keeps E (upd_aims (finish_ai_model q k) t) s'" by (rule Cons.IH)
  with AiModel_Apply_keeps [OF t] show ?case by (auto intro: keeps_trans)
qed simp

lemma AiModels_Apply_keeps: "keeps E s (snd (AiModels_Apply E js s))"
  by (auto simp: AiModels_Apply_def Let_def split: prod.splits dest!: apply_ai_models_keeps)

lemma CommonSettings_apply_rest_keeps:
  "CommonSettings_apply_rest E obj s = (r, s') \<Longrightarrow> keeps E s s'"
  by (auto simp: CommonSettings_apply_rest_def Let_def split: if_splits option.splits
      dest!: cs_apply.Apply_rel intro: keeps_trans [OF AiModels_Apply_keeps])

lemma CommonSettings_Apply_keeps:
  assumes E: "parson_ok E" and a: "CommonSettings_Apply E obj s = (r, s')"
  shows "keeps E s s'"
proof -
  define s2 where "s2 = (let s1 = (if json_object_has_value E obj PROCESS_STATE
      then SetProcessState E (get_cs_u32 E obj PROCESS_STATE) s else s)
    in if json_object_has_value E obj LOG_LEVEL
       then SetLoggingLevel E (get_cs_u32 E obj LOG_LEVEL) s1 else s1)"
  have "keeps E s s2"
    using E by (auto simp: s2_def Let_def intro: keeps_trans SetProcessState_keeps keeps_common)
  moreover have "keeps E s2 s'"
    using a E unfolding CommonSettings_Apply_def Let_def s2_def [unfolded Let_def, symmetric]
    by (auto split: if_splits dest!: CommonSettings_apply_rest_keeps
        intro: keeps_trans [OF keeps_common(2)] keeps_trans [rotated])
  ultimately show ?thesis by (rule keeps_trans)
qed

lemma CustomSettings_Apply_keeps:
  assumes E: "parson_ok E" and a: "CustomSettings_Apply E obj s = (r, s')"
  shows "keeps E s s'"
proof -
  have app: "keeps E t u" if "run_app E p (log_call (OnConfigure x y) t) = (q, u)" for p q t u x y
    using run_app_keeps [OF that]
    by (simp add: keeps_def good_ps_def log_call_def app_calls_def)
  show ?thesis
    using a
    by (auto simp: CustomSettings_Apply_def Let_def split: option.splits prod.splits if_splits
        dest!: app intro!: keeps_trans [OF _ EventHandleError_keeps [OF E]])
qed

lemma DtdlModel_Apply_keeps:
  "parson_ok E \<Longrightarrow> DtdlModel_Apply E obj s = (r, s') \<Longrightarrow> keeps E s s'"
  by (auto simp: DtdlModel_Apply_def split: prod.splits if_splits
      dest: CommonSettings_Apply_keeps CustomSettings_Apply_keeps intro: keeps_trans)

section \<open>A configuration that is refused\<close>

text \<open>
  Verifying a whole configuration writes the request and the response information only.
\<close>

lemma PortSettings_Verify_reports:
  "PortSettings_Verify E obj s = (r, s') \<Longrightarrow> only_reports s s'"
proof -
  have n: "only_reports t (EnableNotification t)" for t :: "'a ctx"
    by (simp add: only_reports_def)
  have m: "only_reports s t \<Longrightarrow> only_reports s (SetDetailMsg E msg (SetCode E c t))" for t msg c
    by (simp add: only_reports_def SetDetailMsg_def SetCode_def)
  show "PortSettings_Verify E obj s = (r, s') \<Longrightarrow> only_reports s s'"
    by (auto simp: PortSettings_Verify_def Let_def split: prod.splits if_splits
        dest!: leaf_Verify intro!: m intro: only_reports_trans [OF n])
qed

lemma CommonSettings_verifiers_only_report:
  assumes "(p, f) \<in> set (CommonSettings_verifiers E)" "f obj s = (r, s')"
  shows "only_reports s s'"
  using assms
  by (auto simp: CommonSettings_verifiers_def CodecSettings_Verify_def InferenceSettings_Verify_def
      dest: leaf_Verify PortSettings_Verify_reports PqSettings_Verify_reports)

interpretation cs_verify: nested_objects E "CommonSettings_verifiers E" only_reports
  for E :: "'w env"
  by unfold_locales (auto intro: only_reports_trans CommonSettings_verifiers_only_report)

interpretation dtdl_verify: nested_objects E "DtdlModel_verifiers E" only_reports
  for E :: "'w env"
  by unfold_locales (auto simp: DtdlModel_verifiers_def CommonSettings_Verify_def
      intro: only_reports_trans dest: cs_verify.Verify_rel)

definition only_infos :: "'w ctx \<Rightarrow> 'w ctx \<Rightarrow> bool" where
  "only_infos s s' \<longleftrightarrow> s' = s\<lparr>is_pending_notification := is_pending_notification s',
     dtdl_model := (dtdl_model s)\<lparr>req_info := req_info (dtdl_model s'),
       res_info := res_info (dtdl_model s')\<rparr>\<rparr>"

lemma only_reports_infos: "only_reports s s' \<Longrightarrow> only_infos s s'"
  using core_of_eq [of s' s]
  by (auto simp: only_reports_def only_infos_def intro!: ctx.equality DtdlModel.equality)

lemma only_infos_trans: "only_infos s t \<Longrightarrow> only_infos t u \<Longrightarrow> only_infos s u"
proof -
  assume "only_infos s t" "only_infos t u"
  then have st: "t = s\<lparr>is_pending_notification := is_pending_notification t,
      dtdl_model := (dtdl_model s)\<lparr>req_info := req_info (dtdl_model t),
        res_info := res_info (dtdl_model t)\<rparr>\<rparr>"
    and tu: "u = t\<lparr>is_pending_notification := is_pending_notification u,
      dtdl_model := (dtdl_model t)\<lparr>req_info := req_info (dtdl_model u),
        res_info := res_info (dtdl_model u)\<rparr>\<rparr>"
    unfolding only_infos_def .
  show "only_infos s u"
    unfolding only_infos_def by (subst tu, subst st, subst (2) st) simp
qed

lemma DtdlModel_Verify_infos:
  assumes "DtdlModel_Verify E obj s = (r, s')"
  shows "only_infos s s'"
proof -
  define t where "t = SetResId E (GetReqId E (ReqInfo_Apply E (json_object_get_object E obj REQ_INFO) s))
    (ReqInfo_Apply E (json_object_get_object E obj REQ_INFO) s)"
  have "only_infos s t"
    by (simp add: only_infos_def t_def SetResId_def ReqInfo_Apply_def EnableNotification_def)
  moreover from assms have "only_reports t s'"
    by (auto simp: DtdlModel_Verify_def Let_def t_def dest: dtdl_verify.Verify_rel)
  ultimately show ?thesis by (blast intro: only_infos_trans only_reports_infos)
qed

lemma infos_keeps: "only_infos s s' \<Longrightarrow> keeps E s s'"
proof -
  assume "only_infos s s'"
  then have "s' = s\<lparr>is_pending_notification := is_pending_notification s',
     dtdl_model := (dtdl_model s)\<lparr>req_info := req_info (dtdl_model s'),
       res_info := res_info (dtdl_model s')\<rparr>\<rparr>"
    unfolding only_infos_def .
  then show "keeps E s s'" by (elim ssubst) (simp add: keeps_def good_ps_def)
qed

lemma DtdlModel_Update_refused:
  assumes "DtdlModel_Update E config s = (r, s')" "r \<noteq> 0"
  shows "only_infos s s'"
proof -
  have r: "only_infos s (ResInfo_Reset E s)"
    by (simp add: only_infos_def ResInfo_Reset_def)
  have "only_infos s s" by (simp add: only_infos_def)
  with assms r show ?thesis
    by (auto simp: DtdlModel_Update_def Let_def split: option.splits prod.splits if_splits
        dest: DtdlModel_Verify_infos intro: only_infos_trans)
qed

lemma DtdlModel_Update_keeps:
  assumes E: "parson_ok E" and u: "DtdlModel_Update E config s = (r, s')"
  shows "keeps E s s'"
proof -
  have r: "keeps E s (ResInfo_Reset E s)" by (simp add: ResInfo_Reset_def)
  have a: "keeps E t (snd (DtdlModel_Apply E obj t))" for t obj
    using DtdlModel_Apply_keeps [OF E, of obj t] by (metis prod.collapse)
  have v: "keeps E s t" if "DtdlModel_Verify E obj (ResInfo_Reset E s) = (q, t)" for q t obj
    using keeps_trans [OF r infos_keeps [OF DtdlModel_Verify_infos [OF that]]] .
  from u show ?thesis
    by (auto simp: DtdlModel_Update_def Let_def split: option.splits prod.splits if_splits
        dest!: v intro: keeps_trans [OF _ a])
qed

end
