(* ===== verification/MachineProofs.thy ===== *)
theory MachineProofs
  imports ControlProofs
begin

text \<open>
  The invariant of the state machine: in every interleaving of the main thread and the iteration
  thread the machine is in one of its states with the next state consistent with it, the object
  \<open>Running\<close> exists exactly in the running state, the reported process state is valid, and the
  handlers of the application are called in the order of their life cycle.
\<close>

section \<open>The life cycle of the application\<close>

datatype phase = Fresh | Created | Started | Ended

fun life :: "phase \<Rightarrow> ext_call \<Rightarrow> phase option" where
  "life Fresh OnCreate = Some Created"
| "life Created OnCreate = Some Created"
| "life Created OnStart = Some Started"
| "life Started OnIterate = Some Started"
| "life Started OnStop = Some Created"
| "life Fresh OnDestroy = Some Ended"
| "life Created OnDestroy = Some Ended"
| "life p (SendStateCall _) = Some p"
| "life p (OnConfigure _ _) = Some p"
| "life _ _ = None"

fun run_life :: "phase \<Rightarrow> ext_call list \<Rightarrow> phase option" where
  "run_life p [] = Some p"
| "run_life p (c # cs) = (case life p c of None \<Rightarrow> None | Some q \<Rightarrow> run_life q cs)"

lemma life_skip [simp]: "life p (SendStateCall t) = Some p" "life p (OnConfigure a b) = Some p"
  by (cases p; simp)+

lemma run_life_append:
  "run_life p (xs @ ys) = (case run_life p xs of None \<Rightarrow> None | Some q \<Rightarrow> run_life q ys)"
  by (induction xs arbitrary: p) (auto split: option.splits)

lemma run_life_app_calls: "run_life p (app_calls tr) = run_life p tr"
  by (induction tr arbitrary: p) (auto simp: app_calls_def split: ext_call.splits option.splits)

lemma run_life_iterates [simp]: "run_life Started (replicate n OnIterate) = Some Started"
  by (induction n) simp_all

section \<open>What the iteration thread does\<close>

definition thr :: "'w env \<Rightarrow> 'w ctx \<Rightarrow> 'w ctx \<Rightarrow> bool" where
  "thr E s s' \<longleftrightarrow> current_state s' = current_state s \<and> is_initialized s' = is_initialized s
     \<and> (running s' = None \<longleftrightarrow> running s = None)
     \<and> (\<exists>n. app_calls (trace s') = app_calls (trace s) @ replicate n OnIterate
            \<and> (running s = None \<longrightarrow> n = 0))
     \<and> (good_ps E s \<longrightarrow> good_ps E s') \<and> tame s s'"

lemma keeps_thr: "keeps E s s' \<Longrightarrow> tame s s' \<Longrightarrow> thr E s s'"
  by (simp add: keeps_def thr_def)

lemma thr_refl [simp]: "thr E s s"
  by (simp add: keeps_thr)

lemma thr_trans:
  assumes "thr E s t" "thr E t u"
  shows "thr E s u"
proof -
  from assms obtain n m where "app_calls (trace t) = app_calls (trace s) @ replicate n OnIterate"
    "running s = None \<longrightarrow> n = 0"
    "app_calls (trace u) = app_calls (trace t) @ replicate m OnIterate" "running t = None \<longrightarrow> m = 0"
    by (auto simp: thr_def)
  then have "app_calls (trace u) = app_calls (trace s) @ replicate (n + m) OnIterate
      \<and> (running s = None \<longrightarrow> n + m = 0)"
    using assms by (simp add: replicate_add thr_def)
  then show ?thesis using assms tame_trans [of s t u] unfolding thr_def by metis
qed

lemma thr_upd [simp]:
  "thr E t0 (upd_running f s) \<longleftrightarrow> thr E t0 s" "thr E t0 (undefined_step s) \<longleftrightarrow> thr E t0 s"
  by (simp_all add: thr_def upd_running_def undefined_step_def good_ps_def tame_def)

lemma thr_coolingdown: "thr E t0 s \<Longrightarrow> thr E t0 (SetNextState STATE_COOLINGDOWN s)"
  by (simp add: thr_def SetNextState_def good_ps_def tame_def)

lemma ThreadLoopIterate_thr:
  assumes E: "parson_ok E" and "running s \<noteq> None" "ThreadLoopIterate E s = (ls, s')"
  shows "thr E s s'"
proof -
  obtain res t where t: "run_app E (onIterate E) (log_call OnIterate s) = (res, t)" by fastforce
  have "thr E s (log_call OnIterate s)"
    using assms(2) by (simp add: thr_def log_call_def app_calls_def good_ps_def tame_def)
      (rule exI [of _ 1], simp)
  moreover have "thr E (log_call OnIterate s) t"
    using run_app_keeps [OF t] run_app_tame [OF t] by (rule keeps_thr)
  ultimately have "thr E s t" by (rule thr_trans)
  moreover have "thr E t (EventHandleError E ON_ITERATE res STATE_IDLE True CODE_FAILED_PRECONDITION t)"
    using EventHandleError_keeps [OF E] EventHandleError_tame by (rule keeps_thr)
  ultimately show ?thesis
    using assms(3) t by (auto simp: ThreadLoopIterate_def split: if_splits intro: thr_trans)
qed

lemma thread_step_thr:
  assumes "parson_ok E"
  shows "thr E s (thread_step E s)"
proof (cases "running s")
  case (Some r)
  obtain ls t where t: "ThreadLoopIterate E s = (ls, t)" by fastforce
  with assms Some have "thr E s t" by (intro ThreadLoopIterate_thr) auto
  with Some t show ?thesis
    by (auto simp: thread_step_def ThreadExit_def Let_def intro!: thr_coolingdown)
qed (simp add: thread_step_def)

lemma thread_steps_thr: "parson_ok E \<Longrightarrow> thr E s (thread_steps E n s)"
  unfolding thread_steps_def
  by (induction n) (auto intro: thr_trans thread_step_thr)

lemma processEvent_thr: "thr E s (snd (processEvent E s))"
  by (metis keeps_thr prod.collapse processEvent_keeps processEvent_tame)

lemma join_loop_thr: "parson_ok E \<Longrightarrow> thr E s (join_loop E es s)"
  by (induction E es s rule: join_loop.induct)
    (auto intro: thr_trans thread_step_thr processEvent_thr)

lemma ThreadStop_thr: "parson_ok E \<Longrightarrow> thr E s (ThreadStop E s)"
  by (auto simp: ThreadStop_def Let_def split: option.splits intro: thr_trans [OF _ join_loop_thr])

section \<open>Constructor and destructor of Running\<close>

lemma SendState_keeps: "keeps E s (SendState E s)" and SendState_tame: "tame s (SendState E s)"
  by (auto simp: SendState_def split: option.splits prod.splits)

text \<open>\<open>thr\<close> with one more call at the end, and the object \<open>Running\<close> there or not.\<close>

lemma Running_ctor_spec:
  assumes E: "parson_ok E" and "running s = None"
  defines "s' \<equiv> Running_ctor E s"
  shows "current_state s' = current_state s" "is_initialized s' = is_initialized s"
    and "running s' \<noteq> None" "app_calls (trace s') = app_calls (trace s) @ [OnStart]"
    and "good_ps E s \<longrightarrow> good_ps E s'" "tame s s'"
proof -
  define s0 where "s0 = log_call OnStart (s\<lparr>running := Some Running_new\<rparr>)"
  obtain res t where t: "run_app E (onStart E) s0 = (res, t)" by fastforce
  have k: "keeps E s0 t" "tame s0 t" using run_app_keeps [OF t] run_app_tame [OF t] by auto
  have s0: "current_state s0 = current_state s" "is_initialized s0 = is_initialized s"
    "running s0 = Some Running_new" "app_calls (trace s0) = app_calls (trace s) @ [OnStart]"
    "good_ps E s0 = good_ps E s" "next_state s0 = next_state s"
    by (simp_all add: s0_def log_call_def app_calls_def good_ps_def)
  have "current_state s' = current_state t \<and> is_initialized s' = is_initialized t
     \<and> running s' \<noteq> None \<and> app_calls (trace s') = app_calls (trace t)
     \<and> (good_ps E t \<longrightarrow> good_ps E s') \<and> tame t s'"
  proof (cases "res = 0")
    case True
    with t have s': "s' = ThreadStart (SendState E t)" by (simp add: s'_def Running_ctor_def s0_def)
    show ?thesis
      using SendState_keeps [of E t] SendState_tame [of t E] k(1) s0(3)
      by (auto simp: s' ThreadStart_def upd_running_def keeps_def tame_def good_ps_def)
  next
    case False
    define u where "u = upd_running (is_failed_on_start_update (\<lambda>_. True)) t"
    from False t have s': "s' = EventHandleError E ON_START res STATE_IDLE True
        (CodeFromSensorErrorCause (senscord_last_error_cause E (world t)) CODE_FAILED_PRECONDITION) u"
      by (simp add: s'_def Running_ctor_def s0_def u_def)
    have "running u \<noteq> None" "current_state u = current_state t" "trace u = trace t"
      "is_initialized u = is_initialized t" "next_state u = next_state t" "good_ps E u = good_ps E t"
      using k(1) s0(3) by (simp_all add: u_def upd_running_def keeps_def good_ps_def)
    then show ?thesis
      using EventHandleError_keeps [OF E, of u ON_START res STATE_IDLE]
        EventHandleError_tame [of u E ON_START res]
      by (auto simp: s' keeps_def tame_def)
  qed
  with k s0 show "current_state s' = current_state s" "is_initialized s' = is_initialized s"
    "running s' \<noteq> None" "app_calls (trace s') = app_calls (trace s) @ [OnStart]"
    "good_ps E s \<longrightarrow> good_ps E s'" "tame s s'"
    by (auto simp: keeps_def tame_def)
qed

lemma Running_dtor_spec:
  assumes E: "parson_ok E" and "running s \<noteq> None"
  defines "s' \<equiv> Running_dtor E s"
  shows "current_state s' = current_state s" "is_initialized s' = is_initialized s"
    and "running s' = None"
    and "\<exists>n. app_calls (trace s') = app_calls (trace s) @ replicate n OnIterate @ [OnStop]"
    and "good_ps E s \<longrightarrow> good_ps E s'" "tame s s'"
proof -
  define s2 where "s2 = (let s1 = ThreadStop E s in if is_thread_alive s1 then undefined_step s1 else s1)"
  have a: "thr E s s2" using ThreadStop_thr [OF E] by (auto simp: s2_def Let_def)
  obtain res t where t: "run_app E (onStop E) (log_call OnStop s2) = (res, t)" by fastforce
  have k: "keeps E (log_call OnStop s2) t" "tame (log_call OnStop s2) t"
    using run_app_keeps [OF t] run_app_tame [OF t] by auto
  define b where "b = (\<not> (case running s2 of None \<Rightarrow> False | Some r \<Rightarrow> is_failed_on_start r))"
  have s': "s' = (if res \<noteq> 0
      then EventHandleError E ON_STOP res STATE_IDLE b CODE_FAILED_PRECONDITION t else t)\<lparr>running := None\<rparr>"
    using t unfolding s'_def Running_dtor_def Let_def s2_def [unfolded Let_def, symmetric] b_def
    by simp
  define v where "v = (if res \<noteq> 0
      then EventHandleError E ON_STOP res STATE_IDLE b CODE_FAILED_PRECONDITION t else t)"
  have v: "keeps E t v" "tame t v"
    by (auto simp: v_def EventHandleError_tame EventHandleError_keeps [OF E])
  have w: "keeps E (log_call OnStop s2) v" "tame (log_call OnStop s2) v"
    using k v by (auto intro: keeps_trans tame_trans)
  have u: "s' = v\<lparr>running := None\<rparr>" by (simp add: s' v_def)
  from a obtain n where n: "app_calls (trace s2) = app_calls (trace s) @ replicate n OnIterate"
    by (auto simp: thr_def)
  from w n have "app_calls (trace v) = app_calls (trace s) @ replicate n OnIterate @ [OnStop]"
    by (simp add: keeps_def log_call_def app_calls_def)
  then show "\<exists>n. app_calls (trace s') = app_calls (trace s) @ replicate n OnIterate @ [OnStop]"
    by (auto simp: u)
  show "current_state s' = current_state s" "is_initialized s' = is_initialized s" "running s' = None"
    using a w by (simp_all add: u thr_def keeps_def log_call_def)
  have g: "good_ps E (log_call OnStop s2) = good_ps E s2" "good_ps E s' = good_ps E v"
    by (simp_all add: good_ps_def log_call_def u)
  show "good_ps E s \<longrightarrow> good_ps E s'"
    using a w(1) by (simp add: g thr_def keeps_def)
  have "tame s v" using a w by (intro tame_trans [of s s2 v]) (simp_all add: thr_def tame_def log_call_def)
  then show "tame s s'" by (simp add: u tame_def)
qed

section \<open>The invariant\<close>

text \<open>
  Between two turns the next state is the present one, except that in the running state the
  iteration thread may have asked for another.
\<close>

definition next_ok :: "STATE \<Rightarrow> STATE \<Rightarrow> bool" where
  "next_ok st next \<longleftrightarrow>
     (if st = STATE_RUNNING
      then next \<in> {STATE_RUNNING, STATE_IDLE, STATE_APPLYING, STATE_COOLINGDOWN}
      else next = st)"

definition state_ok :: "STATE \<Rightarrow> bool" where
  "state_ok st \<longleftrightarrow> st \<noteq> STATE_EXITING \<and> st \<noteq> STATE_COUNT"

text \<open>\<open>life_ok\<close> relates the calls made so far to the objects that exist.\<close>

definition life_ok :: "'w ctx \<Rightarrow> bool" where
  "life_ok s \<longleftrightarrow>
     (case run_life Fresh (app_calls (trace s)) of
        None \<Rightarrow> False
      | Some p \<Rightarrow> (p = Started \<longleftrightarrow> running s \<noteq> None) \<and> p \<noteq> Ended \<and> (is_initialized s \<longrightarrow> p \<noteq> Fresh))"

definition sm_inv :: "'w env \<Rightarrow> 'w ctx \<Rightarrow> bool" where
  "sm_inv E s \<longleftrightarrow> state_ok (current_state s) \<and> next_ok (current_state s) (next_state s)
     \<and> good_ps E s \<and> (running s \<noteq> None \<longleftrightarrow> current_state s = STATE_RUNNING) \<and> life_ok s"

lemma life_ok_None: "life_ok s \<Longrightarrow> running s = None \<Longrightarrow> is_initialized s \<Longrightarrow>
    run_life Fresh (app_calls (trace s)) = Some Created"
  by (cases "run_life Fresh (app_calls (trace s))"; case_tac "the (run_life Fresh (app_calls (trace s)))")
    (auto simp: life_ok_def)

lemma life_ok_keeps: "keeps E s s' \<Longrightarrow> life_ok s \<Longrightarrow> life_ok s'"
  by (auto simp: life_ok_def keeps_def split: option.splits)

lemma life_ok_thr: "thr E s s' \<Longrightarrow> life_ok s \<Longrightarrow> life_ok s'"
  by (cases "running s") (auto simp: life_ok_def thr_def run_life_append split: option.splits)

lemma life_ok_ctor:
  assumes "parson_ok E" "running s = None" "is_initialized s" "life_ok s"
  shows "life_ok (Running_ctor E s)"
  using Running_ctor_spec [OF assms(1,2)] life_ok_None [OF assms(4,2,3)] assms(3)
  by (simp add: life_ok_def run_life_append)

lemma life_ok_dtor:
  assumes "parson_ok E" "running s \<noteq> None" "life_ok s"
  shows "life_ok (Running_dtor E s)"
proof -
  from assms(2,3) have "run_life Fresh (app_calls (trace s)) = Some Started"
    by (auto simp: life_ok_def split: option.splits)
  with Running_dtor_spec [OF assms(1,2)] show ?thesis
    by (auto simp: life_ok_def run_life_append)
qed

lemma SetNextState_simps [simp]:
  "next_state (SetNextState st s) = st" "current_state (SetNextState st s) = current_state s"
  "running (SetNextState st s) = running s" "is_initialized (SetNextState st s) = is_initialized s"
  "trace (SetNextState st s) = trace s" "good_ps E (SetNextState st s) = good_ps E s"
  "life_ok (SetNextState st s) = life_ok s"
  by (simp_all add: SetNextState_def good_ps_def life_ok_def split: option.splits)

lemma EnableNotification_control [simp]:
  "next_state (EnableNotification s) = next_state s"
  "current_state (EnableNotification s) = current_state s"
  "is_initialized (EnableNotification s) = is_initialized s"
  "running (EnableNotification s) = running s" "trace (EnableNotification s) = trace s"
  by (simp_all add: EnableNotification_def)

section \<open>One turn\<close>

text \<open>
  After \<open>Iterate\<close>: nothing but the next state matters to the loop. \<open>ready\<close> collects what a
  transition needs.
\<close>

definition ready :: "'w env \<Rightarrow> 'w ctx \<Rightarrow> bool" where
  "ready E s \<longleftrightarrow> state_ok (current_state s) \<and> state_ok (next_state s) \<and> good_ps E s
     \<and> (running s \<noteq> None \<longleftrightarrow> current_state s = STATE_RUNNING) \<and> life_ok s
     \<and> (next_state s = STATE_RUNNING \<and> current_state s \<noteq> STATE_RUNNING \<longrightarrow> is_initialized s)"

lemma ready_keeps:
  assumes "keeps E s s'" "sm_inv E s" "state_ok (next_state s')"
    and "next_state s' = STATE_RUNNING \<Longrightarrow> current_state s \<noteq> STATE_RUNNING \<Longrightarrow> is_initialized s"
  shows "ready E s'"
  using assms life_ok_keeps [OF assms(1)] by (auto simp: ready_def sm_inv_def keeps_def)

lemma processEvent_ready:
  assumes "sm_inv E s" "processEvent E s = (r, t)" "current_state s \<in> {STATE_IDLE, STATE_RUNNING}"
  shows "ready E (if r = EVP_SHOULDEXIT then SetNextState STATE_DESTROYING t else t)"
proof (rule ready_keeps [OF _ assms(1)])
  show "keeps E s (if r = EVP_SHOULDEXIT then SetNextState STATE_DESTROYING t else t)"
    using processEvent_keeps [OF assms(2)] by simp
qed (use assms processEvent_tame [OF assms(2)]
    in \<open>auto simp: sm_inv_def next_ok_def tame_def state_ok_def split: if_splits\<close>)

lemma CoolingDown_wait_keeps: "CoolingDown_wait E s = Some s' \<Longrightarrow> keeps E s s'"
proof (erule CoolingDown_wait.raw_induct [rotated])
  fix wait and E :: "'w env" and s s'
  assume IH: "\<And>E s s'. wait E s = Some s' \<Longrightarrow> keeps (E :: 'w env) s s'"
    and r: "(if DataExportHasPendingOperations s then wait E (snd (processEvent E s)) else Some s) = Some s'"
  have "keeps E s (snd (processEvent E s))"
    by (metis prod.collapse processEvent_keeps)
  with IH r show "keeps E s s'" by (auto split: if_splits intro: keeps_trans)
qed

lemma CoolingDown_ready:
  assumes "sm_inv E s" "CoolingDown_Iterate E s = Some (status, t)"
    and "current_state s = STATE_COOLINGDOWN"
  shows "ready E t"
proof -
  from assms(1,3) have "next_state s \<noteq> STATE_DESTROYING" by (simp add: sm_inv_def next_ok_def)
  with assms(2) obtain u where u: "CoolingDown_wait E s = Some u"
    "t = SetNextState STATE_IDLE (EnableNotification u)"
    by (auto simp: CoolingDown_Iterate_def)
  then have "keeps E s t" using CoolingDown_wait_keeps [OF u(1)] by simp
  then show ?thesis by (rule ready_keeps [OF _ assms(1)]) (simp_all add: u state_ok_def)
qed

section \<open>Applying\<close>

lemma init_scalars_keep:
  "keeps E s (init_DigitalZoom E s)" "keeps E s (init_ExposureMode E s)"
  "keeps E s (init_EvCompensation E s)" "keeps E s (init_AeAntiFlickerMode E s)"
  "keeps E s (init_WhiteBalanceMode E s)" "keeps E s (init_ImageRotation E s)"
  "keeps E s (init_Gamma E s)"
  by (simp_all add: init_DigitalZoom_def init_ExposureMode_def init_EvCompensation_def
      init_AeAntiFlickerMode_def init_WhiteBalanceMode_def init_ImageRotation_def init_Gamma_def
      get_scalar_def SensorStreamGetProperty_def split: prod.splits)

lemma init_objects_keep:
  "keeps E s (CameraImageSize_InitializeValues E s)" "keeps E s (CameraImageFlip_InitializeValues E s)"
  "keeps E s (FrameRate_InitializeValues E s)" "keeps E s (AutoExposure_InitializeValues E s)"
  "keeps E s (AutoExposureMetering_InitializeValues E s)"
  "keeps E s (ManualExposure_InitializeValues E s)" "keeps E s (AutoWhiteBalance_InitializeValues E s)"
  "keeps E s (ManualWhiteBalancePreset_InitializeValues E s)"
  "keeps E s (ImageCropping_InitializeValues E s)"
  by (simp_all add: CameraImageSize_InitializeValues_def CameraImageFlip_InitializeValues_def
      FrameRate_InitializeValues_def AutoExposure_InitializeValues_def
      AutoExposureMetering_InitializeValues_def ManualExposure_InitializeValues_def
      AutoWhiteBalance_InitializeValues_def ManualWhiteBalancePreset_InitializeValues_def
      ImageCropping_InitializeValues_def SensorStreamGetProperty_def Let_def split: prod.splits)
    auto

lemma PqSettings_InitializeValues_keeps: "keeps E s (PqSettings_InitializeValues E s)"
  unfolding PqSettings_InitializeValues_def Let_def
  by (rule keeps_trans [rotated], rule init_objects_keep init_scalars_keep)+ (rule keeps_refl)

lemma feasible_simps [simp]:
  "IsFeasibleTransition STATE_APPLYING STATE_IDLE" "IsFeasibleTransition STATE_APPLYING STATE_DESTROYING"
  "IsFeasibleTransition STATE_IDLE STATE_IDLE" "IsFeasibleTransition STATE_RUNNING STATE_IDLE"
  by (simp_all add: IsFeasibleTransition_def kFeasibleTransitionBitmap_def STATE_num_def
      eval_nat_numeral)

text \<open>A call to \<open>onCreate\<close> is the only call \<open>Applying\<close> makes.\<close>

definition applying_ok :: "'w env \<Rightarrow> 'w ctx \<Rightarrow> 'w ctx \<Rightarrow> bool" where
  "applying_ok E s s' \<longleftrightarrow> current_state s' = current_state s \<and> running s' = running s
     \<and> (good_ps E s \<longrightarrow> good_ps E s')
     \<and> ((is_initialized s' = is_initialized s \<and> app_calls (trace s') = app_calls (trace s))
        \<or> app_calls (trace s') = app_calls (trace s) @ [OnCreate])"

lemma applying_keeps: "keeps E s s' \<Longrightarrow> applying_ok E s s'"
  by (simp add: keeps_def applying_ok_def)

lemma applying_trans: "applying_ok E s t \<Longrightarrow> keeps E t u \<Longrightarrow> applying_ok E s u"
  by (auto simp: keeps_def applying_ok_def)

lemma keeps_applying: "keeps E s t \<Longrightarrow> applying_ok E t u \<Longrightarrow> applying_ok E s u"
  by (auto simp: keeps_def applying_ok_def)

lemma StateHandleError_keeps: "parson_ok E \<Longrightarrow> keeps E s (StateHandleError E ev res s)"
  by (simp add: StateHandleError_def EventHandleError_keeps)

lemma Sensor_keeps:
  "SensorCoreInit E s = (r, c, t) \<Longrightarrow> keeps E s t"
  "SensorCoreOpenStream E c0 k s = (r, c, t) \<Longrightarrow> keeps E s t"
  "keeps E s (snd (SensorCoreExit E c0 s))" "keeps E s (snd (SensorCoreCloseStream E c0 st s))"
  by (auto simp: SensorCoreInit_def SensorCoreOpenStream_def SensorCoreExit_def
      SensorCoreCloseStream_def split: prod.splits if_splits)

lemma next_state_Sensor [simp]:
  "next_state (snd (SensorCoreExit E c0 s)) = next_state s"
  "next_state (snd (SensorCoreCloseStream E c0 st s)) = next_state s"
  by (auto simp: SensorCoreExit_def SensorCoreCloseStream_def split: prod.splits)

lemma Applying_initialize_spec:
  assumes E: "parson_ok E" and i: "Applying_initialize E s = (b, s')"
    and cur: "current_state s = STATE_APPLYING"
  shows "applying_ok E s s'" and "b \<Longrightarrow> is_initialized s'"
    and "\<not> b \<Longrightarrow> next_state s' \<in> {STATE_IDLE, STATE_DESTROYING}"
proof -
  obtain r1 core s1 where 1: "SensorCoreInit E s = (r1, core, s1)" by (cases "SensorCoreInit E s")
  obtain r2 stream s2 where 2: "SensorCoreOpenStream E core ''inference_stream'' s1 = (r2, stream, s2)"
    by (cases "SensorCoreOpenStream E core ''inference_stream'' s1")
  note k1 = Sensor_keeps(1) [OF 1]
  note k2 = keeps_trans [OF k1 Sensor_keeps(2) [OF 2]]
  consider "r1 < 0" | "0 \<le> r1" "r2 < 0" | "0 \<le> r1" "0 \<le> r2" by linarith
  then have "applying_ok E s s' \<and> (b \<longrightarrow> is_initialized s')
    \<and> (\<not> b \<longrightarrow> next_state s' \<in> {STATE_IDLE, STATE_DESTROYING})"
  proof cases
    case 1
    with i \<open>SensorCoreInit E s = _\<close> have s': "\<not> b" "s' = StateHandleError E ''EdgeAppLibSensorCoreInit'' r1 s1"
      by (auto simp: Applying_initialize_def)
    with k1 have "keeps E s s'" by (auto intro: keeps_trans StateHandleError_keeps [OF E])
    moreover have "current_state s1 = STATE_APPLYING" using k1 cur by (simp add: keeps_def)
    ultimately show ?thesis
      using s' by (simp add: applying_keeps StateHandleError_def EventHandleError_destroying)
  next
    case 2
    define t where "t = snd (SensorCoreExit E core s2)"
    with 2 i \<open>SensorCoreInit E s = _\<close> \<open>SensorCoreOpenStream _ _ _ _ = _\<close>
    have s': "\<not> b" "s' = StateHandleError E ''EdgeAppLibSensorCoreOpenStream'' r2 t"
      by (auto simp: Applying_initialize_def)
    have t: "keeps E s t" unfolding t_def by (rule keeps_trans [OF k2 Sensor_keeps(3)])
    with s' have "keeps E s s'" by (auto intro: keeps_trans StateHandleError_keeps [OF E])
    moreover have "current_state t = STATE_APPLYING" using t cur by (simp add: keeps_def)
    ultimately show ?thesis
      using s' by (simp add: applying_keeps StateHandleError_def EventHandleError_destroying)
  next
    case 3
    define s3 where "s3 = DtdlModel_InitializeValues E (s2\<lparr>sensor_core := core, sensor_stream := stream\<rparr>)"
    obtain res s4 where s4: "run_app E (onCreate E) (log_call OnCreate s3) = (res, s4)" by fastforce
    have "keeps E s (s2\<lparr>sensor_core := core, sensor_stream := stream\<rparr>)"
      using k2 by (simp add: keeps_def good_ps_def)
    then have k3: "keeps E s s3"
      unfolding s3_def DtdlModel_InitializeValues_def
      by (rule keeps_trans [OF _ PqSettings_InitializeValues_keeps])
    have "applying_ok E s (log_call OnCreate s3)"
      using k3 by (simp add: applying_ok_def keeps_def good_ps_def log_call_def app_calls_def)
    then have k4: "applying_ok E s s4" by (rule applying_trans) (rule run_app_keeps [OF s4])
    show ?thesis
    proof (cases "res = 0")
      case True
      with 3 i s4 \<open>SensorCoreInit E s = _\<close> \<open>SensorCoreOpenStream _ _ _ _ = _\<close>
      have "b" "s' = s4\<lparr>is_initialized := True\<rparr>" by (auto simp: Applying_initialize_def s3_def)
      moreover have "app_calls (trace s4) = app_calls (trace s) @ [OnCreate]"
        using run_app_keeps [OF s4] k3 by (simp add: keeps_def log_call_def app_calls_def)
      ultimately show ?thesis using k4 by (simp add: applying_ok_def good_ps_def)
    next
      case False
      define s5 where "s5 = EventHandleError E ON_CREATE res STATE_IDLE True CODE_FAILED_PRECONDITION s4"
      define s7 where "s7 = snd (SensorCoreExit E core (snd (SensorCoreCloseStream E core stream s5)))"
      from False 3 i s4 \<open>SensorCoreInit E s = _\<close> \<open>SensorCoreOpenStream _ _ _ _ = _\<close>
      have s': "\<not> b" "s' = s7\<lparr>sensor_core := 0, sensor_stream := 0\<rparr>"
        by (auto simp: Applying_initialize_def s3_def s5_def s7_def Let_def)
      have "keeps E s4 s7" unfolding s7_def s5_def
        by (rule keeps_trans [OF keeps_trans [OF EventHandleError_keeps [OF E] Sensor_keeps(4)]
              Sensor_keeps(3)])
      then have "applying_ok E s s7" by (rule applying_trans [OF k4])
      moreover have "current_state s4 = STATE_APPLYING" using k4 cur by (simp add: applying_ok_def)
      then have "next_state s7 = STATE_IDLE" by (simp add: s7_def s5_def EventHandleError_idle)
      ultimately show ?thesis using s' by (simp add: applying_ok_def good_ps_def)
    qed
  qed
  then show "applying_ok E s s'" "b \<Longrightarrow> is_initialized s'"
    "\<not> b \<Longrightarrow> next_state s' \<in> {STATE_IDLE, STATE_DESTROYING}" by blast+
qed

lemma life_ok_applying:
  assumes "applying_ok E s s'" "life_ok s" "running s = None"
  shows "life_ok s'"
proof -
  from assms(2,3) obtain p where p: "run_life Fresh (app_calls (trace s)) = Some p"
    "p = Fresh \<or> p = Created" "is_initialized s \<longrightarrow> p \<noteq> Fresh"
    by (cases "run_life Fresh (app_calls (trace s))"; case_tac "the (run_life Fresh (app_calls (trace s)))")
      (auto simp: life_ok_def)
  with assms(1,3) show ?thesis
    by (auto simp: applying_ok_def life_ok_def run_life_append)
qed

lemma Applying_ready:
  assumes E: "parson_ok E" and inv: "sm_inv E s" and cur: "current_state s = STATE_APPLYING"
    and a: "Applying_Iterate E s = (status, s')"
  shows "ready E s'"
proof -
  define b s1 where "b = fst (if is_initialized s then (True, s) else Applying_initialize E s)"
    and "s1 = snd (if is_initialized s then (True, s) else Applying_initialize E s)"
  have bs: "(if is_initialized s then (True, s) else Applying_initialize E s) = (b, s1)"
    by (simp add: b_def s1_def)
  have 1: "applying_ok E s s1" "b \<Longrightarrow> is_initialized s1"
    "\<not> b \<Longrightarrow> next_state s1 \<in> {STATE_IDLE, STATE_DESTROYING}"
    using bs Applying_initialize_spec [OF E _ cur, of b s1]
    by (auto simp: applying_keeps split: if_splits)
  have r: "running s = None" "life_ok s" "good_ps E s" using inv cur by (auto simp: sm_inv_def)
  have R: "ready E t" if "applying_ok E s t" "next_state t \<in> {STATE_IDLE, STATE_DESTROYING, STATE_RUNNING}"
    "next_state t = STATE_RUNNING \<Longrightarrow> is_initialized t" for t
    using that r cur life_ok_applying [OF that(1) r(2,1)]
    by (auto simp: ready_def applying_ok_def state_ok_def)
  show ?thesis
  proof (cases b)
    case False
    with a bs have "s' = s1" by (auto simp: Applying_Iterate_def)
    with 1 False show ?thesis by (intro R) auto
  next
    case True
    define u where "u = (case pending_configuration s1 of None \<Rightarrow> (1, s1)
      | Some config \<Rightarrow> DtdlModel_Update E config s1)"
    define s3 where "s3 = ClearPendingConfiguration (snd u)"
    have "keeps E s1 (snd u)"
      using DtdlModel_Update_keeps [OF E, of _ s1]
      by (auto simp: u_def split: option.splits) (metis prod.collapse)
    then have k: "keeps E s1 s3" by (simp add: s3_def ClearPendingConfiguration_def)
    have k3: "applying_ok E s s3" by (rule applying_trans [OF 1(1) k])
    have g: "good_ps E s3" using k3 r by (simp add: applying_ok_def)
    have "is_initialized s3" using 1(2) True k by (simp add: keeps_def)
    moreover have "STATE_of_num (uint (GetProcessState E s3)) \<in> {STATE_IDLE, STATE_RUNNING}"
      using good_ps_GetProcessState [OF E g] by (auto simp: STATE_of_num_def)
    moreover have "s' = EnableNotification (SetNextState STATE_IDLE s3)
        \<or> s' = SetNextState (STATE_of_num (uint (GetProcessState E s3))) s3"
      using a True unfolding Applying_Iterate_def bs
      by (auto simp: u_def [symmetric] s3_def Let_def split: prod.splits if_splits)
    ultimately show ?thesis
      by (elim disjE) (auto intro!: R applying_trans [OF k3])
  qed
qed

section \<open>Changing the state\<close>

lemma SetCurrentState_spec:
  assumes E: "parson_ok E" and st: "state_ok st" and g: "good_ps E s"
    and l: "life_ok s" and r: "running s \<noteq> None \<longleftrightarrow> current_state s = STATE_RUNNING \<or> st = STATE_RUNNING"
    and one: "\<not> (current_state s = STATE_RUNNING \<and> st = STATE_RUNNING)"
    and nd: "next_state s = STATE_DESTROYING \<Longrightarrow> st = STATE_DESTROYING"
  shows "sm_inv E (SetCurrentState E st s)"
proof -
  define s1 where "s1 = (delete_state E (current_state s) s)\<lparr>current_state := st\<rparr>"
  have d: "good_ps E (delete_state E (current_state s) s)" "life_ok (delete_state E (current_state s) s)"
    "running (delete_state E (current_state s) s) \<noteq> None \<longleftrightarrow> st = STATE_RUNNING"
    using Running_dtor_spec [OF E, of s] life_ok_dtor [OF E, of s] g l r one
    by (auto simp: delete_state_def)
  then have s1: "good_ps E s1" "life_ok s1" "running s1 \<noteq> None \<longleftrightarrow> st = STATE_RUNNING"
    "current_state s1 = st"
    by (simp_all add: s1_def good_ps_def life_ok_def cong: option.case_cong)
  have "tame s (delete_state E (current_state s) s)"
    using Running_dtor_spec(6) [OF E, of s] r by (auto simp: delete_state_def)
  then have nd1: "next_state s1 = STATE_DESTROYING \<Longrightarrow> st = STATE_DESTROYING"
    using nd by (auto simp: s1_def tame_def)
  define s2 where "s2 = (if (st = STATE_IDLE \<or> st = STATE_RUNNING) \<and> GetProcessState E s1 \<noteq> STATE_u32 st
    then SetProcessState E (STATE_u32 st) s1 else s1)"
  have "keeps E s1 s2" by (simp add: s2_def SetProcessState_keeps [OF E])
  then have s2: "good_ps E s2" "life_ok s2" "running s2 \<noteq> None \<longleftrightarrow> st = STATE_RUNNING"
    "current_state s2 = st"
    using s1 life_ok_keeps [of E s1 s2] by (auto simp: keeps_def)
  have "SetCurrentState E st s = (if next_state s1 = STATE_DESTROYING then s1 else SetNextState st s2)"
    using st by (simp add: SetCurrentState_def Let_def s1_def [symmetric] s2_def [symmetric] state_ok_def)
  then show ?thesis
    using s1 s2 st nd1 by (cases "next_state s1 = STATE_DESTROYING") (simp_all add: sm_inv_def next_ok_def)
qed

text \<open>
  Steps of the thread and the destructor never ask for the end of the machine, so a state that is
  being entered is not overtaken by it.
\<close>

lemma change_state_inv:
  assumes E: "parson_ok E" and rd: "ready E s" and ne: "next_state s \<noteq> current_state s"
  shows "sm_inv E (change_state E (next_state s) s)"
proof -
  define nx where "nx = next_state s"
  define s1 where "s1 = snd (StateFactory_Create E nx s)"
  have st: "state_ok nx" "state_ok (current_state s)" using rd by (auto simp: ready_def nx_def)
  have C: "StateFactory_Create E nx s = (nx, s1)"
    using st by (auto simp: StateFactory_Create_def s1_def state_ok_def split: STATE.splits)
  have s1: "good_ps E s1" "life_ok s1" "current_state s1 = current_state s"
    "running s1 \<noteq> None \<longleftrightarrow> current_state s = STATE_RUNNING \<or> nx = STATE_RUNNING"
    "next_state s1 = STATE_DESTROYING \<Longrightarrow> nx = STATE_DESTROYING"
    using rd ne Running_ctor_spec [OF E, of s] life_ok_ctor [OF E, of s]
    by (auto simp: s1_def StateFactory_Create_def ready_def nx_def tame_def split: STATE.splits)
  define s2 where "s2 = thread_steps E (thread_runs_start E s1) s1"
  have t2: "thr E s1 s2" unfolding s2_def by (rule thread_steps_thr [OF E])
  have s2: "good_ps E s2" "life_ok s2" "current_state s2 = current_state s"
    "running s2 \<noteq> None \<longleftrightarrow> current_state s = STATE_RUNNING \<or> nx = STATE_RUNNING"
    "next_state s2 = STATE_DESTROYING \<Longrightarrow> nx = STATE_DESTROYING"
    using t2 s1 life_ok_thr [OF t2] by (auto simp: thr_def tame_def)
  define fail where "fail \<longleftrightarrow> next_state s2 \<noteq> nx \<and> nx = STATE_RUNNING \<and> next_state s2 = STATE_IDLE"
  define st' where "st' = (if fail then STATE_IDLE else nx)"
  define s3 where "s3 = (if fail then Running_dtor E s2 else s2)"
  have f: "current_state s \<noteq> STATE_RUNNING" "running s2 \<noteq> None" if fail
    using that ne s2(4) by (auto simp: fail_def nx_def)
  have s3: "good_ps E s3" "life_ok s3" "current_state s3 = current_state s"
    "running s3 \<noteq> None \<longleftrightarrow> current_state s = STATE_RUNNING \<or> st' = STATE_RUNNING"
    "next_state s3 = STATE_DESTROYING \<Longrightarrow> st' = STATE_DESTROYING"
    using s2 f Running_dtor_spec [OF E, of s2] life_ok_dtor [OF E, of s2]
    by (auto simp: s3_def st'_def fail_def tame_def)
  define s4 where "s4 = thread_steps E (thread_runs_switch E s3) s3"
  have t4: "thr E s3 s4" unfolding s4_def by (rule thread_steps_thr [OF E])
  have s4: "good_ps E s4" "life_ok s4" "current_state s4 = current_state s"
    "running s4 \<noteq> None \<longleftrightarrow> current_state s = STATE_RUNNING \<or> st' = STATE_RUNNING"
    "next_state s4 = STATE_DESTROYING \<Longrightarrow> st' = STATE_DESTROYING"
    using t4 s3 life_ok_thr [OF t4] by (auto simp: thr_def tame_def)
  have dI: "delete_state E STATE_RUNNING s2 = Running_dtor E s2"
    "StateFactory_Create E STATE_IDLE x = (STATE_IDLE, x)" for x
    by (simp_all add: delete_state_def StateFactory_Create_def)
  have "(if next_state s2 \<noteq> nx \<and> nx = STATE_RUNNING \<and> next_state s2 = STATE_IDLE
         then StateFactory_Create E (next_state s2) (delete_state E nx s2) else (nx, s2)) = (st', s3)"
    by (cases fail) (auto simp: st'_def s3_def fail_def dI)
  then have "change_state E nx s = SetCurrentState E st' s4"
    unfolding change_state_def C by (simp only: Let_def s2_def [symmetric] s4_def prod.case)
  moreover have "state_ok st'" using st by (simp add: st'_def state_ok_def)
  moreover have "\<not> (current_state s4 = STATE_RUNNING \<and> st' = STATE_RUNNING)"
    using ne s4(3) by (auto simp: st'_def nx_def split: if_splits)
  ultimately show ?thesis
    using s4 by (simp add: nx_def SetCurrentState_spec [OF E])
qed

end
