(* ===== verification/TurnProofs.thy ===== *)
theory TurnProofs
  imports MachineProofs
begin

text \<open>
  A turn of the loop and a step of the iteration thread keep the invariant of theory
  \<open>MachineProofs\<close>; so every reachable state has it.
\<close>

section \<open>Turns keep the invariant\<close>

lemma Creating_ready:
  assumes "sm_inv E s" "current_state s = STATE_CREATING" "Creating_Iterate E s = (status, t)"
  shows "ready E t"
proof -
  have t: "t = EnableNotification (SetNextState STATE_IDLE s)"
    using assms(3) by (simp add: Creating_Iterate_def DataExportInitialize_def ReceiveDataInitialize_def)
  show ?thesis
    by (rule ready_keeps [OF _ assms(1)]) (simp_all add: t state_ok_def)
qed

lemma State_Iterate_ready:
  assumes E: "parson_ok E" and i: "sm_inv E s" and r: "State_Iterate E s = Some (status, t)"
    and d: "current_state s \<noteq> STATE_DESTROYING"
  shows "ready E t"
proof -
  have "state_ok (current_state s)" using i by (simp add: sm_inv_def)
  with d consider "current_state s = STATE_CREATING" | "current_state s = STATE_IDLE"
    | "current_state s = STATE_RUNNING" | "current_state s = STATE_COOLINGDOWN"
    | "current_state s = STATE_APPLYING"
    by (cases "current_state s") (auto simp: state_ok_def)
  then show ?thesis
  proof cases
    case 1
    with r i show ?thesis by (auto simp: State_Iterate_def intro: Creating_ready)
  next
    case 2
    obtain q u where u: "processEvent E s = (q, u)" by fastforce
    with 2 r i show ?thesis
      using processEvent_ready [OF i u] by (auto simp: State_Iterate_def Idle_Iterate_def)
  next
    case 3
    obtain q u where u: "processEvent E s = (q, u)" by fastforce
    with 3 r i show ?thesis
      using processEvent_ready [OF i u] by (auto simp: State_Iterate_def Running_Iterate_def)
  next
    case 4
    with r i show ?thesis by (auto simp: State_Iterate_def intro: CoolingDown_ready)
  next
    case 5
    with r i E show ?thesis by (auto simp: State_Iterate_def intro: Applying_ready)
  qed
qed

lemma ready_current:
  assumes "ready E s" "next_state s = current_state s"
  shows "sm_inv E s"
  using assms by (simp add: ready_def sm_inv_def next_ok_def)

lemma sm_inv_keeps:
  assumes "sm_inv E s" "keeps E s s'" "next_state s' = next_state s"
  shows "sm_inv E s'"
  using assms life_ok_keeps [OF assms(2)] by (simp add: sm_inv_def keeps_def)

lemma SendState_frame [simp]:
  "next_state (SendState E s) = next_state s" "current_state (SendState E s) = current_state s"
  "running (SendState E s) = running s" "is_initialized (SendState E s) = is_initialized s"
  "pending_configuration (SendState E s) = pending_configuration s"
  "dtdl_model (SendState E s) = dtdl_model s" "map_vec (SendState E s) = map_vec s"
  by (simp_all add: SendState_def undefined_step_def log_call_def Let_def split: option.splits prod.splits)

lemma ClearNotification_frame [simp]:
  "next_state (ClearNotification s) = next_state s" "current_state (ClearNotification s) = current_state s"
  "running (ClearNotification s) = running s" "is_initialized (ClearNotification s) = is_initialized s"
  "pending_configuration (ClearNotification s) = pending_configuration s"
  "dtdl_model (ClearNotification s) = dtdl_model s" "trace (ClearNotification s) = trace s"
  "\<not> is_pending_notification (ClearNotification s)"
  by (simp_all add: ClearNotification_def)

lemma notify_inv: "sm_inv E s \<Longrightarrow> sm_inv E (ClearNotification (SendState E s))"
  by (erule sm_inv_keeps) (simp_all add: SendState_keeps)

text \<open>\<open>LoopIterate\<close>, taken apart.\<close>

lemma LoopIterate_cases:
  assumes "LoopIterate E s = Some (status, s')"
  obtains
    (ends) q where "State_Iterate E s = Some (q, s')" "current_state s' = STATE_DESTROYING"
      "status = Break"
  | (goes) q t u where "State_Iterate E s = Some (q, t)" "current_state t \<noteq> STATE_DESTROYING"
      "status = Ok"
      "u = (if next_state t \<noteq> current_state t then change_state E (next_state t) t else t)"
      "s' = (if is_pending_notification u then ClearNotification (SendState E u) else u)"
  using assms by (auto simp: LoopIterate_def Let_def split: option.splits prod.splits if_splits)

lemma Destroying_current:
  assumes E: "parson_ok E"
  shows "current_state (snd (Destroying_Iterate E s)) = current_state s"
proof -
  obtain res t where t: "run_app E (onDestroy E) (log_call OnDestroy s) = (res, t)" by fastforce
  have "current_state t = current_state s"
    using run_app_keeps [OF t] by (simp add: keeps_def log_call_def)
  moreover have "current_state (StateHandleError E ev r u) = current_state u" for ev r u
    using StateHandleError_keeps [OF E] by (simp add: keeps_def)
  moreover have "current_state (snd (Destroying_uninitialize E u)) = current_state u" for u
    by (simp add: Destroying_uninitialize_def DataExportUnInitialize_def ReceiveDataUnInitialize_def)
  moreover have "SensorCoreCloseStream E c k u = (r, v) \<Longrightarrow> current_state v = current_state u"
    "SensorCoreExit E c u = (r, v) \<Longrightarrow> current_state v = current_state u" for c k u r v
    by (auto simp: SensorCoreCloseStream_def SensorCoreExit_def split: prod.splits if_splits)
  ultimately show ?thesis
    by (simp add: Destroying_Iterate_def t Let_def split: prod.split)
qed

lemma LoopIterate_inv:
  assumes E: "parson_ok E" and i: "sm_inv E s" and l: "LoopIterate E s = Some (Ok, s')"
  shows "sm_inv E s'"
  using l
proof (cases rule: LoopIterate_cases)
  case (goes q t u)
  have d: "current_state s \<noteq> STATE_DESTROYING"
  proof
    assume "current_state s = STATE_DESTROYING"
    with goes(1) have "t = snd (Destroying_Iterate E s)" by (simp add: State_Iterate_def)
    then have "current_state t = STATE_DESTROYING"
      using Destroying_current [OF E, of s] \<open>current_state s = STATE_DESTROYING\<close> by simp
    with goes(2) show False by simp
  qed
  have "ready E t" by (rule State_Iterate_ready [OF E i goes(1) d])
  then have "sm_inv E u"
    using goes(4) change_state_inv [OF E] ready_current by auto
  with goes(5) show ?thesis by (simp add: notify_inv)
qed simp

lemma thread_step_inv:
  assumes E: "parson_ok E" and i: "sm_inv E s" and a: "is_thread_alive s"
  shows "sm_inv E (thread_step E s)"
proof -
  have t: "thr E s (thread_step E s)" by (rule thread_step_thr [OF E])
  have "running s \<noteq> None" using a by (auto simp: is_thread_alive_def split: option.splits)
  with i have c: "current_state s = STATE_RUNNING" by (simp add: sm_inv_def)
  then have "next_ok STATE_RUNNING (next_state (thread_step E s))"
    using t i by (auto simp: thr_def tame_def sm_inv_def next_ok_def)
  with t i c life_ok_thr [OF t] show ?thesis by (simp add: sm_inv_def thr_def)
qed

lemma StateMachine_init_inv: "parson_ok E \<Longrightarrow> sm_inv E (StateMachine_init E w)"
  by (simp add: sm_inv_def StateMachine_init_def state_ok_def next_ok_def good_ps_def life_ok_def
      DtdlModel_new_def CommonSettings_new_def app_calls_def)

lemma sm_step_inv:
  assumes E: "parson_ok E" and i: "sm_inv E s" and st: "sm_step E s s'"
  shows "sm_inv E s'"
  using st by cases (auto intro: LoopIterate_inv [OF E i] thread_step_inv [OF E i])

lemma reachable_inv:
  assumes E: "parson_ok E" and r: "reachable E w s"
  shows "sm_inv E s"
  using r by induction (auto intro: StateMachine_init_inv [OF E] sm_step_inv [OF E])

end
