(* ===== verification/Demo.thy ===== *)
theory Demo
  imports TurnProofs
begin

text \<open>
  A concrete environment over the association-list JSON library of theory \<open>Json\<close>, and concrete
  states: the examples of the properties are evaluated in them. The sensor accepts and returns
  everything, the application does nothing, the EVP agent has no events, and the thread runs only
  when it is asked to. The world is a number.
\<close>

definition demo_env :: "json option \<Rightarrow> nat env" where
  "demo_env j = \<lparr>
     json_parse_string = (\<lambda>_. j),
     json_serialize_to_string = json_serialize_to_string list_parson,
     json_value_equals = json_value_equals list_parson,
     json_object_names = json_object_names list_parson,
     json_object_has_value = json_object_has_value list_parson,
     json_object_has_value_of_type = json_object_has_value_of_type list_parson,
     json_object_get_number = json_object_get_number list_parson,
     json_object_get_string = json_object_get_string list_parson,
     json_object_get_boolean = json_object_get_boolean list_parson,
     json_object_get_object = json_object_get_object list_parson,
     json_object_get_array = json_object_get_array list_parson,
     json_object_set_value = json_object_set_value list_parson,
     json_object_remove = json_object_remove list_parson,
     json_object_dotget_string = json_object_dotget_string list_parson,
     json_object_dotset_value = json_object_dotset_value list_parson,
     undef_conv = (\<lambda>_. 0),
     b64e_size = (\<lambda>n. 4 * ((n + 2) div 3)),
     b64_encode = (\<lambda>_. ''''),
     b64_decode = (\<lambda>_. []),
     malloc_ok = (\<lambda>_. True),
     senscord_core_init = (\<lambda>w. (0, 1, w)),
     senscord_core_exit = (\<lambda>_ w. (0, w)),
     senscord_core_open_stream = (\<lambda>_ _ w. (0, 2, w)),
     senscord_core_close_stream = (\<lambda>_ _ w. (0, w)),
     senscord_stream_get_property = (\<lambda>_ p w. (0, p, w)),
     senscord_stream_set_property = (\<lambda>_ _ w. (0, w)),
     senscord_last_error_cause = (\<lambda>_. AITRIOS_SENSOR_ERROR_NONE),
     receive_data = (\<lambda>_ _ _ s. (EdgeAppLibReceiveDataResultSuccess, [], world s)),
     EVP_sendState = (\<lambda>_ w. (EVP_OK, w)),
     EVP_processEvent = (\<lambda>s. ([], EVP_OK, world s)),
     join_schedule = (\<lambda>_. [JoinThreadRuns]),
     thread_runs_start = (\<lambda>_. 0),
     thread_runs_switch = (\<lambda>_. 0),
     onCreate = AppReturn 0,
     onConfigure = (\<lambda>_ _. AppReturn 0),
     onStart = AppReturn 0,
     onIterate = AppReturn 0,
     onStop = AppReturn 0,
     onDestroy = AppReturn 0\<rparr>"

lemma parson_ok_demo [simp]: "parson_ok (demo_env j)"
  using parson_ok_list by (simp add: parson_ok_def demo_env_def)

lemma parson_ok_handlers [simp]:
  "parson_ok (E\<lparr>onStart := a\<rparr>) = parson_ok (E :: 'w env)"
  "parson_ok (E\<lparr>onIterate := a\<rparr>) = parson_ok (E :: 'w env)"
  "parson_ok (E\<lparr>onStop := a\<rparr>) = parson_ok (E :: 'w env)"
  "parson_ok (E\<lparr>onConfigure := f\<rparr>) = parson_ok (E :: 'w env)"
  "parson_ok (E\<lparr>EVP_processEvent := g\<rparr>) = parson_ok (E :: 'w env)"
  "parson_ok (E\<lparr>thread_runs_start := h\<rparr>) = parson_ok (E :: 'w env)"
  "parson_ok (E\<lparr>senscord_stream_set_property := sp\<rparr>) = parson_ok (E :: 'w env)"
  by (simp_all add: parson_ok_def)

text \<open>The state the program starts in.\<close>

definition demo_state :: "nat ctx" where
  "demo_state = StateMachine_init (demo_env None) 0"

lemma demo_state_simps [simp]:
  "current_state demo_state = STATE_CREATING" "next_state demo_state = STATE_CREATING"
  "running demo_state = None" "is_initialized demo_state = False" "sensor_stream demo_state = 0"
  "pending_configuration demo_state = None" "map_vec demo_state = map_init" "trace demo_state = []"
  "futures demo_state = (\<lambda>_. None)" "freed_buffers demo_state = []" "world demo_state = 0"
  "is_pending_notification demo_state = False" "undefined_behaviour demo_state = False"
  by (simp_all add: demo_state_def StateMachine_init_def)

lemma demo_first_turn:
  "State_Iterate (demo_env None) demo_state
     = Some (Ok, EnableNotification (SetNextState STATE_IDLE demo_state))"
  by (simp add: State_Iterate_def Creating_Iterate_def DataExportInitialize_def ReceiveDataInitialize_def)

lemma demo_loop_ok: "\<exists>s. LoopIterate (demo_env None) demo_state = Some (Ok, s)"
  by (simp add: LoopIterate_def demo_first_turn Let_def)

end
