(* ===== verification/DeviceProofs.thy ===== *)
theory DeviceProofs
  imports Demo
begin

text \<open>
  Lemmas on the device model that the properties of theory \<open>DeviceProperties\<close> share: what the
  nested verifications of an accepted object found, and what an application does to the reported
  settings, the registers and the gamma parameter.
\<close>

section \<open>Accepted objects\<close>

text \<open>
  Where the nested verifications accept without a trace, so does the whole, and each of them has
  accepted in the state the verification began in.
\<close>

locale silent_objects = nested_objects +
  assumes silent: "(p, f) \<in> set ps \<Longrightarrow> f obj s = (0, s') \<Longrightarrow> s' = s"
begin

lemma verify_properties_0:
  "set qs \<subseteq> set ps \<Longrightarrow> verify_properties E qs obj name s = (0, s') \<Longrightarrow>
     s' = s \<and> (\<forall>f. (name, f) \<in> set qs \<longrightarrow> f (json_object_get_object E obj name) s = (0, s))"
proof (induction qs arbitrary: s)
  case Nil
  then show ?case by simp
next
  case (Cons q qs)
  obtain p f where q: "q = (p, f)" by (cases q)
  show ?case
  proof (cases "name = p")
    case True
    obtain r t where f: "f (json_object_get_object E obj name) s = (r, t)" by fastforce
    with Cons.prems(2) q True have r: "r = 0" and v: "verify_properties E qs obj name t = (0, s')"
      by (auto split: if_splits)
    from silent [of p f] f r Cons.prems(1) q have "t = s" by auto
    with Cons.IH [of s] v f r Cons.prems(1) q True show ?thesis by auto
  next
    case False
    with Cons q show ?thesis by auto
  qed
qed

lemma verify_names_silent:
  "verify_names E vs ps obj names s = (0, s') \<Longrightarrow>
     s' = s \<and> (\<forall>name \<in> set names. \<forall>f. (name, f) \<in> set ps \<longrightarrow>
                 f (json_object_get_object E obj name) s = (0, s))"
proof (induction names arbitrary: s)
  case Nil
  then show ?case by simp
next
  case (Cons n names)
  obtain r t where v: "verify_properties E ps obj n s = (r, t)" by fastforce
  with Cons.prems have r: "r = 0" and w: "verify_names E vs ps obj names t = (0, s')"
    by (auto split: if_splits option.splits)
  from verify_properties_0 [OF order_refl] v r have "t = s"
    "\<forall>f. (n, f) \<in> set ps \<longrightarrow> f (json_object_get_object E obj n) s = (0, s)" by auto
  with Cons.IH [of s] w show ?case by auto
qed

lemma Verify_0:
  assumes "parson_ok E" "JsonObject_Verify E vs ps obj s = (0, s')"
  shows "s' = s" and "valid_members vs obj"
    and "(p, f) \<in> set ps \<Longrightarrow> json_lookup obj p \<noteq> None \<Longrightarrow>
           f (json_object_get_object E obj p) s = (0, s)"
proof -
  note V = verify_names_silent [OF assms(2) [unfolded JsonObject_Verify_def]]
  from V show "s' = s" by simp
  show "valid_members vs obj" by (rule JsonObject_Verify_valid [OF assms])
  assume "(p, f) \<in> set ps" "json_lookup obj p \<noteq> None"
  moreover from this(2) assms(1) have "p \<in> set (json_object_names E obj)"
    by (auto simp: parson_simps json_lookup_def dom_map_of_conv_image_fst [symmetric]
        split: option.splits)
  ultimately show "f (json_object_get_object E obj p) s = (0, s)" using V by blast
qed

end

lemma FrameRate_Verify_0:
  "FrameRate_Verify E obj s = (0, s') \<Longrightarrow>
     s' = s \<and> JsonObject_Verify E FrameRate_validations [] obj s = (0, s)"
  by (auto simp: FrameRate_Verify_def Let_def split: prod.splits if_splits dest: leaf_Verify_0)

lemma AutoExposure_Verify_0:
  "AutoExposure_Verify E obj s = (0, s') \<Longrightarrow>
     s' = s \<and> JsonObject_Verify E AutoExposure_validations [] obj s = (0, s)"
  by (auto simp: AutoExposure_Verify_def Let_def split: prod.splits if_splits dest: leaf_Verify_0)

lemma AutoExposureMetering_Verify_0:
  "AutoExposureMetering_Verify E obj s = (0, s') \<Longrightarrow>
     s' = s \<and> JsonObject_Verify E AutoExposureMetering_validations [] obj s = (0, s)"
  by (auto simp: AutoExposureMetering_Verify_def Let_def split: prod.splits if_splits dest: leaf_Verify_0)

lemma RegisterAccess_Verify_0:
  "RegisterAccess_Verify E obj s = (0, s') \<Longrightarrow>
     s' = s \<and> JsonObject_Verify E RegisterAccess_validations [] obj s = (0, s)
     \<and> (\<forall>k \<in> {BIT_LENGTH, ID, ADDRESS, DATA}. json_object_has_value E obj k)"
  by (auto simp: RegisterAccess_Verify_def split: prod.splits if_splits dest: leaf_Verify_0)

text \<open>\<open>f\<close> accepts only what the table \<open>vs\<close> accepts, without a trace.\<close>

definition guards :: "'w env \<Rightarrow> Validation list \<Rightarrow> 'w verifier \<Rightarrow> bool" where
  "guards E vs f \<longleftrightarrow>
     (\<forall>obj s s'. f obj s = (0, s') \<longrightarrow> s' = s \<and> JsonObject_Verify E vs [] obj s = (0, s))"

lemma guards_leaf: "guards E vs (JsonObject_Verify E vs [])"
  unfolding guards_def using leaf_Verify_0 by blast

lemma guards_pq:
  "guards E CameraImageSize_validations (CameraImageSize_Verify E)"
  "guards E CameraImageFlip_validations (CameraImageFlip_Verify E)"
  "guards E AutoExposure_validations (AutoExposure_Verify E)"
  "guards E AutoExposureMetering_validations (AutoExposureMetering_Verify E)"
  "guards E ManualExposure_validations (ManualExposure_Verify E)"
  "guards E FrameRate_validations (FrameRate_Verify E)"
  "guards E AutoWhiteBalance_validations (AutoWhiteBalance_Verify E)"
  "guards E ManualWhiteBalancePreset_validations (ManualWhiteBalancePreset_Verify E)"
  "guards E ImageCropping_validations (ImageCropping_Verify E)"
  using guards_leaf [of E] FrameRate_Verify_0 [of E] AutoExposure_Verify_0 [of E]
    AutoExposureMetering_Verify_0 [of E]
  by (simp_all add: guards_def pq_leaf_Verify_defs)

text \<open>The table of constraints of every nested object of the picture-quality settings.\<close>

definition pq_tables :: "(string \<times> Validation list) list" where
  "pq_tables =
    [(CAMERA_IMAGE_SIZE, CameraImageSize_validations), (CAMERA_IMAGE_FLIP, CameraImageFlip_validations),
     (AUTO_EXPOSURE, AutoExposure_validations),
     (AUTO_EXPOSURE_METERING, AutoExposureMetering_validations),
     (MANUAL_EXPOSURE, ManualExposure_validations), (FRAME_RATE, FrameRate_validations),
     (AUTO_WHITE_BALANCE, AutoWhiteBalance_validations),
     (MANUAL_WHITE_BALANCE_PRESET, ManualWhiteBalancePreset_validations),
     (IMAGE_CROPPING, ImageCropping_validations)]"

lemma pq_tables_guard:
  "list_all2 (\<lambda>(p, vs) (q, f). q = p \<and> guards E vs f) pq_tables (PqSettings_verifiers E)"
  by (simp add: pq_tables_def PqSettings_verifiers_def guards_pq)

lemma pq_tables_verifiers:
  assumes "(p, vs) \<in> set pq_tables"
  obtains f where "(p, f) \<in> set (PqSettings_verifiers E)" "guards E vs f"
proof -
  from assms obtain i where i: "i < length pq_tables" "pq_tables ! i = (p, vs)"
    by (auto simp: in_set_conv_nth)
  obtain q f where f: "PqSettings_verifiers E ! i = (q, f)" by fastforce
  have "i < length (PqSettings_verifiers E)"
    using i(1) list_all2_lengthD [OF pq_tables_guard [of E]] by simp
  then have "(q, f) \<in> set (PqSettings_verifiers E)" using f by (metis nth_mem)
  moreover have "q = p \<and> guards E vs f"
    using list_all2_nthD [OF pq_tables_guard [of E] i(1)] i(2) f by simp
  ultimately show thesis using that by blast
qed

lemma pq_verifiers_guard:
  assumes "(p, f) \<in> set (PqSettings_verifiers E)"
  obtains vs where "guards E vs f"
proof -
  from assms obtain i where i: "i < length (PqSettings_verifiers E)" "PqSettings_verifiers E ! i = (p, f)"
    by (auto simp: in_set_conv_nth)
  obtain q vs where "pq_tables ! i = (q, vs)" by fastforce
  with list_all2_nthD2 [OF pq_tables_guard [of E] i(1)] i(2) have "guards E vs f" by simp
  then show thesis by (rule that)
qed

interpretation pq_silent: silent_objects E "PqSettings_verifiers E" only_reports for E :: "'w env"
  by unfold_locales (erule pq_verifiers_guard, simp add: guards_def)

lemma verify_registers_0:
  assumes "parson_ok E"
  shows "verify_registers E js s = (0, s') \<Longrightarrow>
     s' = s \<and> (\<forall>j \<in> set js. valid_members RegisterAccess_validations (json_as_object j)
       \<and> (\<forall>k \<in> {BIT_LENGTH, ID, ADDRESS, DATA}. json_lookup (json_as_object j) k \<noteq> None))"
proof (induction js arbitrary: s)
  case Nil
  then show ?case by simp
next
  case (Cons j js)
  obtain r t where v: "RegisterAccess_Verify E (json_as_object j) s = (r, t)" by fastforce
  have "r = 0 \<or> r = -1"
    using v by (auto simp: RegisterAccess_Verify_def split: prod.splits if_splits dest: JsonObject_Verify_ret)
  with v Cons.prems have r: "r = 0" and w: "verify_registers E js t = (0, s')"
    by (auto split: if_splits)
  from RegisterAccess_Verify_0 [of E "json_as_object j" s t] v r have "t = s"
    "valid_members RegisterAccess_validations (json_as_object j)"
    "\<forall>k \<in> {BIT_LENGTH, ID, ADDRESS, DATA}. json_lookup (json_as_object j) k \<noteq> None"
    using JsonObject_Verify_valid [OF assms] by (auto simp: parson_simps assms)
  with Cons.IH [of s] w show ?case by auto
qed

section \<open>Initial values\<close>

lemma SensorStreamGetProperty_pq: "pq (snd (snd (SensorStreamGetProperty E st v s))) = pq s"
  using SensorStreamGetProperty_frame [of E st v s] by (metis prod.collapse)

lemma get_property_pq: "SensorStreamGetProperty E st v s = (r, v', s') \<Longrightarrow> pq s' = pq s"
  by (auto dest!: SensorStreamGetProperty_frame)

lemma get_scalar_pq: "get_scalar E z sel s = (v, s') \<Longrightarrow> pq s' = pq s"
  by (auto simp: get_scalar_def split: prod.splits dest!: get_property_pq)

lemma init_objects:
  "\<exists>p. pq (CameraImageSize_InitializeValues E s)
     = camera_image_size_update (write_node E CameraImageSize_members p) (pq s)"
  "\<exists>p. pq (CameraImageFlip_InitializeValues E s)
     = camera_image_flip_update (write_node E CameraImageFlip_members p) (pq s)"
  "\<exists>p. pq (FrameRate_InitializeValues E s) = frame_rate_update (write_node E FrameRate_members p) (pq s)"
  "\<exists>p. pq (AutoExposure_InitializeValues E s)
     = auto_exposure_update (write_node E AutoExposure_members p) (pq s)"
  "\<exists>p. pq (AutoExposureMetering_InitializeValues E s)
     = auto_exposure_metering_update (write_node E AutoExposureMetering_members p) (pq s)"
  "\<exists>p. pq (ManualExposure_InitializeValues E s)
     = manual_exposure_update (write_node E ManualExposure_members p) (pq s)"
  "\<exists>p. pq (AutoWhiteBalance_InitializeValues E s)
     = auto_white_balance_update (write_node E AutoWhiteBalance_members p) (pq s)"
  "\<exists>p. pq (ImageCropping_InitializeValues E s)
     = image_cropping_update (write_node E ImageCropping_members p) (pq s)"
  "\<exists>f. pq (ManualWhiteBalancePreset_InitializeValues E s) = manual_white_balance_preset_update f (pq s)"
  by (auto simp: CameraImageSize_InitializeValues_def CameraImageFlip_InitializeValues_def
      FrameRate_InitializeValues_def AutoExposure_InitializeValues_def
      AutoExposureMetering_InitializeValues_def ManualExposure_InitializeValues_def
      AutoWhiteBalance_InitializeValues_def ImageCropping_InitializeValues_def
      ManualWhiteBalancePreset_InitializeValues_def Let_def split: prod.split dest!: get_property_pq)

definition set_scalar :: "'w env \<Rightarrow> string \<Rightarrow> rat \<Rightarrow> PqSettings \<Rightarrow> PqSettings" where
  "set_scalar E k v q = q\<lparr>pq_json_obj := json_object_set_number E (pq_json_obj q) k v\<rparr>"

lemma init_scalars:
  "\<exists>v. pq (init_DigitalZoom E s) = (set_scalar E DIGITAL_ZOOM v (pq s))\<lparr>digital_zoom := Some v\<rparr>"
  "\<exists>v. pq (init_ExposureMode E s) = (set_scalar E EXPOSURE_MODE v (pq s))\<lparr>exposure_mode := Some (f32 v)\<rparr>"
  "\<exists>v. pq (init_EvCompensation E s)
     = (set_scalar E EV_COMPENSATION v (pq s))\<lparr>ev_compensation_val := Some v\<rparr>"
  "\<exists>v. pq (init_AeAntiFlickerMode E s)
     = (set_scalar E AE_ANTI_FLICKER_MODE v (pq s))\<lparr>ae_anti_flicker_mode := Some (f32 v)\<rparr>"
  "\<exists>v. pq (init_WhiteBalanceMode E s)
     = (set_scalar E WHITE_BALANCE_MODE v (pq s))\<lparr>white_balance_mode := Some (f32 v)\<rparr>"
  "\<exists>v. pq (init_ImageRotation E s)
     = (set_scalar E IMAGE_ROTATION v (pq s))\<lparr>image_rotation := Some (f32 v)\<rparr>"
  by (auto simp: init_DigitalZoom_def init_ExposureMode_def init_EvCompensation_def
      init_AeAntiFlickerMode_def init_WhiteBalanceMode_def init_ImageRotation_def
      set_scalar_def Let_def split: prod.split dest!: get_scalar_pq)

lemma init_Gamma_pq:
  "\<exists>v g o'. pq (init_Gamma E s) = (pq s)\<lparr>pq_json_obj := o', gamma_mode := Some (f32 v), gamma_param := g\<rparr>
     \<and> (o' = json_object_set_number E (pq_json_obj (pq s)) GAMMA_MODE v
        \<or> o' = json_object_set_string E
                 (json_object_set_number E (pq_json_obj (pq s)) GAMMA_MODE v) GAMMA_PARAMETER (Some ''''))"
proof -
  obtain v s' where v: "get_scalar E (GammaMode 0)
      (\<lambda>p. case p of GammaMode n \<Rightarrow> Some (of_int n) | _ \<Rightarrow> None) s = (v, s')" by fastforce
  let ?j = "json_object_set_number E (pq_json_obj (pq s)) GAMMA_MODE v"
  show ?thesis
  proof (cases "gamma_param (pq s)")
    case None
    then have "pq (init_Gamma E s)
        = (pq s)\<lparr>pq_json_obj := ?j, gamma_mode := Some (f32 v), gamma_param := None\<rparr>"
      by (simp add: init_Gamma_def v Let_def get_scalar_pq [OF v])
    then show ?thesis by blast
  next
    case (Some gp)
    then have "\<exists>g. pq (init_Gamma E s)
        = (pq s)\<lparr>pq_json_obj := json_object_set_string E ?j GAMMA_PARAMETER (Some ''''),
                gamma_mode := Some (f32 v), gamma_param := g\<rparr>"
      by (intro exI) (simp add: init_Gamma_def v Let_def get_scalar_pq [OF v])
    then show ?thesis by blast
  qed
qed

text \<open>Once every setting has been read from the sensor, the JSON shows what was read.\<close>

lemma PqSettings_InitializeValues_reports:
  assumes E: "parson_ok E"
  shows "pq_reports (pq (PqSettings_InitializeValues E s))"
proof -
  define s1 where "s1 = CameraImageSize_InitializeValues E s"
  define s2 where "s2 = CameraImageFlip_InitializeValues E s1"
  define s3 where "s3 = init_DigitalZoom E s2"
  define s4 where "s4 = init_ExposureMode E s3"
  define s5 where "s5 = AutoExposure_InitializeValues E s4"
  define s6 where "s6 = AutoExposureMetering_InitializeValues E s5"
  define s7 where "s7 = init_EvCompensation E s6"
  define s8 where "s8 = init_AeAntiFlickerMode E s7"
  define s9 where "s9 = ManualExposure_InitializeValues E s8"
  define s10 where "s10 = FrameRate_InitializeValues E s9"
  define s11 where "s11 = init_WhiteBalanceMode E s10"
  define s12 where "s12 = AutoWhiteBalance_InitializeValues E s11"
  define s13 where "s13 = ManualWhiteBalancePreset_InitializeValues E s12"
  define s14 where "s14 = ImageCropping_InitializeValues E s13"
  define s15 where "s15 = init_ImageRotation E s14"
  note defs = s1_def s2_def s3_def s4_def s5_def s6_def s7_def s8_def s9_def s10_def s11_def
    s12_def s13_def s14_def s15_def
  obtain p1 where 1: "pq s1 = camera_image_size_update (write_node E CameraImageSize_members p1) (pq s)"
    using init_objects(1) [of E s] s1_def by blast
  obtain p2 where 2: "pq s2 = camera_image_flip_update (write_node E CameraImageFlip_members p2) (pq s1)"
    using init_objects(2) [of E s1] s2_def by blast
  obtain v3 where 3: "pq s3 = (set_scalar E DIGITAL_ZOOM v3 (pq s2))\<lparr>digital_zoom := Some v3\<rparr>"
    using init_scalars(1) [of E s2] s3_def by blast
  obtain v4 where 4: "pq s4 = (set_scalar E EXPOSURE_MODE v4 (pq s3))\<lparr>exposure_mode := Some (f32 v4)\<rparr>"
    using init_scalars(2) [of E s3] s4_def by blast
  obtain p5 where 5: "pq s5 = auto_exposure_update (write_node E AutoExposure_members p5) (pq s4)"
    using init_objects(4) [of E s4] s5_def by blast
  obtain p6 where 6: "pq s6 = auto_exposure_metering_update (write_node E AutoExposureMetering_members p6) (pq s5)"
    using init_objects(5) [of E s5] s6_def by blast
  obtain v7 where 7: "pq s7 = (set_scalar E EV_COMPENSATION v7 (pq s6))\<lparr>ev_compensation_val := Some v7\<rparr>"
    using init_scalars(3) [of E s6] s7_def by blast
  obtain v8 where 8: "pq s8 = (set_scalar E AE_ANTI_FLICKER_MODE v8 (pq s7))\<lparr>ae_anti_flicker_mode := Some (f32 v8)\<rparr>"
    using init_scalars(4) [of E s7] s8_def by blast
  obtain p9 where 9: "pq s9 = manual_exposure_update (write_node E ManualExposure_members p9) (pq s8)"
    using init_objects(6) [of E s8] s9_def by blast
  obtain p10 where 10: "pq s10 = frame_rate_update (write_node E FrameRate_members p10) (pq s9)"
    using init_objects(3) [of E s9] s10_def by blast
  obtain v11 where 11: "pq s11 = (set_scalar E WHITE_BALANCE_MODE v11 (pq s10))\<lparr>white_balance_mode := Some (f32 v11)\<rparr>"
    using init_scalars(5) [of E s10] s11_def by blast
  obtain p12 where 12: "pq s12 = auto_white_balance_update (write_node E AutoWhiteBalance_members p12) (pq s11)"
    using init_objects(7) [of E s11] s12_def by blast
  obtain p13 where 13: "pq s13 = manual_white_balance_preset_update p13 (pq s12)"
    using init_objects(9) [of E s12] s13_def by blast
  obtain p14 where 14: "pq s14 = image_cropping_update (write_node E ImageCropping_members p14) (pq s13)"
    using init_objects(8) [of E s13] s14_def by blast
  obtain v15 where 15: "pq s15 = (set_scalar E IMAGE_ROTATION v15 (pq s14))\<lparr>image_rotation := Some (f32 v15)\<rparr>"
    using init_scalars(6) [of E s14] s15_def by blast
  obtain v g o' where 16: "pq (init_Gamma E s15)
      = (pq s15)\<lparr>pq_json_obj := o', gamma_mode := Some (f32 v), gamma_param := g\<rparr>"
    "o' = json_object_set_number E (pq_json_obj (pq s15)) GAMMA_MODE v
     \<or> o' = json_object_set_string E
                 (json_object_set_number E (pq_json_obj (pq s15)) GAMMA_MODE v) GAMMA_PARAMETER (Some '''')"
    using init_Gamma_pq [of E s15] by blast
  have "pq_reports (pq (init_Gamma E s15))"
    using 16(2)
    by (elim disjE)
      (simp_all add: 1 2 3 4 5 6 7 8 9 10 11 12 13 14 15 16(1) pq_reports_def set_scalar_def
        write_node_def node_reports_written shows_scalar_set E)
  then show ?thesis
    by (simp add: PqSettings_InitializeValues_def defs Let_def)
qed

end
