(* ===== verification/DeviceProperties.thy ===== *)
theory DeviceProperties
  imports DeviceProofs
begin

text \<open>
  The properties of the device model: what a verified configuration satisfies and what is sent to
  the sensor, what the cloud is told about the settings and when, and the bounds of the arrays.
\<close>

section \<open>Verification\<close>

text \<open>C22. The verification of an object without nested objects accepts exactly the objects whose present
  members satisfy every constraint of the table; an accepted object leaves no trace, a refused
  one leaves the message of the first violated constraint of one of its members, the code for an
  invalid argument and a pending notification.\<close>

theorem leaf_verification:
  assumes E: "parson_ok E"
  shows "(valid_members vs obj \<and> JsonObject_Verify E vs [] obj s = (0, s)) \<or>
    (\<not> valid_members vs obj \<and> (\<exists>name \<in> set (json_object_names E obj). \<exists>msg.
       check_validations E obj name vs = Some msg \<and>
       JsonObject_Verify E vs [] obj s = (-1, report E msg CODE_INVALID_ARGUMENT s)))"
proof (cases "find (\<lambda>n. check_validations E obj n vs \<noteq> None) (json_object_names E obj)")
  case None
  then have "JsonObject_Verify E vs [] obj s = (0, s)"
    by (simp add: JsonObject_Verify_def verify_names_leaf)
  with JsonObject_Verify_valid [OF E this] show ?thesis by simp
next
  case (Some n)
  then have n: "n \<in> set (json_object_names E obj)" "check_validations E obj n vs \<noteq> None"
    by (auto simp: find_Some_iff)
  have "\<exists>j. json_lookup obj n = Some j"
    using n(1) E by (force simp: parson_simps json_lookup_def dom_map_of_conv_image_fst
        split: option.splits dest: weak_map_of_SomeI)
  then obtain j where j: "json_lookup obj n = Some j" ..
  obtain msg where msg: "check_validations E obj n vs = Some msg" using n(2) by blast
  from check_validations_None [OF E j, of vs] n(2) j have "\<not> valid_members vs obj"
    by (auto simp: valid_members_def)
  moreover have "JsonObject_Verify E vs [] obj s = (-1, report E msg CODE_INVALID_ARGUMENT s)"
    using Some msg by (simp add: JsonObject_Verify_def verify_names_leaf)
  ultimately show ?thesis using n(1) msg by blast
qed

theorem leaf_verification_witness:
  "\<exists>msg. FrameRate_Verify (demo_env None) (Some [(NUM, JNumber (- 1))]) demo_state
     = (-1, report (demo_env None) msg CODE_INVALID_ARGUMENT demo_state)"
proof -
  have "\<not> valid_members FrameRate_validations (Some [(NUM, JNumber (- 1))])"
    by (simp add: valid_members_def FrameRate_validations_def satisfies_def num_violated_def
        json_lookup_def)
  with leaf_verification [OF parson_ok_demo, of FrameRate_validations "Some [(NUM, JNumber (- 1))]"
      None demo_state]
  show ?thesis by (auto simp: FrameRate_Verify_def)
qed

text \<open>C6. Picture-quality settings are accepted without a trace, and only when every member, every member
  of every nested object and every item of the register access array, which are at most four,
  satisfies the constraints of its table.\<close>

theorem pq_verification:
  assumes E: "parson_ok E" and v: "PqSettings_Verify E obj s = (0, s')"
  shows "s' = s \<and> valid_members PqSettings_validations obj
    \<and> (\<forall>(p, vs) \<in> set pq_tables. json_lookup obj p \<noteq> None \<longrightarrow>
          valid_members vs (json_object_get_object E obj p))
    \<and> (\<forall>array. json_object_get_array E obj REGISTER_ACCESS = Some array \<longrightarrow>
          length array \<le> MAX_REGISTER_ACCESS_COUNT
          \<and> (\<forall>j \<in> set array. valid_members RegisterAccess_validations (json_as_object j)))"
proof -
  obtain r t where J: "JsonObject_Verify E PqSettings_validations (PqSettings_verifiers E) obj s = (r, t)"
    by fastforce
  have r: "r = 0"
    using v J JsonObject_Verify_ret [OF J] by (auto simp: PqSettings_Verify_def split: if_splits)
  note V = pq_silent.Verify_0 [OF E J [unfolded r]]
  have arr: "s' = t \<and> length array \<le> MAX_REGISTER_ACCESS_COUNT
      \<and> (\<forall>j \<in> set array. valid_members RegisterAccess_validations (json_as_object j))"
    if "json_object_get_array E obj REGISTER_ACCESS = Some array" for array
    using v that J r E
    by (auto simp: PqSettings_Verify_def RegisterAccessArray_Verify_def parson_simps
        split: if_splits option.splits json.splits dest!: verify_registers_0 [OF E])
  moreover have "s' = t" if "json_object_get_array E obj REGISTER_ACCESS = None"
    using v that J r by (auto simp: PqSettings_Verify_def split: if_splits)
  moreover have "valid_members vs (json_object_get_object E obj p)"
    if "(p, vs) \<in> set pq_tables" "json_lookup obj p \<noteq> None" for p vs
  proof -
    obtain f where f: "(p, f) \<in> set (PqSettings_verifiers E)" "guards E vs f"
      using pq_tables_verifiers [OF \<open>(p, vs) \<in> set pq_tables\<close>] by blast
    from V(3) [OF f(1) that(2)] f(2) show ?thesis
      unfolding guards_def by (blast intro: JsonObject_Verify_valid [OF E])
  qed
  ultimately show ?thesis
    using V(1,2) by (cases "json_object_get_array E obj REGISTER_ACCESS") auto
qed

theorem pq_verification_witness:
  "PqSettings_Verify (demo_env None) (Some [(IMAGE_ROTATION, JNumber 2)]) demo_state
     = (0, demo_state) \<and> valid_members PqSettings_validations (Some [(IMAGE_ROTATION, JNumber 2)])"
proof -
  have "PqSettings_Verify (demo_env None) (Some [(IMAGE_ROTATION, JNumber 2)]) demo_state = (0, demo_state)"
    by (simp add: PqSettings_Verify_def JsonObject_Verify_def demo_env_def list_parson_def
        PqSettings_verifiers_def PqSettings_validations_def check_validation_def num_violated_def)
  with pq_verification [OF parson_ok_demo this] show ?thesis by simp
qed

text \<open>C12. What a verified object makes the code send to the sensor is in order: the minimal exposure time
  is at most the maximal one, and a metering area that is not the whole picture has its top above
  its bottom and its left before its right, also when the object gives only some of the members.\<close>

theorem verified_ranges_sent:
  assumes "AutoExposure_Verify E obj s = (0, s')" "AutoExposureMetering_Verify E area s' = (0, s'')"
  shows "(\<exists>p msg. AutoExposure_Apply E obj s'' = apply_property E (AutoExposure p) msg s''
       \<and> ae_min_exposure_time p \<le> ae_max_exposure_time p)
    \<and> (\<exists>p msg. AutoExposureMetering_Apply E area s'' = apply_property E (AutoExposureMetering p) msg s''
       \<and> (aem_mode p \<noteq> 0 \<longrightarrow> aem_top p < aem_bottom p \<and> aem_left p < aem_right p))"
proof (rule conjI)
  have s: "s'' = s" "s' = s"
    using AutoExposure_Verify_0 [OF assms(1)] AutoExposureMetering_Verify_0 [OF assms(2)] by simp_all
  let ?ae = "stored (auto_exposure (pq s))"
  have le: "get_u32 E obj MIN_EXPOSURE_TIME (ae_min_exposure_time ?ae)
      \<le> get_u32 E obj MAX_EXPOSURE_TIME (ae_max_exposure_time ?ae)"
    using assms(1) unfolding s by (auto simp: AutoExposure_Verify_def Let_def split: prod.splits if_splits)
  let ?aux = "AutoExposureMetering_aux E area (stored (auto_exposure_metering (pq s)))"
  have area: "aem_mode ?aux \<noteq> 0 \<longrightarrow> aem_top ?aux < aem_bottom ?aux \<and> aem_left ?aux < aem_right ?aux"
    using assms(2) unfolding s
    by (auto simp: AutoExposureMetering_Verify_def Let_def split: prod.splits if_splits)
  show "\<exists>p msg. AutoExposure_Apply E obj s'' = apply_property E (AutoExposure p) msg s''
       \<and> ae_min_exposure_time p \<le> ae_max_exposure_time p"
    unfolding AutoExposure_Apply_def Let_def s
    by (rule exI, rule exI, rule conjI, rule refl) (simp add: le)
  show "\<exists>p msg. AutoExposureMetering_Apply E area s'' = apply_property E (AutoExposureMetering p) msg s''
       \<and> (aem_mode p \<noteq> 0 \<longrightarrow> aem_top p < aem_bottom p \<and> aem_left p < aem_right p)"
    unfolding AutoExposureMetering_Apply_def s
    by (rule exI, rule exI, rule conjI, rule refl) (rule area)
qed

theorem verified_ranges_sent_witness:
  "\<exists>p msg. AutoExposureMetering_Apply (demo_env None)
       (Some [(MODE, JNumber 1), (BOTTOM, JNumber 5), (RIGHT, JNumber 7)]) demo_state
     = apply_property (demo_env None) (AutoExposureMetering p) msg demo_state
     \<and> (aem_mode p \<noteq> 0 \<longrightarrow> aem_top p < aem_bottom p)"
proof -
  let ?a = "Some [(MODE, JNumber 1), (BOTTOM, JNumber 5), (RIGHT, JNumber 7)]"
  have "AutoExposure_Verify (demo_env None) (Some []) demo_state = (0, demo_state)"
    by (simp add: AutoExposure_Verify_def JsonObject_Verify_def demo_env_def list_parson_def
        get_u32_def demo_state_def StateMachine_init_def DtdlModel_new_def CommonSettings_new_def
        PqSettings_new_def zero_node_def)
  moreover have "AutoExposureMetering_Verify (demo_env None) ?a demo_state = (0, demo_state)"
    by (simp add: AutoExposureMetering_Verify_def JsonObject_Verify_def demo_env_def list_parson_def
        get_u32_def get_i32_def AutoExposureMetering_validations_def check_validation_def
        num_violated_def AutoExposureMetering_aux_def cast_u32_def cast_i32_def demo_state_def
        StateMachine_init_def DtdlModel_new_def CommonSettings_new_def PqSettings_new_def zero_node_def)
  ultimately show ?thesis using verified_ranges_sent by blast
qed

section \<open>Storing a property\<close>

definition is_register :: "sensor_property \<Rightarrow> bool" where
  "is_register v \<longleftrightarrow> (case v of RegisterAccess8 _ _ _ \<Rightarrow> True | RegisterAccess16 _ _ _ \<Rightarrow> True
     | RegisterAccess32 _ _ _ \<Rightarrow> True | RegisterAccess64 _ _ _ \<Rightarrow> True | _ \<Rightarrow> False)"

text \<open>The array in the gamma parameter has its declared length.\<close>

definition gamma_array_ok :: "sensor_property \<Rightarrow> bool" where
  "gamma_array_ok v \<longleftrightarrow> (case v of
     GammaParameter p \<Rightarrow> length (gp_gamma_parameter p) = AI_MODEL_GAMMA_PARAMETER_SIZE | _ \<Rightarrow> True)"

context settings_store
begin

lemma store_notified: "store p s = s \<or> is_pending_notification (store p s)"
  by (cases "same (stored (get s)) p") (simp_all add: store_same store_notifies)

end

lemma Store_scalar_notified:
  "StoreDigitalZoom E x s = s \<or> is_pending_notification (StoreDigitalZoom E x s)"
  "StoreEvCompensationVal E x s = s \<or> is_pending_notification (StoreEvCompensationVal E x s)"
  "StoreExposureMode E n s = s \<or> is_pending_notification (StoreExposureMode E n s)"
  "StoreImageRotation E n s = s \<or> is_pending_notification (StoreImageRotation E n s)"
  "StoreAeAntiFlickerMode E n s = s \<or> is_pending_notification (StoreAeAntiFlickerMode E n s)"
  "StoreWhiteBalanceMode E n s = s \<or> is_pending_notification (StoreWhiteBalanceMode E n s)"
  "StoreGammaMode E n s = s \<or> is_pending_notification (StoreGammaMode E n s)"
  "ManualWhiteBalancePreset_StoreValue E t s = s
     \<or> is_pending_notification (ManualWhiteBalancePreset_StoreValue E t s)"
  by (simp_all add: StoreDigitalZoom_def StoreEvCompensationVal_def StoreExposureMode_def
      StoreImageRotation_def StoreAeAntiFlickerMode_def StoreWhiteBalanceMode_def
      StoreGammaMode_def ManualWhiteBalancePreset_StoreValue_def Let_def)

lemma StoreGammaParameter_notified:
  "dtdl_model (StoreGammaParameter E bs k s) = dtdl_model s
     \<or> is_pending_notification (StoreGammaParameter E bs k s)"
proof (cases "gamma_param (pq s)")
  case None
  then show ?thesis by (simp add: StoreGammaParameter_def)
next
  case (Some gp)
  then show ?thesis by (simp add: StoreGammaParameter_def undefined_step_def)
qed

lemma updateProperty_notified:
  assumes "\<not> is_register v"
  shows "dtdl_model (updateProperty E v s) = dtdl_model s \<or> is_pending_notification (updateProperty E v s)"
proof (cases "\<exists>p. v = GammaParameter p")
  case True
  then obtain p where "v = GammaParameter p" ..
  then show ?thesis
    using StoreGammaParameter_notified [of E "gp_gamma_parameter p" "gp_param_size p" s]
    by (simp add: updateProperty_def)
next
  case False
  have "updateProperty E v s = s \<or> is_pending_notification (updateProperty E v s)"
    using assms False Store_scalar_notified [of E _ s] cis_store.store_notified [of E _ s]
      cif_store.store_notified [of E _ s] fr_store.store_notified [of E _ s]
      ae_store.store_notified [of E _ s] aem_store.store_notified [of E _ s]
      me_store.store_notified [of E _ s] awb_store.store_notified [of E _ s]
      icr_store.store_notified [of E _ s]
    by (cases v) (simp_all add: updateProperty_def is_register_def)
  then show ?thesis by auto
qed

lemma Store_scalar_idem:
  "StoreDigitalZoom E x (StoreDigitalZoom E x s) = StoreDigitalZoom E x s"
  "StoreEvCompensationVal E x (StoreEvCompensationVal E x s) = StoreEvCompensationVal E x s"
  "StoreExposureMode E n (StoreExposureMode E n s) = StoreExposureMode E n s"
  "StoreImageRotation E n (StoreImageRotation E n s) = StoreImageRotation E n s"
  "StoreAeAntiFlickerMode E n (StoreAeAntiFlickerMode E n s) = StoreAeAntiFlickerMode E n s"
  "StoreWhiteBalanceMode E n (StoreWhiteBalanceMode E n s) = StoreWhiteBalanceMode E n s"
  "StoreGammaMode E n (StoreGammaMode E n s) = StoreGammaMode E n s"
  by (simp_all add: StoreDigitalZoom_def StoreEvCompensationVal_def StoreExposureMode_def
      StoreImageRotation_def StoreAeAntiFlickerMode_def StoreWhiteBalanceMode_def StoreGammaMode_def)

lemma ManualWhiteBalancePreset_idem:
  "ManualWhiteBalancePreset_StoreValue E t (ManualWhiteBalancePreset_StoreValue E t s)
     = ManualWhiteBalancePreset_StoreValue E t s"
  by (simp add: ManualWhiteBalancePreset_StoreValue_def Let_def)

lemma undefined_step_simps [simp]:
  "dtdl_model (undefined_step s) = dtdl_model s" "world (undefined_step s) = world s"
  "undefined_step (undefined_step s) = undefined_step s" "undefined_behaviour (undefined_step s)"
  by (simp_all add: undefined_step_def)

lemma StoreGammaParameter_idem:
  assumes "length bin = AI_MODEL_GAMMA_PARAMETER_SIZE"
  shows "StoreGammaParameter E bin k (StoreGammaParameter E bin k s) = StoreGammaParameter E bin k s"
proof (cases "unat k \<le> AI_MODEL_GAMMA_PARAMETER_SIZE")
  case True
  with assms have "take (unat k) (overwrite (take (unat k) bin) ys) = take (unat k) bin" for ys
    by (simp add: overwrite_def min_def)
  then show ?thesis by (auto simp: StoreGammaParameter_def split: option.split)
next
  case False
  then show ?thesis by (auto simp: StoreGammaParameter_def split: option.split)
qed

text \<open>A setting that changes is always going to be reported to the cloud; setting the value a setting
  already has changes nothing and reports nothing.\<close>

theorem property_stored_once:
  assumes "\<not> is_register v" "gamma_array_ok v"
  shows "(dtdl_model (updateProperty E v s) \<noteq> dtdl_model s \<longrightarrow>
      is_pending_notification (updateProperty E v s))
    \<and> updateProperty E v (updateProperty E v s) = updateProperty E v s"
proof -
  note updateProperty_notified [OF assms(1), of E s]
  moreover have "updateProperty E v (updateProperty E v s) = updateProperty E v s"
    using assms
    by (cases v) (simp_all add: updateProperty_def is_register_def gamma_array_ok_def
        cis_store.store_idem cif_store.store_idem fr_store.store_idem ae_store.store_idem
        aem_store.store_idem me_store.store_idem awb_store.store_idem icr_store.store_idem
        ManualWhiteBalancePreset_idem StoreGammaParameter_idem Store_scalar_idem)
  ultimately show ?thesis by blast
qed

theorem property_stored_once_witness:
  "is_pending_notification (updateProperty (demo_env None) (ExposureMode 3) demo_state)"
proof -
  have "dtdl_model (updateProperty (demo_env None) (ExposureMode 3) demo_state) \<noteq> dtdl_model demo_state"
    by (simp add: updateProperty_def StoreExposureMode_def demo_state_def StateMachine_init_def
        DtdlModel_new_def CommonSettings_new_def PqSettings_new_def)
  with property_stored_once [of "ExposureMode 3" "demo_env None" demo_state]
  show ?thesis by (simp add: is_register_def gamma_array_ok_def)
qed

end
