(* ===== verification/SettingsProperties.thy ===== *)
theory SettingsProperties
  imports DeviceProofs
begin

text \<open>
  The properties of single settings: frame rates, channels and ports, the white balance preset,
  the register access array and the gamma parameter.
\<close>

section \<open>Frame rate and channels\<close>

text \<open>The frame rate of the image signal processor is set only where it was checked against the frame
  rate the camera has: both denominators are positive, no division by zero happens, and the rate,
  in whole frames, is at most that of the camera.\<close>

theorem isp_frame_rate_bounded:
  assumes "SensorStreamSetIspFrameRate E stream isp s = (0, s')"
  shows "\<exists>cam w w'. senscord_stream_get_property E stream (FrameRate \<lparr>fr_num = 0, fr_denom = 0\<rparr>) (world s)
        = (0, FrameRate cam, w)
    \<and> 0 < fr_num isp \<and> 0 < fr_denom isp \<and> 0 < fr_num cam \<and> 0 < fr_denom cam
    \<and> fr_num isp div fr_denom isp \<le> fr_num cam div fr_denom cam
    \<and> senscord_stream_set_property E stream (IspFrameRate isp) w = (0, w') \<and> s' = s\<lparr>world := w'\<rparr>"
proof -
  obtain r v t where g: "SensorStreamGetProperty E stream (FrameRate \<lparr>fr_num = 0, fr_denom = 0\<rparr>) s = (r, v, t)"
    by (metis prod.collapse)
  from assms g obtain cam where v: "v = FrameRate cam" "r = 0"
    and c: "fr_num isp \<noteq> 0" "fr_denom isp \<noteq> 0" "fr_num cam \<noteq> 0" "fr_denom cam \<noteq> 0"
      "fr_num isp div fr_denom isp \<le> fr_num cam div fr_denom cam"
    and p: "SensorStreamSetProperty E stream (IspFrameRate isp) t = (0, s')"
    by (auto simp: SensorStreamSetIspFrameRate_def Let_def split: if_splits sensor_property.splits)
  from g v obtain w where "senscord_stream_get_property E stream (FrameRate \<lparr>fr_num = 0, fr_denom = 0\<rparr>) (world s)
      = (0, FrameRate cam, w)" "t = s\<lparr>world := w\<rparr>"
    by (auto simp: SensorStreamGetProperty_def split: if_splits prod.splits)
  with p c show ?thesis
    by (auto simp: SensorStreamSetProperty_def updateProperty_def Let_def word_neq_0_conv
        split: if_splits prod.splits)
qed

definition camera_env :: "nat env" where
  "camera_env = (demo_env None)\<lparr>senscord_stream_get_property :=
     \<lambda>_ _ w. (0, FrameRate \<lparr>fr_num = 3000, fr_denom = 100\<rparr>, w)\<rparr>"

theorem isp_frame_rate_bounded_witness:
  "\<exists>cam w. senscord_stream_get_property camera_env 2 (FrameRate \<lparr>fr_num = 0, fr_denom = 0\<rparr>) 0
        = (0, FrameRate cam, w) \<and> (15 :: u32) div 1 \<le> fr_num cam div fr_denom cam"
proof -
  have "SensorStreamSetIspFrameRate camera_env 2 \<lparr>fr_num = 15, fr_denom = 1\<rparr> demo_state
      = (0, demo_state\<lparr>world := 0\<rparr>)"
    by (simp add: SensorStreamSetIspFrameRate_def SensorStreamGetProperty_def
        SensorStreamSetProperty_def camera_env_def demo_env_def updateProperty_def)
  from isp_frame_rate_bounded [OF this] show ?thesis by auto
qed

text \<open>Enabling and disabling a channel keeps the list of channels free of duplicates and within the
  eight entries of its array, makes the channel a member exactly when it was enabled, does not
  touch another channel, and fails, changing nothing, exactly when a new channel finds the list
  full.\<close>

theorem channel_list:
  assumes "distinct cs" "length cs \<le> AITRIOS_SENSOR_CHANNEL_LIST_MAX"
    and "SensorInputDataTypeEnableChannel cs c b = (r, cs')"
  shows "distinct cs' \<and> length cs' \<le> AITRIOS_SENSOR_CHANNEL_LIST_MAX
    \<and> (\<forall>d. d \<noteq> c \<longrightarrow> (d \<in> set cs' \<longleftrightarrow> d \<in> set cs))
    \<and> (if b \<and> c \<notin> set cs \<and> length cs = AITRIOS_SENSOR_CHANNEL_LIST_MAX then r = -1 \<and> cs' = cs
       else r = 0 \<and> (c \<in> set cs' \<longleftrightarrow> b))"
  using assms
  by (auto simp: SensorInputDataTypeEnableChannel_def length_remove1 split: if_splits)

theorem channel_list_witness:
  "distinct (snd (SensorInputDataTypeEnableChannel [1, 0] 7 True))"
  using channel_list [of "[1, 0]" 7 True "fst (SensorInputDataTypeEnableChannel [1, 0] 7 True)"
      "snd (SensorInputDataTypeEnableChannel [1, 0] 7 True)"]
  by (simp add: AITRIOS_SENSOR_CHANNEL_LIST_MAX_def)

section \<open>Ports\<close>

text \<open>The settings of a port after \<open>PortSettings::Apply\<close>.\<close>

definition port_after :: "'w env \<Rightarrow> jobj option \<Rightarrow> string \<Rightarrow> jobj \<Rightarrow> jobj" where
  "port_after E obj k present =
     (if json_object_has_value E obj k then PortSetting_Apply E (json_object_get_object E obj k) present
      else present)"

lemma new_enable_Apply:
  assumes E: "parson_ok E"
    and "json_lookup obj k = None \<or> (\<exists>m. json_lookup obj k = Some (JObject m))"
    and "new_enable E obj k present \<noteq> 0" "new_enable E obj k present \<noteq> -1"
  shows "PortSetting_GetEnabled E (port_after E obj k present)"
proof (cases "json_lookup obj k")
  case None
  with assms show ?thesis
    by (simp add: new_enable_def port_after_def PortSetting_GetEnabled_def parson_simps Let_def)
next
  case (Some j)
  with assms(2) obtain m where m: "json_lookup obj k = Some (JObject m)" by auto
  have keep: "map_of (copy_string E (Some m) k' o') ENABLED = map_of o' ENABLED"
    if "k' \<noteq> ENABLED" for k' o'
    using that E by (auto simp: copy_string_def parson_simps split: option.splits json.splits)
  show ?thesis
  proof (cases "map_of m ENABLED")
    case None
    with m assms(3,4) E show ?thesis
      by (simp add: new_enable_def port_after_def PortSetting_GetEnabled_def PortSetting_Apply_def parson_simps
          keep Let_def split: option.splits json.splits if_splits)
  next
    case (Some b)
    with m assms(3,4) E show ?thesis
      by (auto simp: new_enable_def port_after_def PortSetting_GetEnabled_def PortSetting_Apply_def parson_simps
          keep Let_def split: option.splits json.splits if_splits)
  qed
qed

lemma PortSettings_Verify_0:
  assumes E: "parson_ok E" and v: "PortSettings_Verify E obj s = (0, s')"
  shows "s' = EnableNotification s" "valid_members PortSettings_validations obj"
    "new_enable E obj METADATA (ps_metadata (port_settings (common s))) \<notin> {-1, 0}
     \<or> new_enable E obj INPUT_TENSOR (ps_input_tensor (port_settings (common s))) \<notin> {-1, 0}"
proof -
  obtain r t where J: "JsonObject_Verify E PortSettings_validations [] obj (EnableNotification s) = (r, t)"
    by fastforce
  with v have r: "r = 0" by (auto simp: PortSettings_Verify_def Let_def split: if_splits)
  have t: "t = EnableNotification s" using leaf_Verify_0 J r by blast
  with v J r show "s' = EnableNotification s"
    by (auto simp: PortSettings_Verify_def Let_def split: if_splits)
  show "valid_members PortSettings_validations obj"
    by (rule JsonObject_Verify_valid [OF E J [unfolded r]])
  from v J r t show "new_enable E obj METADATA (ps_metadata (port_settings (common s))) \<notin> {-1, 0}
     \<or> new_enable E obj INPUT_TENSOR (ps_input_tensor (port_settings (common s))) \<notin> {-1, 0}"
    by (auto simp: PortSettings_Verify_def Let_def split: if_splits)
qed

lemma port_member_object:
  "valid_members PortSettings_validations obj \<Longrightarrow> k \<in> {METADATA, INPUT_TENSOR} \<Longrightarrow>
     json_lookup obj k = None \<or> (\<exists>m. json_lookup obj k = Some (JObject m))"
  by (cases "json_lookup obj k"; case_tac "the (json_lookup obj k)")
    (auto simp: valid_members_def PortSettings_validations_def satisfies_def)

lemma apply_InputDataType_common:
  "apply_property E (InputDataType cs) msg s = (q, t) \<Longrightarrow> common t = common s"
  by (auto simp: apply_property_def SensorStreamSetProperty_def updateProperty_def Let_def
      split: prod.splits if_splits)

lemma PortSettings_Apply_ports:
  assumes "PortSettings_Apply E obj s = (r, s')"
  defines "m \<equiv> port_after E obj METADATA (ps_metadata (port_settings (common s)))"
    and "t \<equiv> port_after E obj INPUT_TENSOR (ps_input_tensor (port_settings (common s)))"
  shows "port_settings (common s') = \<lparr>ps_metadata = m, ps_input_tensor = t\<rparr>"
    and "PortSetting_GetEnabled E m \<or> PortSetting_GetEnabled E t \<Longrightarrow>
      \<exists>u q. apply_property E (InputDataType ((if PortSetting_GetEnabled E m then [0] else [])
          @ (if PortSetting_GetEnabled E t then [1] else []))) ''Input Data Type property failed to be set.'' u
          = (q, s') \<and> r = (if q \<noteq> 0 then -1 else 0)"
proof -
  define u where "u = upd_ports (\<lambda>_. \<lparr>ps_metadata = m, ps_input_tensor = t\<rparr>) s"
  let ?cs = "(if PortSetting_GetEnabled E m then [0 :: u32] else [])
          @ (if PortSetting_GetEnabled E t then [1] else [])"
  obtain q v where a: "apply_property E (InputDataType ?cs)
      ''Input Data Type property failed to be set.'' u = (q, v)" by fastforce
  have st: "ApplyStreamChannels E u = (q, v)"
    using a by (auto simp: ApplyStreamChannels_def SensorInputDataTypeEnableChannel_def u_def Let_def
        AITRIOS_SENSOR_CHANNEL_LIST_MAX_def split: if_splits)
  have eq: "(if json_object_has_value E obj INPUT_TENSOR
        then upd_ports (ps_input_tensor_update (PortSetting_Apply E (json_object_get_object E obj INPUT_TENSOR)))
          (if json_object_has_value E obj METADATA
           then upd_ports (ps_metadata_update (PortSetting_Apply E (json_object_get_object E obj METADATA))) s
           else s)
        else if json_object_has_value E obj METADATA
        then upd_ports (ps_metadata_update (PortSetting_Apply E (json_object_get_object E obj METADATA))) s
        else s) = u"
    by (simp add: u_def m_def t_def port_after_def)
  have pu: "port_settings (common u) = \<lparr>ps_metadata = m, ps_input_tensor = t\<rparr>" by (simp add: u_def)
  have P: "PortSettings_Apply E obj s =
      (if \<not> PortSetting_GetEnabled E t \<and> \<not> PortSetting_GetEnabled E m then (-1, u)
       else (if q \<noteq> 0 then -1 else 0, v))"
    unfolding PortSettings_Apply_def Let_def eq by (simp add: st pu)
  have v: "common v = common u" by (rule apply_InputDataType_common [OF a])
  show "port_settings (common s') = \<lparr>ps_metadata = m, ps_input_tensor = t\<rparr>"
    using P assms(1) v by (auto simp: u_def split: if_splits)
  assume "PortSetting_GetEnabled E m \<or> PortSetting_GetEnabled E t"
  with P assms(1) have "r = (if q \<noteq> 0 then -1 else 0)" "s' = v" by (auto split: if_splits)
  with a show "\<exists>u q. apply_property E (InputDataType ?cs) ''Input Data Type property failed to be set.'' u
          = (q, s') \<and> r = (if q \<noteq> 0 then -1 else 0)" by blast
qed

text \<open>C13. Once port settings have been verified and applied, at least one of the two ports is enabled,
  and the sensor is told exactly the enabled ones: channel 0 for the metadata, channel 1 for the
  input tensor.\<close>

theorem ports_enabled:
  assumes "parson_ok E" "PortSettings_Verify E obj s = (0, s')" "PortSettings_Apply E obj s' = (r, s'')"
  defines "m \<equiv> PortSetting_GetEnabled E (ps_metadata (getPortSettings s''))"
    and "t \<equiv> PortSetting_GetEnabled E (ps_input_tensor (getPortSettings s''))"
  shows "(m \<or> t) \<and> (\<exists>u q. apply_property E (InputDataType ((if m then [0] else []) @ (if t then [1] else [])))
      ''Input Data Type property failed to be set.'' u = (q, s'') \<and> r = (if q \<noteq> 0 then -1 else 0))"
proof -
  note V = PortSettings_Verify_0 [OF assms(1,2)]
  note A = PortSettings_Apply_ports [OF assms(3)]
  have c: "common s' = common s" by (simp add: V(1))
  have mt: "m \<or> t"
    using V(3) new_enable_Apply [OF assms(1) port_member_object [OF V(2)]]
    unfolding m_def t_def getPortSettings_def A(1) c by auto
  have m: "m = PortSetting_GetEnabled E (port_after E obj METADATA (ps_metadata (port_settings (common s'))))"
    and t: "t = PortSetting_GetEnabled E (port_after E obj INPUT_TENSOR (ps_input_tensor (port_settings (common s'))))"
    unfolding m_def t_def getPortSettings_def A(1) by simp_all
  show ?thesis using mt A(2) unfolding m t by blast
qed

theorem ports_enabled_witness:
  "\<exists>r s''. PortSettings_Apply (demo_env None) (Some [(METADATA, JObject [(ENABLED, JBool True)])])
       (EnableNotification demo_state) = (r, s'')
     \<and> (PortSetting_GetEnabled (demo_env None) (ps_metadata (getPortSettings s''))
        \<or> PortSetting_GetEnabled (demo_env None) (ps_input_tensor (getPortSettings s'')))"
proof -
  let ?o = "Some [(METADATA, JObject [(ENABLED, JBool True)])]"
  have v: "PortSettings_Verify (demo_env None) ?o demo_state = (0, EnableNotification demo_state)"
    by (simp add: PortSettings_Verify_def JsonObject_Verify_def demo_env_def list_parson_def
        PortSettings_validations_def check_validation_def new_enable_def demo_state_def
        StateMachine_init_def DtdlModel_new_def CommonSettings_new_def PortSettings_new_def
        PortSetting_new_def json_object_set_boolean_def json_object_set_string_def
        json_object_set_number_def)
  obtain r s'' where a: "PortSettings_Apply (demo_env None) ?o (EnableNotification demo_state) = (r, s'')"
    by fastforce
  from ports_enabled [OF parson_ok_demo v a] a show ?thesis by blast
qed

section \<open>White balance preset\<close>

text \<open>The enumeration of the white balance presets and the color temperatures are in one-to-one
  correspondence, so the number in the JSON is the number the cloud gave.\<close>

theorem preset_roundtrip:
  "TEMP_num (temperature_value_to_enum (temperature_enum_to_value (uint (TEMP_num t)))) = TEMP_num t
   \<and> temperature_value_to_enum (temperature_enum_to_value (uint (TEMP_num t))) = t"
  by (cases t) (simp_all add: TEMP_num_def temperature_enum_to_value_def temperature_value_to_enum_def)

text \<open>The store after a successful set keeps the enumeration's number where the color temperature
  belongs: a later configuration that does not give the color temperature makes the code send that
  number, at most 3, to the sensor as a temperature in kelvin.\<close>

theorem preset_stored_as_number:
  assumes "parson_ok E" "json_lookup obj COLOR_TEMPERATURE = None"
    and s': "s' = updateProperty E (ManualWhiteBalancePreset \<lparr>mwb_color_temperature = kelvin\<rparr>) s"
  shows "\<exists>p msg. ManualWhiteBalancePreset_Apply E obj s' = apply_property E (ManualWhiteBalancePreset p) msg s'
    \<and> mwb_color_temperature p = TEMP_num (temperature_value_to_enum kelvin) \<and> mwb_color_temperature p \<le> 3"
proof -
  let ?p = "\<lparr>mwb_color_temperature = TEMP_num (temperature_value_to_enum kelvin)\<rparr>"
  have "mwb_color_temperature (stored (manual_white_balance_preset (pq s')))
      = TEMP_num (temperature_value_to_enum kelvin)"
    by (simp add: s' updateProperty_def ManualWhiteBalancePreset_StoreValue_def Let_def)
  then have "\<exists>msg. ManualWhiteBalancePreset_Apply E obj s'
      = apply_property E (ManualWhiteBalancePreset ?p) msg s'"
    using assms(1,2) unfolding ManualWhiteBalancePreset_Apply_def Let_def
    by (intro exI) (simp add: parson_simps)
  moreover have "TEMP_num x \<le> 3" for x by (cases x) (simp_all add: TEMP_num_def)
  ultimately show ?thesis by force
qed

theorem preset_stored_as_number_witness:
  "\<exists>p msg. ManualWhiteBalancePreset_Apply (demo_env None) (Some [])
        (updateProperty (demo_env None) (ManualWhiteBalancePreset \<lparr>mwb_color_temperature = 5600\<rparr>) demo_state)
      = apply_property (demo_env None) (ManualWhiteBalancePreset p) msg
        (updateProperty (demo_env None) (ManualWhiteBalancePreset \<lparr>mwb_color_temperature = 5600\<rparr>) demo_state)
    \<and> mwb_color_temperature p = 2"
  using preset_stored_as_number [OF parson_ok_demo, of "Some []" _ None 5600 demo_state]
  by (simp add: temperature_value_to_enum_def TEMP_num_def) blast

section \<open>Register access\<close>

lemma cast_i32_small: "b \<in> {0, 1, 2, 3} \<Longrightarrow> cast_i32 u (of_int b) = b"
  by (auto simp: cast_i32_def)

lemma RegisterAccess_json_members:
  assumes "parson_ok E"
  shows "map_of (RegisterAccess_json E rid a d bl o') BIT_LENGTH = Some (JNumber (of_int bl))"
    and "map_of (RegisterAccess_json E rid a d bl o') ID = Some (JNumber (rat_of_u32 rid))"
    and "map_of (RegisterAccess_json E rid a d bl o') ADDRESS = Some (JString (fmt_016X a))"
    and "map_of (RegisterAccess_json E rid a d bl o') DATA = Some (JString (fmt_u64 d))"
  using assms fmt_016X_length [of a] fmt_u64_length [of d]
  by (simp_all add: RegisterAccess_json_def snprintf_def)

lemma RegisterAccess_Apply_json:
  assumes E: "parson_ok E" and "bl \<in> {0, 1, 2, 3}" "register_property bl rid a d = Some p"
  shows "\<exists>msg. RegisterAccess_Apply E (Some (RegisterAccess_json E rid a d bl o')) s
    = apply_property E p msg s"
  using assms(2,3) cast_i32_small [OF assms(2)]
  by (intro exI) (simp add: RegisterAccess_Apply_def get_u64_def get_u32_def get_i32_def parson_simps E
      RegisterAccess_json_members strtoull_fmt_016X strtoull_fmt_u64 apply_property_def Let_def)

lemma ucast_back [simp]:
  "ucast (ucast (b :: u8) :: u64) = b" "ucast (ucast (h :: u16) :: u64) = h"
  "ucast (ucast (w :: u32) :: u64) = w"
  by (transfer; simp add: take_bit_take_bit)+

text \<open>C23. What the cloud is told of a register write is enough to repeat it: the reported object, sent back
  as a configuration, makes the code set the same property, for every identifier, address, width
  and datum of 64 bits.\<close>

theorem register_roundtrip:
  assumes "parson_ok E"
  shows "(\<exists>msg. RegisterAccess_Apply E (Some (RegisterAccess_json E rid a (ucast b) 0 o')) s
        = apply_property E (RegisterAccess8 rid a b) msg s)
    \<and> (\<exists>msg. RegisterAccess_Apply E (Some (RegisterAccess_json E rid a (ucast h) 1 o')) s
        = apply_property E (RegisterAccess16 rid a h) msg s)
    \<and> (\<exists>msg. RegisterAccess_Apply E (Some (RegisterAccess_json E rid a (ucast w) 2 o')) s
        = apply_property E (RegisterAccess32 rid a w) msg s)
    \<and> (\<exists>msg. RegisterAccess_Apply E (Some (RegisterAccess_json E rid a d 3 o')) s
        = apply_property E (RegisterAccess64 rid a d) msg s)"
  by (intro conjI; rule RegisterAccess_Apply_json [OF assms])
    (simp_all add: register_property_def)

theorem register_roundtrip_witness:
  "\<exists>msg. RegisterAccess_Apply (demo_env None)
      (Some (RegisterAccess_json (demo_env None) 7 0xABCDEF 513 3 [])) demo_state
    = apply_property (demo_env None) (RegisterAccess64 7 0xABCDEF 513) msg demo_state"
  using register_roundtrip [OF parson_ok_demo] by blast

text \<open>
  The shape of the array: which items have failed, which are reported, and the index the store
  writes to.\<close>

definition raa_shape :: "RegisterAccessArray \<Rightarrow> bool list \<times> nat list \<times> int" where
  "raa_shape raa = (map ra_failed (register_access_array raa), raa_json_array raa,
     register_access_array_index raa)"

lemma map_update_id: "f x = f (xs ! i) \<Longrightarrow> map f (xs[i := x]) = map f xs"
  by (cases "i < length xs") (simp_all add: map_update list_update_same_conv list_update_beyond)

lemma updateProperty_shape:
  "raa_shape (pq_register_access (pq (updateProperty E v s))) = raa_shape (pq_register_access (pq s))"
proof -
  have "raa_shape (pq_register_access (pq (RegisterAccessArray_StoreValue E rid a d bl s)))
      = raa_shape (pq_register_access (pq s))" for rid a d bl
    by (simp add: RegisterAccessArray_StoreValue_def Let_def raa_shape_def undefined_step_def
        map_update_id RegisterAccess_StoreValue_def)
  moreover have "raa_shape (pq_register_access (pq (StoreGammaParameter E bs k s)))
      = raa_shape (pq_register_access (pq s))" for bs k
    by (simp add: StoreGammaParameter_def undefined_step_def split: option.split)
  ultimately show ?thesis
    by (cases v) (simp_all add: updateProperty_def StoreValue_defs Let_def StoreDigitalZoom_def
        StoreEvCompensationVal_def StoreExposureMode_def StoreImageRotation_def
        StoreAeAntiFlickerMode_def StoreWhiteBalanceMode_def StoreGammaMode_def)
qed

lemma RegisterAccess_Apply_shape:
  "RegisterAccess_Apply E obj s = (r, s') \<Longrightarrow>
     raa_shape (pq_register_access (pq s')) = raa_shape (pq_register_access (pq s))"
proof -
  have "SensorStreamSetProperty E st v t = (q, u) \<Longrightarrow>
      raa_shape (pq_register_access (pq u)) = raa_shape (pq_register_access (pq t))" for st v t q u
    by (auto simp: SensorStreamSetProperty_def updateProperty_shape Let_def
        split: prod.splits if_splits)
  then show "RegisterAccess_Apply E obj s = (r, s') \<Longrightarrow>
      raa_shape (pq_register_access (pq s')) = raa_shape (pq_register_access (pq s))"
    by (auto simp: RegisterAccess_Apply_def undefined_step_def Let_def
        split: option.splits prod.splits if_splits)
qed

text \<open>What the loop does to the shape, item by item.\<close>

definition shape_item :: "nat \<Rightarrow> bool \<Rightarrow> bool list \<times> nat list \<times> int \<Rightarrow> bool list \<times> nat list \<times> int" where
  "shape_item k failed sh = (case sh of (fs, js, i) \<Rightarrow>
     (if length fs \<le> k then fs @ [failed] else fs[k := failed],
      if failed then js else js @ [k], int k))"

lemma register_item_shape:
  assumes "k \<le> length (register_access_array (pq_register_access (pq s)))"
    and "RegisterAccess_Apply E obj (upd_raa (prepare_register E k) s) = (r, t)"
  shows "raa_shape (pq_register_access (pq (upd_raa (finish_register r k) t)))
    = shape_item k (r = -1) (raa_shape (pq_register_access (pq s)))"
proof -
  let ?a = "prepare_register E k (pq_register_access (pq s))" and ?b = "pq_register_access (pq t)"
  have eq: "raa_shape ?b = raa_shape ?a"
    using RegisterAccess_Apply_shape [OF assms(2)] by simp
  then have f: "map ra_failed (register_access_array ?b) = map ra_failed (register_access_array ?a)"
    "raa_json_array ?b = raa_json_array (pq_register_access (pq s))"
    "register_access_array_index ?b = int k"
    by (auto simp: raa_shape_def prepare_register_def Let_def)
  let ?xs = "register_access_array (pq_register_access (pq s))"
  have m: "map ra_failed (register_access_array ?a)
      = (if length ?xs \<le> k then map ra_failed ?xs @ [False] else (map ra_failed ?xs)[k := False])"
    by (simp add: prepare_register_def Let_def RegisterAccess_InitializeValues_def
        RegisterAccess_new_def RegisterAccess_Reuse_def map_update)
  have failed: "ra_failed (RegisterAccess_SetFailed ra)" for ra
    by (simp add: RegisterAccess_SetFailed_def)
  show ?thesis
    using f m assms(1) failed
    by (auto simp: raa_shape_def shape_item_def finish_register_def map_update list_update_append)
qed

lemma shape_item_step:
  assumes "k \<le> length fs"
  shows "shape_item k b (fs, rs, i) =
    (take k fs @ b # drop (Suc k) fs, rs @ (if b then [] else [k]), int k)"
  using assms by (auto simp: shape_item_def upd_conv_take_nth_drop)

lemma apply_registers_shape:
  assumes "apply_registers E js k res s = (r, s')"
    and "raa_shape (pq_register_access (pq s)) = (fs, rs, i)" "k \<le> length fs"
  shows "\<exists>bs. length bs = length js
    \<and> raa_shape (pq_register_access (pq s')) =
        (take k fs @ bs @ drop (k + length js) fs,
         rs @ map fst (filter (\<lambda>p. \<not> snd p) (enumerate k bs)),
         if js = [] then i else int (k + length js - 1))
    \<and> r = (if True \<in> set bs then -1 else res)"
  using assms
proof (induction js arbitrary: k res s fs rs i)
  case Nil
  then show ?case by simp
next
  case (Cons j js)
  obtain q t where t: "RegisterAccess_Apply E (json_as_object j) (upd_raa (prepare_register E k) s) = (q, t)"
    by fastforce
  let ?t = "upd_raa (finish_register q k) t" and ?b = "q = -1"
  have a: "apply_registers E js (Suc k) (if q = -1 then -1 else res) ?t = (r, s')"
    using Cons.prems(1) t by simp
  have "k \<le> length (register_access_array (pq_register_access (pq s)))"
    using Cons.prems(2,3) by (auto simp: raa_shape_def)
  from register_item_shape [OF this t] Cons.prems(2,3)
  have sh: "raa_shape (pq_register_access (pq ?t))
      = (take k fs @ ?b # drop (Suc k) fs, rs @ (if ?b then [] else [k]), int k)"
    by (simp only: shape_item_step)
  have "Suc k \<le> length (take k fs @ ?b # drop (Suc k) fs)" using Cons.prems(3) by simp
  from Cons.IH [OF a sh this] obtain bs where "length bs = length js"
    "raa_shape (pq_register_access (pq s')) =
        (take k fs @ (?b # bs) @ drop (k + Suc (length js)) fs,
         (rs @ (if ?b then [] else [k])) @ map fst (filter (\<lambda>p. \<not> snd p) (enumerate (Suc k) bs)),
         if js = [] then int k else int (Suc k + length js - 1))"
    "r = (if True \<in> set bs then -1 else if q = -1 then -1 else res)"
    using Cons.prems(3) by (auto simp: add.commute)
  then show ?case by (intro exI [of _ "?b # bs"]) auto
qed

lemma enumerate_not_failed:
  "map fst (filter (\<lambda>p. \<not> snd p) (enumerate 0 bs)) = filter (\<lambda>k. \<not> bs ! k) [0..<length bs]"
proof -
  have "enumerate 0 bs = map (\<lambda>k. (k, bs ! k)) [0..<length bs]"
    by (rule nth_equalityI) (simp_all add: nth_enumerate_eq)
  then have "map fst (filter (\<lambda>p. \<not> snd p) (enumerate 0 bs))
      = map (fst \<circ> (\<lambda>k. (k, bs ! k))) (filter ((\<lambda>p. \<not> snd p) \<circ> (\<lambda>k. (k, bs ! k))) [0..<length bs])"
    by (simp only: filter_map map_map)
  then show ?thesis by (simp only: comp_def fst_conv snd_conv map_ident)
qed

lemma register_array_result:
  assumes "RegisterAccessArray_Apply E array s = (r, s')"
  defines "items \<equiv> register_access_array (pq_register_access (pq s'))"
  shows "length items = min MAX_REGISTER_ACCESS_COUNT (length array)
    \<and> raa_json_array (pq_register_access (pq s')) = filter (\<lambda>k. \<not> ra_failed (items ! k)) [0..<length items]
    \<and> r = (if \<exists>ra \<in> set items. ra_failed ra then -1 else 0)
    \<and> (items \<noteq> [] \<longrightarrow> register_access_array_index (pq_register_access (pq s')) = int (length items) - 1)"
proof -
  let ?v = "take MAX_REGISTER_ACCESS_COUNT array"
  let ?s = "upd_raa (raa_json_array_update (\<lambda>_. [])) s"
  obtain t where t: "apply_registers E ?v 0 0 ?s = (r, t)"
    and s': "s' = upd_raa (register_access_array_update (take (length ?v))) t"
    using assms(1) by (auto simp: RegisterAccessArray_Apply_def Let_def split: prod.splits)
  obtain fs i where "raa_shape (pq_register_access (pq ?s)) = (fs, [], i)"
    by (simp add: raa_shape_def)
  from apply_registers_shape [OF t this] obtain bs where bs: "length bs = length ?v"
    "raa_shape (pq_register_access (pq t)) = (bs @ drop (length ?v) fs,
       map fst (filter (\<lambda>p. \<not> snd p) (enumerate 0 bs)), if ?v = [] then i else int (length ?v - 1))"
    "r = (if True \<in> set bs then -1 else 0)" by auto
  have "map ra_failed (register_access_array (pq_register_access (pq t))) = bs @ drop (length ?v) fs"
    using bs(2) by (simp add: raa_shape_def)
  moreover have "items = take (length ?v) (register_access_array (pq_register_access (pq t)))"
    by (simp add: items_def s')
  ultimately have f: "map ra_failed items = bs" using bs(1) by (simp only: take_map [symmetric]) simp
  then have len: "length items = length bs" by (metis length_map)
  have nth: "ra_failed (items ! k) = bs ! k" if "k < length items" for k
    using f that by (metis nth_map)
  have 2: "filter (\<lambda>k. \<not> ra_failed (items ! k)) [0..<length items] = filter (\<lambda>k. \<not> bs ! k) [0..<length bs]"
    using nth len by (intro filter_cong) auto
  have 3: "(\<exists>ra \<in> set items. ra_failed ra) \<longleftrightarrow> True \<in> set bs"
    unfolding f [symmetric] by auto
  have j: "raa_json_array (pq_register_access (pq s')) = map fst (filter (\<lambda>p. \<not> snd p) (enumerate 0 bs))"
    and i: "register_access_array_index (pq_register_access (pq s')) = (if ?v = [] then i else int (length ?v - 1))"
    using bs(2) by (simp_all add: s' raa_shape_def)
  have c1: "length items = min MAX_REGISTER_ACCESS_COUNT (length array)"
    using len bs(1) by (simp add: min.commute)
  have c2: "raa_json_array (pq_register_access (pq s'))
      = filter (\<lambda>k. \<not> ra_failed (items ! k)) [0..<length items]"
    using 2 j by (simp add: enumerate_not_failed)
  have c3: "r = (if \<exists>ra \<in> set items. ra_failed ra then -1 else 0)" using 3 bs(3) by simp
  have c4: "register_access_array_index (pq_register_access (pq s')) = int (length items) - 1"
    if "items \<noteq> []"
  proof -
    have lv: "length ?v = length items" using len bs(1) by (simp only:)
    have pos: "length items \<noteq> 0" using that by (simp only: length_0_conv not_False_eq_True)
    with lv have "?v \<noteq> []" by (metis list.size(3))
    with i lv pos show ?thesis by (simp only: if_False of_nat_diff Suc_le_eq One_nat_def neq0_conv of_nat_1)
  qed
  show ?thesis by (intro conjI impI c1 c2 c3 c4)
qed

text \<open>C9. After an array of register writes has been applied, whatever was kept from earlier ones, there
  are as many items as the array has, at most four; the cloud is told exactly the items that did
  not fail, in order; the result is 0 exactly when none failed.\<close>

theorem register_array_applied:
  assumes "RegisterAccessArray_Apply E array s = (r, s')"
  defines "items \<equiv> register_access_array (pq_register_access (pq s'))"
  shows "length items = min MAX_REGISTER_ACCESS_COUNT (length array)
    \<and> raa_json_array (pq_register_access (pq s')) = filter (\<lambda>k. \<not> ra_failed (items ! k)) [0..<length items]
    \<and> r = (if \<exists>ra \<in> set items. ra_failed ra then -1 else 0)
    \<and> (items \<noteq> [] \<longrightarrow> register_access_array_index (pq_register_access (pq s')) = int (length items) - 1)"
  unfolding items_def by (rule register_array_result [OF assms(1)])

theorem register_array_applied_witness:
  "length (register_access_array (pq_register_access (pq (snd (RegisterAccessArray_Apply (demo_env None)
      (replicate 6 (JObject [])) demo_state))))) = 4"
proof -
  obtain r s' where "RegisterAccessArray_Apply (demo_env None) (replicate 6 (JObject [])) demo_state = (r, s')"
    by fastforce
  with register_array_applied [OF this] show ?thesis by (simp add: MAX_REGISTER_ACCESS_COUNT_def)
qed

text \<open>C25. A failed item's JSON object is freed, and the store of a register write that succeeds later goes
  to the last item: after an array whose last item failed, the next register write of the
  application is a use after free.\<close>

theorem register_use_after_free:
  assumes "RegisterAccessArray_Apply E array s = (r, s')" "array \<noteq> []"
    and "ra_failed (last (register_access_array (pq_register_access (pq s'))))"
    and "v \<in> {RegisterAccess8 rid a b, RegisterAccess16 rid a h, RegisterAccess32 rid a w,
      RegisterAccess64 rid a d}"
  shows "undefined_behaviour (updateProperty E v s')"
proof -
  let ?raa = "pq_register_access (pq s')"
  let ?items = "register_access_array ?raa"
  note A = register_array_result [OF assms(1)]
  have "length ?items = min MAX_REGISTER_ACCESS_COUNT (length array)" using A by blast
  with assms(2) have n: "0 < length ?items" "length ?items \<le> 4"
    by (simp_all add: MAX_REGISTER_ACCESS_COUNT_def)
  then have "register_access_array_index ?raa = int (length ?items) - 1" using A by force
  with n(1) have i: "register_access_array_index ?raa = int (length ?items - 1)"
    by (simp only: of_nat_diff Suc_le_eq One_nat_def)
  have "unat (word_of_int (register_access_array_index ?raa) :: u32) = length ?items - 1"
    unfolding i using n by (simp add: unat_of_nat)
  moreover have "ra_failed (?items ! (length ?items - 1))"
    using assms(3) n by (simp add: last_conv_nth)
  moreover have "\<not> length ?items \<le> length ?items - 1" using n by linarith
  ultimately have ub: "undefined_behaviour (RegisterAccessArray_StoreValue E rid a x bl s')" for x bl
    by (simp add: RegisterAccessArray_StoreValue_def Let_def undefined_step_def)
  from assms(4) show ?thesis
    by (elim insertE emptyE) (simp_all add: updateProperty_def ub)
qed

definition refusing_env :: "nat env" where
  "refusing_env = (demo_env None)\<lparr>senscord_stream_set_property := \<lambda>_ _ w. (if w = 0 then -1 else 0, 1)\<rparr>"

theorem register_use_after_free_witness:
  "\<exists>s'. RegisterAccessArray_Apply refusing_env [JObject []] (demo_state\<lparr>sensor_stream := 2\<rparr>) = (-1, s')
     \<and> undefined_behaviour (updateProperty refusing_env (RegisterAccess8 0 0 1) s')"
proof -
  obtain s' where s': "RegisterAccessArray_Apply refusing_env [JObject []] (demo_state\<lparr>sensor_stream := 2\<rparr>) = (-1, s')"
    and f: "ra_failed (last (register_access_array (pq_register_access (pq s'))))"
    by (simp add: RegisterAccessArray_Apply_def MAX_REGISTER_ACCESS_COUNT_def RegisterAccess_Apply_def
        refusing_env_def demo_env_def list_parson_def get_u64_def get_i32_def get_u32_def
        register_property_def SensorStreamSetProperty_def json_as_object_def prepare_register_def
        finish_register_def RegisterAccess_SetFailed_def RegisterAccess_InitializeValues_def
        RegisterAccess_new_def demo_state_def StateMachine_init_def DtdlModel_new_def
        CommonSettings_new_def PqSettings_new_def report_def SetCode_def SetDetailMsg_def)
  have "RegisterAccess8 0 0 1 \<in> {RegisterAccess8 0 0 1, RegisterAccess16 0 0 0, RegisterAccess32 0 0 0,
      RegisterAccess64 0 0 0}" by simp
  from register_use_after_free [OF s' _ f this] s' show ?thesis by blast
qed

section \<open>Gamma parameter\<close>

text \<open>The buffer has its length and the stored size lies within it.\<close>

definition gamma_ok :: "PqSettings \<Rightarrow> bool" where
  "gamma_ok q \<longleftrightarrow> (case gamma_param q of None \<Rightarrow> True
     | Some gp \<Rightarrow> length (gp_gamma_parameter gp) = AI_MODEL_GAMMA_PARAMETER_SIZE
         \<and> unat (gp_param_size gp) \<le> AI_MODEL_GAMMA_PARAMETER_SIZE)"

lemma length_overwrite [simp]: "length (overwrite xs ys) = max (length xs) (length ys)"
  by (simp add: overwrite_def)

lemma StoreGammaParameter_bounds:
  assumes "gamma_ok (pq s)" "length bin = AI_MODEL_GAMMA_PARAMETER_SIZE"
  shows "undefined_behaviour (StoreGammaParameter E bin n s) \<longleftrightarrow> undefined_behaviour s
      \<or> (gamma_param (pq s) \<noteq> None \<and> malloc_ok E (world s) \<and> AI_MODEL_GAMMA_PARAMETER_SIZE < unat n)"
    and "gamma_ok (pq (StoreGammaParameter E bin n s))"
proof -
  have "undefined_behaviour (StoreGammaParameter E bin n s) \<longleftrightarrow> undefined_behaviour s
      \<or> (gamma_param (pq s) \<noteq> None \<and> malloc_ok E (world s) \<and> AI_MODEL_GAMMA_PARAMETER_SIZE < unat n)
    \<and> gamma_ok (pq (StoreGammaParameter E bin n s))"
    if "gamma_param (pq s) = None"
    using that by (simp add: StoreGammaParameter_def gamma_ok_def)
  moreover have "(undefined_behaviour (StoreGammaParameter E bin n s) \<longleftrightarrow> undefined_behaviour s
      \<or> (malloc_ok E (world s) \<and> AI_MODEL_GAMMA_PARAMETER_SIZE < unat n))
    \<and> gamma_ok (pq (StoreGammaParameter E bin n s))"
    if "gamma_param (pq s) = Some gp" for gp
  proof -
    have gp: "length (gp_gamma_parameter gp) = AI_MODEL_GAMMA_PARAMETER_SIZE"
      "unat (gp_param_size gp) \<le> AI_MODEL_GAMMA_PARAMETER_SIZE"
      using assms(1) that by (simp_all add: gamma_ok_def)
    show ?thesis
    proof (cases "AI_MODEL_GAMMA_PARAMETER_SIZE < unat n")
      case True
      with gp have "n \<noteq> gp_param_size gp" "n \<noteq> 0" by auto
      with True that gp show ?thesis
        by (simp add: StoreGammaParameter_def gamma_ok_def undefined_step_def)
    next
      case False
      with that gp assms(2) show ?thesis
        by (simp add: StoreGammaParameter_def gamma_ok_def EnableNotification_def)
    qed
  qed
  ultimately show "undefined_behaviour (StoreGammaParameter E bin n s) \<longleftrightarrow> undefined_behaviour s
      \<or> (gamma_param (pq s) \<noteq> None \<and> malloc_ok E (world s) \<and> AI_MODEL_GAMMA_PARAMETER_SIZE < unat n)"
    "gamma_ok (pq (StoreGammaParameter E bin n s))"
    using assms(1) by (cases "gamma_param (pq s)"; simp add: StoreGammaParameter_def)+
qed



end
