(* ===== verification/ExportProperties.thy ===== *)
theory ExportProperties
  imports Demo
begin

text \<open>
  The properties of the operations in flight: the table they are kept in, the end of a future's
  life, and the wait of the state \<open>CoolingDown\<close>.
\<close>

section \<open>The table of operations\<close>

text \<open>C10. An operation is entered exactly when fewer than 100 are in flight, and refused without a change
  otherwise; its completion finds the future that was entered, restores the table, and a second
  completion finds nothing.\<close>

theorem table_entry_and_exit:
  assumes "map_invar m" "key \<noteq> 0" "val \<noteq> 0" "map_lookup m key = None" "map_set key val m = (m', r)"
  shows "map_invar m'
    \<and> (if card (dom (map_lookup m)) < MAX_FUTURES_QUEUE
       then r = 0 \<and> (\<exists>m''. map_pop key m' = (val, m'') \<and> map_lookup m'' = map_lookup m
                        \<and> fst (map_pop key m'') = 0)
       else r = -1 \<and> m' = m)"
proof (cases "card (dom (map_lookup m)) < MAX_FUTURES_QUEUE")
  case True
  note S = fq.set_ok [OF assms]
  with True have r: "r = 0" by auto
  obtain v m'' where p: "map_pop key m' = (v, m'')" by fastforce
  obtain v' m3 where p': "map_pop key m'' = (v', m3)" by fastforce
  have i: "map_invar m'" using S by blast
  from fq.pop_after_set [OF assms(1-4) assms(5) [unfolded r] p] fq.pop_twice(1) [OF i assms(2) p p']
  show ?thesis using True r p p' i by simp
next
  case False
  with fq.bounded [OF assms(1)] have "card (dom (map_lookup m)) = MAX_FUTURES_QUEUE" by auto
  with fq.set_ok [OF assms] False show ?thesis by auto
qed

theorem table_entry_and_exit_witness:
  "\<exists>m'. map_set 7 9 map_init = (m', 0) \<and> map_invar m'"
proof -
  obtain m' r where s: "map_set 7 9 map_init = (m', r)" by fastforce
  have "dom (map_lookup map_init) = {}" using fq.lookup_init by (auto simp: dom_def)
  with table_entry_and_exit [OF fq.invar_init _ _ fq.lookup_init s] s
  show ?thesis by (auto simp: MAX_FUTURES_QUEUE_def)
qed

section \<open>The end of a future\<close>

text \<open>C11. A future is freed exactly once, and the data it owns with it, whichever comes first, the callback
  of its operation or the application's cleanup; the two orders lead to the same state.\<close>

theorem future_freed_once:
  assumes "map_invar (map_vec s)" "map_lookup (map_vec s) mv = Some p"
    and f: "futures s p = Some f" "\<not> is_processed f" "\<not> is_cleanup_requested f"
    and b: "blob_buff f \<notin> set (freed_buffers s)"
    and t_def: "t = DataExportCleanup p (DataExportSendDataDoneCallback mv reason s)"
  shows "t = DataExportSendDataDoneCallback mv reason (DataExportCleanup p s)
    \<and> futures t p = None \<and> undefined_behaviour t = undefined_behaviour s
    \<and> freed_buffers t = (if is_cleanup_sent_data f \<and> blob_buff f \<noteq> 0
                          then blob_buff f # freed_buffers s else freed_buffers s)
    \<and> map_lookup (map_vec t) = (map_lookup (map_vec s))(mv := None)"
proof -
  have nz: "mv \<noteq> 0" "p \<noteq> 0" using fq.no_null [OF assms(1,2)] by simp_all
  obtain v m where pop: "map_pop mv (map_vec s) = (v, m)" by fastforce
  from fq.pop_ok [OF assms(1) nz(1) pop] assms(2)
  have v: "v = p" and m: "map_lookup m = (map_lookup (map_vec s))(mv := None)" by auto
  have 1: "DataExportSendDataDoneCallback mv reason s
      = upd_future p (Some (f\<lparr>is_processed := True, fut_result := SendDataDone_result reason\<rparr>)) (s\<lparr>map_vec := m\<rparr>)"
    using pop v nz f by (simp add: DataExportSendDataDoneCallback_def finish_operation_def
        DataExportCleanupOrUnlock_def)
  have 2: "DataExportCleanup p s = upd_future p (Some (f\<lparr>is_cleanup_requested := True\<rparr>)) s"
    using f by (simp add: DataExportCleanup_def DataExportCleanupOrUnlock_def)
  have t: "t = upd_future p None (if is_cleanup_sent_data f \<and> blob_buff f \<noteq> 0
      then s\<lparr>map_vec := m, freed_buffers := blob_buff f # freed_buffers s\<rparr> else s\<lparr>map_vec := m\<rparr>)"
    unfolding t_def 1 using b by (simp add: DataExportCleanup_def DataExportCleanupOrUnlock_def free_buffer_def)
  moreover have "DataExportSendDataDoneCallback mv reason (DataExportCleanup p s) = t"
    unfolding 2 t using pop v nz b
    by (simp add: DataExportSendDataDoneCallback_def finish_operation_def
        DataExportCleanupOrUnlock_def free_buffer_def Let_def)
  ultimately show ?thesis using m by simp
qed

definition one_operation :: "nat ctx" where
  "one_operation = demo_state\<lparr>map_vec := (7, 9) # replicate 99 (0, 0),
     futures := [9 \<mapsto> \<lparr>fut_result = EdgeAppLibDataExportResultEnqueued, is_processed = False,
       is_cleanup_requested = False, is_cleanup_sent_data = True, blob_buff = 5\<rparr>]\<rparr>"

lemma one_operation_map:
  "map_invar (map_vec one_operation)" "map_lookup (map_vec one_operation) 7 = Some 9"
  by (simp_all add: one_operation_def map_invar_def map_lookup_def MAX_FUTURES_QUEUE_def)

theorem future_freed_once_witness:
  "freed_buffers (DataExportCleanup 9 (DataExportSendDataDoneCallback 7 (EVP_BLOB_CALLBACK_REASON_DONE 0 0)
     one_operation)) = [5]"
proof -
  obtain f where f: "futures one_operation 9 = Some f" "\<not> is_processed f" "\<not> is_cleanup_requested f"
    and b: "blob_buff f = 5" "is_cleanup_sent_data f"
    by (simp add: one_operation_def)
  have e: "freed_buffers one_operation = []" by (simp add: one_operation_def)
  then have "blob_buff f \<notin> set (freed_buffers one_operation)" by simp
  from future_freed_once [OF one_operation_map f this refl]
  have "freed_buffers (DataExportCleanup 9 (DataExportSendDataDoneCallback 7
      (EVP_BLOB_CALLBACK_REASON_DONE 0 0) one_operation))
    = (if is_cleanup_sent_data f \<and> blob_buff f \<noteq> 0 then blob_buff f # freed_buffers one_operation
       else freed_buffers one_operation)" by blast
  with b e show ?thesis by simp
qed

section \<open>Cooling down\<close>

definition event_key :: "evp_event \<Rightarrow> ptr option" where
  "event_key ev = (case ev of ConfigurationEvent _ _ \<Rightarrow> None | BlobDoneEvent k _ \<Rightarrow> Some k
     | TelemetryDoneEvent k _ \<Rightarrow> Some k)"

lemma handle_event_map:
  "map_vec (handle_event E ev s)
     = (case event_key ev of None \<Rightarrow> map_vec s | Some k \<Rightarrow> snd (map_pop k (map_vec s)))"
proof -
  have "map_vec (finish_operation k r s) = snd (map_pop k (map_vec s))" for k r
    by (simp add: finish_operation_def DataExportCleanupOrUnlock_def free_buffer_def undefined_step_def
        Let_def split: prod.split option.split)
  moreover have "map_vec (configuration_cb E t c s) = map_vec s" for t c
    by (simp add: configuration_cb_def SetPendingConfiguration_def SetNextState_def split: option.split)
  ultimately show ?thesis
    by (simp add: handle_event_def event_key_def DataExportSendDataDoneCallback_def
        DataExportTelemetryDoneCallback_def split: evp_event.split)
qed

lemma handle_event_pending:
  assumes "map_invar (map_vec s)" "event_key ev \<noteq> Some 0"
  shows "map_invar (map_vec (handle_event E ev s))"
    and "fq.pending (map_vec (handle_event E ev s)) \<le> fq.pending (map_vec s)"
    and "event_key ev = Some k \<Longrightarrow> map_lookup (map_vec s) k \<noteq> None \<Longrightarrow>
      fq.pending (map_vec (handle_event E ev s)) < fq.pending (map_vec s)"
    and "event_key ev \<noteq> Some k \<Longrightarrow>
      map_lookup (map_vec (handle_event E ev s)) k = map_lookup (map_vec s) k"
proof -
  have all: "map_invar (map_vec (handle_event E ev s))
    \<and> fq.pending (map_vec (handle_event E ev s)) \<le> fq.pending (map_vec s)
    \<and> (\<forall>k. event_key ev = Some k \<longrightarrow> map_lookup (map_vec s) k \<noteq> None \<longrightarrow>
          fq.pending (map_vec (handle_event E ev s)) < fq.pending (map_vec s))
    \<and> (\<forall>k. event_key ev \<noteq> Some k \<longrightarrow>
          map_lookup (map_vec (handle_event E ev s)) k = map_lookup (map_vec s) k)"
  proof (cases "event_key ev")
    case None
    with assms(1) show ?thesis by (simp add: handle_event_map)
  next
    case (Some j)
    obtain v m where p: "map_pop j (map_vec s) = (v, m)" by fastforce
    from Some have e: "map_vec (handle_event E ev s) = m" by (simp add: handle_event_map p)
    have j: "j \<noteq> 0" using assms(2) Some by simp
    from fq.pop_ok [OF assms(1) j p] fq.pending_pop_le [OF assms(1) j p]
      fq.pending_pop(1) [OF assms(1) _ p] Some
    show ?thesis unfolding e by auto
  qed
  from all show "map_invar (map_vec (handle_event E ev s))"
    and "fq.pending (map_vec (handle_event E ev s)) \<le> fq.pending (map_vec s)" by blast+
  from all show "event_key ev = Some k \<Longrightarrow> map_lookup (map_vec s) k \<noteq> None \<Longrightarrow>
      fq.pending (map_vec (handle_event E ev s)) < fq.pending (map_vec s)" by blast
  from all show "event_key ev \<noteq> Some k \<Longrightarrow>
      map_lookup (map_vec (handle_event E ev s)) k = map_lookup (map_vec s) k" by blast
qed

lemma handle_events_pending:
  assumes "map_invar (map_vec s)" "\<forall>ev \<in> set evs. event_key ev \<noteq> Some 0"
  shows "map_invar (map_vec (handle_events E evs s))
    \<and> fq.pending (map_vec (handle_events E evs s)) \<le> fq.pending (map_vec s)
    \<and> ((\<exists>ev \<in> set evs. \<exists>k. event_key ev = Some k \<and> map_lookup (map_vec s) k \<noteq> None) \<longrightarrow>
        fq.pending (map_vec (handle_events E evs s)) < fq.pending (map_vec s))"
  using assms
proof (induction evs arbitrary: s)
  case Nil
  then show ?case by (simp add: handle_events_def)
next
  case (Cons ev evs)
  note H = handle_event_pending [OF Cons.prems(1), where E = E and ev = ev]
  have ev: "event_key ev \<noteq> Some 0" using Cons.prems(2) by simp
  let ?s = "handle_event E ev s"
  have eq: "handle_events E (ev # evs) s = handle_events E evs ?s" by (simp add: handle_events_def)
  note IH = Cons.IH [OF H(1) [OF ev]]
  show ?case
  proof (cases "\<exists>k. event_key ev = Some k \<and> map_lookup (map_vec s) k \<noteq> None")
    case True
    with H(3) [OF ev] IH Cons.prems(2) show ?thesis unfolding eq by force
  next
    case False
    then have nz: "map_lookup (map_vec ?s) k \<noteq> None" if "map_lookup (map_vec s) k \<noteq> None" for k
      using H(4) [OF ev, of k] that by metis
    have "\<exists>ev \<in> set evs. \<exists>k. event_key ev = Some k \<and> map_lookup (map_vec ?s) k \<noteq> None"
      if "\<exists>ev \<in> set (ev # evs). \<exists>k. event_key ev = Some k \<and> map_lookup (map_vec s) k \<noteq> None"
    proof -
      from that False obtain ev' k where "ev' \<in> set evs" "event_key ev' = Some k"
        "map_lookup (map_vec s) k \<noteq> None" by auto
      with nz show ?thesis by blast
    qed
    with IH H(2) [OF ev] Cons.prems(2) show ?thesis
      unfolding eq by (meson le_trans less_le_trans list.set_intros(2))
  qed
qed

text \<open>
  While operations are in flight, each call of \<open>EVP_processEvent\<close> completes at least one of them,
  and the callbacks get the pointers that were passed in, which are not null.
\<close>

definition evp_makes_progress :: "'w env \<Rightarrow> bool" where
  "evp_makes_progress E \<longleftrightarrow> (\<forall>t. case EVP_processEvent E t of (evs, _, _) \<Rightarrow>
     (\<forall>ev \<in> set evs. event_key ev \<noteq> Some 0)
     \<and> (DataExportHasPendingOperations t \<longrightarrow>
          (\<exists>ev \<in> set evs. \<exists>k. event_key ev = Some k \<and> map_lookup (map_vec t) k \<noteq> None)))"

lemma processEvent_progress:
  assumes "evp_makes_progress E" "map_invar (map_vec t)" "DataExportHasPendingOperations t"
  shows "map_invar (map_vec (snd (processEvent E t)))"
    and "fq.pending (map_vec (snd (processEvent E t))) < fq.pending (map_vec t)"
proof -
  obtain evs r w where e: "EVP_processEvent E t = (evs, r, w)" by (metis prod.collapse)
  from assms(1) [unfolded evp_makes_progress_def, rule_format, of t] e
  have "\<forall>ev \<in> set evs. event_key ev \<noteq> Some 0"
    and p: "\<exists>ev \<in> set evs. \<exists>k. event_key ev = Some k \<and> map_lookup (map_vec t) k \<noteq> None"
    using assms(3) by auto
  then show "map_invar (map_vec (snd (processEvent E t)))"
    "fq.pending (map_vec (snd (processEvent E t))) < fq.pending (map_vec t)"
    using handle_events_pending [of "t\<lparr>world := w\<rparr>" evs E] assms(2) e
    by (simp_all add: processEvent_def)
qed

lemma CoolingDown_wait_Some:
  assumes "evp_makes_progress E"
  shows "map_invar (map_vec s) \<Longrightarrow>
    \<exists>s'. CoolingDown_wait E s = Some s' \<and> \<not> DataExportHasPendingOperations s'"
proof (induction "fq.pending (map_vec s)" arbitrary: s rule: less_induct)
  case less
  show ?case
  proof (cases "DataExportHasPendingOperations s")
    case True
    note P = processEvent_progress [OF assms less.prems True]
    from less.hyps [OF P(2,1)] True show ?thesis by (subst CoolingDown_wait.simps) simp
  next
    case False
    then show ?thesis by (subst CoolingDown_wait.simps) simp
  qed
qed


definition draining_env :: "nat env" where
  "draining_env = (demo_env None)\<lparr>EVP_processEvent := \<lambda>s.
     (if map_is_empty (map_vec s) then []
      else [BlobDoneEvent (map_remained (map_vec s)) EVP_BLOB_CALLBACK_REASON_EXIT], EVP_OK, world s)\<rparr>"

lemma draining_env_progress: "evp_makes_progress draining_env"
proof -
  have k: "map_remained m \<noteq> 0 \<and> map_lookup m (map_remained m) \<noteq> None" if "\<not> map_is_empty m" for m
    using that unfolding map_is_empty_used map_remained_used map_lookup_def
    by (cases "used m") (auto simp: used_def dest: filter_eq_ConsD)
  show ?thesis
    using k by (auto simp: evp_makes_progress_def draining_env_def event_key_def
        DataExportHasPendingOperations_def)
qed


end
