(* ===== verification/StepRelation.thy ===== *)
theory StepRelation
  imports Machine
begin

text \<open>
  The locale \<open>step_relation\<close>: a relation between the state before and after that every change
  outside the picture-quality settings and the request information respects, and every property
  that is set on the sensor, is respected by everything the program does between two
  configurations: the handlers, the callbacks, the settings, the states and the iteration thread.
\<close>

section \<open>Steps that leave the device model alone\<close>

lemma finish_operation_view:
  "dtdl_model (finish_operation k r s) = dtdl_model s"
  "is_initialized (finish_operation k r s) = is_initialized s"
  by (simp_all add: finish_operation_def DataExportCleanupOrUnlock_def free_buffer_def undefined_step_def
      Let_def split: prod.split option.split)

lemma handle_event_view: "dtdl_model (handle_event E ev s) = dtdl_model s"
  "is_initialized (handle_event E ev s) = is_initialized s"
  by (simp_all add: handle_event_def DataExportSendDataDoneCallback_def
      DataExportTelemetryDoneCallback_def finish_operation_view configuration_cb_def
      SetPendingConfiguration_def SetNextState_def split: evp_event.split option.split)

lemma handle_events_view: "dtdl_model (handle_events E evs s) = dtdl_model s"
  "is_initialized (handle_events E evs s) = is_initialized s"
  unfolding handle_events_def by (induction evs arbitrary: s) (simp_all add: handle_event_view)

lemma processEvent_view: "dtdl_model (snd (processEvent E s)) = dtdl_model s"
  "is_initialized (snd (processEvent E s)) = is_initialized s"
  by (simp_all add: processEvent_def handle_events_view split: prod.split)

lemma SetProcessState_view:
  "pq (SetProcessState E v s) = pq s" "req_info (dtdl_model (SetProcessState E v s)) = req_info (dtdl_model s)"
  "is_initialized (SetProcessState E v s) = is_initialized s"
  by (simp_all add: SetProcessState_def UpdateProcessState_def EnableNotification_def SetNextState_def
      Let_def)

lemma upd_running_view [simp]: "dtdl_model (upd_running f s) = dtdl_model s"
  "is_initialized (upd_running f s) = is_initialized s"
  by (simp_all add: upd_running_def)

lemma CoolingDown_wait_view:
  "CoolingDown_wait E s = Some s' \<Longrightarrow>
     dtdl_model s' = dtdl_model s \<and> is_initialized s' = is_initialized s"
proof (erule CoolingDown_wait.raw_induct [rotated])
  fix wait and E :: "'w env" and s s'
  assume IH: "\<And>E s s'. wait E s = Some s' \<Longrightarrow>
      dtdl_model (s' :: 'w ctx) = dtdl_model s \<and> is_initialized s' = is_initialized s"
    and r: "(if DataExportHasPendingOperations s then wait E (snd (processEvent E s)) else Some s) = Some s'"
  from IH r show "dtdl_model s' = dtdl_model s \<and> is_initialized s' = is_initialized s"
    by (auto split: if_splits simp: processEvent_view)
qed

lemma report_initialized [simp]: "is_initialized (report E msg c s) = is_initialized s"
  using core_of_eq [of "report E msg c s" s] by simp

section \<open>The relation\<close>

locale step_relation =
  fixes E :: "'w env" and rel :: "'w ctx \<Rightarrow> 'w ctx \<Rightarrow> bool"
  assumes rel_trans [trans]: "rel s t \<Longrightarrow> rel t u \<Longrightarrow> rel s u"
    and rel_view: "pq s' = pq s \<Longrightarrow> req_info (dtdl_model s') = req_info (dtdl_model s) \<Longrightarrow>
          is_initialized s' = is_initialized s \<Longrightarrow> rel s s'"
    and rel_set: "SensorStreamSetProperty E st v s = (r, s') \<Longrightarrow> rel s s'"
    and rel_registers: "rel s (upd_raa f s)"
begin

lemma rel_refl [simp]: "rel s s"
  by (rule rel_view) simp_all

lemma rel_report: "rel s (report E msg c s)"
  by (rule rel_view) simp_all

lemma rel_then_view:
  "rel s t \<Longrightarrow> pq u = pq t \<Longrightarrow> req_info (dtdl_model u) = req_info (dtdl_model t) \<Longrightarrow>
     is_initialized u = is_initialized t \<Longrightarrow> rel s u"
  by (blast intro: rel_trans rel_view)

lemma view_then_rel:
  "rel t u \<Longrightarrow> pq t = pq s \<Longrightarrow> req_info (dtdl_model t) = req_info (dtdl_model s) \<Longrightarrow>
     is_initialized t = is_initialized s \<Longrightarrow> rel s u"
  by (metis rel_trans rel_view)

lemma apply_property_rel:
  assumes "apply_property E v msg s = (r, s')"
  shows "rel s s'"
proof -
  obtain t where t: "SensorStreamSetProperty E (sensor_stream s) v s = (r, t)"
    "s' = (if r \<noteq> 0 then report E msg CODE_INVALID_ARGUMENT t else t)"
    using assms by (auto simp: apply_property_def split: prod.splits)
  from rel_set [OF t(1)] rel_report show ?thesis
    unfolding t(2) by (auto intro: rel_trans)
qed

lemma PqSettings_appliers_rel:
  assumes "(p, f) \<in> set (PqSettings_appliers E)" "f obj s = (r, s')"
  shows "rel s s'"
proof (cases "p = IMAGE_CROPPING")
  case True
  with assms show ?thesis
    by (auto simp: PqSettings_appliers_def ImageCropping_Apply_def Let_def split: prod.splits if_splits
        intro: rel_set rel_trans [OF rel_set rel_report])
next
  case False
  with assms show ?thesis
    by (auto simp: PqSettings_appliers_def CameraImageSize_Apply_def CameraImageFlip_Apply_def
        AutoExposure_Apply_def AutoExposureMetering_Apply_def ManualExposure_Apply_def
        FrameRate_Apply_def AutoWhiteBalance_Apply_def ManualWhiteBalancePreset_Apply_def Let_def
        dest!: apply_property_rel)
qed

lemma RegisterAccess_Apply_rel:
  assumes "RegisterAccess_Apply E obj s = (r, s')"
  shows "rel s s'"
proof (cases "s' = undefined_step s")
  case True
  then show ?thesis by (simp add: rel_view undefined_step_def)
next
  case False
  with assms obtain t where "t = s \<or> (\<exists>v q. SensorStreamSetProperty E (sensor_stream s) v s = (q, t))"
    "s' = t \<or> (\<exists>msg c. s' = report E msg c t)"
    by (auto simp: RegisterAccess_Apply_def Let_def split: option.splits prod.splits if_splits)
  with rel_set rel_report rel_refl show ?thesis by (blast intro: rel_trans)
qed

lemma apply_registers_rel:
  "apply_registers E js k res s = (r, s') \<Longrightarrow> rel s s'"
proof (induction js arbitrary: k res s)
  case Nil
  then show ?case by simp
next
  case (Cons j js)
  obtain q t where t: "RegisterAccess_Apply E (json_as_object j) (upd_raa (prepare_register E k) s) = (q, t)"
    by fastforce
  have "rel s (upd_raa (prepare_register E k) s)" by (rule rel_registers)
  also have "rel (upd_raa (prepare_register E k) s) t" by (rule RegisterAccess_Apply_rel [OF t])
  also have "rel t (upd_raa (finish_register q k) t)" by (rule rel_registers)
  also have "rel (upd_raa (finish_register q k) t) s'" using Cons.prems t by (intro Cons.IH) simp
  finally show ?case .
qed

lemma RegisterAccessArray_Apply_rel: "rel s (snd (RegisterAccessArray_Apply E js s))"
proof -
  let ?s = "upd_raa (raa_json_array_update (\<lambda>_. [])) s"
  obtain r t where t: "apply_registers E (take MAX_REGISTER_ACCESS_COUNT js) 0 0 ?s = (r, t)" by fastforce
  have "rel s ?s" by (rule rel_registers)
  also have "rel ?s t" by (rule apply_registers_rel [OF t])
  also have "rel t (upd_raa (register_access_array_update
      (take (length (take MAX_REGISTER_ACCESS_COUNT js)))) t)" by (rule rel_registers)
  finally show ?thesis by (simp add: RegisterAccessArray_Apply_def t Let_def)
qed

lemma apply_funcs_rel:
  assumes "set fs \<subseteq> set (PqSettings_funcs E)" "apply_funcs E fs obj ret s = (r, s')"
  shows "rel s s'"
  using assms
proof (induction fs arbitrary: ret s)
  case (Cons kf fs)
  obtain k f where kf: "kf = (k, f)" by (cases kf)
  have "rel t u" if "f x t = (q, u)" for x q t u
    using that Cons.prems(1) kf
    by (auto simp: PqSettings_funcs_def ApplyDigitalZoom_def ApplyExposureMode_def
        ApplyImageRotation_def ApplyEvCompensationVal_def ApplyAeAntiFlickerMode_def
        ApplyWhiteBalanceMode_def ApplyGammaMode_def dest: apply_property_rel)
  then have f: "rel t (snd (f x t))" for x t by (metis prod.collapse)
  show ?case
  proof (cases "json_object_has_value E obj k")
    case True
    have "rel (snd (f (json_object_get_number E obj k) s)) s'"
      using Cons True kf by (auto simp: Let_def split: prod.splits)
    with f show ?thesis by (rule rel_trans)
  next
    case False
    with Cons kf show ?thesis by simp
  qed
qed simp

lemma ApplyGammaParameter_rel: "rel s (snd (ApplyGammaParameter E t s))"
proof -
  have "rel s (snd (apply_property E v msg s))" for v msg
    using apply_property_rel [of v msg s] by (metis prod.collapse)
  moreover have "rel s (undefined_step s)" by (rule rel_view) (simp_all add: undefined_step_def)
  ultimately show ?thesis by (simp add: ApplyGammaParameter_def Let_def)
qed

end

sublocale step_relation < pq_objects: nested_objects E "PqSettings_appliers E" rel
  by unfold_locales (auto intro: rel_trans rel_report PqSettings_appliers_rel)

context step_relation
begin

lemma PqSettings_Apply_rel:
  assumes "PqSettings_Apply E obj s = (r, s')"
  shows "rel s s'"
proof -
  obtain q s1 where a: "apply_funcs E (PqSettings_funcs E) obj 0 s = (q, s1)" by fastforce
  define s2 where "s2 = (if json_object_has_value E obj GAMMA_PARAMETER
    then case json_object_get_string E obj GAMMA_PARAMETER of
      Some t \<Rightarrow> snd (ApplyGammaParameter E t s1) | None \<Rightarrow> s1 else s1)"
  define s3 where "s3 = (if json_object_has_value E obj REGISTER_ACCESS
    then case json_object_get_array E obj REGISTER_ACCESS of
      Some array \<Rightarrow> snd (RegisterAccessArray_Apply E array s2) | None \<Rightarrow> s2 else s2)"
  obtain p s4 where c: "JsonObject_Apply E (PqSettings_appliers E) obj s3 = (p, s4)" by fastforce
  have "rel s s1" by (rule apply_funcs_rel [OF order_refl a])
  also have "rel s1 s2" by (simp add: s2_def ApplyGammaParameter_rel split: option.split)
  also have "rel s2 s3" by (simp add: s3_def RegisterAccessArray_Apply_rel split: option.split)
  also have "rel s3 s4" by (rule pq_objects.Apply_rel [OF c])
  finally have "rel s s4" .
  moreover have "PqSettings_Apply E obj s = (if p \<noteq> 0 then p else q, s4)"
    unfolding PqSettings_Apply_def a Let_def prod.case s2_def [symmetric] s3_def [symmetric] c
    by (rule refl)
  ultimately show ?thesis using assms by simp
qed

end

section \<open>Handlers and callbacks\<close>

context step_relation
begin

lemma api_call_rel: "rel s (api_call E c s)"
proof (cases c)
  case (ApiSetProperty st v)
  then show ?thesis
    using rel_set [of st v s] by (simp add: api_call_def) (metis prod.collapse)
next
  case (ApiSendState t)
  then show ?thesis
    by (intro rel_view) (simp_all add: api_call_def DataExportSendState_def updateCustomSettings_def
      CustomSettings_Store_def EnableNotification_def split: option.split)
next
  case ApiStopSelf
  then show ?thesis
    by (intro rel_view) (simp_all add: api_call_def DataExportStopSelf_def EnableNotification_def
      SetNextState_def)
next
  case (ApiCleanup p)
  then show ?thesis
    by (intro rel_view) (simp_all add: api_call_def DataExportCleanup_def
      DataExportCleanupOrUnlock_def free_buffer_def undefined_step_def split: option.split)
next
  case (ApiLocal g)
  then show ?thesis by (intro rel_view) (simp_all add: api_call_def)
qed

lemma run_app_rel: "run_app E a s = (r, s') \<Longrightarrow> rel s s'"
proof (induction a arbitrary: s)
  case (AppCall c k)
  then have "rel (api_call E c s) s'" by (auto simp: Let_def)
  with api_call_rel show ?case by (rule rel_trans)
qed simp

lemma run_handler_rel: "run_app E a (log_call c s) = (r, s') \<Longrightarrow> rel s s'"
  by (erule view_then_rel [OF run_app_rel]) (simp_all add: log_call_def)

lemma processEvent_rel: "processEvent E s = (r, s') \<Longrightarrow> rel s s'"
  using processEvent_view [of E s] by (intro rel_view) simp_all

lemma EventHandleError_rel: "rel s (EventHandleError E ev res st b c s)"
  by (rule rel_view) (simp_all add: EventHandleError_def Let_def SetProcessState_view)

lemma SendState_rel: "rel s (SendState E s)"
  by (rule rel_view) (simp_all add: SendState_def undefined_step_def log_call_def split: option.split prod.split)

section \<open>The iteration thread\<close>

lemma ThreadLoopIterate_rel: "ThreadLoopIterate E s = (ls, s') \<Longrightarrow> rel s s'"
  by (auto simp: ThreadLoopIterate_def split: prod.splits if_splits
      dest: run_handler_rel intro: rel_trans EventHandleError_rel)

lemma thread_step_rel: "rel s (thread_step E s)"
proof (cases "running s")
  case (Some r)
  obtain ls t where t: "ThreadLoopIterate E s = (ls, t)" by fastforce
  have "dtdl_model (ThreadExit q r' u) = dtdl_model u \<and> is_initialized (ThreadExit q r' u) = is_initialized u"
    for q r' and u :: "'w ctx"
    by (simp add: ThreadExit_def SetNextState_def)
  then have "thread_step E s = s \<or> (dtdl_model (thread_step E s) = dtdl_model t
      \<and> is_initialized (thread_step E s) = is_initialized t)"
    using Some by (simp add: thread_step_def t Let_def undefined_step_def)
  then show ?thesis using rel_then_view [OF ThreadLoopIterate_rel [OF t]] by auto
qed (simp add: thread_step_def)

lemma thread_steps_rel: "rel s (thread_steps E n s)"
  unfolding thread_steps_def by (induction n) (auto intro: rel_trans thread_step_rel)

lemma join_loop_rel: "rel s (join_loop E es s)"
proof (induction es arbitrary: s)
  case (Cons e es)
  show ?case
  proof (cases e)
    case JoinThreadRuns
    with Cons.IH [of "thread_step E s"] show ?thesis
      by (auto intro: rel_trans [OF thread_step_rel])
  next
    case JoinProcessEvent
    with Cons.IH [of "snd (processEvent E s)"] show ?thesis
      by (auto intro: view_then_rel simp: processEvent_view)
  qed
qed simp

lemma ThreadStop_rel: "rel s (ThreadStop E s)"
proof -
  have "rel s (join_loop E es (upd_running f s))" for es f
    by (rule view_then_rel [OF join_loop_rel]) simp_all
  then show ?thesis by (simp add: ThreadStop_def Let_def split: option.split)
qed

section \<open>States\<close>

lemma Running_ctor_rel: "rel s (Running_ctor E s)"
proof -
  obtain res t where t: "run_app E (onStart E) (log_call OnStart (s\<lparr>running := Some Running_new\<rparr>)) = (res, t)"
    by fastforce
  have "rel s t" by (rule view_then_rel [OF run_app_rel [OF t]]) (simp_all add: log_call_def)
  moreover have "rel t (ThreadStart (SendState E t))"
    by (rule rel_then_view [OF SendState_rel]) (simp_all add: ThreadStart_def)
  moreover have "rel t (EventHandleError E ev r st b c (upd_running f t))" for ev r st b c f
    by (rule view_then_rel [OF EventHandleError_rel]) simp_all
  ultimately show ?thesis
    by (auto simp: Running_ctor_def t intro: rel_trans)
qed

lemma Running_dtor_rel: "rel s (Running_dtor E s)"
proof -
  define s2 where "s2 = (let s1 = ThreadStop E s in if is_thread_alive s1 then undefined_step s1 else s1)"
  obtain res t where t: "run_app E (onStop E) (log_call OnStop s2) = (res, t)" by fastforce
  define u where "u = (if res \<noteq> 0 then EventHandleError E ON_STOP res STATE_IDLE
      (\<not> (case running s2 of None \<Rightarrow> False | Some r \<Rightarrow> is_failed_on_start r)) CODE_FAILED_PRECONDITION t else t)"
  have "rel s s2"
    by (rule rel_then_view [OF ThreadStop_rel]) (simp_all add: s2_def Let_def undefined_step_def)
  also have "rel s2 t" by (rule run_handler_rel [OF t])
  also have "rel t u" by (simp add: u_def EventHandleError_rel)
  finally have "rel s u" .
  moreover have "Running_dtor E s = u\<lparr>running := None\<rparr>"
    unfolding Running_dtor_def Let_def s2_def [unfolded Let_def, symmetric] u_def by (simp add: t)
  ultimately show ?thesis by (auto intro: rel_then_view)
qed

lemma delete_state_rel: "rel s (delete_state E st s)"
  by (simp add: delete_state_def Running_dtor_rel)

lemma StateFactory_Create_rel: "StateFactory_Create E st s = (st', s') \<Longrightarrow> rel s s'"
  by (cases st) (auto simp: StateFactory_Create_def Running_ctor_rel)

lemma SetCurrentState_rel: "rel s (SetCurrentState E st s)"
proof -
  have "pq (SetCurrentState E st s) = pq (delete_state E (current_state s) s)"
    "req_info (dtdl_model (SetCurrentState E st s)) = req_info (dtdl_model (delete_state E (current_state s) s))"
    "is_initialized (SetCurrentState E st s) = is_initialized (delete_state E (current_state s) s)"
    by (simp_all add: SetCurrentState_def Let_def SetNextState_def SetProcessState_view)
  then show ?thesis by (rule rel_then_view [OF delete_state_rel])
qed

lemma change_state_rel: "rel s (change_state E nx s)"
proof -
  obtain st s1 where 1: "StateFactory_Create E nx s = (st, s1)" by fastforce
  define s2 where "s2 = thread_steps E (thread_runs_start E s1) s1"
  obtain st' s3 where 3: "(if next_state s2 \<noteq> nx \<and> nx = STATE_RUNNING \<and> next_state s2 = STATE_IDLE
      then StateFactory_Create E (next_state s2) (delete_state E st s2) else (st, s2)) = (st', s3)"
    by fastforce
  have "rel s s1" by (rule StateFactory_Create_rel [OF 1])
  also have "rel s1 s2" by (simp add: s2_def thread_steps_rel)
  also have "rel s2 s3"
    using 3 by (auto split: if_splits intro: rel_trans [OF delete_state_rel StateFactory_Create_rel])
  also have "rel s3 (SetCurrentState E st' (thread_steps E (thread_runs_switch E s3) s3))"
    by (rule rel_trans [OF thread_steps_rel SetCurrentState_rel])
  finally show ?thesis
    unfolding change_state_def 1 Let_def prod.case s2_def [symmetric] 3 .
qed

end

section \<open>The configuration\<close>

context step_relation
begin

lemma PortSettings_Apply_rel:
  assumes "PortSettings_Apply E obj s = (r, s')"
  shows "rel s s'"
proof -
  have ch: "rel t u" if "ApplyStreamChannels E t = (q, u)" for t u q
    using that by (auto simp: ApplyStreamChannels_def Let_def split: prod.splits dest: apply_property_rel)
  define u where "u = (let s1 = (if json_object_has_value E obj METADATA
      then upd_ports (ps_metadata_update (PortSetting_Apply E (json_object_get_object E obj METADATA))) s else s)
    in if json_object_has_value E obj INPUT_TENSOR
       then upd_ports (ps_input_tensor_update (PortSetting_Apply E (json_object_get_object E obj INPUT_TENSOR))) s1
       else s1)"
  have "rel s u" by (rule rel_view) (simp_all add: u_def Let_def)
  moreover have "s' = u \<or> (\<exists>q. ApplyStreamChannels E u = (q, s'))"
    using assms unfolding PortSettings_Apply_def Let_def u_def [unfolded Let_def, symmetric]
    by (auto split: if_splits prod.splits)
  ultimately show ?thesis using ch by (auto intro: rel_trans)
qed

lemma CommonSettings_appliers_rel:
  assumes "(p, f) \<in> set (CommonSettings_appliers E)" "f obj s = (r, s')"
  shows "rel s s'"
proof -
  have "rel s s'" if "InferenceSettings_Apply E obj s = (r, s') \<or> CodecSettings_Apply E obj s = (r, s')"
    using that by (intro rel_view)
      (auto simp: InferenceSettings_Apply_def CodecSettings_Apply_def Let_def EnableNotification_def
        split: if_splits)
  with assms PqSettings_Apply_rel PortSettings_Apply_rel show ?thesis
    by (auto simp: CommonSettings_appliers_def)
qed

end

sublocale step_relation < cs_objects: nested_objects E "CommonSettings_appliers E" rel
  by unfold_locales (auto intro: rel_trans rel_report CommonSettings_appliers_rel)

context step_relation
begin

lemma upd_aims_rel [simp]: "rel s (upd_aims f s)"
  by (rule rel_view) simp_all

lemma AiModel_Apply_rel: "AiModel_Apply E k obj s = (r, s') \<Longrightarrow> rel s s'"
proof -
  assume a: "AiModel_Apply E k obj s = (r, s')"
  have "pq s' = pq s \<and> req_info (dtdl_model s') = req_info (dtdl_model s)
      \<and> is_initialized s' = is_initialized s"
    using a by (auto simp: AiModel_Apply_def Let_def handle_events_view
        report_def SetCode_def SetDetailMsg_def EnableNotification_def
        split: option.splits prod.splits if_splits)
  then show ?thesis by (auto intro: rel_view)
qed

lemma apply_ai_models_rel: "apply_ai_models E js k res s = (r, s') \<Longrightarrow> rel s s'"
proof (induction js arbitrary: k res s)
  case (Cons j js)
  obtain q t where t: "AiModel_Apply E k (json_as_object j) (upd_aims (prepare_ai_model E k) s) = (q, t)"
    by fastforce
  have "rel s (upd_aims (prepare_ai_model E k) s)" by simp
  also have "rel (upd_aims (prepare_ai_model E k) s) t" by (rule AiModel_Apply_rel [OF t])
  also have "rel t (upd_aims (finish_ai_model q k) t)" by simp
  also have "rel (upd_aims (finish_ai_model q k) t) s'" using Cons.prems t by (intro Cons.IH) simp
  finally show ?case .
qed simp

lemma AiModels_Apply_rel: "rel s (snd (AiModels_Apply E js s))"
proof -
  let ?s = "upd_aims (aim_json_array_update (\<lambda>_. [])) s"
  obtain r t where t: "apply_ai_models E (take MAX_AI_MODELS_COUNT js) 0 0 ?s = (r, t)" by fastforce
  have "rel s ?s" by simp
  also have "rel ?s t" by (rule apply_ai_models_rel [OF t])
  also have "rel t (upd_aims (ai_model_array_update (take (length (take MAX_AI_MODELS_COUNT js)))) t)"
    by simp
  finally show ?thesis by (simp add: AiModels_Apply_def t Let_def)
qed

lemma CommonSettings_apply_rest_rel:
  assumes "CommonSettings_apply_rest E obj s = (r, s')"
  shows "rel s s'"
proof -
  define t where "t = (if json_object_has_value E obj AI_MODELS
      then case json_object_get_array E obj AI_MODELS of
        Some array \<Rightarrow> snd (AiModels_Apply E array s) | None \<Rightarrow> s else s)"
  have "rel s t" by (simp add: t_def AiModels_Apply_rel split: option.split)
  also have "rel t s'"
    using assms by (simp add: CommonSettings_apply_rest_def t_def [symmetric] cs_objects.Apply_rel)
  finally show ?thesis .
qed

lemma SetLevels_rel: "rel s (SetLoggingLevel E v s)" "rel s (SetInferencePerMessage E v s)"
  by (rule rel_view; simp add: SetLoggingLevel_def SetInferencePerMessage_def EnableNotification_def)+

lemma SetProcessState_rel: "rel s (SetProcessState E v s)"
  by (rule rel_view) (simp_all add: SetProcessState_view)

lemma CommonSettings_Apply_rel:
  assumes "CommonSettings_Apply E obj s = (r, s')"
  shows "rel s s'"
proof -
  define s2 where "s2 = (let s1 = (if json_object_has_value E obj PROCESS_STATE
      then SetProcessState E (get_cs_u32 E obj PROCESS_STATE) s else s)
    in if json_object_has_value E obj LOG_LEVEL
       then SetLoggingLevel E (get_cs_u32 E obj LOG_LEVEL) s1 else s1)"
  have "rel s s2"
    by (auto simp: s2_def Let_def intro: rel_trans SetProcessState_rel SetLevels_rel)
  also have "rel s2 s'"
    using assms rel_report unfolding CommonSettings_Apply_def Let_def s2_def [unfolded Let_def, symmetric]
    by (auto split: if_splits dest!: CommonSettings_apply_rest_rel
        intro: rel_trans [OF rel_report] rel_trans [OF SetLevels_rel(2)])
  finally show ?thesis .
qed

lemma CustomSettings_Apply_rel:
  assumes "CustomSettings_Apply E obj s = (r, s')"
  shows "rel s s'"
proof -
  have u: "rel s (undefined_step (dtdl_model_update (custom_settings_update f) s))"
    "rel s (undefined_step s)" for f
    by (rule rel_view; simp add: undefined_step_def)+
  have c: "rel s t" if "run_app E p (log_call x (dtdl_model_update (custom_settings_update f) s)) = (q, t)"
    for p x f q t
    by (rule view_then_rel [OF run_handler_rel [OF that]]) simp_all
  have e: "rel t (EnableNotification u)" if "rel t u" for t u
    by (rule rel_then_view [OF that]) (simp_all add: EnableNotification_def)
  show ?thesis
    using assms u
    by (auto simp: CustomSettings_Apply_def Let_def split: option.splits prod.splits if_splits
        dest!: c intro!: e intro: rel_trans [OF _ EventHandleError_rel])
qed

lemma DtdlModel_Apply_rel: "DtdlModel_Apply E obj s = (r, s') \<Longrightarrow> rel s s'"
  by (auto simp: DtdlModel_Apply_def split: prod.splits if_splits
      dest: CommonSettings_Apply_rel CustomSettings_Apply_rel intro: rel_trans)

end

section \<open>One turn\<close>

context step_relation
begin

lemma Applying_Iterate_rel:
  assumes "is_initialized s" "Applying_Iterate E s = (status, s')"
    and upd: "\<And>config r t. DtdlModel_Update E config s = (r, t) \<Longrightarrow> rel s t"
  shows "rel s s'"
proof -
  obtain res t where t: "(case pending_configuration s of None \<Rightarrow> (1, s)
      | Some config \<Rightarrow> DtdlModel_Update E config s) = (res, t)" by fastforce
  then have "rel s t" using upd by (auto split: option.splits)
  then show ?thesis
    using assms(1,2) t
    by (auto simp: Applying_Iterate_def Let_def ClearPendingConfiguration_def SetNextState_def
        EnableNotification_def split: if_splits intro: rel_then_view)
qed

end

end
