(* ===== verification/Transitions.thy ===== *)
theory Transitions
  imports Demo
begin

text \<open>
  The transitions a turn of the loop can make.
\<close>

section \<open>Transitions\<close>

text \<open>Which states a turn can lead to, and why.\<close>

definition allowed :: "STATE \<Rightarrow> STATE set" where
  "allowed st =
     (case st of
        STATE_CREATING \<Rightarrow> {STATE_IDLE}
      | STATE_IDLE \<Rightarrow> {STATE_IDLE, STATE_APPLYING, STATE_DESTROYING}
      | STATE_APPLYING \<Rightarrow> {STATE_IDLE, STATE_RUNNING, STATE_DESTROYING}
      | STATE_RUNNING \<Rightarrow>
          {STATE_RUNNING, STATE_IDLE, STATE_APPLYING, STATE_COOLINGDOWN, STATE_DESTROYING}
      | STATE_COOLINGDOWN \<Rightarrow> {STATE_IDLE}
      | _ \<Rightarrow> {})"

lemma DataExport_next:
  "next_state (DataExportCleanupOrUnlock p f s) = next_state s"
  "next_state (finish_operation k r s) = next_state s"
  by (auto simp: DataExportCleanupOrUnlock_def free_buffer_def undefined_step_def finish_operation_def
      Let_def split: prod.splits option.splits)

lemma handle_event_next: "next_state (handle_event E ev s) \<in> {next_state s, STATE_APPLYING}"
  by (auto simp: handle_event_def configuration_cb_def DataExportSendDataDoneCallback_def
      DataExportTelemetryDoneCallback_def DataExport_next SetPendingConfiguration_def SetNextState_def
      split: evp_event.splits option.splits)

lemma handle_events_next: "next_state (handle_events E evs s) \<in> {next_state s, STATE_APPLYING}"
proof (induction evs arbitrary: s)
  case (Cons ev evs)
  have "next_state (handle_events E evs (handle_event E ev s))
      \<in> {next_state (handle_event E ev s), STATE_APPLYING}" by (rule Cons.IH)
  moreover have "handle_events E (ev # evs) s = handle_events E evs (handle_event E ev s)"
    by (simp add: handle_events_def)
  ultimately show ?case using handle_event_next [of E ev s] by auto
qed (simp add: handle_events_def)

lemma processEvent_next:
  "processEvent E s = (r, t) \<Longrightarrow> next_state t \<in> {next_state s, STATE_APPLYING}"
  using handle_events_next [of E _ "s\<lparr>world := w\<rparr>" for w]
  by (auto simp: processEvent_def split: prod.splits)

lemma SetCurrentState_current [simp]: "current_state (SetCurrentState E st s) = st"
proof -
  have "current_state (SetProcessState E v u) = current_state u" for v u
    by (auto simp: SetProcessState_def UpdateProcessState_def EnableNotification_def SetNextState_def
        Let_def)
  then show ?thesis by (simp add: SetCurrentState_def Let_def)
qed

lemma change_state_current:
  assumes "nx \<noteq> STATE_EXITING" "nx \<noteq> STATE_COUNT"
  shows "current_state (change_state E nx s) \<in> {nx, if nx = STATE_RUNNING then STATE_IDLE else nx}"
proof -
  have "StateFactory_Create E nx t = (nx, snd (StateFactory_Create E nx t))" for t
    using assms by (cases nx) (simp_all add: StateFactory_Create_def)
  moreover have "StateFactory_Create E STATE_IDLE t = (STATE_IDLE, t)" for t
    by (simp add: StateFactory_Create_def)
  ultimately show ?thesis
    unfolding change_state_def Let_def by (auto split: prod.split) (metis Pair_inject)+
qed

lemma Applying_next:
  assumes E: "parson_ok E" and inv: "sm_inv E s" and cur: "current_state s = STATE_APPLYING"
    and a: "Applying_Iterate E s = (status, s')"
  shows "next_state s' \<in> {STATE_IDLE, STATE_DESTROYING, STATE_RUNNING}"
proof -
  obtain b s1 where bs: "(if is_initialized s then (True, s) else Applying_initialize E s) = (b, s1)"
    by fastforce
  have 1: "applying_ok E s s1" "\<not> b \<Longrightarrow> next_state s1 \<in> {STATE_IDLE, STATE_DESTROYING}"
    using bs Applying_initialize_spec [OF E _ cur, of b s1]
    by (auto simp: applying_keeps split: if_splits)
  define u where "u = (case pending_configuration s1 of None \<Rightarrow> (1, s1)
    | Some config \<Rightarrow> DtdlModel_Update E config s1)"
  define s3 where "s3 = ClearPendingConfiguration (snd u)"
  have "keeps E s1 (snd u)"
    using DtdlModel_Update_keeps [OF E, of _ s1]
    by (auto simp: u_def split: option.splits) (metis prod.collapse)
  then have "keeps E s1 s3" by (simp add: s3_def ClearPendingConfiguration_def)
  then have g: "good_ps E s3"
    using 1(1) inv by (simp add: applying_ok_def sm_inv_def keeps_def)
  have "STATE_of_num (uint (GetProcessState E s3)) \<in> {STATE_IDLE, STATE_RUNNING}"
    using good_ps_GetProcessState [OF E g] by (auto simp: STATE_of_num_def)
  with a 1(2) bs show ?thesis
    by (auto simp: Applying_Iterate_def u_def [symmetric] s3_def Let_def
        split: prod.splits if_splits)
qed

lemma Iterate_next:
  assumes E: "parson_ok E" and i: "sm_inv E s" and r: "State_Iterate E s = Some (q, t)"
    and d: "current_state s \<noteq> STATE_DESTROYING"
  shows "next_state t \<in> allowed (current_state s)"
proof -
  obtain p u where u: "processEvent E s = (p, u)" by fastforce
  note n = processEvent_next [OF u]
  show ?thesis
  proof (cases "current_state s")
    case STATE_CREATING
    with r show ?thesis
      by (auto simp: State_Iterate_def Creating_Iterate_def DataExportInitialize_def
          ReceiveDataInitialize_def allowed_def)
  next
    case STATE_IDLE
    with r i n u show ?thesis
      by (auto simp: State_Iterate_def Idle_Iterate_def allowed_def sm_inv_def next_ok_def split: if_splits)
  next
    case STATE_RUNNING
    with r i n u show ?thesis
      by (auto simp: State_Iterate_def Running_Iterate_def allowed_def sm_inv_def next_ok_def split: if_splits)
  next
    case STATE_COOLINGDOWN
    with r i show ?thesis
      by (auto simp: State_Iterate_def CoolingDown_Iterate_def allowed_def sm_inv_def next_ok_def)
  next
    case STATE_APPLYING
    with r Applying_next [OF E i STATE_APPLYING] show ?thesis
      by (auto simp: State_Iterate_def allowed_def)
  qed (use i d in \<open>auto simp: sm_inv_def state_ok_def\<close>)
qed

lemma Applying_current:
  assumes E: "parson_ok E" and cur: "current_state s = STATE_APPLYING"
    and a: "Applying_Iterate E s = (status, s')"
  shows "current_state s' = current_state s"
proof -
  obtain b s1 where bs: "(if is_initialized s then (True, s) else Applying_initialize E s) = (b, s1)"
    by fastforce
  have 1: "current_state s1 = current_state s"
    using bs Applying_initialize_spec(1) [OF E _ cur, of b s1]
    by (auto simp: applying_ok_def split: if_splits)
  define u where "u = (case pending_configuration s1 of None \<Rightarrow> (1, s1)
    | Some config \<Rightarrow> DtdlModel_Update E config s1)"
  have "current_state (snd (DtdlModel_Update E c s1)) = current_state s1" for c
    using DtdlModel_Update_keeps [OF E, of c s1] by (cases "DtdlModel_Update E c s1") (simp add: keeps_def)
  then have "current_state (ClearPendingConfiguration (snd u)) = current_state s1"
    by (simp add: u_def ClearPendingConfiguration_def split: option.split)
  with a 1 show ?thesis
    unfolding Applying_Iterate_def bs by (auto simp: u_def [symmetric] Let_def split: prod.splits if_splits)
qed

lemma Iterate_current:
  assumes E: "parson_ok E" and i: "sm_inv E s" and r: "State_Iterate E s = Some (q, t)"
  shows "current_state t = current_state s"
proof (cases "current_state s")
  case STATE_CREATING
  with r show ?thesis
    by (auto simp: State_Iterate_def Creating_Iterate_def DataExportInitialize_def ReceiveDataInitialize_def)
next
  case STATE_IDLE
  obtain p u where u: "processEvent E s = (p, u)" by fastforce
  with STATE_IDLE r processEvent_keeps [OF u] show ?thesis
    by (auto simp: State_Iterate_def Idle_Iterate_def keeps_def)
next
  case STATE_RUNNING
  obtain p u where u: "processEvent E s = (p, u)" by fastforce
  with STATE_RUNNING r processEvent_keeps [OF u] show ?thesis
    by (auto simp: State_Iterate_def Running_Iterate_def keeps_def)
next
  case STATE_DESTROYING
  with r Destroying_current [OF E, of s] show ?thesis by (auto simp: State_Iterate_def)
next
  case STATE_COOLINGDOWN
  with r i CoolingDown_wait_keeps [of E s] show ?thesis
    by (auto simp: State_Iterate_def CoolingDown_Iterate_def sm_inv_def next_ok_def keeps_def)
next
  case STATE_APPLYING
  obtain p u where a: "Applying_Iterate E s = (p, u)" by fastforce
  with STATE_APPLYING r have "t = u" by (auto simp: State_Iterate_def)
  moreover have "current_state u = current_state s"
    by (rule Applying_current [OF E STATE_APPLYING a])
  ultimately show ?thesis by simp
qed (use i in \<open>auto simp: sm_inv_def state_ok_def\<close>)

lemma LoopIterate_next:
  assumes E: "parson_ok E" and i: "sm_inv E s" and l: "LoopIterate E s = Some (Ok, s')"
  shows "current_state s \<noteq> STATE_DESTROYING" "current_state s' \<in> allowed (current_state s)"
proof -
  obtain q t u where t: "State_Iterate E s = Some (q, t)" "current_state t \<noteq> STATE_DESTROYING"
    "u = (if next_state t \<noteq> current_state t then change_state E (next_state t) t else t)"
    "s' = (if is_pending_notification u then ClearNotification (SendState E u) else u)"
    using l by (cases rule: LoopIterate_cases) auto
  note c = Iterate_current [OF E i t(1)]
  with t(2) show d: "current_state s \<noteq> STATE_DESTROYING" by simp
  note n = Iterate_next [OF E i t(1) d]
  have "current_state u \<in> allowed (current_state s)"
  proof (cases "next_state t = current_state t")
    case True
    with n c t(3) show ?thesis by simp
  next
    case False
    have "next_state t \<noteq> STATE_EXITING" "next_state t \<noteq> STATE_COUNT"
      using n by (auto simp: allowed_def split: STATE.splits)
    from change_state_current [OF this, of E t] False t(3) n show ?thesis
      by (auto simp: allowed_def split: STATE.splits if_splits)
  qed
  with t(4) show "current_state s' \<in> allowed (current_state s)" by simp
qed

end
