(* ===== verification/ReportProofs.thy ===== *)
theory ReportProofs
  imports StepRelation DeviceProofs Transitions
begin

text \<open>
  Two relations that every step respects: the settings the cloud is told are the settings the
  sensor has, from the moment the application is initialised, and the identifier of the last
  request stays until the next configuration is verified.
\<close>

section \<open>The reported settings\<close>

text \<open>
  Once the application is initialised the JSON of the settings shows the stored values.
\<close>

definition settings_ok :: "'w ctx \<Rightarrow> bool" where
  "settings_ok s \<longleftrightarrow> (is_initialized s \<longrightarrow> pq_reports (pq s))"

definition keeps_reports :: "'w env \<Rightarrow> 'w ctx \<Rightarrow> 'w ctx \<Rightarrow> bool" where
  "keeps_reports E s s' \<longleftrightarrow> (parson_ok E \<longrightarrow> settings_ok s \<longrightarrow> settings_ok s')"

lemma SetProperty_initialized:
  "SensorStreamSetProperty E st v s = (r, s') \<Longrightarrow> is_initialized s' = is_initialized s"
  using SensorStreamSetProperty_core core_of_eq by metis

interpretation rep: step_relation E "keeps_reports E" for E :: "'w env"
proof (unfold_locales, goal_cases)
  case (1 s t u)
  then show ?case by (simp add: keeps_reports_def)
next
  case (2 s' s)
  then show ?case by (simp add: keeps_reports_def settings_ok_def)
next
  case (3 st v s r s')
  then show ?case
    using SensorStreamSetProperty_reports [of E s st v r s'] SetProperty_initialized [of E st v s r s']
    by (simp add: keeps_reports_def settings_ok_def)
next
  case (4 s f)
  then show ?case by (simp add: keeps_reports_def settings_ok_def pq_reports_def)
qed

text \<open>The same without the condition, for the steps that initialise.\<close>

definition keeps_pq :: "'w env \<Rightarrow> 'w ctx \<Rightarrow> 'w ctx \<Rightarrow> bool" where
  "keeps_pq E s s' \<longleftrightarrow> (parson_ok E \<longrightarrow> pq_reports (pq s) \<longrightarrow> pq_reports (pq s'))"

interpretation pqr: step_relation E "keeps_pq E" for E :: "'w env"
proof (unfold_locales, goal_cases)
  case (3 st v s r s')
  then show ?case
    using SensorStreamSetProperty_reports [of E s st v r s'] by (simp add: keeps_pq_def)
qed (simp_all add: keeps_pq_def pq_reports_def)

lemma only_infos_frame:
  assumes "only_infos s s'"
  shows "common s' = common s" "custom_settings (dtdl_model s') = custom_settings (dtdl_model s)"
    and "is_initialized s' = is_initialized s" "world s' = world s" "trace s' = trace s"
    and "running s' = running s" "current_state s' = current_state s"
    and "undefined_behaviour s' = undefined_behaviour s"
    and "pending_configuration s' = pending_configuration s"
proof -
  have s': "s' = s\<lparr>is_pending_notification := is_pending_notification s',
     dtdl_model := (dtdl_model s)\<lparr>req_info := req_info (dtdl_model s'),
       res_info := res_info (dtdl_model s')\<rparr>\<rparr>"
    using assms unfolding only_infos_def .
  show "common s' = common s" "custom_settings (dtdl_model s') = custom_settings (dtdl_model s)"
    "is_initialized s' = is_initialized s" "world s' = world s" "trace s' = trace s"
    "running s' = running s" "current_state s' = current_state s"
    "undefined_behaviour s' = undefined_behaviour s"
    "pending_configuration s' = pending_configuration s"
    by (subst s', simp)+
qed

lemma only_infos_reports: "only_infos s s' \<Longrightarrow> keeps_reports E s s'"
  by (simp add: keeps_reports_def settings_ok_def only_infos_frame)

text \<open>\<open>Update\<close>, taken apart.\<close>

lemma DtdlModel_Update_cases:
  assumes "DtdlModel_Update E config s = (r, s')"
  obtains
    (unread) "s' = s" "r = -1"
      "json_parse_string E config = None \<or> (\<exists>v. json_parse_string E config = Some v \<and> json_as_object v = None)"
  | (read) v obj t where "json_parse_string E config = Some v" "json_as_object v = Some obj"
      "DtdlModel_Verify E (Some obj) (ResInfo_Reset E s) = (r, t)"
      "s' = (if r = 0 then snd (DtdlModel_Apply E (Some obj) t) else t)"
proof (cases "json_parse_string E config")
  case None
  with assms show thesis by (intro unread) (simp_all add: DtdlModel_Update_def)
next
  case (Some v)
  show thesis
  proof (cases "json_as_object v")
    case None
    with Some assms show thesis by (intro unread) (simp_all add: DtdlModel_Update_def)
  next
    case (Some obj)
    obtain q t where "DtdlModel_Verify E (Some obj) (ResInfo_Reset E s) = (q, t)" by fastforce
    with Some \<open>json_parse_string E config = Some v\<close> assms show thesis
      by (intro read) (auto simp: DtdlModel_Update_def Let_def)
  qed
qed

lemma ResInfo_Reset_infos: "only_infos s (ResInfo_Reset E s)"
  by (simp add: only_infos_def ResInfo_Reset_def)

lemma DtdlModel_Update_reports:
  assumes "DtdlModel_Update E config s = (r, t)"
  shows "keeps_reports E s t"
  using assms
proof (cases rule: DtdlModel_Update_cases)
  case (read v obj u)
  have "keeps_reports E s u"
    by (rule only_infos_reports [OF only_infos_trans [OF ResInfo_Reset_infos DtdlModel_Verify_infos [OF read(3)]]])
  moreover have "keeps_reports E u t"
  proof -
    obtain q w where "DtdlModel_Apply E (Some obj) u = (q, w)" by fastforce
    from rep.DtdlModel_Apply_rel [OF this] this read(4) show ?thesis by auto
  qed
  ultimately show ?thesis by (rule rep.rel_trans)
qed simp

section \<open>The last request\<close>

definition same_request :: "'w ctx \<Rightarrow> 'w ctx \<Rightarrow> bool" where
  "same_request s s' \<longleftrightarrow> req_info (dtdl_model s') = req_info (dtdl_model s)"

lemma SetProperty_request:
  "SensorStreamSetProperty E st v s = (r, s') \<Longrightarrow> req_info (dtdl_model s') = req_info (dtdl_model s)"
  using SensorStreamSetProperty_core core_of_eq by metis

interpretation req: step_relation E same_request for E :: "'w env"
  by unfold_locales (auto simp: same_request_def dest: SetProperty_request)

section \<open>The reported settings in every reachable state\<close>

lemma Applying_initialize_reports:
  assumes E: "parson_ok E" and a: "Applying_initialize E s = (b, t)" and n: "\<not> is_initialized s"
  shows "settings_ok t" and "b \<longrightarrow> is_initialized t"
proof -
  obtain ret core s1 where 1: "SensorCoreInit E s = (ret, core, s1)" by (metis prod.collapse)
  have i1: "is_initialized s1 = is_initialized s" using 1 by (auto simp: SensorCoreInit_def split: prod.splits)
  obtain ret2 stream s2 where 2: "SensorCoreOpenStream E core ''inference_stream'' s1 = (ret2, stream, s2)"
    by (metis prod.collapse)
  have i2: "is_initialized s2 = is_initialized s"
    using 2 i1 by (auto simp: SensorCoreOpenStream_def split: prod.splits if_splits)
  define s3 where "s3 = DtdlModel_InitializeValues E (s2\<lparr>sensor_core := core, sensor_stream := stream\<rparr>)"
  have i3: "is_initialized s3 = is_initialized s"
    using PqSettings_InitializeValues_keeps [of E "s2\<lparr>sensor_core := core, sensor_stream := stream\<rparr>"] i2
    by (simp add: s3_def DtdlModel_InitializeValues_def keeps_def)
  have r3: "pq_reports (pq s3)"
    by (simp add: s3_def DtdlModel_InitializeValues_def PqSettings_InitializeValues_reports [OF E])
  obtain res s4 where 4: "run_app E (onCreate E) (log_call OnCreate s3) = (res, s4)" by fastforce
  have r4: "pq_reports (pq s4)"
    using pqr.run_handler_rel [OF 4] r3 E by (simp add: keeps_pq_def)
  have i4: "is_initialized s4 = is_initialized s"
    using run_app_keeps [OF 4] i3 by (simp add: keeps_def log_call_def)
  have h: "is_initialized (EventHandleError E ev r st c d u) = is_initialized u" for ev r st c d u
    using EventHandleError_keeps [OF E] by (simp add: keeps_def)
  have c: "is_initialized (snd (SensorCoreExit E co u)) = is_initialized u"
    "is_initialized (snd (SensorCoreCloseStream E co st u)) = is_initialized u" for co st and u :: "'a ctx"
    by (simp_all add: SensorCoreExit_def SensorCoreCloseStream_def split: prod.split)
  have "b \<longrightarrow> is_initialized t \<and> pq_reports (pq t)" "\<not> b \<longrightarrow> \<not> is_initialized t"
    using a n i1 i2 i4 r4
    by (auto simp: Applying_initialize_def 1 2 4 s3_def [symmetric] StateHandleError_def Let_def h c
        split: if_splits)
  then show "b \<longrightarrow> is_initialized t" "settings_ok t" by (auto simp: settings_ok_def)
qed

lemma Applying_Iterate_reports:
  assumes E: "parson_ok E" and a: "Applying_Iterate E s = (status, s')"
  shows "keeps_reports E s s'"
proof (cases "is_initialized s")
  case True
  then show ?thesis by (rule rep.Applying_Iterate_rel [OF _ a DtdlModel_Update_reports])
next
  case False
  obtain b t where t: "Applying_initialize E s = (b, t)" by fastforce
  note T = Applying_initialize_reports [OF E t False]
  show ?thesis
  proof (cases b)
    case True
    with T have i: "is_initialized t" by simp
    have "Applying_Iterate E t = (status, s')"
      using a t True False i by (simp add: Applying_Iterate_def)
    from rep.Applying_Iterate_rel [OF i this DtdlModel_Update_reports] T(1)
    show ?thesis by (simp add: keeps_reports_def)
  next
    case b: False
    with a t False have "s' = t" by (simp add: Applying_Iterate_def)
    with T(1) show ?thesis by (simp add: keeps_reports_def)
  qed
qed

lemma State_Iterate_reports:
  assumes E: "parson_ok E" and r: "State_Iterate E s = Some (status, t)"
    and d: "current_state s \<noteq> STATE_DESTROYING"
  shows "keeps_reports E s t"
proof -
  have p: "keeps_reports E s u" "keeps_reports E s (SetNextState st u)"
    if "processEvent E s = (q, u)" for q st and u :: "'a ctx"
    using processEvent_view [of E s] that
    by (intro rep.rel_view; simp add: SetNextState_def)+
  have w: "keeps_reports E s (SetNextState STATE_IDLE (EnableNotification u))"
    if "CoolingDown_wait E s = Some u" for u
    using CoolingDown_wait_view [OF that]
    by (intro rep.rel_view) (simp_all add: SetNextState_def EnableNotification_def)
  have v: "keeps_reports E s (EnableNotification (SetNextState STATE_IDLE s))"
    "keeps_reports E s (undefined_step s)"
    by (rule rep.rel_view; simp add: SetNextState_def EnableNotification_def undefined_step_def)+
  show ?thesis
    using r d p v w Applying_Iterate_reports [OF E]
    by (auto simp: State_Iterate_def Creating_Iterate_def Idle_Iterate_def Running_Iterate_def
        CoolingDown_Iterate_def DataExportInitialize_def ReceiveDataInitialize_def
        split: STATE.splits prod.splits if_splits)
qed

lemma LoopIterate_reports:
  assumes E: "parson_ok E" and i: "sm_inv E s" and l: "LoopIterate E s = Some (Ok, s')"
  shows "keeps_reports E s s'"
  using l
proof (cases rule: LoopIterate_cases)
  case (goes q t u)
  have "current_state s \<noteq> STATE_DESTROYING" by (rule LoopIterate_next(1) [OF E i l])
  then have "keeps_reports E s t" using State_Iterate_reports [OF E goes(1)] by blast
  also have "keeps_reports E t u" using goes rep.change_state_rel rep.rel_refl by auto
  also have "keeps_reports E u s'"
    using goes by (auto intro!: rep.rel_then_view [OF rep.SendState_rel])
  finally show ?thesis .
qed simp

lemma reachable_settings_ok:
  assumes E: "parson_ok E" and r: "reachable E w s"
  shows "settings_ok s"
  using r
proof induction
  case start
  show ?case by (simp add: settings_ok_def StateMachine_init_def)
next
  case (step s s')
  from step.hyps(2) have "keeps_reports E s s'"
    using LoopIterate_reports [OF E reachable_inv [OF E step.hyps(1)]] rep.thread_step_rel
    by cases auto
  with step.IH E show ?case by (simp add: keeps_reports_def)
qed

section \<open>A configuration is applied once\<close>

lemma DtdlModel_Update_request:
  assumes E: "parson_ok E" and u: "DtdlModel_Update E config s = (r, s')"
    and p: "json_parse_string E config = Some (JObject obj)"
    and q: "json_object_get_string E (json_object_get_object E (Some obj) REQ_INFO) REQ_ID = Some rid"
  shows "GetReqId E s' = Some rid"
  using u
proof (cases rule: DtdlModel_Update_cases)
  case unread
  then show ?thesis using p by (auto simp: json_as_object_def)
next
  case (read v o' t)
  then have o: "o' = obj" using p by (auto simp: json_as_object_def)
  define s1 where "s1 = ReqInfo_Apply E (json_object_get_object E (Some obj) REQ_INFO) (ResInfo_Reset E s)"
  have g: "GetReqId E s1 = Some rid"
    using q E by (simp add: s1_def GetReqId_def ReqInfo_Apply_def parson_simps)
  have "only_reports (SetResId E (GetReqId E s1) s1) t"
    using read(3) unfolding o DtdlModel_Verify_def Let_def s1_def [symmetric]
    by (rule dtdl_verify.Verify_rel)
  then have "same_request s1 t"
    by (auto simp: only_reports_def same_request_def SetResId_def dest: core_of_eq)
  moreover have "same_request t s'"
  proof -
    obtain w p where "DtdlModel_Apply E (Some obj) t = (p, w)" by fastforce
    from req.DtdlModel_Apply_rel [OF this] this read(4) o show ?thesis
      by (auto simp: same_request_def)
  qed
  ultimately show ?thesis using g by (simp add: same_request_def GetReqId_def)
qed

end
