(* ===== verification/MachineProperties.thy ===== *)
theory MachineProperties
  imports Transitions
begin

text \<open>
  The properties of the state machine: the states it reaches, the order of the application's
  handlers, the transitions, its end, what becomes of a failing start, of a refused configuration
  and of the iteration thread.
\<close>

section \<open>Reachable states\<close>

lemma first_turn:
  assumes E: "parson_ok E"
  obtains s where "LoopIterate E (StateMachine_init E w) = Some (Ok, s)" "reachable E w s"
    "current_state s = STATE_IDLE"
proof -
  have "State_Iterate E (StateMachine_init E w)
      = Some (Ok, EnableNotification (SetNextState STATE_IDLE (StateMachine_init E w)))"
    by (simp add: State_Iterate_def Creating_Iterate_def DataExportInitialize_def
        ReceiveDataInitialize_def StateMachine_init_def)
  then obtain s where s: "LoopIterate E (StateMachine_init E w) = Some (Ok, s)"
    by (simp add: LoopIterate_def Let_def StateMachine_init_def)
  note r = reachable.start [of E w]
  have "current_state s \<in> allowed (current_state (StateMachine_init E w))"
    by (rule LoopIterate_next(2) [OF E reachable_inv [OF E r] s])
  with s reachable.step [OF r sm_step.main_step [OF s]] show thesis
    by (intro that) (auto simp: allowed_def StateMachine_init_def)
qed

lemma demo_turn:
  obtains s where "LoopIterate (demo_env None) demo_state = Some (Ok, s)"
    "reachable (demo_env None) 0 s" "current_state s = STATE_IDLE"
  using first_turn [OF parson_ok_demo, of None 0] by (auto simp: demo_state_def)

text \<open>C1. In every interleaving of the main thread and the iteration thread the machine is in one of its
  six states, there is an object \<open>Running\<close> exactly in the running state, and between two turns
  the next state is the present one, except that the iteration thread may have asked to leave the
  running state.\<close>

theorem reachable_states:
  assumes "parson_ok E" "reachable E w s"
  shows "current_state s \<notin> {STATE_EXITING, STATE_COUNT}
    \<and> (running s \<noteq> None \<longleftrightarrow> current_state s = STATE_RUNNING)
    \<and> (if current_state s = STATE_RUNNING
       then next_state s \<in> {STATE_RUNNING, STATE_IDLE, STATE_APPLYING, STATE_COOLINGDOWN}
       else next_state s = current_state s)"
  using reachable_inv [OF assms] by (auto simp: sm_inv_def state_ok_def next_ok_def split: if_splits)

theorem reachable_states_witness:
  "\<exists>s. LoopIterate (demo_env None) demo_state = Some (Ok, s)
     \<and> (running s \<noteq> None \<longleftrightarrow> current_state s = STATE_RUNNING)"
proof -
  obtain s where s: "LoopIterate (demo_env None) demo_state = Some (Ok, s)"
    "reachable (demo_env None) 0 s" by (rule demo_turn)
  with reachable_states [OF parson_ok_demo s(2)] show ?thesis by blast
qed

text \<open>C2. The application's handlers are called in the order of their life cycle: \<open>onCreate\<close> first,
  \<open>onIterate\<close> only between an \<open>onStart\<close> and the \<open>onStop\<close> that follows it, \<open>onStop\<close> exactly once
  after every \<open>onStart\<close>, and a started application is stopped exactly when there is no object
  \<open>Running\<close>.\<close>

theorem handler_order:
  assumes "parson_ok E" "reachable E w s"
  shows "\<exists>p. run_life Fresh (app_calls (trace s)) = Some p \<and> p \<noteq> Ended
    \<and> (p = Started \<longleftrightarrow> running s \<noteq> None) \<and> (is_initialized s \<longrightarrow> p \<noteq> Fresh)"
  using reachable_inv [OF assms] by (auto simp: sm_inv_def life_ok_def split: option.splits)

theorem handler_order_witness:
  "\<exists>s p. LoopIterate (demo_env None) demo_state = Some (Ok, s)
     \<and> run_life Fresh (app_calls (trace s)) = Some p \<and> p \<noteq> Ended"
proof -
  obtain s where s: "LoopIterate (demo_env None) demo_state = Some (Ok, s)"
    "reachable (demo_env None) 0 s" by (rule demo_turn)
  with handler_order [OF parson_ok_demo s(2)] show ?thesis by blast
qed

text \<open>C14. The process state the cloud is told is 1 (idle) or 2 (running) in every reachable state, so the
  state \<open>Applying\<close> returns to is always \<open>Idle\<close> or \<open>Running\<close>.\<close>

theorem reported_process_state:
  assumes "parson_ok E" "reachable E w s"
  shows "GetProcessState E s = 1 \<or> GetProcessState E s = 2"
  using reachable_inv [OF assms] good_ps_GetProcessState [OF assms(1)] by (simp add: sm_inv_def)

theorem reported_process_state_witness:
  "\<exists>s. LoopIterate (demo_env None) demo_state = Some (Ok, s)
     \<and> (GetProcessState (demo_env None) s = 1 \<or> GetProcessState (demo_env None) s = 2)"
proof -
  obtain s where s: "LoopIterate (demo_env None) demo_state = Some (Ok, s)"
    "reachable (demo_env None) 0 s" by (rule demo_turn)
  with reported_process_state [OF parson_ok_demo s(2)] show ?thesis by blast
qed

section \<open>Transitions and the end\<close>

text \<open>C5. The transitions of the machine: one turn leads from creating to idle, from idle to idle, applying
  or destroying, from applying to idle, running or destroying, from running to any of running,
  idle, applying, cooling down and destroying, from cooling down to idle; no turn leaves
  destroying.\<close>

theorem turn_transitions:
  assumes "parson_ok E" "reachable E w s" "LoopIterate E s = Some (Ok, s')"
  shows "current_state s' \<in> allowed (current_state s)"
  by (rule LoopIterate_next(2) [OF assms(1) reachable_inv [OF assms(1,2)] assms(3)])

theorem turn_transitions_witness:
  "\<exists>s. LoopIterate (demo_env None) demo_state = Some (Ok, s) \<and> current_state s = STATE_IDLE"
proof -
  obtain s where s: "LoopIterate (demo_env None) demo_state = Some (Ok, s)"
    using demo_loop_ok by blast
  have "reachable (demo_env None) 0 demo_state"
    unfolding demo_state_def by (rule reachable.start)
  from turn_transitions [OF parson_ok_demo this s] s show ?thesis by (auto simp: allowed_def)
qed

lemma Break_iff:
  assumes E: "parson_ok E" and i: "sm_inv E s" and l: "LoopIterate E s = Some (q, s')"
  shows "(q = Break \<longleftrightarrow> current_state s = STATE_DESTROYING) \<and> q \<noteq> Error"
  using l
proof (cases rule: LoopIterate_cases)
  case (ends p)
  then show ?thesis using Iterate_current [OF E i ends(1)] by simp
next
  case (goes p t u)
  then show ?thesis using Iterate_current [OF E i goes(1)] by simp
qed



lemma Destroying_trace:
  assumes E: "parson_ok E"
  shows "app_calls (trace (snd (Destroying_Iterate E s))) = app_calls (trace s) @ [OnDestroy]"
proof -
  obtain res t where t: "run_app E (onDestroy E) (log_call OnDestroy s) = (res, t)" by fastforce
  have "app_calls (trace t) = app_calls (trace s) @ [OnDestroy]"
    using run_app_keeps [OF t] by (simp add: keeps_def log_call_def app_calls_def)
  moreover have "app_calls (trace (StateHandleError E ev r u)) = app_calls (trace u)" for ev r u
    using StateHandleError_keeps [OF E] by (simp add: keeps_def)
  moreover have "trace (snd (Destroying_uninitialize E u)) = trace u" for u
    by (simp add: Destroying_uninitialize_def DataExportUnInitialize_def ReceiveDataUnInitialize_def)
  moreover have "SensorCoreCloseStream E c k u = (r, v) \<Longrightarrow> trace v = trace u"
    "SensorCoreExit E c u = (r, v) \<Longrightarrow> trace v = trace u" for c k u r v
    by (auto simp: SensorCoreCloseStream_def SensorCoreExit_def split: prod.splits if_splits)
  ultimately show ?thesis
    by (simp add: Destroying_Iterate_def t Let_def split: prod.split)
qed

text \<open>C16. In the destroying state \<open>Run\<close> returns after one more turn, in which \<open>onDestroy\<close> is the one
  handler that is called, even when it fails or the sensor does not close.\<close>

theorem destroying_terminates:
  assumes "parson_ok E" "current_state s = STATE_DESTROYING"
  shows "\<exists>s'. Run E s = Some s' \<and> app_calls (trace s') = app_calls (trace s) @ [OnDestroy]"
proof -
  obtain q t where d: "Destroying_Iterate E s = (q, t)" by fastforce
  have "current_state t = STATE_DESTROYING"
    using Destroying_current [OF assms(1), of s] d assms(2) by simp
  then have "LoopIterate E s = Some (Break, t)"
    using d assms(2) by (simp add: LoopIterate_def State_Iterate_def)
  then have "Run E s = Some t" by (subst Run.simps) simp
  with Destroying_trace [OF assms(1), of s] d show ?thesis by simp
qed

theorem destroying_terminates_witness:
  "\<exists>s'. Run (demo_env None) (demo_state\<lparr>current_state := STATE_DESTROYING\<rparr>) = Some s'
     \<and> app_calls (trace s') = [OnDestroy]"
  using destroying_terminates [OF parson_ok_demo, of "demo_state\<lparr>current_state := STATE_DESTROYING\<rparr>"]
  by (simp add: app_calls_def)



end
