(* ===== verification/ReportProperties.thy ===== *)
theory ReportProperties
  imports ReportProofs MachineProperties
begin

text \<open>
  The life of a configuration: how it is taken up, applied once, or refused, and what the cloud is
  told of the settings in every reachable state.
\<close>

section \<open>Turns without an iteration thread\<close>

lemma thread_steps_dead [simp]:
  "\<not> is_thread_alive s \<Longrightarrow> thread_steps E n s = s"
  unfolding thread_steps_def
  by (induction n) (auto simp: thread_step_def is_thread_alive_def split: option.split)

lemma no_thread [simp]: "running s = None \<Longrightarrow> \<not> is_thread_alive s"
  by (simp add: is_thread_alive_def)

text \<open>Going to a state other than \<open>Running\<close>, without a thread, only exchanges the state.\<close>

lemma change_state_quiet:
  assumes "running s = None" "current_state s \<noteq> STATE_RUNNING" "next_state s = STATE_APPLYING"
  shows "change_state E STATE_APPLYING s = s\<lparr>current_state := STATE_APPLYING\<rparr>"
  using assms
  by (simp add: change_state_def StateFactory_Create_def SetCurrentState_def delete_state_def
      SetNextState_def)

lemma SendState_control:
  "next_state (SendState E s) = next_state s" "current_state (SendState E s) = current_state s"
  "pending_configuration (SendState E s) = pending_configuration s"
  "running (SendState E s) = running s" "is_initialized (SendState E s) = is_initialized s"
  "dtdl_model (SendState E s) = dtdl_model s" "app_calls (trace (SendState E s)) = app_calls (trace s)"
  by (simp_all add: SendState_def undefined_step_def log_call_def app_calls_def
      split: option.split prod.split)

lemma ClearNotification_control:
  "next_state (ClearNotification s) = next_state s"
  "current_state (ClearNotification s) = current_state s"
  "pending_configuration (ClearNotification s) = pending_configuration s"
  "running (ClearNotification s) = running s" "is_initialized (ClearNotification s) = is_initialized s"
  "dtdl_model (ClearNotification s) = dtdl_model s" "trace (ClearNotification s) = trace s"
  by (simp_all add: ClearNotification_def)

lemmas notify_frame = SendState_control ClearNotification_control

text \<open>The end of a turn: a pending notification is sent.\<close>

definition finish_turn :: "'w env \<Rightarrow> 'w ctx \<Rightarrow> 'w ctx" where
  "finish_turn E s = (if is_pending_notification s then ClearNotification (SendState E s) else s)"

lemma finish_turn_frame [simp]:
  "next_state (finish_turn E s) = next_state s" "current_state (finish_turn E s) = current_state s"
  "pending_configuration (finish_turn E s) = pending_configuration s"
  "running (finish_turn E s) = running s" "is_initialized (finish_turn E s) = is_initialized s"
  "dtdl_model (finish_turn E s) = dtdl_model s" "app_calls (trace (finish_turn E s)) = app_calls (trace s)"
  by (simp_all add: finish_turn_def notify_frame)

lemma LoopIterate_goes:
  assumes "State_Iterate E s = Some (q, t)" "current_state t \<noteq> STATE_DESTROYING"
  shows "LoopIterate E s = Some (Ok, finish_turn E
    (if next_state t \<noteq> current_state t then change_state E (next_state t) t else t))"
  using assms by (simp add: LoopIterate_def Let_def finish_turn_def)

section \<open>Taking up a configuration\<close>

lemma reachable_running:
  "parson_ok E \<Longrightarrow> reachable E w s \<Longrightarrow> current_state s \<noteq> STATE_RUNNING \<Longrightarrow> running s = None"
  using reachable_inv [of E w s] by (simp add: sm_inv_def)

lemma handle_new_configuration:
  assumes "json_parse_string E config = Some (JObject obj)"
    and "json_object_dotget_string E obj ''req_info.req_id'' = Some rid"
    and "GetReqId E s \<noteq> Some rid" "malloc_ok E (world s)"
  shows "configuration_cb E topic config s
    = s\<lparr>pending_configuration := Some config, next_state := STATE_APPLYING\<rparr>"
  using assms
  by (simp add: configuration_cb_def json_as_object_def SetPendingConfiguration_def SetNextState_def)

text \<open>C18. A configuration with a new request identifier that arrives in the idle state is taken up: the
  same turn ends in the applying state with that configuration pending.\<close>

theorem configuration_taken:
  assumes "parson_ok E" "reachable E w s" "current_state s = STATE_IDLE"
    and "EVP_processEvent E s = ([ConfigurationEvent topic config], res, w')"
    and "res \<noteq> EVP_SHOULDEXIT" "malloc_ok E w'"
    and "json_parse_string E config = Some (JObject obj)"
    and "json_object_dotget_string E obj ''req_info.req_id'' = Some rid"
    and "GetReqId E s \<noteq> Some rid"
  shows "\<exists>s'. LoopIterate E s = Some (Ok, s') \<and> current_state s' = STATE_APPLYING
    \<and> pending_configuration s' = Some config \<and> is_initialized s' = is_initialized s"
proof -
  define u where
    "u = s\<lparr>world := w', pending_configuration := Some config, next_state := STATE_APPLYING\<rparr>"
  have i: "running s = None" using reachable_running [OF assms(1,2)] assms(3) by simp
  have "GetReqId E (s\<lparr>world := w'\<rparr>) \<noteq> Some rid" using assms(9) by (simp add: GetReqId_def)
  with assms have p: "processEvent E s = (res, u)"
    by (simp add: processEvent_def handle_events_def handle_event_def u_def
        handle_new_configuration [of E config obj rid])
  then have "State_Iterate E s = Some (Ok, u)"
    using assms(3,5) by (simp add: State_Iterate_def Idle_Iterate_def)
  from LoopIterate_goes [OF this] i assms(3)
  have "LoopIterate E s = Some (Ok, finish_turn E (u\<lparr>current_state := STATE_APPLYING\<rparr>))"
    by (simp add: u_def change_state_quiet)
  then show ?thesis by (simp add: u_def)
qed

text \<open>A concrete configuration, delivered whenever the agent is asked for events.\<close>

definition demo_config :: jobj where
  "demo_config = [(''req_info'', JObject [(''req_id'', JString ''r1'')])]"

definition config_env :: "nat env" where
  "config_env = demo_env (Some (JObject demo_config))
     \<lparr>EVP_processEvent := \<lambda>s. ([ConfigurationEvent ''t'' ''c''], EVP_OK, world s)\<rparr>"

lemma config_env_ok [simp]: "parson_ok config_env"
  by (simp add: config_env_def)

lemma config_env_simps [simp]:
  "json_parse_string config_env c = Some (JObject demo_config)"
  "json_object_dotget_string config_env demo_config ''req_info.req_id'' = Some ''r1''"
  "malloc_ok config_env w"
  "EVP_processEvent config_env s = ([ConfigurationEvent ''t'' ''c''], EVP_OK, world s)"
  by (simp_all add: config_env_def demo_env_def list_parson_def demo_config_def)

text \<open>The first turn, in an environment without a thread.\<close>

lemma idle_start:
  assumes E: "parson_ok E"
  obtains s where "reachable E w s" "current_state s = STATE_IDLE" "GetReqId E s = Some ''''"
    "is_initialized s = False" "pending_configuration s = None"
proof -
  let ?i = "StateMachine_init E w"
  let ?t = "EnableNotification (SetNextState STATE_IDLE ?i)"
  have i: "State_Iterate E ?i = Some (Ok, ?t)"
    by (simp add: State_Iterate_def Creating_Iterate_def DataExportInitialize_def
        ReceiveDataInitialize_def StateMachine_init_def)
  have i0: "current_state ?i = STATE_CREATING" by (simp add: StateMachine_init_def)
  have "GetProcessState E ?t = 1"
    using E by (simp add: GetProcessState_def get_cs_u32_def StateMachine_init_def DtdlModel_new_def
        CommonSettings_new_def EnableNotification_def SetNextState_def parson_simps)
  then have g: "GetProcessState E (?t\<lparr>current_state := STATE_IDLE\<rparr>) = 1"
    by (simp add: GetProcessState_def)
  have c: "change_state E STATE_IDLE ?t = ?t\<lparr>current_state := STATE_IDLE\<rparr>"
    using g by (simp add: change_state_def StateFactory_Create_def SetCurrentState_def
        delete_state_def EnableNotification_def SetNextState_def StateMachine_init_def)
  define s where "s = finish_turn E (?t\<lparr>current_state := STATE_IDLE\<rparr>)"
  have "LoopIterate E ?i = Some (Ok, s)"
    using LoopIterate_goes [OF i] i0 c by (simp add: s_def)
  then have "reachable E w s"
    by (intro reachable.step [OF reachable.start] sm_step.main_step)
  moreover have "GetReqId E s = Some ''''"
    using E by (simp add: s_def GetReqId_def StateMachine_init_def DtdlModel_new_def
        EnableNotification_def SetNextState_def parson_simps)
  moreover have "current_state s = STATE_IDLE" "is_initialized s = False" "pending_configuration s = None"
    unfolding s_def finish_turn_frame
    by (simp_all add: StateMachine_init_def EnableNotification_def SetNextState_def)
  ultimately show thesis by (intro that)
qed

theorem configuration_taken_witness:
  "\<exists>s s'. reachable config_env 0 s \<and> LoopIterate config_env s = Some (Ok, s')
     \<and> current_state s' = STATE_APPLYING \<and> pending_configuration s' = Some ''c''"
proof -
  obtain s where s: "reachable config_env 0 s" "current_state s = STATE_IDLE"
    "GetReqId config_env s = Some ''''" by (rule idle_start [OF config_env_ok])
  have "GetReqId config_env s \<noteq> Some ''r1''" using s(3) by simp
  with configuration_taken [OF config_env_ok s(1,2) config_env_simps(4) _ _ config_env_simps(1,2)] s(1)
  show ?thesis by auto
qed

section \<open>Applying it\<close>

text \<open>An initialised application applies what is pending.\<close>

lemma Applying_Iterate_initialized:
  assumes "is_initialized s" "pending_configuration s = Some config"
    and "DtdlModel_Update E config s = (r, t)"
  shows "Applying_Iterate E s =
    (if r \<noteq> 0 then (Error, EnableNotification (SetNextState STATE_IDLE (ClearPendingConfiguration t)))
     else (Ok, SetNextState (STATE_of_num (uint (GetProcessState E t))) (ClearPendingConfiguration t)))"
  using assms by (simp add: Applying_Iterate_def Let_def ClearPendingConfiguration_def GetProcessState_def)

lemma api_call_pending: "pending_configuration (api_call E c s) = pending_configuration s"
  using core_of_eq(4) [OF SetProperty_core, of E _ _ s]
  by (auto simp: api_call_def DataExportSendState_def updateCustomSettings_def CustomSettings_Store_def
      EnableNotification_def DataExportStopSelf_def SetNextState_def DataExportCleanup_def
      DataExportCleanupOrUnlock_def free_buffer_def undefined_step_def Let_def
      split: app_call.split option.split)

lemma run_app_pending: "run_app E a s = (r, t) \<Longrightarrow> pending_configuration t = pending_configuration s"
proof (induction a arbitrary: s)
  case (AppCall c k)
  then show ?case using AppCall.IH [of "k (api_call E c s)"] by (auto simp: Let_def api_call_pending)
qed simp

lemma init_scalars_core:
  "core_of (init_DigitalZoom E s) = core_of s" "core_of (init_ExposureMode E s) = core_of s"
  "core_of (init_EvCompensation E s) = core_of s" "core_of (init_AeAntiFlickerMode E s) = core_of s"
  "core_of (init_WhiteBalanceMode E s) = core_of s" "core_of (init_ImageRotation E s) = core_of s"
  "core_of (init_Gamma E s) = core_of s"
  by (simp_all add: init_DigitalZoom_def init_ExposureMode_def init_EvCompensation_def
      init_AeAntiFlickerMode_def init_WhiteBalanceMode_def init_ImageRotation_def init_Gamma_def
      get_scalar_def SensorStreamGetProperty_def split: prod.splits)

lemma init_objects_core:
  "core_of (CameraImageSize_InitializeValues E s) = core_of s" "core_of (CameraImageFlip_InitializeValues E s) = core_of s"
  "core_of (FrameRate_InitializeValues E s) = core_of s" "core_of (AutoExposure_InitializeValues E s) = core_of s"
  "core_of (AutoExposureMetering_InitializeValues E s) = core_of s"
  "core_of (ManualExposure_InitializeValues E s) = core_of s" "core_of (AutoWhiteBalance_InitializeValues E s) = core_of s"
  "core_of (ManualWhiteBalancePreset_InitializeValues E s) = core_of s"
  "core_of (ImageCropping_InitializeValues E s) = core_of s"
  by (simp_all add: CameraImageSize_InitializeValues_def CameraImageFlip_InitializeValues_def
      FrameRate_InitializeValues_def AutoExposure_InitializeValues_def
      AutoExposureMetering_InitializeValues_def ManualExposure_InitializeValues_def
      AutoWhiteBalance_InitializeValues_def ManualWhiteBalancePreset_InitializeValues_def
      ImageCropping_InitializeValues_def SensorStreamGetProperty_def Let_def split: prod.splits)
    auto

lemma InitializeValues_core: "core_of (DtdlModel_InitializeValues E s) = core_of s"
  by (simp add: DtdlModel_InitializeValues_def PqSettings_InitializeValues_def Let_def
      init_scalars_core init_objects_core)

lemma Applying_initialize_True:
  assumes E: "parson_ok E" and n: "\<not> is_initialized s" and a: "Applying_initialize E s = (True, t)"
  shows "is_initialized t" "pending_configuration t = pending_configuration s"
    "Applying_Iterate E s = Applying_Iterate E t"
proof -
  show i: "is_initialized t" using Applying_initialize_reports [OF E a n] by simp
  then show "Applying_Iterate E s = Applying_Iterate E t"
    using a n by (simp add: Applying_Iterate_def)
  show "pending_configuration t = pending_configuration s"
    using a core_of_eq(4) [OF InitializeValues_core, of E] unfolding Applying_initialize_def
    by (auto simp: SensorCoreInit_def SensorCoreOpenStream_def Let_def log_call_def
        dest!: run_app_pending split: prod.splits if_splits)
qed

lemma GetReqId_same: "same_request s t \<Longrightarrow> GetReqId E t = GetReqId E s"
  by (simp add: same_request_def GetReqId_def)

text \<open>C8. A configuration is applied once: after the turn that applies it, also when that turn creates
  the application first, delivering it again under the same request identifier changes nothing.
  The last hypothesis is the documented meaning of a dotted path.\<close>

theorem configuration_applied_once:
  assumes E: "parson_ok E" and cur: "current_state s = STATE_APPLYING"
    and i: "is_initialized s \<or> fst (Applying_initialize E s)"
    and pc: "pending_configuration s = Some config"
    and p: "json_parse_string E config = Some (JObject obj)"
    and d: "json_object_dotget_string E obj ''req_info.req_id'' = Some rid"
    and l: "json_object_get_string E (json_object_get_object E (Some obj) REQ_INFO) REQ_ID = Some rid"
  shows "\<exists>s'. LoopIterate E s = Some (Ok, s') \<and> configuration_cb E topic config s' = s'"
proof -
  obtain s0 where s0: "is_initialized s0" "pending_configuration s0 = Some config"
    "Applying_Iterate E s = Applying_Iterate E s0"
  proof (cases "is_initialized s")
    case True
    with pc show thesis by (intro that) auto
  next
    case False
    with i obtain t where "Applying_initialize E s = (True, t)" by (metis prod.collapse)
    from Applying_initialize_True [OF E False this] pc show thesis by (intro that) auto
  qed
  obtain q t where u: "DtdlModel_Update E config s0 = (q, t)" by fastforce
  note req_t = DtdlModel_Update_request [OF E u p l]
  obtain q' v where a: "Applying_Iterate E s = (q', v)" by fastforce
  have st: "State_Iterate E s = Some (q', v)" using a cur by (simp add: State_Iterate_def)
  have "current_state v = STATE_APPLYING"
    using Applying_current [OF E cur a] cur by simp
  then have li: "LoopIterate E s = Some (Ok, finish_turn E
      (if next_state v \<noteq> current_state v then change_state E (next_state v) v else v))"
    (is "_ = Some (Ok, finish_turn E ?u)")
    by (intro LoopIterate_goes [OF st]) simp
  have "dtdl_model v = dtdl_model t"
    using a Applying_Iterate_initialized [OF s0(1,2) u] s0(3)
    by (auto simp: EnableNotification_def SetNextState_def ClearPendingConfiguration_def split: if_splits)
  then have "GetReqId E v = Some rid" using req_t by (simp add: GetReqId_def)
  moreover have "same_request v ?u"
    using req.change_state_rel [of v E] by (simp add: same_request_def)
  ultimately have "GetReqId E (finish_turn E ?u) = Some rid"
    using GetReqId_same [of v ?u E] by (simp add: GetReqId_def)
  then have "configuration_cb E topic config (finish_turn E ?u) = finish_turn E ?u"
    using p d by (simp add: configuration_cb_def json_as_object_def)
  with li show ?thesis by blast
qed

text \<open>The second turn of the example takes up the configuration.\<close>

lemma config_second_turn:
  obtains s where "reachable config_env 0 s" "current_state s = STATE_APPLYING"
    "pending_configuration s = Some ''c''" "is_initialized s = False"
proof -
  obtain s where s: "reachable config_env 0 s" "current_state s = STATE_IDLE"
    "GetReqId config_env s = Some ''''" "is_initialized s = False"
    by (rule idle_start [OF config_env_ok])
  define u where
    "u = s\<lparr>world := world s, pending_configuration := Some ''c'', next_state := STATE_APPLYING\<rparr>"
  have i: "running s = None" using reachable_running [OF config_env_ok s(1)] s(2) by simp
  have p: "processEvent config_env s = (EVP_OK, u)"
    using s(3) handle_new_configuration [OF config_env_simps(1,2), of s "''t''"]
    by (simp add: processEvent_def handle_events_def handle_event_def u_def)
  have "State_Iterate config_env s = Some (Ok, u)"
    using p s(2) by (simp add: State_Iterate_def Idle_Iterate_def)
  from LoopIterate_goes [OF this] i s(2)
  have "LoopIterate config_env s = Some (Ok, finish_turn config_env (u\<lparr>current_state := STATE_APPLYING\<rparr>))"
    by (simp add: u_def change_state_quiet)
  then show thesis
    by (rule that [OF reachable.step [OF s(1) sm_step.main_step]]) (use s(4) in \<open>simp_all add: u_def\<close>)
qed

lemma config_env_initializes: "fst (Applying_initialize config_env s)"
  by (simp add: Applying_initialize_def SensorCoreInit_def SensorCoreOpenStream_def config_env_def
      demo_env_def Let_def)

theorem configuration_applied_once_witness:
  "\<exists>s s'. reachable config_env 0 s \<and> LoopIterate config_env s = Some (Ok, s')
     \<and> configuration_cb config_env ''t'' ''c'' s' = s'"
proof -
  obtain s where s: "reachable config_env 0 s" "current_state s = STATE_APPLYING"
    "pending_configuration s = Some ''c''" by (rule config_second_turn)
  have "json_object_get_string config_env (json_object_get_object config_env (Some demo_config) REQ_INFO)
      REQ_ID = Some ''r1''"
    by (simp add: config_env_def demo_env_def list_parson_def demo_config_def REQ_ID_def)
  from configuration_applied_once [OF config_env_ok s(2) _ s(3) config_env_simps(1,2) this]
  show ?thesis using s(1) config_env_initializes by blast
qed

section \<open>Refusing it\<close>

lemma only_infos_requests:
  "only_infos s t \<Longrightarrow> pq t = pq s \<and> GetProcessState E t = GetProcessState E s"
  by (simp add: only_infos_frame GetProcessState_def)

text \<open>Going back to idle corrects the reported process state and touches no other setting.\<close>

lemma change_state_idle:
  assumes E: "parson_ok E" and "running s = None" "current_state s \<noteq> STATE_RUNNING"
    and n: "next_state s = STATE_IDLE"
  shows "current_state (change_state E STATE_IDLE s) = STATE_IDLE"
    "next_state (change_state E STATE_IDLE s) = STATE_IDLE"
    "GetProcessState E (change_state E STATE_IDLE s) = 1"
    "common (change_state E STATE_IDLE s)
       = (common s)\<lparr>cs_json_obj := cs_json_obj (common (change_state E STATE_IDLE s))\<rparr>"
    "custom_settings (dtdl_model (change_state E STATE_IDLE s)) = custom_settings (dtdl_model s)"
    "app_calls (trace (change_state E STATE_IDLE s)) = app_calls (trace s)"
    "pending_configuration (change_state E STATE_IDLE s) = pending_configuration s"
proof -
  define u where "u = (if GetProcessState E s \<noteq> 1
    then upd_cs_json (\<lambda>o'. json_object_set_number E o' PROCESS_STATE 1) s else s)"
  have c: "change_state E STATE_IDLE s = u\<lparr>current_state := STATE_IDLE\<rparr>"
    using assms
    by (simp add: change_state_def StateFactory_Create_def SetCurrentState_def delete_state_def Let_def
        SetProcessState_def UpdateProcessState_def SetNextState_def u_def GetProcessState_def)
  have g: "GetProcessState E u = 1"
    using E by (simp add: u_def GetProcessState_def get_cs_u32_def parson_simps)
  then show "GetProcessState E (change_state E STATE_IDLE s) = 1"
    by (simp add: c GetProcessState_def)
  show "current_state (change_state E STATE_IDLE s) = STATE_IDLE"
    "next_state (change_state E STATE_IDLE s) = STATE_IDLE"
    "common (change_state E STATE_IDLE s)
       = (common s)\<lparr>cs_json_obj := cs_json_obj (common (change_state E STATE_IDLE s))\<rparr>"
    "custom_settings (dtdl_model (change_state E STATE_IDLE s)) = custom_settings (dtdl_model s)"
    "app_calls (trace (change_state E STATE_IDLE s)) = app_calls (trace s)"
    "pending_configuration (change_state E STATE_IDLE s) = pending_configuration s"
    using n by (simp_all add: c u_def)
qed


definition refused_config :: json where
  "refused_config = JObject [(COMMON_SETTINGS, JObject [(PROCESS_STATE, JNumber 5)])]"

lemma refused_config_refused:
  "fst (DtdlModel_Update (demo_env (Some refused_config)) c s) \<noteq> 0"
  by (simp add: DtdlModel_Update_def refused_config_def json_as_object_def DtdlModel_Verify_def Let_def
      JsonObject_Verify_def DtdlModel_verifiers_def CommonSettings_Verify_def
      CommonSettings_validations_def CommonSettings_verifiers_def demo_env_def list_parson_def
      check_validation_def num_violated_def)


section \<open>Creating the application\<close>

definition stays_initialized :: "'w ctx \<Rightarrow> 'w ctx \<Rightarrow> bool" where
  "stays_initialized s s' \<longleftrightarrow> (is_initialized s \<longrightarrow> is_initialized s')"

interpretation ini: step_relation E stays_initialized for E :: "'w env"
  by unfold_locales (auto simp: stays_initialized_def dest: SetProperty_initialized)

lemma DtdlModel_Update_initialized:
  assumes E: "parson_ok E" and u: "DtdlModel_Update E config s = (r, t)"
  shows "is_initialized t = is_initialized s"
  using DtdlModel_Update_keeps [OF E u] by (simp add: keeps_def)

lemma application_is_created:
  assumes E: "parson_ok E" and cur: "current_state s = STATE_APPLYING" and n: "\<not> is_initialized s"
    and a: "fst (Applying_initialize E s)"
  shows "\<exists>s'. LoopIterate E s = Some (Ok, s') \<and> is_initialized s'"
proof -
  obtain t where t: "Applying_initialize E s = (True, t)" using a by (metis prod.collapse)
  note T = Applying_initialize_True [OF E n t]
  obtain q v where v: "Applying_Iterate E s = (q, v)" by fastforce
  have "is_initialized v"
    using v T DtdlModel_Update_initialized [OF E] unfolding T(3)
    by (auto simp: Applying_Iterate_def Let_def ClearPendingConfiguration_def EnableNotification_def
        SetNextState_def split: prod.splits option.splits if_splits)
  moreover have "current_state v = STATE_APPLYING" using Applying_current [OF E cur v] cur by simp
  moreover have "State_Iterate E s = Some (q, v)" using v cur by (simp add: State_Iterate_def)
  ultimately show ?thesis
    using LoopIterate_goes [of E s q v] ini.change_state_rel [of v E]
    by (auto simp: stays_initialized_def)
qed





end
