(* ===== verification/ThreadProperties.thy ===== *)
theory ThreadProperties
  imports ReportProperties
begin

text \<open>
  The iteration thread of the running state: how often it calls \<open>onIterate\<close>, how it is stopped,
  what becomes of a start that fails, and a thread that ends before the state is installed.
\<close>

section \<open>The number of iterations\<close>

text \<open>One turn of a thread whose handler succeeds and which nobody stops.\<close>

definition iterates :: "'w env \<Rightarrow> bool" where
  "iterates E \<longleftrightarrow> (\<forall>s. fst (run_app E (onIterate E) s) = 0)"

lemma ThreadLoopIterate_ok:
  assumes "iterates E" "running s = Some r" "command r \<noteq> EXIT"
  obtains t where "ThreadLoopIterate E s = (Ok, t)" "running t = Some r"
    "app_calls (trace t) = app_calls (trace s) @ [OnIterate]" "tame s t"
proof -
  obtain t where t: "run_app E (onIterate E) (log_call OnIterate s) = (0, t)"
    using assms(1) unfolding iterates_def by (metis prod.collapse)
  have "running t = Some r" "app_calls (trace t) = app_calls (trace s) @ [OnIterate]" "tame s t"
    using run_app_keeps [OF t] run_app_tame [OF t] assms(2)
    by (simp_all add: keeps_def log_call_def app_calls_def tame_def)
  moreover have "ThreadLoopIterate E s = (Ok, t)"
    using t assms(3) \<open>running t = Some r\<close> by (simp add: ThreadLoopIterate_def)
  ultimately show thesis by (intro that)
qed

lemma thread_step_goes_on:
  assumes "iterates E" "running s = Some r" "thread_alive r" "command r \<noteq> EXIT"
    and "num_iters r = 0 \<or> thread_i r + 1 < uint (num_iters r)"
  shows "running (thread_step E s) = Some (r\<lparr>thread_i := thread_i r + 1\<rparr>)"
    "app_calls (trace (thread_step E s)) = app_calls (trace s) @ [OnIterate]"
proof -
  obtain t where t: "ThreadLoopIterate E s = (Ok, t)" "running t = Some r"
    "app_calls (trace t) = app_calls (trace s) @ [OnIterate]"
    by (rule ThreadLoopIterate_ok [OF assms(1,2,4)])
  then show "running (thread_step E s) = Some (r\<lparr>thread_i := thread_i r + 1\<rparr>)"
    "app_calls (trace (thread_step E s)) = app_calls (trace s) @ [OnIterate]"
    using assms by (auto simp: thread_step_def Let_def upd_running_def undefined_step_def)
qed

lemma thread_step_last:
  assumes "iterates E" "running s = Some r" "thread_alive r" "command r \<noteq> EXIT"
    and "0 < num_iters r" "uint (num_iters r) \<le> thread_i r + 1"
  shows "\<not> is_thread_alive (thread_step E s)" "next_state (thread_step E s) = STATE_COOLINGDOWN"
    "app_calls (trace (thread_step E s)) = app_calls (trace s) @ [OnIterate]"
proof -
  obtain t where t: "ThreadLoopIterate E s = (Ok, t)" "running t = Some r"
    "app_calls (trace t) = app_calls (trace s) @ [OnIterate]"
    by (rule ThreadLoopIterate_ok [OF assms(1,2,4)])
  then show "\<not> is_thread_alive (thread_step E s)" "next_state (thread_step E s) = STATE_COOLINGDOWN"
    "app_calls (trace (thread_step E s)) = app_calls (trace s) @ [OnIterate]"
    using assms
    by (auto simp: thread_step_def Let_def upd_running_def undefined_step_def ThreadExit_def
        SetNextState_def is_thread_alive_def)
qed

lemma thread_steps_Suc: "thread_steps E (Suc n) s = thread_step E (thread_steps E n s)"
  by (simp add: thread_steps_def)

lemma thread_steps_add: "thread_steps E (m + n) s = thread_steps E m (thread_steps E n s)"
  by (simp add: thread_steps_def funpow_add)

lemma thread_steps_go_on:
  assumes "iterates E" "running s = Some r" "thread_alive r" "command r \<noteq> EXIT"
    and "num_iters r = 0 \<or> thread_i r + int k < uint (num_iters r)"
  shows "running (thread_steps E k s) = Some (r\<lparr>thread_i := thread_i r + int k\<rparr>)
    \<and> app_calls (trace (thread_steps E k s)) = app_calls (trace s) @ replicate k OnIterate"
  using assms(5)
proof (induction k)
  case 0
  then show ?case using assms(2) by (simp add: thread_steps_def)
next
  case (Suc k)
  define r' where "r' = r\<lparr>thread_i := thread_i r + int k\<rparr>"
  have r: "running (thread_steps E k s) = Some r'" "app_calls (trace (thread_steps E k s))
      = app_calls (trace s) @ replicate k OnIterate"
    using Suc by (auto simp: r'_def)
  have "num_iters r' = 0 \<or> thread_i r' + 1 < uint (num_iters r')" "thread_alive r'" "command r' \<noteq> EXIT"
    using Suc.prems assms(3,4) by (auto simp: r'_def)
  from thread_step_goes_on [OF assms(1) r(1) this(2,3,1)] r(2)
  show ?case by (simp add: thread_steps_Suc r'_def replicate_append_same add.assoc add.commute)
qed


text \<open>A running state with three iterations to make.\<close>

definition demo_running :: "u32 \<Rightarrow> nat ctx" where
  "demo_running n = demo_state\<lparr>current_state := STATE_RUNNING, next_state := STATE_RUNNING,
     running := Some \<lparr>is_failed_on_start = False, command = RUNNING, thread_alive = True,
       thread_i = 0, num_iters = n\<rparr>\<rparr>"

lemma iterates_demo [simp]: "iterates (demo_env j)"
  by (simp add: iterates_def demo_env_def)


section \<open>Stopping the thread\<close>

lemma thread_step_exit:
  assumes "running s = Some r" "thread_alive r" "command r = EXIT" and E: "parson_ok E"
  shows "\<not> is_thread_alive (thread_step E s)"
    "app_calls (trace (thread_step E s)) = app_calls (trace s) @ [OnIterate]"
proof -
  obtain q t where t: "run_app E (onIterate E) (log_call OnIterate s) = (q, t)" by fastforce
  have t1: "running t = Some r" "app_calls (trace t) = app_calls (trace s) @ [OnIterate]"
    using run_app_keeps [OF t] assms(1) by (simp_all add: keeps_def log_call_def app_calls_def)
  obtain ls u where l: "ThreadLoopIterate E s = (ls, u)" by fastforce
  have u: "ls \<noteq> Ok" "running u = Some r" "app_calls (trace u) = app_calls (trace t)"
    using l t t1 assms(3) EventHandleError_keeps [OF E, of t ON_ITERATE q STATE_IDLE True]
    by (auto simp: ThreadLoopIterate_def keeps_def split: if_splits)
  then show "\<not> is_thread_alive (thread_step E s)"
    "app_calls (trace (thread_step E s)) = app_calls (trace s) @ [OnIterate]"
    using t1 assms l by (simp_all add: thread_step_def ThreadExit_def upd_running_def SetNextState_def
        is_thread_alive_def)
qed

lemma join_loop_exit:
  assumes E: "parson_ok E" and "running s = Some r" "thread_alive r" "command r = EXIT"
    and "JoinThreadRuns \<in> set es"
  shows "\<not> is_thread_alive (join_loop E es s)
    \<and> app_calls (trace (join_loop E es s)) = app_calls (trace s) @ [OnIterate]"
  using assms(2-)
proof (induction es arbitrary: s)
  case (Cons e es)
  have a: "is_thread_alive s" using Cons.prems by (simp add: is_thread_alive_def)
  have dead: "join_loop E es' t = t" if "\<not> is_thread_alive t" for es' and t :: "'a ctx"
    using that by (cases es'; cases "hd es'") simp_all
  show ?case
  proof (cases e)
    case JoinThreadRuns
    with a thread_step_exit [OF Cons.prems(1-3) E] dead show ?thesis by simp
  next
    case JoinProcessEvent
    obtain q t where t: "processEvent E s = (q, t)" by fastforce
    have "running t = Some r" "app_calls (trace t) = app_calls (trace s)"
      using processEvent_keeps [OF t, of] Cons.prems(1) by (simp_all add: keeps_def)
    with Cons.IH [of t] Cons.prems JoinProcessEvent a t show ?thesis by simp
  qed
qed simp



end
