(* ===== verification/Draw.thy ===== *)
theory Draw
  imports Prelude
begin

text \<open>
  The drawing library (\<open>libs/draw/src/draw.cpp\<close>): the test of a buffer, the outline of a
  rectangle, and cropping. The memory a buffer points to is a list of bytes, of the length that was
  really allocated; reading or writing outside it, or overflowing an \<open>int\<close>, is \<open>None\<close>. The
  memory of the source and of the destination of a crop are different objects. Sizes are 32 bits
  wide, as on the WebAssembly target.
\<close>

section \<open>Buffers\<close>

record EdgeAppLibColor =
  red :: u8
  green :: u8
  blue :: u8

record EdgeAppLibDrawBuffer =
  address :: "u8 list option"
  buf_size :: u32
  format :: int
  width :: u32
  height :: u32
  stride_byte :: u32

definition AITRIOS_DRAW_FORMAT_UNDEFINED :: int where "AITRIOS_DRAW_FORMAT_UNDEFINED = 0"
definition AITRIOS_DRAW_FORMAT_RGB8 :: int where "AITRIOS_DRAW_FORMAT_RGB8 = 1"
definition AITRIOS_DRAW_FORMAT_RGB8_PLANAR :: int where "AITRIOS_DRAW_FORMAT_RGB8_PLANAR = 2"

lemmas draw_formats =
  AITRIOS_DRAW_FORMAT_UNDEFINED_def AITRIOS_DRAW_FORMAT_RGB8_def AITRIOS_DRAW_FORMAT_RGB8_PLANAR_def

text \<open>A missing stride is filled in; the null pointer is \<open>None\<close>.\<close>

definition default_stride :: "EdgeAppLibDrawBuffer \<Rightarrow> EdgeAppLibDrawBuffer" where
  "default_stride b =
     (if stride_byte b = 0
      then if format b = AITRIOS_DRAW_FORMAT_RGB8 then b\<lparr>stride_byte := width b * 3\<rparr>
           else if format b = AITRIOS_DRAW_FORMAT_RGB8_PLANAR then b\<lparr>stride_byte := width b\<rparr>
           else b
      else b)"

definition expected_size :: "EdgeAppLibDrawBuffer \<Rightarrow> u32" where
  "expected_size b =
     (if format b = AITRIOS_DRAW_FORMAT_RGB8_PLANAR then stride_byte b * height b * 3
      else stride_byte b * height b)"

definition IsValidDrawBuffer ::
  "EdgeAppLibDrawBuffer option \<Rightarrow> bool \<times> EdgeAppLibDrawBuffer option" where
  "IsValidDrawBuffer buffer =
     (case buffer of
        None \<Rightarrow> (False, None)
      | Some b \<Rightarrow>
          if width b = 0 \<or> height b = 0 then (False, Some b)
          else if format b < AITRIOS_DRAW_FORMAT_RGB8 \<or> AITRIOS_DRAW_FORMAT_RGB8_PLANAR < format b
          then (False, Some b)
          else (let b = default_stride b
                in if buf_size b \<noteq> expected_size b then (False, Some b)
                   else (address b \<noteq> None \<and> format b \<noteq> AITRIOS_DRAW_FORMAT_UNDEFINED, Some b)))"

section \<open>Bytes and pixels\<close>

definition read_byte :: "u8 list \<Rightarrow> int \<Rightarrow> u8 option" where
  "read_byte m a = (if 0 \<le> a \<and> a < int (length m) then Some (m ! nat a) else None)"

definition write_byte :: "int \<Rightarrow> u8 \<Rightarrow> u8 list \<Rightarrow> u8 list option" where
  "write_byte a v m = (if 0 \<le> a \<and> a < int (length m) then Some (m[nat a := v]) else None)"

definition kPixelComponentStride :: "int \<Rightarrow> int" where
  "kPixelComponentStride fmt =
     (if fmt = AITRIOS_DRAW_FORMAT_RGB8 then 3
      else if fmt = AITRIOS_DRAW_FORMAT_RGB8_PLANAR then 1 else 0)"

text \<open>The distances of the three component pointers from the address.\<close>

definition PixelComponents :: "int \<Rightarrow> EdgeAppLibDrawBuffer \<Rightarrow> int \<times> int \<times> int" where
  "PixelComponents fmt b =
     (if fmt = AITRIOS_DRAW_FORMAT_RGB8 then (0, 1, 2)
      else (uint (stride_byte b * height b * 0), uint (stride_byte b * height b * 1),
            uint (stride_byte b * height b * 2)))"

text \<open>
  The product \<open>x * kPixelComponentStride\<close> is computed in \<open>int\<close>, the rest in 32 unsigned bits; the
  result is converted back to \<open>int\<close>.
\<close>

definition PixelOffset :: "int \<Rightarrow> u32 \<Rightarrow> u32 \<Rightarrow> u32 \<Rightarrow> int option" where
  "PixelOffset fmt stride_bytes x y =
     (let p = sint x * kPixelComponentStride fmt
      in if p < -2147483648 \<or> 2147483647 < p then None
         else Some (sint (y * stride_bytes + word_of_int p)))"

definition write_pixel ::
  "int \<times> int \<times> int \<Rightarrow> int \<Rightarrow> EdgeAppLibColor \<Rightarrow> u8 list \<Rightarrow> u8 list option" where
  "write_pixel rgb i c m =
     (case rgb of (r, g, b) \<Rightarrow>
        Option.bind (write_byte (r + i) (red c) m) (\<lambda>m.
        Option.bind (write_byte (g + i) (green c) m) (write_byte (b + i) (blue c))))"

definition PIXEL_PUT ::
  "int \<Rightarrow> EdgeAppLibDrawBuffer \<Rightarrow> EdgeAppLibColor \<Rightarrow> u32 \<Rightarrow> u32 \<Rightarrow> u8 list \<Rightarrow> u8 list option" where
  "PIXEL_PUT fmt b c x y m =
     Option.bind (PixelOffset fmt (stride_byte b) x y) (\<lambda>i. write_pixel (PixelComponents fmt b) i c m)"

text \<open>A loop over an index is a fold over the values it takes.\<close>

primrec foldM :: "('a \<Rightarrow> 'm \<Rightarrow> 'm option) \<Rightarrow> 'a list \<Rightarrow> 'm \<Rightarrow> 'm option" where
  "foldM f [] m = Some m"
| "foldM f (x # xs) m = Option.bind (f x m) (foldM f xs)"

text \<open>
  \<open>for (uint32_t x = a; x <= b; x++)\<close>. The callers clamp \<open>b\<close> below the width or the height, so
  the counter does not wrap.
\<close>

definition u32_upto :: "u32 \<Rightarrow> u32 \<Rightarrow> u32 list" where
  "u32_upto a b = map of_nat [unat a..<Suc (unat b)]"

section \<open>Drawing\<close>

definition DrawRectangle_fmt ::
  "int \<Rightarrow> EdgeAppLibDrawBuffer \<Rightarrow> u32 \<Rightarrow> u32 \<Rightarrow> u32 \<Rightarrow> u32 \<Rightarrow> EdgeAppLibColor \<Rightarrow>
     u8 list \<Rightarrow> u8 list option" where
  "DrawRectangle_fmt fmt b left top' right bottom c m =
     Option.bind
       (foldM (\<lambda>x m. Option.bind (PIXEL_PUT fmt b c x top' m) (PIXEL_PUT fmt b c x bottom))
          (u32_upto left right) m)
       (foldM (\<lambda>y m. Option.bind (PIXEL_PUT fmt b c left y m) (PIXEL_PUT fmt b c right y))
          (u32_upto top' bottom))"

definition clamp :: "u32 \<Rightarrow> u32 \<Rightarrow> u32" where
  "clamp v n = (if n \<le> v then n - 1 else v)"

text \<open>The result and the buffer, or \<open>None\<close> when memory is violated.\<close>

definition DrawRectangle ::
  "EdgeAppLibDrawBuffer option \<Rightarrow> u32 \<Rightarrow> u32 \<Rightarrow> u32 \<Rightarrow> u32 \<Rightarrow> EdgeAppLibColor \<Rightarrow>
     (int \<times> EdgeAppLibDrawBuffer option) option" where
  "DrawRectangle buffer left top' right bottom color =
     (case IsValidDrawBuffer buffer of
        (True, Some b) \<Rightarrow>
          if format b = AITRIOS_DRAW_FORMAT_RGB8 \<or> format b = AITRIOS_DRAW_FORMAT_RGB8_PLANAR
          then map_option (\<lambda>m. (0, Some (b\<lparr>address := Some m\<rparr>)))
                 (DrawRectangle_fmt (format b) b (clamp left (width b)) (clamp top' (height b))
                   (clamp right (width b)) (clamp bottom (height b)) color (the (address b)))
          else Some (-1, Some b)
      | (_, buffer) \<Rightarrow> Some (-1, buffer))"

section \<open>Cropping\<close>

definition read_pixel :: "int \<times> int \<times> int \<Rightarrow> int \<Rightarrow> u8 list \<Rightarrow> EdgeAppLibColor option" where
  "read_pixel rgb i m =
     (case rgb of (r, g, b) \<Rightarrow>
        Option.bind (read_byte m (r + i)) (\<lambda>r.
        Option.bind (read_byte m (g + i)) (\<lambda>g.
        map_option (\<lambda>b. \<lparr>red = r, green = g, blue = b\<rparr>) (read_byte m (b + i)))))"

definition crop_pixel ::
  "int \<Rightarrow> EdgeAppLibDrawBuffer \<Rightarrow> EdgeAppLibDrawBuffer \<Rightarrow> u32 \<Rightarrow> u32 \<Rightarrow> u8 list \<Rightarrow> u32 \<times> u32 \<Rightarrow>
     u8 list \<Rightarrow> u8 list option" where
  "crop_pixel fmt src dst left top' sm xy m =
     (case xy of (x, y) \<Rightarrow>
        Option.bind (PixelOffset fmt (stride_byte src) (left + x) (top' + y)) (\<lambda>i.
        Option.bind (read_pixel (PixelComponents fmt src) i sm) (\<lambda>c.
        PIXEL_PUT fmt dst c x y m)))"

text \<open>The pairs the two nested loops run through, row by row; the extent is computed in 32 bits.\<close>

definition crop_pixels :: "u32 \<Rightarrow> u32 \<Rightarrow> u32 \<Rightarrow> u32 \<Rightarrow> (u32 \<times> u32) list" where
  "crop_pixels left top' right bottom =
     (let crop_width = right - left + 1; crop_height = bottom - top' + 1
      in [(of_nat x, of_nat y). y \<leftarrow> [0..<unat crop_height], x \<leftarrow> [0..<unat crop_width]])"

definition CropRectangle_fmt ::
  "int \<Rightarrow> EdgeAppLibDrawBuffer \<Rightarrow> EdgeAppLibDrawBuffer \<Rightarrow> u32 \<Rightarrow> u32 \<Rightarrow> u32 \<Rightarrow> u32 \<Rightarrow>
     u8 list \<Rightarrow> u8 list \<Rightarrow> u8 list option" where
  "CropRectangle_fmt fmt src dst left top' right bottom sm =
     foldM (crop_pixel fmt src dst left top' sm) (crop_pixels left top' right bottom)"

text \<open>The destination is only looked at when the source is valid.\<close>

definition CropRectangle ::
  "EdgeAppLibDrawBuffer option \<Rightarrow> EdgeAppLibDrawBuffer option \<Rightarrow> u32 \<Rightarrow> u32 \<Rightarrow> u32 \<Rightarrow> u32 \<Rightarrow>
     (int \<times> EdgeAppLibDrawBuffer option \<times> EdgeAppLibDrawBuffer option) option" where
  "CropRectangle src dst left top' right bottom =
     (case IsValidDrawBuffer src of
        (True, Some s) \<Rightarrow>
          (case IsValidDrawBuffer dst of
             (True, Some d) \<Rightarrow>
               if format s = AITRIOS_DRAW_FORMAT_RGB8 \<or> format s = AITRIOS_DRAW_FORMAT_RGB8_PLANAR
               then map_option (\<lambda>m. (0, Some s, Some (d\<lparr>address := Some m\<rparr>)))
                      (CropRectangle_fmt (format s) s d (clamp left (width s)) (clamp top' (height s))
                        (clamp right (width s)) (clamp bottom (height s)) (the (address s))
                        (the (address d)))
               else Some (-1, Some s, Some d)
           | (_, dst) \<Rightarrow> Some (-1, Some s, dst))
      | (_, src) \<Rightarrow> Some (-1, src, dst))"

section \<open>Resizing\<close>

text \<open>
  One axis of the bilinear interpolation: the two neighbours of position \<open>i\<close> and the weight of the
  second. The rows and the columns are computed by the same code. Converting a \<open>float\<close> that no
  \<open>int\<close> holds is undefined.
\<close>

definition resize_axis :: "u32 \<Rightarrow> rat \<Rightarrow> u32 \<Rightarrow> (int \<times> int \<times> rat) option" where
  "resize_axis src_n scale i =
     (let sx = f32 (f32 (f32 (f32 (of_int (uint i)) + 1 / 2) * scale) - 1 / 2);
          x0 = \<lfloor>sx\<rfloor>
      in if x0 < - 2147483648 \<or> 2147483647 \<le> x0 then None
         else (let wx = f32 (sx - f32 (of_int x0));
                   x1 = x0 + 1;
                   (x0, wx) = (if x0 < 0 then (0, 1) else (x0, wx));
                   x1 = (if sint src_n \<le> x1 then sint src_n - 1 else x1);
                   x0 = (if sint src_n \<le> x0 then sint src_n - 1 else x0)
               in Some (x0, x1, wx)))"

definition resize_scale :: "u32 \<Rightarrow> u32 \<Rightarrow> rat" where
  "resize_scale src_n dst_n = f32 (f32 (of_int (uint src_n)) / f32 (of_int (uint dst_n)))"

text \<open>The interpolation of one component from its four neighbours.\<close>

definition resize_component :: "rat \<Rightarrow> rat \<Rightarrow> u8 \<Rightarrow> u8 \<Rightarrow> u8 \<Rightarrow> u8 \<Rightarrow> u8" where
  "resize_component wx wy p00 p10 p01 p11 =
     (let lerp = (\<lambda>a b w. f32 (f32 (a * f32 (1 - w)) + f32 (b * w)));
          v0 = lerp (of_int (uint p00)) (of_int (uint p10)) wx;
          v1 = lerp (of_int (uint p01)) (of_int (uint p11)) wx;
          v = lerp v0 v1 wy;
          v = (if v < 0 then 0 else if 255 < v then 255 else v)
      in word_of_int (trunc_rat (f32 (v + 1 / 2))))"

definition resize_color ::
  "rat \<Rightarrow> rat \<Rightarrow> EdgeAppLibColor \<Rightarrow> EdgeAppLibColor \<Rightarrow> EdgeAppLibColor \<Rightarrow> EdgeAppLibColor \<Rightarrow>
     EdgeAppLibColor" where
  "resize_color wx wy p00 p10 p01 p11 =
     \<lparr>red = resize_component wx wy (red p00) (red p10) (red p01) (red p11),
      green = resize_component wx wy (green p00) (green p10) (green p01) (green p11),
      blue = resize_component wx wy (blue p00) (blue p10) (blue p01) (blue p11)\<rparr>"

text \<open>The pixel the offsets \<open>i00\<close>, \<open>i10\<close>, \<open>i01\<close> and \<open>i11\<close> stand for.\<close>

definition src_pixel :: "int \<Rightarrow> EdgeAppLibDrawBuffer \<Rightarrow> u8 list \<Rightarrow> int \<Rightarrow> int \<Rightarrow> EdgeAppLibColor option" where
  "src_pixel fmt src sm x y =
     Option.bind (PixelOffset fmt (stride_byte src) (word_of_int x) (word_of_int y))
       (\<lambda>i. read_pixel (PixelComponents fmt src) i sm)"

definition resize_pixel ::
  "int \<Rightarrow> EdgeAppLibDrawBuffer \<Rightarrow> EdgeAppLibDrawBuffer \<Rightarrow> u8 list \<Rightarrow> u32 \<times> u32 \<Rightarrow> u8 list \<Rightarrow>
     u8 list option" where
  "resize_pixel fmt src dst sm xy m =
     (case xy of (x, y) \<Rightarrow>
        Option.bind (resize_axis (height src) (resize_scale (height src) (height dst)) y) (\<lambda>(y0, y1, wy).
        Option.bind (resize_axis (width src) (resize_scale (width src) (width dst)) x) (\<lambda>(x0, x1, wx).
        Option.bind (src_pixel fmt src sm x0 y0) (\<lambda>p00.
        Option.bind (src_pixel fmt src sm x1 y0) (\<lambda>p10.
        Option.bind (src_pixel fmt src sm x0 y1) (\<lambda>p01.
        Option.bind (src_pixel fmt src sm x1 y1) (\<lambda>p11.
        PIXEL_PUT fmt dst (resize_color wx wy p00 p10 p01 p11) x y m)))))))"

definition resize_pixels :: "EdgeAppLibDrawBuffer \<Rightarrow> (u32 \<times> u32) list" where
  "resize_pixels dst =
     [(of_nat x, of_nat y). y \<leftarrow> [0..<unat (height dst)], x \<leftarrow> [0..<unat (width dst)]]"

definition ResizeRectangle_fmt ::
  "int \<Rightarrow> EdgeAppLibDrawBuffer \<Rightarrow> EdgeAppLibDrawBuffer \<Rightarrow> u8 list \<Rightarrow> u8 list \<Rightarrow> u8 list option" where
  "ResizeRectangle_fmt fmt src dst sm = foldM (resize_pixel fmt src dst sm) (resize_pixels dst)"

text \<open>\<open>memcpy (dst, src, n)\<close>.\<close>

definition memcpy :: "nat \<Rightarrow> u8 list \<Rightarrow> u8 list \<Rightarrow> u8 list option" where
  "memcpy n sm m = (if length sm < n \<or> length m < n then None else Some (take n sm @ drop n m))"

definition ResizeRectangle ::
  "EdgeAppLibDrawBuffer option \<Rightarrow> EdgeAppLibDrawBuffer option \<Rightarrow>
     (int \<times> EdgeAppLibDrawBuffer option \<times> EdgeAppLibDrawBuffer option) option" where
  "ResizeRectangle src dst =
     (case IsValidDrawBuffer src of
        (True, Some s) \<Rightarrow>
          (case IsValidDrawBuffer dst of
             (True, Some d) \<Rightarrow>
               let done = map_option (\<lambda>m. (0, Some s, Some (d\<lparr>address := Some m\<rparr>)));
                   sm = the (address s); dm = the (address d)
               in if format s \<noteq> format d then Some (-1, Some s, Some d)
                  else if width s = width d \<and> height s = height d
                  then done (memcpy (unat (buf_size s)) sm dm)
                  else if format s = AITRIOS_DRAW_FORMAT_RGB8 \<or> format s = AITRIOS_DRAW_FORMAT_RGB8_PLANAR
                  then done (ResizeRectangle_fmt (format s) s d sm dm)
                  else Some (-1, Some s, Some d)
           | (_, dst) \<Rightarrow> Some (-1, Some s, dst))
      | (_, src) \<Rightarrow> Some (-1, src, dst))"

end
