(* ===== verification/DrawProperties.thy ===== *)
theory DrawProperties
  imports Draw
begin

text \<open>
  The properties of the drawing library: a rectangle is drawn inside the image and nowhere else,
  a crop copies the pixels it should, both stay in memory when the stride and the sizes are sound,
  and what the test of a buffer does not rule out.
\<close>

section \<open>Images\<close>

text \<open>
  An image is a map from pixels and their components to positions in memory, all different. Inside
  the locale, setting the pixels of a list changes exactly these.
\<close>

locale raster =
  fixes pos :: "nat \<Rightarrow> u32 \<Rightarrow> u32 \<Rightarrow> nat" and inside :: "u32 \<Rightarrow> u32 \<Rightarrow> bool" and extent :: nat
  assumes pos_inj: "inside x y \<Longrightarrow> inside x' y' \<Longrightarrow> k < 3 \<Longrightarrow> k' < 3 \<Longrightarrow> pos k x y = pos k' x' y' \<Longrightarrow>
      k = k' \<and> x = x' \<and> y = y'"
    and pos_less: "inside x y \<Longrightarrow> k < 3 \<Longrightarrow> pos k x y < extent"
begin

definition put :: "EdgeAppLibColor \<Rightarrow> u32 \<Rightarrow> u32 \<Rightarrow> u8 list \<Rightarrow> u8 list" where
  "put c x y m = m[pos 0 x y := red c, pos 1 x y := green c, pos 2 x y := blue c]"

definition get :: "u8 list \<Rightarrow> u32 \<Rightarrow> u32 \<Rightarrow> EdgeAppLibColor" where
  "get m x y = \<lparr>red = m ! pos 0 x y, green = m ! pos 1 x y, blue = m ! pos 2 x y\<rparr>"

lemma length_put [simp]: "length (put c x y m) = length m"
  by (simp add: put_def)

lemma get_put:
  assumes "inside x y" "inside x' y'" "extent \<le> length m"
  shows "get (put c x y m) x' y' = (if x' = x \<and> y' = y then c else get m x' y')"
proof -
  have ne: "pos k x y \<noteq> pos k' x' y'" if "\<not> (x' = x \<and> y' = y)" "k < 3" "k' < 3" for k k'
    using pos_inj [OF assms(1,2) that(2,3)] that(1) by auto
  have nc: "pos k x y \<noteq> pos k' x y" if "k \<noteq> k'" "k < 3" "k' < 3" for k k'
    using pos_inj [OF assms(1,1) that(2,3)] that(1) by auto
  have l: "pos k x y < length m" if "k < 3" for k
    using pos_less [OF assms(1) that] assms(3) by simp
  show ?thesis
    using ne [of 0 0] ne [of 0 1] ne [of 0 2] ne [of 1 0] ne [of 1 1] ne [of 1 2] ne [of 2 0]
      ne [of 2 1] ne [of 2 2] nc [of 0 1] nc [of 0 2] nc [of 1 2] l [of 0] l [of 1] l [of 2]
    by (auto simp: get_def put_def nth_list_update)
qed

lemma put_frame:
  "(\<And>k. k < 3 \<Longrightarrow> a \<noteq> pos k x y) \<Longrightarrow> put c x y m ! a = m ! a"
  by (simp add: put_def) (metis nth_list_update_neq numeral_3_eq_3 less_Suc_eq numeral_2_eq_2 One_nat_def)

definition cells :: "(u32 \<times> u32) set \<Rightarrow> nat set" where
  "cells ps = {pos k x y | k x y. k < 3 \<and> (x, y) \<in> ps}"

lemma put_outside: "a \<notin> cells {(x, y)} \<Longrightarrow> put c x y m ! a = m ! a"
  by (rule put_frame) (auto simp: cells_def)

text \<open>A loop that sets one pixel after another, the colour depending on the pixel only.\<close>

lemma foldM_put:
  assumes "\<And>p m'. p \<in> set ps \<Longrightarrow> length m' = length m \<Longrightarrow> f p m' = Some (put (c p) (fst p) (snd p) m')"
    and "\<And>p. p \<in> set ps \<Longrightarrow> inside (fst p) (snd p)" and "extent \<le> length m"
  shows "\<exists>m'. foldM f ps m = Some m' \<and> length m' = length m
    \<and> (\<forall>x y. inside x y \<longrightarrow> get m' x y = (if (x, y) \<in> set ps then c (x, y) else get m x y))
    \<and> (\<forall>a. a \<notin> cells (set ps) \<longrightarrow> m' ! a = m ! a)"
  using assms
proof (induction ps arbitrary: m)
  case (Cons p ps)
  obtain x y where p: "p = (x, y)" by fastforce
  let ?m = "put (c p) x y m"
  have f: "f p m = Some ?m" using Cons.prems(1) [of p m] p by simp
  obtain m' where m': "foldM f ps ?m = Some m'" "length m' = length m"
    "\<forall>x y. inside x y \<longrightarrow> get m' x y = (if (x, y) \<in> set ps then c (x, y) else get ?m x y)"
    "\<forall>a. a \<notin> cells (set ps) \<longrightarrow> m' ! a = ?m ! a"
    using Cons.IH [of ?m] Cons.prems by auto
  have "inside x y" using Cons.prems(2) [of p] p by simp
  note g = get_put [OF this _ Cons.prems(3), of _ _ "c p"]
  have "get m' x' y' = (if (x', y') \<in> set (p # ps) then c (x', y') else get m x' y')"
    if "inside x' y'" for x' y'
    using m'(3) that g [OF that] p by auto
  moreover have "m' ! a = m ! a" if "a \<notin> cells (set (p # ps))" for a
  proof -
    have "a \<notin> cells (set ps)" "a \<notin> cells {(x, y)}"
      using that p unfolding cells_def by auto
    with m'(4) put_outside [of a x y "c p" m] show ?thesis by simp
  qed
  ultimately show ?case using f m'(1,2) by auto
qed simp

end

section \<open>The pixels of a buffer\<close>

text \<open>
  A sound buffer has room for a row in its stride, and its declared size fits an \<open>int\<close> and the
  memory. The test of the code does not ask for any of the three.
\<close>

definition pixel_bytes :: "EdgeAppLibDrawBuffer \<Rightarrow> nat" where
  "pixel_bytes b = (if format b = AITRIOS_DRAW_FORMAT_RGB8 then 3 else 1)"

definition planes :: "EdgeAppLibDrawBuffer \<Rightarrow> nat" where
  "planes b = (if format b = AITRIOS_DRAW_FORMAT_RGB8 then 1 else 3)"

definition plane_size :: "EdgeAppLibDrawBuffer \<Rightarrow> nat" where
  "plane_size b = unat (stride_byte b) * unat (height b)"

definition sound_buffer :: "EdgeAppLibDrawBuffer \<Rightarrow> bool" where
  "sound_buffer b \<longleftrightarrow>
     (format b = AITRIOS_DRAW_FORMAT_RGB8 \<or> format b = AITRIOS_DRAW_FORMAT_RGB8_PLANAR)
     \<and> unat (width b) * pixel_bytes b \<le> unat (stride_byte b)
     \<and> plane_size b * planes b < 2147483648"

definition in_image :: "EdgeAppLibDrawBuffer \<Rightarrow> u32 \<Rightarrow> u32 \<Rightarrow> bool" where
  "in_image b x y \<longleftrightarrow> sound_buffer b \<and> x < width b \<and> y < height b"

definition pixel_pos :: "EdgeAppLibDrawBuffer \<Rightarrow> nat \<Rightarrow> u32 \<Rightarrow> u32 \<Rightarrow> nat" where
  "pixel_pos b k x y =
     (if format b = AITRIOS_DRAW_FORMAT_RGB8 then k else k * plane_size b)
     + unat y * unat (stride_byte b) + unat x * pixel_bytes b"

definition row_pos :: "EdgeAppLibDrawBuffer \<Rightarrow> u32 \<Rightarrow> u32 \<Rightarrow> nat" where
  "row_pos b x y = unat y * unat (stride_byte b) + unat x * pixel_bytes b"

lemma row_in_plane:
  assumes "in_image b x y"
  shows "unat y * unat (stride_byte b) + unat (stride_byte b) \<le> plane_size b"
    and "unat x * pixel_bytes b + pixel_bytes b \<le> unat (stride_byte b)"
proof -
  have "unat y + 1 \<le> unat (height b)" "unat x + 1 \<le> unat (width b)"
    using assms by (simp_all add: in_image_def word_less_nat_alt)
  from mult_le_mono1 [OF this(1), of "unat (stride_byte b)"]
    mult_le_mono1 [OF this(2), of "pixel_bytes b"] assms
  show "unat y * unat (stride_byte b) + unat (stride_byte b) \<le> plane_size b"
    "unat x * pixel_bytes b + pixel_bytes b \<le> unat (stride_byte b)"
    by (auto simp: plane_size_def in_image_def sound_buffer_def algebra_simps intro: order_trans)
qed

lemma two_digits_inj:
  fixes y y' r r' S :: nat
  assumes "y * S + r = y' * S + r'" "r < S" "r' < S"
  shows "y = y' \<and> r = r'"
proof -
  have "(y * S + r) div S = y" "(y' * S + r') div S = y'" using assms(2,3) by auto
  with assms(1) show ?thesis by simp
qed

lemma pixel_pos_inj:
  assumes "in_image b x y" "in_image b x' y'" "k < 3" "k' < 3" "pixel_pos b k x y = pixel_pos b k' x' y'"
  shows "k = k' \<and> x = x' \<and> y = y'"
proof -
  note R = row_in_plane [OF assms(1)] and R' = row_in_plane [OF assms(2)]
  show ?thesis
  proof (cases "format b = AITRIOS_DRAW_FORMAT_RGB8")
    case True
    then have p: "pixel_bytes b = 3" by (simp add: pixel_bytes_def)
    have e: "unat y * unat (stride_byte b) + (unat x * 3 + k) = unat y' * unat (stride_byte b) + (unat x' * 3 + k')"
      using assms(5) True p by (simp add: pixel_pos_def)
    have "unat y = unat y' \<and> unat x * 3 + k = unat x' * 3 + k'"
      by (rule two_digits_inj [OF e]) (use R(2) R'(2) p assms(3,4) in simp_all)
    then show ?thesis
      using two_digits_inj [of "unat x" 3 k "unat x'" k'] assms(3,4) by (auto simp: word_unat_eq_iff)
  next
    case False
    then have p: "pixel_bytes b = 1" by (simp add: pixel_bytes_def)
    have e: "k * plane_size b + (unat y * unat (stride_byte b) + unat x)
        = k' * plane_size b + (unat y' * unat (stride_byte b) + unat x')"
      using assms(5) False p by (simp add: pixel_pos_def)
    have "k = k' \<and> unat y * unat (stride_byte b) + unat x = unat y' * unat (stride_byte b) + unat x'"
      by (rule two_digits_inj [OF e]) (use R R' p in simp_all)
    then show ?thesis
      using two_digits_inj [of "unat y" "unat (stride_byte b)" "unat x" "unat y'" "unat x'"] R(2) R'(2) p
      by (auto simp: word_unat_eq_iff)
  qed
qed

lemma pixel_pos_less:
  assumes "in_image b x y" "k < 3"
  shows "pixel_pos b k x y < plane_size b * planes b"
proof -
  note R = row_in_plane [OF assms(1)]
  show ?thesis
  proof (cases "format b = AITRIOS_DRAW_FORMAT_RGB8")
    case True
    then show ?thesis using R assms(2) by (simp add: pixel_pos_def pixel_bytes_def planes_def)
  next
    case False
    have "k * plane_size b \<le> 2 * plane_size b" using assms(2) by (intro mult_le_mono1) simp
    moreover have "pixel_bytes b = 1" using False by (simp add: pixel_bytes_def)
    ultimately have "k * plane_size b + unat y * unat (stride_byte b) + unat x * pixel_bytes b
        < plane_size b * 3" using R by linarith
    then show ?thesis using False by (simp add: pixel_pos_def planes_def)
  qed
qed

interpretation image: raster "pixel_pos b" "in_image b" "plane_size b * planes b"
  for b :: EdgeAppLibDrawBuffer
  by unfold_locales (blast dest: pixel_pos_inj, rule pixel_pos_less)

section \<open>The code on sound buffers\<close>

lemma sint_small: "unat (w :: u32) < 2147483648 \<Longrightarrow> sint w = int (unat w)"
proof -
  assume w: "unat w < 2147483648"
  have p: "(2 :: int) ^ (LENGTH(32) - Suc 0) = 2147483648" by simp
  show ?thesis
    unfolding sint_uint uint_nat One_nat_def
    by (rule signed_take_bit_int_eq_self; simp only: p) (use w in linarith)+
qed

lemma unat_of_nat_small: "n < 4294967296 \<Longrightarrow> unat (of_nat n :: u32) = n"
  by (simp add: unsigned_of_nat take_bit_nat_eq_self)

lemma uint_of_nat_small: "n < 4294967296 \<Longrightarrow> uint (of_nat n :: u32) = int n"
  unfolding uint_nat by (simp only: unat_of_nat_small)

lemma sint_of_nat_small: "n < 2147483648 \<Longrightarrow> sint (of_nat n :: u32) = int n"
  by (subst sint_small) (simp_all only: unat_of_nat_small)

lemma kPixelComponentStride_bytes:
  "sound_buffer b \<Longrightarrow> kPixelComponentStride (format b) = int (pixel_bytes b)"
  by (auto simp: sound_buffer_def kPixelComponentStride_def pixel_bytes_def draw_formats)

lemma PixelOffset_sound:
  assumes "in_image b x y"
  shows "PixelOffset (format b) (stride_byte b) x y
    = Some (int (row_pos b x y))"
proof -
  have s: "sound_buffer b" using assms by (simp add: in_image_def)
  have "plane_size b \<le> plane_size b * planes b" by (simp add: planes_def)
  also have "\<dots> < 2147483648" using s by (simp add: sound_buffer_def)
  finally have pl: "plane_size b < 2147483648" .
  have n: "unat y * unat (stride_byte b) + unat x * pixel_bytes b < 2147483648"
    using row_in_plane [OF assms] pl by linarith
  have "unat x * 1 \<le> unat x * pixel_bytes b" by (rule mult_le_mono2) (simp add: pixel_bytes_def)
  then have x: "sint x = int (unat x)" using n by (intro sint_small) linarith
  define q where "q = unat x * pixel_bytes b"
  have q: "sint x * kPixelComponentStride (format b) = int q"
    unfolding x kPixelComponentStride_bytes [OF s] q_def by (rule of_nat_mult [symmetric])
  have w: "y * stride_byte b + word_of_int (int q) = of_nat (row_pos b x y)"
    by (simp add: row_pos_def q_def)
  have "q < 2147483648" using n unfolding q_def by linarith
  then have "\<not> (int q < - 2147483648 \<or> 2147483647 < int q)" by linarith
  moreover have "sint (of_nat (row_pos b x y) :: u32) = int (row_pos b x y)"
    using n unfolding row_pos_def by (rule sint_of_nat_small)
  ultimately show ?thesis unfolding PixelOffset_def q w Let_def by simp
qed

definition plane_start :: "EdgeAppLibDrawBuffer \<Rightarrow> nat \<Rightarrow> nat" where
  "plane_start b k = (if format b = AITRIOS_DRAW_FORMAT_RGB8 then k else k * plane_size b)"

lemma PixelComponents_sound:
  assumes "sound_buffer b"
  shows "PixelComponents (format b) b = (int (plane_start b 0), int (plane_start b 1), int (plane_start b 2))"
proof (cases "format b = AITRIOS_DRAW_FORMAT_RGB8")
  case False
  then have f: "plane_size b * 3 < 2147483648" using assms by (simp add: sound_buffer_def planes_def)
  have w: "stride_byte b * height b = of_nat (plane_size b)" by (simp add: plane_size_def)
  have "stride_byte b * height b * 2 = of_nat (plane_size b * 2)" by (simp add: w)
  with w f False show ?thesis
    by (simp add: PixelComponents_def plane_start_def uint_of_nat_small del: of_nat_mult)
qed (simp add: PixelComponents_def plane_start_def)

lemma pixel_pos_start:
  "pixel_pos b k x y = plane_start b k + row_pos b x y"
  by (simp add: pixel_pos_def plane_start_def row_pos_def)

lemma write_byte_in: "n < length m \<Longrightarrow> write_byte (int n) v m = Some (m[n := v])"
  by (simp add: write_byte_def)

lemma read_byte_in: "n < length m \<Longrightarrow> read_byte m (int n) = Some (m ! n)"
  by (simp add: read_byte_def)

lemma PIXEL_PUT_sound:
  assumes "in_image b x y" "plane_size b * planes b \<le> length m"
  shows "PIXEL_PUT (format b) b c x y m = Some (image.put b c x y m)"
proof -
  have s: "sound_buffer b" using assms(1) by (simp add: in_image_def)
  have l: "pixel_pos b k x y < length m" if "k < 3" for k
    using pixel_pos_less [OF assms(1) that] assms(2) by simp
  have p: "int (plane_start b k) + int (row_pos b x y) = int (pixel_pos b k x y)" for k
    by (simp add: pixel_pos_start)
  show ?thesis
    using l [of 0] l [of 1] l [of 2]
    by (simp add: PIXEL_PUT_def PixelOffset_sound [OF assms(1)] PixelComponents_sound [OF s] write_pixel_def
        p write_byte_in image.put_def)
qed

lemma read_pixel_sound:
  assumes "in_image b x y" "plane_size b * planes b \<le> length m"
  shows "Option.bind (PixelOffset (format b) (stride_byte b) x y)
    (\<lambda>i. read_pixel (PixelComponents (format b) b) i m) = Some (image.get b m x y)"
proof -
  have s: "sound_buffer b" using assms(1) by (simp add: in_image_def)
  have l: "pixel_pos b k x y < length m" if "k < 3" for k
    using pixel_pos_less [OF assms(1) that] assms(2) by simp
  have p: "int (plane_start b k) + int (row_pos b x y) = int (pixel_pos b k x y)" for k
    by (simp add: pixel_pos_start)
  show ?thesis
    using l [of 0] l [of 1] l [of 2]
    by (simp add: PixelOffset_sound [OF assms(1)] PixelComponents_sound [OF s] read_pixel_def
        p read_byte_in image.get_def)
qed

section \<open>Drawing\<close>

lemma foldM_append: "foldM f (xs @ ys) m = Option.bind (foldM f xs m) (foldM f ys)"
proof (induction xs arbitrary: m)
  case (Cons x xs)
  then show ?case by (cases "f x m") simp_all
qed simp

lemma foldM_pairs:
  "foldM (\<lambda>x m. Option.bind (f (p x) m) (f (q x))) xs = foldM f (concat (map (\<lambda>x. [p x, q x]) xs))"
proof
  fix m
  show "foldM (\<lambda>x m. Option.bind (f (p x) m) (f (q x))) xs m = foldM f (concat (map (\<lambda>x. [p x, q x]) xs)) m"
  proof (induction xs arbitrary: m)
    case (Cons x xs)
    then show ?case
      by (cases "f (p x) m"; cases "f (q x) (the (f (p x) m))") simp_all
  qed simp
qed

lemma set_u32_upto: "set (u32_upto a b) = {a..b}"
proof -
  have "x \<in> of_nat ` {unat a..<Suc (unat b)} \<longleftrightarrow> a \<le> x \<and> x \<le> b" for x
  proof
    assume "x \<in> of_nat ` {unat a..<Suc (unat b)}"
    then obtain n where n: "x = of_nat n" "unat a \<le> n" "n \<le> unat b" by auto
    have "unat b < 2 ^ 32" using unsigned_less [of b] by simp
    then have "unat x = n" using n(1,3) by (simp add: unat_of_nat_small)
    with n show "a \<le> x \<and> x \<le> b" by (simp add: word_le_nat_alt)
  next
    assume "a \<le> x \<and> x \<le> b"
    then show "x \<in> of_nat ` {unat a..<Suc (unat b)}"
      by (intro image_eqI [of _ _ "unat x"]) (simp_all add: word_le_nat_alt)
  qed
  then show ?thesis unfolding u32_upto_def set_map set_upt atLeastAtMost_def atLeast_def atMost_def
    by blast
qed

text \<open>The pixels of the outline, as the two loops draw them.\<close>

definition outline :: "u32 \<Rightarrow> u32 \<Rightarrow> u32 \<Rightarrow> u32 \<Rightarrow> (u32 \<times> u32) set" where
  "outline left top' right bottom =
     {(x, y). (left \<le> x \<and> x \<le> right \<and> (y = top' \<or> y = bottom))
            \<or> (top' \<le> y \<and> y \<le> bottom \<and> (x = left \<or> x = right))}"

definition outline_list :: "u32 \<Rightarrow> u32 \<Rightarrow> u32 \<Rightarrow> u32 \<Rightarrow> (u32 \<times> u32) list" where
  "outline_list left top' right bottom =
     concat (map (\<lambda>x. [(x, top'), (x, bottom)]) (u32_upto left right))
     @ concat (map (\<lambda>y. [(left, y), (right, y)]) (u32_upto top' bottom))"

lemma set_outline_list: "set (outline_list l t r b) = outline l t r b"
  by (auto simp: outline_list_def outline_def set_u32_upto)

lemma DrawRectangle_fmt_fold:
  "DrawRectangle_fmt fmt b l t r bt c m
     = foldM (\<lambda>(x, y). PIXEL_PUT fmt b c x y) (outline_list l t r bt) m"
  using foldM_pairs [of "\<lambda>(x, y). PIXEL_PUT fmt b c x y" "\<lambda>x. (x, t)" "\<lambda>x. (x, bt)"]
    foldM_pairs [of "\<lambda>(x, y). PIXEL_PUT fmt b c x y" "\<lambda>y. (l, y)" "\<lambda>y. (r, y)"]
  by (simp add: DrawRectangle_fmt_def outline_list_def foldM_append)

definition pixel_at :: "EdgeAppLibDrawBuffer \<Rightarrow> u8 list \<Rightarrow> u32 \<Rightarrow> u32 \<Rightarrow> EdgeAppLibColor" where
  "pixel_at b m x y = \<lparr>red = m ! pixel_pos b 0 x y, green = m ! pixel_pos b 1 x y,
     blue = m ! pixel_pos b 2 x y\<rparr>"

definition pixel_cells :: "EdgeAppLibDrawBuffer \<Rightarrow> (u32 \<times> u32) set \<Rightarrow> nat set" where
  "pixel_cells b ps = {pixel_pos b k x y | k x y. k < 3 \<and> (x, y) \<in> ps}"

lemma image_folds: "image.get b m x y = pixel_at b m x y" "image.cells b ps = pixel_cells b ps"
  by (simp_all add: image.get_def pixel_at_def image.cells_def pixel_cells_def)

lemma clamp_less: "n \<noteq> 0 \<Longrightarrow> clamp v n < n"
  by (auto simp: clamp_def not_le word_less_nat_alt unat_minus_one unat_gt_0 intro: diff_less)

lemma clamp_id: "v < n \<Longrightarrow> clamp v n = v"
  by (auto simp: clamp_def)

lemma valid_buffer:
  assumes "IsValidDrawBuffer buffer = (True, Some b)"
  shows "width b \<noteq> 0" "height b \<noteq> 0" "address b \<noteq> None"
    "format b = AITRIOS_DRAW_FORMAT_RGB8 \<or> format b = AITRIOS_DRAW_FORMAT_RGB8_PLANAR"
  using assms
  by (auto simp: IsValidDrawBuffer_def Let_def default_stride_def draw_formats
      split: option.splits if_splits)

text \<open>A buffer the code accepts, that is sound, and whose memory holds what its size says.\<close>

definition good_buffer :: "EdgeAppLibDrawBuffer option \<Rightarrow> EdgeAppLibDrawBuffer \<Rightarrow> u8 list \<Rightarrow> bool" where
  "good_buffer buffer b m \<longleftrightarrow> IsValidDrawBuffer buffer = (True, Some b) \<and> sound_buffer b
     \<and> address b = Some m \<and> plane_size b * planes b \<le> length m"

lemma good_inside:
  assumes "good_buffer buffer b m" "x \<le> clamp u (width b)" "y \<le> clamp v (height b)"
  shows "in_image b x y"
proof -
  note V = valid_buffer [of buffer b]
  have "width b \<noteq> 0" "height b \<noteq> 0" using assms(1) V by (auto simp: good_buffer_def)
  from clamp_less [OF this(1), of u] clamp_less [OF this(2), of v] assms
  show ?thesis by (auto simp: in_image_def good_buffer_def intro: le_less_trans)
qed

lemma outline_inside:
  assumes g: "good_buffer buffer b m"
    and "(x, y) \<in> outline (clamp l (width b)) (clamp t (height b)) (clamp r (width b)) (clamp bt (height b))"
  shows "in_image b x y"
proof -
  have "(\<exists>u. x \<le> clamp u (width b)) \<and> (\<exists>v. y \<le> clamp v (height b))"
    using assms(2) by (auto simp: outline_def)
  then show ?thesis using good_inside [OF g] by blast
qed

text \<open>C26. Drawing a rectangle in a sound buffer stays in memory, gives exactly the pixels of its outline,
  clamped to the image, the colour, and changes no other byte: neither another pixel nor the
  padding of a row.\<close>

theorem rectangle_drawn:
  assumes "good_buffer buffer b m"
  shows "\<exists>m' ps. ps = outline (clamp left (width b)) (clamp top' (height b)) (clamp right (width b))
        (clamp bottom (height b))
    \<and> DrawRectangle buffer left top' right bottom color = Some (0, Some (b\<lparr>address := Some m'\<rparr>))
    \<and> length m' = length m
    \<and> (\<forall>x y. in_image b x y \<longrightarrow> pixel_at b m' x y = (if (x, y) \<in> ps then color else pixel_at b m x y))
    \<and> (\<forall>a. a \<notin> pixel_cells b ps \<longrightarrow> m' ! a = m ! a)"
proof -
  let ?l = "clamp left (width b)" and ?t = "clamp top' (height b)" and ?r = "clamp right (width b)"
    and ?b = "clamp bottom (height b)"
  have g: "IsValidDrawBuffer buffer = (True, Some b)" "address b = Some m"
    "plane_size b * planes b \<le> length m"
    using assms by (simp_all add: good_buffer_def)
  have i: "in_image b (fst p) (snd p)" if "p \<in> set (outline_list ?l ?t ?r ?b)" for p
    using that outline_inside [OF assms, of "fst p" "snd p"] by (simp add: set_outline_list)
  obtain m' where m': "DrawRectangle_fmt (format b) b ?l ?t ?r ?b color m = Some m'"
    "length m' = length m"
    "\<forall>x y. in_image b x y \<longrightarrow>
       pixel_at b m' x y = (if (x, y) \<in> outline ?l ?t ?r ?b then color else pixel_at b m x y)"
    "\<forall>a. a \<notin> pixel_cells b (outline ?l ?t ?r ?b) \<longrightarrow> m' ! a = m ! a"
    using image.foldM_put [of "outline_list ?l ?t ?r ?b" m "\<lambda>(x, y). PIXEL_PUT (format b) b color x y" b
        "\<lambda>_. color"] i PIXEL_PUT_sound g(3)
    by (auto simp: DrawRectangle_fmt_fold set_outline_list image_folds split_beta)
  have "DrawRectangle buffer left top' right bottom color = Some (0, Some (b\<lparr>address := Some m'\<rparr>))"
    using g m'(1) valid_buffer [OF g(1)] by (auto simp: DrawRectangle_def)
  with m' show ?thesis by blast
qed

text \<open>An image of four by three pixels, interleaved, with two bytes of padding in each row.\<close>

definition demo_buffer :: EdgeAppLibDrawBuffer where
  "demo_buffer = \<lparr>address = Some (replicate 42 0), buf_size = 42, format = AITRIOS_DRAW_FORMAT_RGB8,
     width = 4, height = 3, stride_byte = 14\<rparr>"

lemma demo_buffer_good: "good_buffer (Some demo_buffer) demo_buffer (replicate 42 0)"
  by (simp add: good_buffer_def demo_buffer_def IsValidDrawBuffer_def draw_formats default_stride_def
      expected_size_def sound_buffer_def pixel_bytes_def planes_def plane_size_def)

theorem rectangle_drawn_witness:
  "\<exists>m'. DrawRectangle (Some demo_buffer) 1 0 9 1 \<lparr>red = 255, green = 0, blue = 0\<rparr>
        = Some (0, Some (demo_buffer\<lparr>address := Some m'\<rparr>))
     \<and> pixel_at demo_buffer m' 3 1 = \<lparr>red = 255, green = 0, blue = 0\<rparr>
     \<and> pixel_at demo_buffer m' 0 1 = pixel_at demo_buffer (replicate 42 0) 0 1"
proof -
  have i: "in_image demo_buffer 3 1" "in_image demo_buffer 0 1"
    by (simp_all add: in_image_def demo_buffer_def sound_buffer_def pixel_bytes_def planes_def
        plane_size_def draw_formats)
  have o: "(3, 1) \<in> outline (clamp 1 (width demo_buffer)) (clamp 0 (height demo_buffer))
      (clamp 9 (width demo_buffer)) (clamp 1 (height demo_buffer))"
    "(0, 1) \<notin> outline (clamp 1 (width demo_buffer)) (clamp 0 (height demo_buffer))
      (clamp 9 (width demo_buffer)) (clamp 1 (height demo_buffer))"
    by (simp_all add: outline_def clamp_def demo_buffer_def)
  from rectangle_drawn [OF demo_buffer_good, of 1 0 9 1] i o show ?thesis by fastforce
qed

section \<open>What the test of a buffer leaves out\<close>

text \<open>C29. The test accepts a buffer whose stride is smaller than a row. Drawing in it writes outside the
  memory, although its size is the declared one.\<close>

theorem short_stride_overruns:
  assumes f: "format b = AITRIOS_DRAW_FORMAT_RGB8" and m: "address b = Some m"
    and l: "length m = unat (buf_size b)" and h: "height b = 1"
    and s: "stride_byte b = buf_size b" "buf_size b \<noteq> 0"
    and x: "x < width b" "unat x < 0x20000000" "unat (buf_size b) \<le> 3 * unat x"
  shows "fst (IsValidDrawBuffer (Some b)) \<and> DrawRectangle (Some b) x 0 x 0 color = None"
proof -
  have w: "width b \<noteq> 0" using x(1) by auto
  have v: "IsValidDrawBuffer (Some b) = (True, Some b)"
    using f m h s w by (simp add: IsValidDrawBuffer_def default_stride_def expected_size_def draw_formats)
  have sx: "sint x = int (unat x)" using x(2) by (intro sint_small) linarith
  have k: "kPixelComponentStride AITRIOS_DRAW_FORMAT_RGB8 = 3" by (simp add: kPixelComponentStride_def)
  define q where "q = unat x * 3"
  have q: "sint x * 3 = int q" "q < 2147483648" using x(2) by (simp_all add: sx q_def)
  then have "\<not> (int q < - 2147483648 \<or> 2147483647 < int q)" by linarith
  moreover have "0 * stride_byte b + word_of_int (int q) = (of_nat q :: u32)" by simp
  ultimately have "PixelOffset (format b) (stride_byte b) x 0 = Some (int q)"
    unfolding PixelOffset_def f k q(1) Let_def
    using sint_of_nat_small [OF q(2)] by simp
  moreover have "length m \<le> q" using x(3) l by (simp add: q_def)
  then have "write_byte (int q) (red color) m = None" by (simp add: write_byte_def)
  ultimately have put: "PIXEL_PUT (format b) b color x 0 m = None"
    by (simp add: PIXEL_PUT_def PixelComponents_def f write_pixel_def)
  have "u32_upto x x = [x]" by (simp add: u32_upto_def)
  then have "DrawRectangle_fmt (format b) b x 0 x 0 color m = None"
    using put by (simp add: DrawRectangle_fmt_def)
  then show ?thesis
    using v f m h clamp_id [OF x(1)] by (simp add: DrawRectangle_def clamp_def [of 0])
qed

theorem short_stride_overruns_witness:
  "DrawRectangle (Some \<lparr>address = Some [0, 0, 0], buf_size = 3, format = AITRIOS_DRAW_FORMAT_RGB8,
      width = 10, height = 1, stride_byte = 3\<rparr>) 9 0 9 0 \<lparr>red = 255, green = 0, blue = 0\<rparr> = None"
  using short_stride_overruns [of "\<lparr>address = Some [0, 0, 0], buf_size = 3,
      format = AITRIOS_DRAW_FORMAT_RGB8, width = 10, height = 1, stride_byte = 3\<rparr>" "[0, 0, 0]" 9]
  by simp

section \<open>Cropping\<close>

lemma unat_u32_less: "unat (w :: u32) < 4294967296"
  by (rule order_less_le_trans [OF unsigned_less]) simp

lemma set_of_nat_upt: "set (map of_nat [0..<unat n]) = {x :: u32. x < n}"
proof -
  have "x \<in> of_nat ` {0..<unat n} \<longleftrightarrow> x < n" for x
  proof
    assume "x \<in> of_nat ` {0..<unat n}"
    then obtain k where k: "x = of_nat k" "k < unat n" by auto
    then have "unat x = k" using unat_u32_less [of n] by (simp add: unat_of_nat_small)
    with k show "x < n" by (simp add: word_less_nat_alt)
  next
    assume "x < n"
    then show "x \<in> of_nat ` {0..<unat n}"
      by (intro image_eqI [of _ _ "unat x"]) (simp_all add: word_less_nat_alt)
  qed
  then show ?thesis unfolding set_map set_upt by blast
qed

text \<open>The extent of a range that lies below \<open>n\<close> does not wrap.\<close>

lemma unat_range:
  assumes "l \<le> r" "r < (n :: u32)"
  shows "unat (r - l + 1) = unat r - unat l + 1"
proof -
  have u: "unat l \<le> unat r" "unat r < unat n" using assms by (simp_all add: word_le_nat_alt word_less_nat_alt)
  have "r - l + 1 = of_nat (unat r - unat l + 1)" using u(1) by (simp add: of_nat_diff)
  moreover have "unat r - unat l + 1 < 4294967296" using u unat_u32_less [of n] by linarith
  ultimately show ?thesis using unat_of_nat_small by metis
qed

lemma plus_range:
  assumes "l \<le> r" "r < (n :: u32)" "x < r - l + 1"
  shows "l + x \<le> r"
proof -
  have u: "unat l \<le> unat r" "unat x \<le> unat r - unat l"
    using assms(1,3) unat_range [OF assms(1,2)] by (simp_all add: word_le_nat_alt word_less_nat_alt)
  have "l + x = of_nat (unat l + unat x)" by simp
  moreover have "unat l + unat x < 4294967296" using u unat_u32_less [of r] by linarith
  ultimately have "unat (l + x) = unat l + unat x" using unat_of_nat_small by metis
  with u show ?thesis by (simp add: word_le_nat_alt)
qed

lemma set_crop_pixels:
  "set (crop_pixels l t r b) = {(x, y). x < r - l + 1 \<and> y < b - t + 1}"
proof -
  have "crop_pixels l t r b = concat (map (\<lambda>y. map (\<lambda>x. (x, y)) (map of_nat [0..<unat (r - l + 1)]))
      (map of_nat [0..<unat (b - t + 1)]))"
    by (simp add: crop_pixels_def Let_def comp_def)
  also have "set \<dots> = (\<Union>y \<in> set (map of_nat [0..<unat (b - t + 1)]).
      (\<lambda>x. (x, y)) ` set (map of_nat [0..<unat (r - l + 1)]))"
    by (simp only: set_concat set_map image_image)
  finally show ?thesis unfolding set_of_nat_upt by auto
qed

text \<open>C27. Cropping a rectangle that is not empty into a sound buffer of the same format and at least its
  size copies exactly the pixels of the rectangle, clamped to the source, to the upper left corner
  of the destination, and changes no other byte of it.\<close>

theorem rectangle_cropped:
  assumes s: "good_buffer src sb sm" and d: "good_buffer dst db dm"
    and f: "format db = format sb"
    and l: "l = clamp left (width sb)" and t: "t = clamp top' (height sb)"
    and r: "r = clamp right (width sb)" and b: "b = clamp bottom (height sb)"
    and o: "l \<le> r" "t \<le> b" "r - l + 1 \<le> width db" "b - t + 1 \<le> height db"
  shows "\<exists>m'. CropRectangle src dst left top' right bottom
        = Some (0, Some sb, Some (db\<lparr>address := Some m'\<rparr>))
    \<and> length m' = length dm
    \<and> (\<forall>x y. in_image db x y \<longrightarrow> pixel_at db m' x y =
          (if x < r - l + 1 \<and> y < b - t + 1 then pixel_at sb sm (l + x) (t + y) else pixel_at db dm x y))
    \<and> (\<forall>a. a \<notin> pixel_cells db {(x, y). x < r - l + 1 \<and> y < b - t + 1} \<longrightarrow> m' ! a = dm ! a)"
proof -
  let ?ps = "crop_pixels l t r b"
  let ?c = "\<lambda>p. pixel_at sb sm (l + fst p) (t + snd p)"
  have gs: "IsValidDrawBuffer src = (True, Some sb)" "sound_buffer sb" "address sb = Some sm"
    "plane_size sb * planes sb \<le> length sm"
    and gd: "IsValidDrawBuffer dst = (True, Some db)" "sound_buffer db" "address db = Some dm"
    "plane_size db * planes db \<le> length dm"
    using s d by (simp_all add: good_buffer_def)
  have lim: "r < width sb" "b < height sb"
    using clamp_less [of "width sb"] clamp_less [of "height sb"] valid_buffer(1,2) [OF gs(1)]
    by (simp_all add: r b)
  have i: "in_image db (fst p) (snd p)" "in_image sb (l + fst p) (t + snd p)" if "p \<in> set ?ps" for p
  proof -
    have p: "fst p < r - l + 1" "snd p < b - t + 1" using that by (auto simp: set_crop_pixels)
    show "in_image db (fst p) (snd p)"
      using p o(3,4) gd(2) by (auto simp: in_image_def intro: less_le_trans)
    show "in_image sb (l + fst p) (t + snd p)"
      using plus_range [OF o(1) lim(1) p(1)] plus_range [OF o(2) lim(2) p(2)] lim gs(2)
      by (auto simp: in_image_def intro: le_less_trans)
  qed
  have "crop_pixel (format sb) sb db l t sm p m = Some (image.put db (?c p) (fst p) (snd p) m)"
    if "p \<in> set ?ps" "length m = length dm" for p m
  proof -
    have "Option.bind (PixelOffset (format sb) (stride_byte sb) (l + fst p) (t + snd p))
        (\<lambda>i. read_pixel (PixelComponents (format sb) sb) i sm) = Some (?c p)"
      using read_pixel_sound [OF i(2) [OF that(1)] gs(4)] by (simp add: image_folds)
    moreover have "PIXEL_PUT (format sb) db (?c p) (fst p) (snd p) m
        = Some (image.put db (?c p) (fst p) (snd p) m)"
      using PIXEL_PUT_sound [OF i(1) [OF that(1)], of m] gd(4) that(2) f by simp
    ultimately show ?thesis
      by (auto simp: crop_pixel_def split_beta bind_eq_Some_conv)
  qed
  then obtain m' where m': "CropRectangle_fmt (format sb) sb db l t r b sm dm = Some m'"
    "length m' = length dm"
    "\<forall>x y. in_image db x y \<longrightarrow> pixel_at db m' x y =
       (if (x, y) \<in> set ?ps then ?c (x, y) else pixel_at db dm x y)"
    "\<forall>a. a \<notin> pixel_cells db (set ?ps) \<longrightarrow> m' ! a = dm ! a"
    using image.foldM_put [of ?ps dm "crop_pixel (format sb) sb db l t sm" db ?c] i(1) gd(4)
    by (auto simp: CropRectangle_fmt_def image_folds)
  have "CropRectangle src dst left top' right bottom = Some (0, Some sb, Some (db\<lparr>address := Some m'\<rparr>))"
    using gs gd m'(1) valid_buffer(4) [OF gs(1)] by (auto simp: CropRectangle_def l t r b)
  with m' show ?thesis by (auto simp: set_crop_pixels)
qed

text \<open>The lower right corner of the example image, cropped into one of two by one pixels.\<close>

definition small_buffer :: EdgeAppLibDrawBuffer where
  "small_buffer = \<lparr>address = Some (replicate 6 7), buf_size = 6, format = AITRIOS_DRAW_FORMAT_RGB8,
     width = 2, height = 1, stride_byte = 0\<rparr>"

lemma small_buffer_good:
  "good_buffer (Some small_buffer) (small_buffer\<lparr>stride_byte := 6\<rparr>) (replicate 6 7)"
  by (simp add: good_buffer_def small_buffer_def IsValidDrawBuffer_def draw_formats default_stride_def
      expected_size_def sound_buffer_def pixel_bytes_def planes_def plane_size_def)

theorem rectangle_cropped_witness:
  "\<exists>m'. CropRectangle (Some demo_buffer) (Some small_buffer) 2 9 9 9
        = Some (0, Some demo_buffer, Some (small_buffer\<lparr>stride_byte := 6, address := Some m'\<rparr>))
     \<and> length m' = 6"
proof -
  let ?d = "small_buffer\<lparr>stride_byte := 6\<rparr>"
  have w: "width demo_buffer = 4" "height demo_buffer = 3" "width ?d = 2" "height ?d = 1"
    "format ?d = format demo_buffer"
    by (simp_all add: demo_buffer_def small_buffer_def)
  have c: "clamp 2 4 = 2" "clamp 9 3 = 2" "clamp 9 4 = 3" by (simp_all add: clamp_def)
  have "\<exists>m'. CropRectangle (Some demo_buffer) (Some small_buffer) 2 9 9 9
      = Some (0, Some demo_buffer, Some (?d\<lparr>address := Some m'\<rparr>)) \<and> length m' = length (replicate 6 (7 :: u8))"
    using rectangle_cropped [OF demo_buffer_good small_buffer_good w(5) refl refl refl refl, of 2 9 9 9]
    unfolding w c by auto
  then show ?thesis by simp
qed

end
