(* ===== verification/Rounding.thy ===== *)
theory Rounding
  imports Prelude
begin

text \<open>
  Bounds of IEEE rounding: the exponent of a number, the error of rounding to an integer and to
  single precision.
\<close>

section \<open>Powers of two\<close>

lemma pow2_powi: "pow2 e = 2 powi e"
  by (simp add: pow2_def power_int_def power_one_over)

lemma pow2_add: "pow2 (a + b) = pow2 a * pow2 b"
  by (simp add: pow2_powi power_int_add)

lemma pow2_pos [simp]: "0 < pow2 e"
  by (simp add: pow2_powi)

lemma pow2_mono: "a \<le> b \<Longrightarrow> pow2 a \<le> pow2 b"
  by (simp add: pow2_powi power_int_increasing)

lemma pow2_less_imp: "pow2 a < pow2 b \<Longrightarrow> a < b"
  using pow2_mono [of b a] by linarith

lemma pow2_nat: "pow2 (int n) = 2 ^ n"
  by (simp add: pow2_def)

lemma pow2_diff: "pow2 (a - b) = pow2 a / pow2 b"
  using pow2_add [of "a - b" b] pow2_pos [of b] by (simp add: less_imp_neq [symmetric])

text \<open>The exponent is not too large.\<close>

lemma pow2_ilog2_le:
  assumes "0 < x"
  shows "pow2 (ilog2 x) \<le> x"
proof -
  obtain n d where q: "quotient_of x = (n, d)" by fastforce
  have d: "0 < d" using quotient_of_denom_pos [OF q] .
  have x: "x = of_int n / of_int d" using quotient_of_div [OF q] .
  with assms d have n: "0 < n" by (simp add: zero_less_divide_iff)
  let ?k = "bitlen n - bitlen d"
  have "pow2 (?k - 1) \<le> x"
  proof -
    have bn: "2 ^ nat (bitlen n - 1) \<le> n" using bitlen_bounds [OF n] by simp
    have bd: "d < 2 ^ nat (bitlen d)" using bitlen_bounds [OF d] by simp
    have pos: "0 < bitlen n" "0 < bitlen d" using bitlen_bounds [OF n] bitlen_bounds [OF d] n d
      by (cases "bitlen n \<le> 0"; cases "bitlen d \<le> 0"; simp)+
    have "pow2 (bitlen n - 1) = 2 ^ nat (bitlen n - 1)" using pos by (simp add: pow2_def)
    also have "\<dots> \<le> of_int n" using bn by (metis of_int_le_iff of_int_numeral of_int_power)
    finally have n': "pow2 (bitlen n - 1) \<le> of_int n" .
    have "of_int d \<le> (2 :: rat) ^ nat (bitlen d)"
      using bd by (metis less_imp_le of_int_le_iff of_int_numeral of_int_power)
    also have "\<dots> = pow2 (bitlen d)" using pos by (simp add: pow2_def)
    finally have d': "of_int d \<le> pow2 (bitlen d)" .
    have "pow2 (?k - 1) = pow2 (bitlen n - 1) / pow2 (bitlen d)"
      by (simp flip: pow2_diff add: algebra_simps)
    also have "\<dots> \<le> of_int n / of_int d"
      using n' d' d n by (intro frac_le) auto
    finally show ?thesis by (simp add: x)
  qed
  then show ?thesis by (simp add: ilog2_def q Let_def)
qed

section \<open>Errors\<close>

lemma round_half_even_error: "\<bar>of_int (round_half_even x) - x\<bar> \<le> 1 / 2"
proof -
  have "of_int \<lfloor>x\<rfloor> \<le> x" "x < of_int \<lfloor>x\<rfloor> + 1" by linarith+
  then show ?thesis
    by (auto simp: round_half_even_def Let_def abs_le_iff)
qed

lemma round_half_even_nonneg: "0 \<le> x \<Longrightarrow> 0 \<le> round_half_even x"
proof -
  assume "0 \<le> x"
  then have "0 \<le> \<lfloor>x\<rfloor>" by simp
  then show ?thesis by (simp add: round_half_even_def Let_def)
qed

definition ulp32 :: "rat \<Rightarrow> rat" where
  "ulp32 x = pow2 (max (-126) (ilog2 \<bar>x\<bar>) - 23)"

lemma f32_ulp: "x \<noteq> 0 \<Longrightarrow> f32 x = of_int (round_half_even (x / ulp32 x)) * ulp32 x"
  by (simp add: f32_def round_to_def ulp32_def Let_def)

lemma ulp32_pos: "0 < ulp32 x"
  by (simp add: ulp32_def)

lemma f32_error:
  assumes "x \<noteq> 0"
  shows "\<bar>f32 x - x\<bar> \<le> ulp32 x / 2"
proof -
  have "f32 x - x = (of_int (round_half_even (x / ulp32 x)) - x / ulp32 x) * ulp32 x"
    using f32_ulp [OF assms] ulp32_pos [of x] by (simp add: field_simps)
  then have "\<bar>f32 x - x\<bar> = \<bar>of_int (round_half_even (x / ulp32 x)) - x / ulp32 x\<bar> * ulp32 x"
    using ulp32_pos [of x] by (simp add: abs_mult)
  also have "\<dots> \<le> 1 / 2 * ulp32 x"
    using round_half_even_error [of "x / ulp32 x"] ulp32_pos [of x] by (intro mult_right_mono) auto
  finally show ?thesis by simp
qed

lemma f32_nonneg: "0 \<le> x \<Longrightarrow> 0 \<le> f32 x"
  using f32_ulp [of x] round_half_even_nonneg [of "x / ulp32 x"] ulp32_pos [of x]
  by (cases "x = 0") auto

text \<open>A normal number is rounded with a relative error; a sixteenth is enough here.\<close>

lemma f32_relative:
  assumes "pow2 (-126) \<le> x"
  shows "15 / 16 * x \<le> f32 x" "f32 x \<le> 17 / 16 * x"
proof -
  have x: "0 < x" using assms pow2_pos [of "-126"] by linarith
  have m: "pow2 (max (-126) (ilog2 x)) \<le> x"
    using assms pow2_ilog2_le [OF x] by (simp add: max_def)
  have "ulp32 x = pow2 (max (-126) (ilog2 x)) / 8388608"
    using x by (simp add: ulp32_def pow2_diff) (simp add: pow2_def)
  with m have "ulp32 x \<le> x / 8388608" by simp
  moreover have "\<bar>f32 x - x\<bar> \<le> ulp32 x / 2" using f32_error x by simp
  ultimately show "15 / 16 * x \<le> f32 x" "f32 x \<le> 17 / 16 * x" using x by linarith+
qed

text \<open>A number of at most a half is rounded to a number of at most one.\<close>

lemma f32_small:
  assumes "\<bar>z\<bar> \<le> 1 / 2"
  shows "\<bar>f32 z\<bar> \<le> 1"
proof (cases "z = 0")
  case False
  then have "pow2 (ilog2 \<bar>z\<bar>) < pow2 0"
    using pow2_ilog2_le [of "\<bar>z\<bar>"] assms by (simp add: pow2_def)
  then have "ilog2 \<bar>z\<bar> < 0" by (rule pow2_less_imp)
  then have "ulp32 z \<le> pow2 0" unfolding ulp32_def by (intro pow2_mono) simp
  then have "ulp32 z \<le> 1" by (simp add: pow2_def)
  with f32_error [OF False] assms show ?thesis by linarith
qed simp

end
