(* ===== verification/ResizeProperties.thy ===== *)
theory ResizeProperties
  imports DrawProperties Rounding
begin

text \<open>
  Resizing stays in memory: the neighbours that the interpolation in single precision computes are
  pixels of the source, whatever the two sizes are.
\<close>

section \<open>The neighbours\<close>

lemma pow2_small: "pow2 (-126) \<le> 1 / 18446744073709551616"
  by (simp add: pow2_def)

lemma f32_normal:
  assumes "1 / 18446744073709551616 \<le> x"
  shows "15 / 16 * x \<le> f32 x" "f32 x \<le> 17 / 16 * x"
  using f32_relative [OF order_trans [OF pow2_small assms]] by auto

lemma f32_le: "0 \<le> n \<Longrightarrow> f32 (of_int n) \<le> 17 / 16 * of_int n"
proof (cases "n = 0")
  case False
  assume "0 \<le> n"
  with False have "(1 :: rat) \<le> of_int n" by simp
  then show ?thesis using f32_normal(2) [of "of_int n"] by linarith
qed simp

text \<open>The scale is at most a quarter more than the quotient of the sizes.\<close>

lemma resize_scale_bounds:
  assumes "src_n \<noteq> 0" "dst_n \<noteq> 0"
  shows "0 \<le> resize_scale src_n dst_n"
    and "resize_scale src_n dst_n * of_int (uint dst_n) \<le> 13 / 10 * of_int (uint src_n)"
    and "1 / 18446744073709551616 \<le> 15 / 32 * resize_scale src_n dst_n"
proof -
  define s d where sd: "s = (of_int (uint src_n) :: rat)" "d = (of_int (uint dst_n) :: rat)"
  have "0 < uint src_n" "0 < uint dst_n" using assms by (simp_all add: word_neq_0_conv word_less_def)
  then have s: "1 \<le> s" and d: "1 \<le> d" unfolding sd by linarith+
  have d32: "d \<le> 4294967296" unfolding sd using uint_u32_less [of dst_n] by linarith
  have f: "15 / 16 * s \<le> f32 s" "f32 s \<le> 17 / 16 * s" "15 / 16 * d \<le> f32 d" "f32 d \<le> 17 / 16 * d"
    using f32_normal [of s] f32_normal [of d] s d by auto
  define q where "q = f32 s / f32 d"
  have q: "q * f32 d = f32 s" using f(3) d by (simp add: q_def)
  have q0: "0 \<le> q" using f s d by (simp add: q_def)
  have "q * (15 / 16 * d) \<le> q * f32 d" by (rule mult_left_mono [OF f(3) q0])
  then have qd: "q * d \<le> 17 / 15 * s" using q f(2) by linarith
  have "q * f32 d \<le> q * (17 / 16 * 4294967296)" using f(4) d32 q0 by (intro mult_left_mono) auto
  then have ql: "15 / 16 * 1 \<le> q * (17 / 16 * 4294967296)" using q f(1) s by linarith
  then have qs: "1 / 18446744073709551616 \<le> q" by linarith
  have r: "15 / 16 * q \<le> resize_scale src_n dst_n" "resize_scale src_n dst_n \<le> 17 / 16 * q"
    using f32_normal [OF qs] by (simp_all add: resize_scale_def q_def sd)
  then show "0 \<le> resize_scale src_n dst_n" using q0 by linarith
  have "resize_scale src_n dst_n * d \<le> 17 / 16 * q * d" using r(2) d by (intro mult_right_mono) auto
  then show "resize_scale src_n dst_n * of_int (uint dst_n) \<le> 13 / 10 * of_int (uint src_n)"
    using qd s unfolding sd [symmetric] by linarith
  show "1 / 18446744073709551616 \<le> 15 / 32 * resize_scale src_n dst_n" using r(1) ql by linarith
qed

lemma resize_axis_in:
  assumes "src_n \<noteq> 0" "unat src_n < 1073741824" "i < dst_n"
  shows "\<exists>x0 x1 w. resize_axis src_n (resize_scale src_n dst_n) i = Some (x0, x1, w)
    \<and> 0 \<le> x0 \<and> x0 < sint src_n \<and> 0 \<le> x1 \<and> x1 < sint src_n"
proof -
  let ?scale = "resize_scale src_n dst_n"
  define s d where sd: "s = (of_int (uint src_n) :: rat)" "d = (of_int (uint dst_n) :: rat)"
  have dn: "dst_n \<noteq> 0" using assms(3) by auto
  note S = resize_scale_bounds [OF assms(1) dn, folded sd]
  define a where "a = f32 (of_int (uint i)) + 1 / 2"
  have i: "0 \<le> uint i" "uint i + 1 \<le> uint dst_n" using assms(3) by (simp_all add: word_less_def)
  then have "of_int (uint i) + 1 \<le> d" unfolding sd by linarith
  then have a: "1 / 2 \<le> a" "a \<le> 17 / 16 * d"
    using f32_le [OF i(1)] f32_nonneg [of "of_int (uint i)"] i(1) unfolding a_def by linarith+
  have a': "1 / 2 \<le> f32 a \<or> 15 / 32 \<le> f32 a" "f32 a \<le> 17 / 16 * a"
    using f32_normal [of a] a(1) by auto
  then have a'': "15 / 32 \<le> f32 a" "f32 a \<le> 17 / 16 * (17 / 16 * d)" using a by linarith+
  define p where "p = f32 a * ?scale"
  have p0: "0 \<le> p" using a'' S(1) by (simp add: p_def)
  have "p \<le> 17 / 16 * (17 / 16 * d) * ?scale" unfolding p_def by (rule mult_right_mono [OF a''(2) S(1)])
  then have p: "p \<le> 289 / 256 * (13 / 10 * s)" using S(2) by (simp add: mult.commute mult.left_commute)
  have "15 / 32 * ?scale \<le> p" unfolding p_def by (rule mult_right_mono [OF a''(1) S(1)])
  then have fp: "f32 p \<le> 17 / 16 * p" "0 \<le> f32 p"
    using f32_normal(2) [of p] f32_nonneg [OF p0] S(3) by linarith+
  define z where "z = f32 p - 1 / 2"
  define sx where "sx = f32 z"
  have sx: "-1 \<le> sx \<and> sx \<le> 17 / 16 * (17 / 16 * (289 / 256 * (13 / 10 * s))) + 1"
  proof (cases "z \<le> 1 / 2")
    case True
    have "0 \<le> uint src_n" by simp
    then have "0 \<le> s" unfolding sd by linarith
    moreover have "\<bar>z\<bar> \<le> 1 / 2" using True fp(2) unfolding z_def by linarith
    ultimately show ?thesis using f32_small [of z] unfolding sx_def by linarith
  next
    case False
    then have "1 / 18446744073709551616 \<le> z" by linarith
    note f32_normal [OF this]
    moreover have "z \<le> 17 / 16 * (289 / 256 * (13 / 10 * s))" using fp p unfolding z_def by linarith
    ultimately show ?thesis using False unfolding sx_def by linarith
  qed
  have n: "sint src_n = int (unat src_n)" by (rule sint_small) (use assms(2) in linarith)
  have "uint src_n \<le> 1073741823" unfolding uint_nat using assms(2) by linarith
  then have "s \<le> 1073741823" unfolding sd by linarith
  with sx have k: "-1 \<le> \<lfloor>sx\<rfloor>" "\<lfloor>sx\<rfloor> < 2147483647" by linarith+
  have "0 < unat src_n" using assms(1) by (simp add: unat_gt_0)
  then have N: "0 < sint src_n" unfolding n by linarith
  have e: "f32 (f32 (f32 (f32 (of_int (uint i)) + 1 / 2) * ?scale) - 1 / 2) = sx"
    by (simp only: sx_def z_def p_def a_def)
  define y where "y = \<lfloor>sx\<rfloor>"
  show ?thesis
    using k N unfolding resize_axis_def e Let_def y_def [symmetric] by (cases "y < 0") simp_all
qed

section \<open>Resizing\<close>

lemma set_resize_pixels: "set (resize_pixels d) = {(x, y). x < width d \<and> y < height d}"
proof -
  have "resize_pixels d = concat (map (\<lambda>y. map (\<lambda>x. (x, y)) (map of_nat [0..<unat (width d)]))
      (map of_nat [0..<unat (height d)]))"
    by (simp add: resize_pixels_def comp_def)
  also have "set \<dots> = (\<Union>y \<in> set (map of_nat [0..<unat (height d)]).
      (\<lambda>x. (x, y)) ` set (map of_nat [0..<unat (width d)]))"
    by (simp only: set_concat set_map image_image)
  finally show ?thesis unfolding set_of_nat_upt by auto
qed

text \<open>A coordinate of a sound buffer fits an \<open>int\<close>.\<close>

lemma sound_sizes:
  assumes "good_buffer buffer b m"
  shows "width b \<noteq> 0" "height b \<noteq> 0" "unat (width b) < 1073741824" "unat (height b) < 1073741824"
proof -
  have g: "IsValidDrawBuffer buffer = (True, Some b)" "sound_buffer b"
    using assms by (simp_all add: good_buffer_def)
  show w: "width b \<noteq> 0" and h: "height b \<noteq> 0" using valid_buffer [OF g(1)] by auto
  have 0: "0 < unat (width b)" "0 < unat (height b)" using w h by (simp_all add: unat_gt_0)
  have f: "3 * unat (width b) \<le> unat (stride_byte b) * planes b" "3 \<le> unat (stride_byte b) * planes b"
    using g(2) 0(1) by (auto simp: sound_buffer_def pixel_bytes_def planes_def)
  have e: "unat (stride_byte b) * planes b * unat (height b) < 2147483648"
    using g(2) by (simp add: sound_buffer_def plane_size_def mult.commute mult.left_commute)
  have "unat (stride_byte b) * planes b * 1 \<le> unat (stride_byte b) * planes b * unat (height b)"
    using 0(2) by (intro mult_le_mono2) simp
  with f(1) e show "unat (width b) < 1073741824" by linarith
  have "3 * unat (height b) \<le> unat (stride_byte b) * planes b * unat (height b)"
    using f(2) by (rule mult_le_mono1)
  with e show "unat (height b) < 1073741824" by linarith
qed

lemma in_image_of_int:
  assumes "sound_buffer b" "unat (width b) < 1073741824" "unat (height b) < 1073741824"
    and "0 \<le> x" "x < sint (width b)" "0 \<le> y" "y < sint (height b)"
  shows "in_image b (word_of_int x) (word_of_int y)"
proof -
  have less: "word_of_int z < n" if "0 \<le> z" "z < sint n" "unat n < 1073741824" for z and n :: u32
  proof -
    have "sint n = int (unat n)" by (rule sint_small) (use that(3) in linarith)
    then have z: "nat z < unat n" using that(1,2) by linarith
    have "(word_of_int z :: u32) = of_nat (nat z)" using that(1) by simp
    moreover have "unat (of_nat (nat z) :: u32) = nat z"
      by (rule unat_of_nat_small) (use z that(3) in linarith)
    ultimately show ?thesis using z by (simp add: word_less_nat_alt)
  qed
  from less [OF assms(4,5,2)] less [OF assms(6,7,3)] assms(1) show ?thesis by (simp add: in_image_def)
qed

lemma resize_pixel_sound:
  assumes s: "good_buffer src sb sm" and d: "good_buffer dst db dm" and f: "format db = format sb"
    and p: "fst p < width db" "snd p < height db" and m: "length m = length dm"
  shows "\<exists>c. resize_pixel (format sb) sb db sm p m = Some (image.put db c (fst p) (snd p) m)"
proof -
  note S = sound_sizes [OF s]
  have g: "sound_buffer sb" "plane_size sb * planes sb \<le> length sm"
    "sound_buffer db" "plane_size db * planes db \<le> length dm"
    using s d by (simp_all add: good_buffer_def)
  obtain x0 x1 wx where x: "resize_axis (width sb) (resize_scale (width sb) (width db)) (fst p) = Some (x0, x1, wx)"
    "0 \<le> x0" "x0 < sint (width sb)" "0 \<le> x1" "x1 < sint (width sb)"
    using resize_axis_in [OF S(1,3) p(1)] by blast
  obtain y0 y1 wy where y: "resize_axis (height sb) (resize_scale (height sb) (height db)) (snd p) = Some (y0, y1, wy)"
    "0 \<le> y0" "y0 < sint (height sb)" "0 \<le> y1" "y1 < sint (height sb)"
    using resize_axis_in [OF S(2,4) p(2)] by blast
  have px: "\<exists>c. src_pixel (format sb) sb sm u v = Some c"
    if "0 \<le> u" "u < sint (width sb)" "0 \<le> v" "v < sint (height sb)" for u v
    using read_pixel_sound [OF in_image_of_int [OF g(1) S(3,4) that] g(2)]
    by (simp add: src_pixel_def)
  obtain c00 c10 c01 c11 where c: "src_pixel (format sb) sb sm x0 y0 = Some c00"
    "src_pixel (format sb) sb sm x1 y0 = Some c10" "src_pixel (format sb) sb sm x0 y1 = Some c01"
    "src_pixel (format sb) sb sm x1 y1 = Some c11"
    using px [OF x(2,3) y(2,3)] px [OF x(4,5) y(2,3)] px [OF x(2,3) y(4,5)] px [OF x(4,5) y(4,5)] by blast
  have "in_image db (fst p) (snd p)" using p g(3) by (simp add: in_image_def)
  from PIXEL_PUT_sound [OF this, of m] g(4) m f
  have "PIXEL_PUT (format sb) db k (fst p) (snd p) m = Some (image.put db k (fst p) (snd p) m)" for k
    by simp
  then show ?thesis by (simp add: resize_pixel_def split_beta x(1) y(1) c) blast
qed

text \<open>The fold over the pixels, with a colour that is only known to exist.\<close>

lemma resize_fold:
  assumes s: "good_buffer src sb sm" and d: "good_buffer dst db dm" and f: "format db = format sb"
    and ps: "\<forall>p \<in> set ps. fst p < width db \<and> snd p < height db" and m: "length m = length dm"
  shows "\<exists>m'. foldM (resize_pixel (format sb) sb db sm) ps m = Some m' \<and> length m' = length m
    \<and> (\<forall>a. a \<notin> pixel_cells db (set ps) \<longrightarrow> m' ! a = m ! a)"
  using ps m
proof (induction ps arbitrary: m)
  case (Cons p ps)
  obtain c where c: "resize_pixel (format sb) sb db sm p m = Some (image.put db c (fst p) (snd p) m)"
    using resize_pixel_sound [OF s d f _ _ Cons.prems(2), of p] Cons.prems(1) by auto
  let ?m = "image.put db c (fst p) (snd p) m"
  obtain m' where m': "foldM (resize_pixel (format sb) sb db sm) ps ?m = Some m'" "length m' = length m"
    "\<forall>a. a \<notin> pixel_cells db (set ps) \<longrightarrow> m' ! a = ?m ! a"
    using Cons.IH [of ?m] Cons.prems by auto
  have "m' ! a = m ! a" if "a \<notin> pixel_cells db (set (p # ps))" for a
  proof -
    have "a \<notin> pixel_cells db (set ps)" "a \<notin> image.cells db {(fst p, snd p)}"
      using that unfolding image_folds pixel_cells_def by auto
    with m'(3) image.put_outside [of a db "fst p" "snd p" c m] show ?thesis by simp
  qed
  with c m' show ?case by simp
qed simp

lemma memcpy_in: "n \<le> length sm \<Longrightarrow> n \<le> length m \<Longrightarrow>
    memcpy n sm m = Some (take n sm @ drop n m)"
  by (simp add: memcpy_def)



end
