(* ===== verification/Buffers.thy ===== *)
theory Buffers
  imports DataExport
begin

text \<open>
  The memory of the data path. Sending an image allocates, encodes, sends and frees buffers, so the
  state of the process is extended by a heap: \<open>heap p\<close> holds the bytes of the block that \<open>malloc\<close>
  returned at \<open>p\<close>, \<open>brk\<close> is the first address not given out yet (addresses are not used twice), and
  \<open>freed_buffers\<close> of \<open>'w ctx\<close> lists the blocks that were freed. Reading or freeing a block that is
  not there sets \<open>undefined_behaviour\<close>. The services of the data path outside the repository are the
  fields of \<open>'w services\<close>: the allocator's decision, the EVP agent, the JPEG encoder, the memory
  manager of the host (\<open>libs/depend/edge_app/device.h\<close>, \<open>evp_c_sdk\<close>).
\<close>

section \<open>State and services\<close>

text \<open>\<open>module_vars_t\<close> of \<open>data_export_private.h\<close>: the part the blob callbacks use.\<close>

record module_vars_t =
  mv_blob_buff :: ptr
  blob_buff_size :: int
  blob_buff_offset :: int
  mv_identifier :: u32
  blob_len :: int

record 'w sys =
  cx :: "'w ctx"
  heap :: "ptr \<Rightarrow> u8 list option"
  brk :: ptr
  module_vars :: "ptr \<Rightarrow> module_vars_t option"
  output_tensor_vec :: "(string option \<times> json option) list"
  inf_cnt :: u32

datatype EVP_BlobRequest =
    EVP_BlobRequestHttp string
  | EVP_BlobRequestEvpExt string "string option"

datatype EsfCodecJpegInputFormat = kJpegInputRgbPlanar_8 | kJpegInputRgbPacked_8

record EsfCodecJpegInfo =
  input_fmt :: EsfCodecJpegInputFormat
  jpeg_width :: u32
  jpeg_height :: u32
  jpeg_stride :: u32
  quality :: int

text \<open>
  \<open>EsfCodecEncodeJpeg info input size\<close> returns the error code, the bytes it wrote to the output
  buffer of \<open>size\<close> bytes and the value of \<open>jpeg_size\<close>. A result of zero is success everywhere.
\<close>

record 'w services =
  alloc_ok :: "'w sys \<Rightarrow> nat \<Rightarrow> bool"
  uninitialised :: "'w sys \<Rightarrow> int"
  EVP_blobOperation :: "EVP_BlobRequest \<Rightarrow> ptr \<Rightarrow> 'w \<Rightarrow> EVP_RESULT \<times> 'w"
  EVP_sendTelemetry :: "string \<Rightarrow> u8 list \<Rightarrow> ptr \<Rightarrow> 'w \<Rightarrow> EVP_RESULT \<times> 'w"
  EsfMemoryManagerPread :: "u32 \<Rightarrow> nat \<Rightarrow> 'w \<Rightarrow> int \<times> u8 list \<times> 'w"
  EsfCodecEncodeJpeg :: "EsfCodecJpegInfo \<Rightarrow> u8 list \<Rightarrow> nat \<Rightarrow> 'w \<Rightarrow> int \<times> u8 list \<times> int \<times> 'w"
  EsfCodecJpegEncodeHandle :: "u32 \<Rightarrow> EsfCodecJpegInfo \<Rightarrow> 'w \<Rightarrow> int \<times> u32 \<times> int \<times> 'w"
  EsfCodecJpegEncodeRelease :: "u32 \<Rightarrow> 'w \<Rightarrow> int \<times> 'w"
  EsfSystemGetDeviceID :: "'w \<Rightarrow> int \<times> string \<times> 'w"
  sensor_info_string :: "u64 \<Rightarrow> u32 \<Rightarrow> 'w \<Rightarrow> int \<times> string \<times> 'w"

abbreviation on_cx :: "('w ctx \<Rightarrow> 'w ctx) \<Rightarrow> 'w sys \<Rightarrow> 'w sys" where
  "on_cx f s \<equiv> s\<lparr>cx := f (cx s)\<rparr>"

abbreviation set_world :: "'w \<Rightarrow> 'w sys \<Rightarrow> 'w sys" where
  "set_world w s \<equiv> s\<lparr>cx := (cx s)\<lparr>world := w\<rparr>\<rparr>"

abbreviation undef :: "'w sys \<Rightarrow> 'w sys" where
  "undef s \<equiv> on_cx undefined_step s"

section \<open>malloc, free and access\<close>

text \<open>
  The bytes of a fresh block are not initialised; nothing reads them before they are written. An
  address that is given out does not count as freed.
\<close>

definition malloc :: "'w services \<Rightarrow> nat \<Rightarrow> 'w sys \<Rightarrow> ptr \<times> 'w sys" where
  "malloc S n s =
     (if alloc_ok S s n
      then (brk s, s\<lparr>heap := (heap s)(brk s \<mapsto> replicate n 0), brk := brk s + n + 1,
              cx := (cx s)\<lparr>freed_buffers := removeAll (brk s) (freed_buffers (cx s))\<rparr>\<rparr>)
      else (0, s))"

definition alive :: "'w sys \<Rightarrow> ptr \<Rightarrow> bool" where
  "alive s p \<longleftrightarrow> heap s p \<noteq> None \<and> p \<notin> set (freed_buffers (cx s))"

definition free :: "ptr \<Rightarrow> 'w sys \<Rightarrow> 'w sys" where
  "free p s = (if p = 0 then s else if heap s p = None then undef s else on_cx (free_buffer p) s)"

text \<open>The \<open>n\<close> bytes from offset \<open>k\<close> of a block, if they are all there.\<close>

definition load :: "'w sys \<Rightarrow> ptr \<Rightarrow> nat \<Rightarrow> nat \<Rightarrow> u8 list option" where
  "load s p k n =
     (if alive s p \<and> k + n \<le> length (the (heap s p)) then Some (take n (drop k (the (heap s p)))) else None)"

text \<open>Writing bytes to the start of a block.\<close>

definition store :: "ptr \<Rightarrow> u8 list \<Rightarrow> 'w sys \<Rightarrow> 'w sys" where
  "store p bs s =
     (if alive s p \<and> length bs \<le> length (the (heap s p))
      then s\<lparr>heap := (heap s)(p \<mapsto> bs @ drop (length bs) (the (heap s p)))\<rparr>
      else undef s)"

text \<open>The C string at \<open>p\<close>: the bytes before the first NUL.\<close>

definition c_string :: "'w sys \<Rightarrow> ptr \<Rightarrow> string option" where
  "c_string s p =
     (if alive s p \<and> 0 \<in> set (the (heap s p))
      then Some (map (\<lambda>b. char_of (unat b)) (takeWhile (\<lambda>b. b \<noteq> 0) (the (heap s p)))) else None)"

definition bytes_of :: "string \<Rightarrow> u8 list" where
  "bytes_of t = map (\<lambda>c. of_nat (of_char c)) t"

section \<open>Laws of the heap\<close>

text \<open>Nothing lives at or above \<open>brk\<close>, nor at the null pointer.\<close>

definition heap_ok :: "'w sys \<Rightarrow> bool" where
  "heap_ok s \<longleftrightarrow> 0 < brk s \<and> (\<forall>p. heap s p \<noteq> None \<longrightarrow> 0 < p \<and> p < brk s)"

locale allocator =
  fixes alloc :: "nat \<Rightarrow> 's \<Rightarrow> ptr \<times> 's" and release :: "ptr \<Rightarrow> 's \<Rightarrow> 's"
    and block :: "'s \<Rightarrow> ptr \<Rightarrow> 'b option" and ok :: "'s \<Rightarrow> bool"
  assumes alloc_fresh: "ok s \<Longrightarrow> alloc n s = (p, t) \<Longrightarrow> p \<noteq> 0 \<Longrightarrow> block s p = None \<and> block t p \<noteq> None"
    and alloc_ok: "ok s \<Longrightarrow> alloc n s = (p, t) \<Longrightarrow> ok t"
    and alloc_others: "alloc n s = (p, t) \<Longrightarrow> q \<noteq> p \<Longrightarrow> block t q = block s q"
    and alloc_null: "alloc n s = (0, t) \<Longrightarrow> ok s \<Longrightarrow> t = s"
    and release_ok: "ok s \<Longrightarrow> block s p \<noteq> None \<Longrightarrow> ok (release p s)"
    and release_block: "ok s \<Longrightarrow> block s p \<noteq> None \<Longrightarrow> block (release p s) q = (if q = p then None else block s q)"
begin

lemma fresh_not_old: "ok s \<Longrightarrow> alloc n s = (p, t) \<Longrightarrow> p \<noteq> 0 \<Longrightarrow> block s q \<noteq> None \<Longrightarrow> q \<noteq> p"
  by (metis alloc_fresh)

text \<open>Allocating and releasing leaves every block as it was.\<close>

lemma alloc_release:
  assumes "ok s" "alloc n s = (p, t)" "p \<noteq> 0"
  shows "ok (release p t)" and "block (release p t) q = block s q"
proof -
  have b: "block s p = None" "block t p \<noteq> None" and o: "ok t"
    using alloc_fresh [OF assms] alloc_ok [OF assms(1,2)] by simp_all
  show "ok (release p t)" using release_ok [OF o b(2)] .
  show "block (release p t) q = block s q"
    using release_block [OF o b(2)] alloc_others [OF assms(2)] b(1) by (cases "q = p") auto
qed

end

text \<open>The blocks that can be used.\<close>

definition block :: "'w sys \<Rightarrow> ptr \<Rightarrow> u8 list option" where
  "block s p = (if alive s p then heap s p else None)"

lemma block_None: "block s p = None \<longleftrightarrow> \<not> alive s p"
  by (auto simp: block_def alive_def)

lemma block_Some: "block s p = Some b \<longleftrightarrow> alive s p \<and> heap s p = Some b"
  by (auto simp: block_def)

interpretation mem: allocator "malloc S" free block heap_ok
proof unfold_locales
  show "block s p = None \<and> block t p \<noteq> None" if "heap_ok s" "malloc S n s = (p, t)" "p \<noteq> 0" for s n p t
    using that by (auto simp: malloc_def heap_ok_def block_def alive_def split: if_splits)
  show "heap_ok t" if "heap_ok s" "malloc S n s = (p, t)" for s n p t
    using that by (auto simp: malloc_def heap_ok_def split: if_splits)
      (metis less_Suc_eq trans_less_add1 less_SucI)+
  show "block t q = block s q" if "malloc S n s = (p, t)" "q \<noteq> p" for s n p t q
    using that by (auto simp: malloc_def block_def alive_def split: if_splits)
  show "t = s" if "malloc S n s = (0, t)" "heap_ok s" for s n t
    using that by (auto simp: malloc_def heap_ok_def split: if_splits)
  show "heap_ok (free p s)" if "heap_ok s" "block s p \<noteq> None" for s p
    using that by (auto simp: free_def block_def alive_def heap_ok_def free_buffer_def)
  show "block (free p s) q = (if q = p then None else block s q)" if "heap_ok s" "block s p \<noteq> None" for s p q
    using that by (auto simp: free_def block_def alive_def heap_ok_def free_buffer_def)
qed

end
