(* ===== verification/Timestamps.thy ===== *)
theory Timestamps
  imports CStrings
begin

text \<open>
  Time stamps: the text in which a time goes into a file name and into a message
  (\<open>DataExportFormatTimestamp\<close> in \<open>data_export.cpp\<close>, the same code in \<open>process_format.cpp\<close>), and
  \<open>SendDataConvertTimeToNanoseconds\<close> (\<open>send_data.cpp\<close>), which reads it back. Of the C library this
  uses \<open>gmtime_r\<close>, \<open>timegm\<close>, and \<open>strftime\<close> and \<open>strptime\<close> with one format.
\<close>

section \<open>The calendar\<close>

record tm =
  tm_year :: nat
  tm_mon :: nat
  tm_mday :: nat
  tm_hour :: nat
  tm_min :: nat
  tm_sec :: nat

definition leap :: "nat \<Rightarrow> bool" where
  "leap y \<longleftrightarrow> (y mod 4 = 0 \<and> y mod 100 \<noteq> 0) \<or> y mod 400 = 0"

definition days_in_year :: "nat \<Rightarrow> nat" where
  "days_in_year y = (if leap y then 366 else 365)"

definition month_lengths :: "nat \<Rightarrow> nat list" where
  "month_lengths y = [31, if leap y then 29 else 28, 31, 30, 31, 30, 31, 31, 30, 31, 30, 31]"

text \<open>The year and the day of the year, counting \<open>d\<close> days from the start of year \<open>y\<close>.\<close>

function find_year :: "nat \<Rightarrow> nat \<Rightarrow> nat \<times> nat" where
  "find_year y d = (if d < days_in_year y then (y, d) else find_year (y + 1) (d - days_in_year y))"
  by pat_completeness auto

termination by (relation "measure snd") (auto simp: days_in_year_def split: if_splits)

declare find_year.simps [simp del]

fun find_month :: "nat list \<Rightarrow> nat \<Rightarrow> nat \<times> nat" where
  "find_month [] d = (0, d)"
| "find_month (l # ls) d =
     (if d < l then (0, d) else let (m, r) = find_month ls (d - l) in (Suc m, r))"

definition gmtime :: "nat \<Rightarrow> tm" where
  "gmtime t =
     (let (y, yday) = find_year 1970 (t div 86400);
          (m, r) = find_month (month_lengths y) yday;
          s = t mod 86400
      in \<lparr>tm_year = y - 1900, tm_mon = m, tm_mday = r + 1, tm_hour = s div 3600,
          tm_min = s mod 3600 div 60, tm_sec = s mod 60\<rparr>)"

definition days_before_year :: "nat \<Rightarrow> nat" where
  "days_before_year y = sum_list (map days_in_year [1970..<y])"

text \<open>\<open>timegm\<close>, for the years from 1970.\<close>

definition timegm :: "tm \<Rightarrow> nat" where
  "timegm t =
     (let y = tm_year t + 1900;
          days = days_before_year y + sum_list (take (tm_mon t) (month_lengths y)) + tm_mday t - 1
      in days * 86400 + tm_hour t * 3600 + tm_min t * 60 + tm_sec t)"

lemma find_year_spec:
  assumes "find_year y d = (y', r)"
  shows "y \<le> y'" "r < days_in_year y'" "sum_list (map days_in_year [y..<y']) + r = d"
proof -
  have "y \<le> y' \<and> r < days_in_year y' \<and> sum_list (map days_in_year [y..<y']) + r = d"
    using assms
  proof (induction y d rule: find_year.induct)
    case (1 y d)
    show ?case
    proof (cases "d < days_in_year y")
      case True
      with 1 show ?thesis by (simp add: find_year.simps [of y d])
    next
      case False
      with 1 have "y + 1 \<le> y'" "r < days_in_year y'"
        "sum_list (map days_in_year [y + 1..<y']) + r = d - days_in_year y"
        by (simp_all add: find_year.simps [of y d])
      with False show ?thesis by (simp add: upt_conv_Cons)
    qed
  qed
  then show "y \<le> y'" "r < days_in_year y'" "sum_list (map days_in_year [y..<y']) + r = d" by simp_all
qed

lemma find_month_spec:
  "d < sum_list ls \<Longrightarrow> find_month ls d = (m, r) \<Longrightarrow>
     m < length ls \<and> r < ls ! m \<and> sum_list (take m ls) + r = d"
proof (induction ls arbitrary: d m r)
  case (Cons l ls)
  show ?case
  proof (cases "d < l")
    case False
    obtain m' r' where f: "find_month ls (d - l) = (m', r')" by fastforce
    with False Cons.prems have "m = Suc m'" "r = r'" "d - l < sum_list ls" by auto
    with Cons.IH [OF this(3) f] False show ?thesis by (simp, linarith)
  qed (use Cons.prems in simp)
qed simp

lemma sum_month_lengths: "sum_list (month_lengths y) = days_in_year y"
  by (simp add: month_lengths_def days_in_year_def)

lemma month_lengths_simps: "length (month_lengths y) = 12" "m < 12 \<Longrightarrow> month_lengths y ! m \<le> 31"
  by (auto simp: month_lengths_def nth_Cons' split: if_splits)

lemma gmtime_parts:
  obtains y m r where "gmtime t = \<lparr>tm_year = y - 1900, tm_mon = m, tm_mday = r + 1,
      tm_hour = t mod 86400 div 3600, tm_min = t mod 86400 mod 3600 div 60, tm_sec = t mod 86400 mod 60\<rparr>"
    "1970 \<le> y" "m < 12" "r < 31" "days_before_year y + sum_list (take m (month_lengths y)) + r = t div 86400"
    "y \<le> 1970 + t div 86400 div 365"
proof -
  obtain y yday where y: "find_year 1970 (t div 86400) = (y, yday)" by fastforce
  obtain m r where m: "find_month (month_lengths y) yday = (m, r)" by fastforce
  note Y = find_year_spec [OF y]
  have "yday < sum_list (month_lengths y)" using Y(2) by (simp add: sum_month_lengths)
  note M = find_month_spec [OF this m]
  have "365 \<le> days_in_year x" for x by (simp add: days_in_year_def)
  then have "365 * (y - 1970) \<le> sum_list (map days_in_year [1970..<y])"
    using sum_list_mono [of "[1970..<y]" "\<lambda>_. 365" days_in_year]
    by (simp add: sum_list_triv mult.commute)
  then have "365 * (y - 1970) \<le> t div 86400" using Y(3) by linarith
  then have "y - 1970 \<le> t div 86400 div 365" by (simp add: less_eq_div_iff_mult_less_eq mult.commute)
  moreover have "m < 12" "r < 31"
    using M month_lengths_simps(1) [of y] month_lengths_simps(2) [of m y] by auto
  ultimately show thesis
    using Y M m y by (intro that [of y m r]) (simp_all add: gmtime_def days_before_year_def Let_def)
qed

lemma timegm_gmtime: "timegm (gmtime t) = t"
proof -
  obtain y m r where g: "gmtime t = \<lparr>tm_year = y - 1900, tm_mon = m, tm_mday = r + 1,
      tm_hour = t mod 86400 div 3600, tm_min = t mod 86400 mod 3600 div 60, tm_sec = t mod 86400 mod 60\<rparr>"
    "1970 \<le> y" "days_before_year y + sum_list (take m (month_lengths y)) + r = t div 86400"
    by (rule gmtime_parts)
  let ?s = "t mod 86400"
  have "timegm (gmtime t) = t div 86400 * 86400 + ?s div 3600 * 3600 + ?s mod 3600 div 60 * 60 + ?s mod 60"
    using g(2,3) by (simp add: g(1) timegm_def Let_def)
  moreover have "?s div 3600 * 3600 + ?s mod 3600 = ?s" "t div 86400 * 86400 + ?s = t"
    "?s mod 3600 div 60 * 60 + ?s mod 3600 mod 60 = ?s mod 3600"
    by (rule div_mult_mod_eq)+
  moreover have "?s mod 3600 mod 60 = ?s mod 60" by (rule mod_mod_cancel) simp
  ultimately show ?thesis by linarith
qed

section \<open>Texts\<close>

text \<open>\<open>%0nd\<close> of a number that is not negative, and reading at most \<open>n\<close> digits.\<close>

definition fmt_digits :: "nat \<Rightarrow> nat \<Rightarrow> string" where
  "fmt_digits n k = pad_left n (CHR ''0'') (show_nat k)"

definition read_digits :: "nat \<Rightarrow> string \<Rightarrow> (nat \<times> string) option" where
  "read_digits n s =
     (let ds = take_digits 10 (take n s)
      in if ds = [] then None else Some (nat_of_digits 10 ds, drop (length ds) s))"

text \<open>\<open>strftime\<close> with \<open>%Y%m%d%H%M%S\<close>; 0 characters are written when the result does not fit.\<close>

definition strftime :: "nat \<Rightarrow> tm \<Rightarrow> string" where
  "strftime max_size t =
     (let s = show_nat (tm_year t + 1900) @ fmt_digits 2 (tm_mon t + 1) @ fmt_digits 2 (tm_mday t)
            @ fmt_digits 2 (tm_hour t) @ fmt_digits 2 (tm_min t) @ fmt_digits 2 (tm_sec t)
      in if length s < max_size then s else '''')"

definition read_field :: "nat \<Rightarrow> nat \<Rightarrow> nat \<Rightarrow> string \<Rightarrow> (nat \<times> string) option" where
  "read_field n lo hi s =
     (case read_digits n s of None \<Rightarrow> None
      | Some (k, rest) \<Rightarrow> if lo \<le> k \<and> k \<le> hi then Some (k, rest) else None)"

text \<open>\<open>strptime\<close> with the same format; when it fails the time is left undefined.\<close>

definition strptime :: "string \<Rightarrow> tm option" where
  "strptime s =
     Option.bind (read_field 4 0 9999 s) (\<lambda>(y, s).
     Option.bind (read_field 2 1 12 s) (\<lambda>(mo, s).
     Option.bind (read_field 2 1 31 s) (\<lambda>(d, s).
     Option.bind (read_field 2 0 23 s) (\<lambda>(h, s).
     Option.bind (read_field 2 0 59 s) (\<lambda>(mi, s).
     map_option (\<lambda>(sec, s). \<lparr>tm_year = y - 1900, tm_mon = mo - 1, tm_mday = d, tm_hour = h,
         tm_min = mi, tm_sec = sec\<rparr>) (read_field 2 0 60 s))))))"

definition DataExportFormatTimestamp :: "nat \<Rightarrow> u64 \<Rightarrow> string" where
  "DataExportFormatTimestamp buffer_size timestamp =
     (let timestamp_ms = timestamp div 1000000;
          timestamp_sec = timestamp_ms div 1000;
          remaining_ms = timestamp_ms mod 1000;
          buffer = strftime buffer_size (gmtime (unat timestamp_sec));
          num = length buffer
      in if 0 < num then buffer @ snprintf (buffer_size - num) (fmt_digits 3 (unat remaining_ms))
         else buffer)"

text \<open>
  The milliseconds are the three characters after the fourteenth. \<open>None\<close> stands for the undefined
  results: a text that is too short, a time that cannot be read.
\<close>

definition atoi :: "string \<Rightarrow> int" where
  "atoi s = (let (neg, t) = skip_sign (dropWhile is_space s); n = int (nat_of_digits 10 (take_digits 10 t))
             in if neg then - n else n)"

definition SendDataConvertTimeToNanoseconds :: "string \<Rightarrow> u64 option" where
  "SendDataConvertTimeToNanoseconds datetime =
     (case strptime datetime of
        None \<Rightarrow> None
      | Some t \<Rightarrow>
          (let rest = dropWhile is_space (drop 14 datetime);
               milliseconds = take 3 (takeWhile (\<lambda>c. \<not> is_space c) rest)
           in if length datetime < 14 \<or> milliseconds = '''' then None
              else Some (of_nat (timegm t) * 1000000000 + word_of_int (atoi milliseconds) * 1000000)))"

section \<open>Round trip\<close>

lemma take_digits_zeros: "take_digits 10 (replicate n (CHR ''0'') @ s) = replicate n 0 @ take_digits 10 s"
  by (induction n) (simp_all add: digit_val_def)

lemma nat_of_digits_zeros: "nat_of_digits b (replicate n 0 @ ds) = nat_of_digits b ds"
  by (induction n) (simp_all add: nat_of_digits_def)

lemma length_take_digits: "\<forall>c \<in> set s. digit_val b c \<noteq> None \<Longrightarrow> length (take_digits b s) = length s"
  by (induction s) auto

lemma fmt_digits_props:
  assumes "0 < n" "k < 10 ^ n"
  shows "length (fmt_digits n k) = n" "\<forall>c \<in> set (fmt_digits n k). digit_val 10 c \<noteq> None"
    and "nat_of_digits 10 (take_digits 10 (fmt_digits n k)) = k"
proof -
  obtain j where n: "n = Suc j" using assms(1) by (cases n) auto
  have "length (show_nat k) \<le> n" using length_show_nat [of k j] assms(2) n by simp
  then show "length (fmt_digits n k) = n" by (simp add: fmt_digits_def pad_left_def)
  show "\<forall>c \<in> set (fmt_digits n k). digit_val 10 c \<noteq> None"
    using show_nat_digits [of k] by (auto simp: fmt_digits_def pad_left_def digit_val_def)
  show "nat_of_digits 10 (take_digits 10 (fmt_digits n k)) = k"
    using show_nat_digits [of k]
    by (simp add: fmt_digits_def pad_left_def take_digits_zeros nat_of_digits_zeros)
qed

lemma read_digits_fmt:
  assumes "0 < n" "k < 10 ^ n"
  shows "read_digits n (fmt_digits n k @ rest) = Some (k, rest)"
proof -
  note F = fmt_digits_props [OF assms]
  have "length (take_digits 10 (fmt_digits n k)) = n" using length_take_digits [OF F(2)] F(1) by simp
  moreover from this assms(1) have "take_digits 10 (fmt_digits n k) \<noteq> []" by auto
  ultimately show ?thesis using F by (simp add: read_digits_def Let_def)
qed

lemma read_field_fmt:
  "0 < n \<Longrightarrow> k < 10 ^ n \<Longrightarrow> lo \<le> k \<Longrightarrow> k \<le> hi \<Longrightarrow>
     read_field n lo hi (fmt_digits n k @ rest) = Some (k, rest)"
  by (simp add: read_field_def read_digits_fmt)

lemma show_nat_fmt:
  assumes "1000 \<le> y" "y < 10000"
  shows "show_nat y = fmt_digits 4 y"
proof -
  have "\<not> y < 10" "\<not> y div 10 < 10" "\<not> y div 10 div 10 < 10" "y div 10 div 10 div 10 < 10"
    using assms by linarith+
  then have "length (show_nat y) = 4"
    by (simp only: show_nat.simps [of y] show_nat.simps [of "y div 10"]
        show_nat.simps [of "y div 10 div 10"] show_nat.simps [of "y div 10 div 10 div 10"]
        if_True if_False length_append list.size)
  then show ?thesis by (simp add: fmt_digits_def pad_left_def)
qed

text \<open>The fields of a time before the year 10000 fit their widths.\<close>

lemma gmtime_fields:
  assumes "t div 86400 div 365 < 8000"
  obtains y mo d h mi s where "gmtime t = \<lparr>tm_year = y - 1900, tm_mon = mo, tm_mday = d, tm_hour = h,
      tm_min = mi, tm_sec = s\<rparr>"
    "1900 \<le> y" "1000 \<le> y" "y < 10000" "mo < 12" "1 \<le> d" "d \<le> 31" "h \<le> 23" "mi \<le> 59" "s \<le> 59"
proof -
  obtain y m r where g: "gmtime t = \<lparr>tm_year = y - 1900, tm_mon = m, tm_mday = r + 1,
      tm_hour = t mod 86400 div 3600, tm_min = t mod 86400 mod 3600 div 60, tm_sec = t mod 86400 mod 60\<rparr>"
    "1970 \<le> y" "m < 12" "r < 31" "y \<le> 1970 + t div 86400 div 365"
    by (rule gmtime_parts)
  have "t mod 86400 < 24 * 3600" by simp
  then have "t mod 86400 div 3600 < 24" by (simp add: less_mult_imp_div_less)
  moreover have "t mod 86400 mod 3600 < 60 * 60" by simp
  then have "t mod 86400 mod 3600 div 60 < 60" by (rule less_mult_imp_div_less)
  moreover have "t mod 86400 mod 60 < 60" by simp
  moreover have "y < 10000" "1000 \<le> y" "1900 \<le> y" using g(2,5) assms by linarith+
  ultimately show thesis using g by (intro that [OF g(1)]) linarith+
qed

definition timestamp_text :: "tm \<Rightarrow> string" where
  "timestamp_text t = fmt_digits 4 (tm_year t + 1900) @ fmt_digits 2 (tm_mon t + 1)
     @ fmt_digits 2 (tm_mday t) @ fmt_digits 2 (tm_hour t) @ fmt_digits 2 (tm_min t)
     @ fmt_digits 2 (tm_sec t)"

lemma timestamp_text_props:
  assumes "t div 86400 div 365 < 8000"
  shows "length (timestamp_text (gmtime t)) = 14"
    and "14 < max_size \<Longrightarrow> strftime max_size (gmtime t) = timestamp_text (gmtime t)"
    and "strptime (timestamp_text (gmtime t) @ rest) = Some (gmtime t)"
proof -
  obtain y mo d h mi s where g: "gmtime t = \<lparr>tm_year = y - 1900, tm_mon = mo, tm_mday = d, tm_hour = h,
      tm_min = mi, tm_sec = s\<rparr>"
    and b: "1900 \<le> y" "1000 \<le> y" "y < 10000" "mo < 12" "1 \<le> d" "d \<le> 31" "h \<le> 23" "mi \<le> 59" "s \<le> 59"
    by (rule gmtime_fields [OF assms])
  have l: "length (fmt_digits 2 k) = 2" if "k < 100" for k
    by (rule fmt_digits_props(1)) (use that in simp_all)
  have l4: "length (fmt_digits 4 y) = 4" by (rule fmt_digits_props(1)) (use b in simp_all)
  show length_text: "length (timestamp_text (gmtime t)) = 14"
    using b l l4 by (simp add: g timestamp_text_def)
  show "strftime max_size (gmtime t) = timestamp_text (gmtime t)" if "14 < max_size"
    using length_text that b show_nat_fmt [of y]
    by (simp add: strftime_def timestamp_text_def g Let_def)
  show "strptime (timestamp_text (gmtime t) @ rest) = Some (gmtime t)"
    using b by (simp add: g timestamp_text_def strptime_def read_field_fmt)
qed

lemma milliseconds_text:
  assumes "k < 1000"
  shows "dropWhile is_space (fmt_digits 3 k) = fmt_digits 3 k"
    and "takeWhile (\<lambda>c. \<not> is_space c) (fmt_digits 3 k) = fmt_digits 3 k"
    and "fmt_digits 3 k \<noteq> ''''" "atoi (fmt_digits 3 k) = int k"
proof -
  have F: "length (fmt_digits 3 k) = 3" "\<forall>c \<in> set (fmt_digits 3 k). digit_val 10 c \<noteq> None"
    "nat_of_digits 10 (take_digits 10 (fmt_digits 3 k)) = k"
    using fmt_digits_props [of 3 k] assms by simp_all
  have d: "\<forall>c \<in> set (fmt_digits 3 k). \<not> is_space c \<and> c \<noteq> CHR ''-'' \<and> c \<noteq> CHR ''+''"
    using F(2) digit_not_blank [of 10] by auto
  then show "dropWhile is_space (fmt_digits 3 k) = fmt_digits 3 k"
    and w: "takeWhile (\<lambda>c. \<not> is_space c) (fmt_digits 3 k) = fmt_digits 3 k"
    by (cases "fmt_digits 3 k"; simp add: takeWhile_eq_all_conv)+
  have w: "dropWhile is_space (fmt_digits 3 k) = fmt_digits 3 k"
    using d by (cases "fmt_digits 3 k") simp_all
  show "fmt_digits 3 k \<noteq> ''''" using F(1) by auto
  have "skip_sign (fmt_digits 3 k) = (False, fmt_digits 3 k)"
    using d by (cases "fmt_digits 3 k") (auto simp: skip_sign_def)
  with w F(3) show "atoi (fmt_digits 3 k) = int k" by (simp add: atoi_def)
qed

lemma ns_of_seconds_ms: "(of_nat ((a * 1000 + b) * 1000000) :: u64) = of_nat a * 1000000000 + of_nat b * 1000000"
  by (simp add: distrib_right mult.assoc)

lemma word_of_int_of_nat: "(word_of_int (int n) :: 'a::len word) = of_nat n"
  by simp

text \<open>The text of a time stamp: the seconds, then three digits of milliseconds.\<close>

lemma timestamp_shape:
  fixes t :: u64
  defines "ms \<equiv> unat t div 1000000"
  shows "ms div 1000 div 86400 div 365 < 8000"
    and "DataExportFormatTimestamp 32 t = timestamp_text (gmtime (ms div 1000)) @ fmt_digits 3 (ms mod 1000)"
proof -
  have u: "unat (t div 1000000) = ms" by (simp add: ms_def unat_div)
  have s: "unat (t div 1000000 div 1000) = ms div 1000" using u by (simp add: unat_div)
  have k: "unat (t div 1000000 mod 1000) = ms mod 1000" using u by (simp add: unat_mod)
  have "unat t < 18446744073709551616" by (rule unat_u64)
  then show y: "ms div 1000 div 86400 div 365 < 8000" unfolding ms_def by linarith
  note T = timestamp_text_props [OF y]
  have "length (fmt_digits 3 (ms mod 1000)) = 3"
    using fmt_digits_props(1) [of 3 "ms mod 1000"] by simp
  then show "DataExportFormatTimestamp 32 t
      = timestamp_text (gmtime (ms div 1000)) @ fmt_digits 3 (ms mod 1000)"
    unfolding DataExportFormatTimestamp_def Let_def s k using T(1) T(2) [of 32]
    by (simp add: snprintf_def)
qed

lemma timestamp_length: "length (DataExportFormatTimestamp 32 t) = 17"
  using timestamp_text_props(1) [OF timestamp_shape(1) [of t]] fmt_digits_props(1) [of 3 "unat t div 1000000 mod 1000"]
  by (simp add: timestamp_shape(2) [of t])

text \<open>C40. A time stamp of any 64-bit number of nanoseconds is a text of 17 characters, and reading it back
  gives the number to the millisecond.\<close>

theorem timestamp_roundtrip:
  "length (DataExportFormatTimestamp 32 t) = 17
   \<and> SendDataConvertTimeToNanoseconds (DataExportFormatTimestamp 32 t) = Some (t div 1000000 * 1000000)"
proof -
  define ms where "ms = unat t div 1000000"
  have u: "unat (t div 1000000) = ms" by (simp add: ms_def unat_div)
  note T = timestamp_text_props [OF timestamp_shape(1) [of t, folded ms_def]]
  let ?text = "timestamp_text (gmtime (ms div 1000))" and ?ms = "fmt_digits 3 (ms mod 1000)"
  have M: "length ?ms = 3" "dropWhile is_space ?ms = ?ms" "takeWhile (\<lambda>c. \<not> is_space c) ?ms = ?ms"
    "?ms \<noteq> ''''" "atoi ?ms = int (ms mod 1000)"
    using fmt_digits_props(1) [of 3 "ms mod 1000"] milliseconds_text [of "ms mod 1000"] by simp_all
  have f: "DataExportFormatTimestamp 32 t = ?text @ ?ms"
    using timestamp_shape(2) [of t] by (simp add: ms_def)
  have "SendDataConvertTimeToNanoseconds (?text @ ?ms)
      = Some (of_nat (ms div 1000) * 1000000000 + word_of_int (int (ms mod 1000)) * 1000000)"
    using T(1,3) M
    by (simp add: SendDataConvertTimeToNanoseconds_def timegm_gmtime Let_def del: takeWhile_eq_all_conv)
  also have "of_nat (ms div 1000) * 1000000000 + word_of_int (int (ms mod 1000)) * 1000000
      = (of_nat ((ms div 1000 * 1000 + ms mod 1000) * 1000000) :: u64)"
    unfolding ns_of_seconds_ms word_of_int_of_nat by (rule refl)
  also have "(ms div 1000 * 1000 + ms mod 1000) * 1000000 = unat (t div 1000000) * 1000000"
    by (simp only: div_mult_mod_eq u)
  also have "(of_nat (unat (t div 1000000) * 1000000) :: u64) = t div 1000000 * 1000000" by simp
  finally show ?thesis using T(1) M(1) by (simp add: f)
qed

end
