(* ===== verification/ProcessFormat.thy ===== *)
theory ProcessFormat
  imports Buffers Timestamps
begin

text \<open>
  \<open>libs/send_data/src/process_format/process_format.cpp\<close>: the encoding of an image
  (\<open>ProcessFormatInput\<close>, with its two formats) and of a message of metadata (\<open>ProcessFormatMeta\<close>).
  An image is in memory of the process or behind a handle of the host's memory manager.
\<close>

section \<open>Images\<close>

datatype MemoryRef = MemoryMap ptr | MemoryFile u32

datatype ProcessFormatResult =
    kProcessFormatResultOk | kProcessFormatResultFailure | kProcessFormatResultInvalidParam
  | kProcessFormatResultMemoryError | kProcessFormatResultOther

record EdgeAppLibImageProperty =
  ip_width :: u32
  ip_height :: u32
  ip_stride_bytes :: u32
  ip_pixel_format :: string

text \<open>
  The outputs \<open>*image\<close> and \<open>*image_size\<close> are results; callers start with 0. A block that could not
  be filled is freed while \<open>*image\<close> keeps its address.
\<close>

definition read_handle :: "'w services \<Rightarrow> u32 \<Rightarrow> ptr \<Rightarrow> nat \<Rightarrow> 'w sys \<Rightarrow> ProcessFormatResult \<times> ptr \<times> int \<times> 'w sys" where
  "read_handle S handle img in_size s =
     (let (mem_err, bs, w) = EsfMemoryManagerPread S handle in_size (world (cx s));
          s = set_world w s
      in if mem_err \<noteq> 0 then (kProcessFormatResultOther, img, 0, free img s)
         else (kProcessFormatResultOk, img, int (length bs), store img bs s))"

definition HandleRawFormat ::
  "'w services \<Rightarrow> MemoryRef \<Rightarrow> u32 \<Rightarrow> 'w sys \<Rightarrow> ProcessFormatResult \<times> ptr \<times> int \<times> 'w sys" where
  "HandleRawFormat S in_data in_size s =
     (let (img, s) = malloc S (unat in_size) s
      in if img = 0 then (kProcessFormatResultOther, 0, 0, s)
         else (case in_data of
             MemoryMap p \<Rightarrow>
               (kProcessFormatResultOk, img, sint in_size,
                case load s p 0 (unat in_size) of None \<Rightarrow> undef s | Some bs \<Rightarrow> store img bs s)
           | MemoryFile handle \<Rightarrow> read_handle S handle img (unat in_size) s))"

definition AITRIOS_SENSOR_PIXEL_FORMAT_RGB24 :: string where
  "AITRIOS_SENSOR_PIXEL_FORMAT_RGB24 = ''image_rgb24''"

definition AITRIOS_SENSOR_PIXEL_FORMAT_RGB8_PLANAR :: string where
  "AITRIOS_SENSOR_PIXEL_FORMAT_RGB8_PLANAR = ''image_rgb8_planar''"

text \<open>\<open>strncmp(a, b, strlen(b)) == 0\<close>\<close>

definition has_prefix :: "string \<Rightarrow> string \<Rightarrow> bool" where
  "has_prefix a b \<longleftrightarrow> take (length b) a = b"

text \<open>The parameters of the encoder and the size of the output buffer, a 32-bit product.\<close>

definition InitializeJpegEncodingParameters ::
  "EdgeAppLibImageProperty option \<Rightarrow> (EsfCodecJpegInfo \<times> u32) option" where
  "InitializeJpegEncodingParameters image_property =
     (case image_property of
        None \<Rightarrow> None
      | Some ip \<Rightarrow>
          (let info = (\<lambda>fmt. \<lparr>input_fmt = fmt, jpeg_width = ip_width ip, jpeg_height = ip_height ip,
                              jpeg_stride = ip_stride_bytes ip, quality = 80\<rparr>)
           in if has_prefix (ip_pixel_format ip) AITRIOS_SENSOR_PIXEL_FORMAT_RGB24
              then Some (info kJpegInputRgbPacked_8, ip_stride_bytes ip * ip_height ip)
              else if has_prefix (ip_pixel_format ip) AITRIOS_SENSOR_PIXEL_FORMAT_RGB8_PLANAR
              then Some (info kJpegInputRgbPlanar_8, ip_stride_bytes ip * ip_height ip * 3)
              else None))"

text \<open>
  Encoding from memory. The encoder reads the whole input, and what it writes has to fit the buffer.
\<close>

definition encode_memory ::
  "'w services \<Rightarrow> ptr \<Rightarrow> EsfCodecJpegInfo \<Rightarrow> u32 \<Rightarrow> 'w sys \<Rightarrow> ProcessFormatResult \<times> ptr \<times> int \<times> 'w sys" where
  "encode_memory S p info output_buf_size s =
     (let (output_adr, s) = malloc S (unat output_buf_size) s
      in if output_adr = 0 then (kProcessFormatResultMemoryError, 0, 0, s)
         else (case load s p 0 (unat output_buf_size) of
             None \<Rightarrow> (kProcessFormatResultOther, 0, 0, undef s)
           | Some input \<Rightarrow>
               (let (jpeg_err, bs, jpeg_size, w) =
                      EsfCodecEncodeJpeg S info input (unat output_buf_size) (world (cx s));
                    s = store output_adr bs (set_world w s)
                in if jpeg_err \<noteq> 0 then (kProcessFormatResultOther, 0, jpeg_size, free output_adr s)
                   else (kProcessFormatResultOk, output_adr, jpeg_size, s))))"

definition encode_handle ::
  "'w services \<Rightarrow> u32 \<Rightarrow> EsfCodecJpegInfo \<Rightarrow> 'w sys \<Rightarrow> ProcessFormatResult \<times> ptr \<times> int \<times> 'w sys" where
  "encode_handle S handle info s =
     (let (jpeg_err, output_handle, jpeg_size, w) = EsfCodecJpegEncodeHandle S handle info (world (cx s));
          s = set_world w s
      in if jpeg_err \<noteq> 0 then (kProcessFormatResultOther, 0, jpeg_size, s)
         else let (img, s) = malloc S (unat (word_of_int jpeg_size :: u32)) s
              in if img = 0 then (kProcessFormatResultOther, 0, jpeg_size, s)
                 else case read_handle S output_handle img (unat (word_of_int jpeg_size :: u32)) s of
                     (res, img, image_size, s) \<Rightarrow>
                       if res \<noteq> kProcessFormatResultOk then (res, img, jpeg_size, s)
                       else let (err, w) = EsfCodecJpegEncodeRelease S output_handle (world (cx s));
                                s = set_world w s
                            in if err \<noteq> 0 then (kProcessFormatResultOther, img, image_size, free img s)
                               else (kProcessFormatResultOk, img, image_size, s))"

definition HandleJpegFormat ::
  "'w services \<Rightarrow> MemoryRef \<Rightarrow> u32 \<Rightarrow> EdgeAppLibImageProperty option \<Rightarrow> 'w sys
     \<Rightarrow> ProcessFormatResult \<times> ptr \<times> int \<times> 'w sys" where
  "HandleJpegFormat S in_data in_size image_property s =
     (if image_property = None \<or> in_data = MemoryMap 0 then (kProcessFormatResultInvalidParam, 0, 0, s)
      else case InitializeJpegEncodingParameters image_property of
          None \<Rightarrow> (kProcessFormatResultInvalidParam, 0, 0, s)
        | Some (info, output_buf_size) \<Rightarrow>
            if in_size < output_buf_size then (kProcessFormatResultMemoryError, 0, 0, s)
            else case in_data of
                MemoryMap p \<Rightarrow> encode_memory S p info output_buf_size s
              | MemoryFile handle \<Rightarrow> encode_handle S handle info s)"

text \<open>\<open>datatype\<close> is the number of the codec: 0 is raw, 1 is JPEG.\<close>

definition ProcessFormatInput ::
  "'w services \<Rightarrow> MemoryRef \<Rightarrow> u32 \<Rightarrow> int \<Rightarrow> EdgeAppLibImageProperty option \<Rightarrow> 'w sys
     \<Rightarrow> ProcessFormatResult \<times> ptr \<times> int \<times> 'w sys" where
  "ProcessFormatInput S in_data in_size datatype_num image_property s =
     (if in_data = MemoryMap 0 then (kProcessFormatResultInvalidParam, 0, 0, s)
      else if datatype_num = 0 then HandleRawFormat S in_data in_size s
      else if datatype_num = 1 then HandleJpegFormat S in_data in_size image_property s
      else (kProcessFormatResultInvalidParam, 0, 0, s))"

section \<open>Metadata\<close>

datatype EdgeAppLibSendDataType = EdgeAppLibSendDataBase64 | EdgeAppLibSendDataJson

text \<open>
  The buffer of a message: the C string in it, the offset at which the code goes on writing (with
  \<open>snprintf\<close> it grows by the length of the whole text, also when the text was cut), and whether
  something was written past the end. \<open>buffer_size - offset\<close> is unsigned.
\<close>

record json_buffer =
  jb_text :: string
  jb_offset :: nat
  jb_overrun :: bool

definition buf_printf :: "nat \<Rightarrow> string \<Rightarrow> json_buffer \<Rightarrow> json_buffer" where
  "buf_printf n out b =
     b\<lparr>jb_text := jb_text b @ take (n - jb_offset b - 1) out, jb_offset := jb_offset b + length out,
       jb_overrun := jb_overrun b \<or> n < jb_offset b\<rparr>"

text \<open>\<open>b64_encode\<close> into the buffer: the text and its terminating NUL, whatever room there is.\<close>

definition buf_b64 :: "nat \<Rightarrow> string \<Rightarrow> json_buffer \<Rightarrow> json_buffer" where
  "buf_b64 n enc b =
     b\<lparr>jb_text := take (jb_offset b) (jb_text b) @ enc, jb_offset := jb_offset b + length enc,
       jb_overrun := jb_overrun b \<or> n < jb_offset b + length enc + 1\<rparr>"

definition AITRIOS_SENSOR_INFO_STRING_SENSOR_NAME :: u32 where
  "AITRIOS_SENSOR_INFO_STRING_SENSOR_NAME = 0"
definition AITRIOS_SENSOR_INFO_STRING_AI_MODEL_VERSION :: u32 where
  "AITRIOS_SENSOR_INFO_STRING_AI_MODEL_VERSION = 0x00010002"
definition AITRIOS_SENSOR_INFO_STRING_AIISP_AI_MODEL_VERSION :: u32 where
  "AITRIOS_SENSOR_INFO_STRING_AIISP_AI_MODEL_VERSION = 0x80000104"

text \<open>\<open>SensorStreamGetProperty\<close> with \<open>AITRIOS_SENSOR_INFO_STRING_PROPERTY_KEY\<close>\<close>

definition get_info_string :: "'w services \<Rightarrow> u32 \<Rightarrow> 'w sys \<Rightarrow> int \<times> string \<times> 'w sys" where
  "get_info_string S category s =
     (if sensor_stream (cx s) = 0 then (-1, '''', s)
      else let (ret, info, w) = sensor_info_string S (sensor_stream (cx s)) category (world (cx s))
           in (ret, info, set_world w s))"

definition version_category :: "string \<Rightarrow> u32" where
  "version_category sensor_name =
     (if has_prefix sensor_name ''IMX500'' then AITRIOS_SENSOR_INFO_STRING_AI_MODEL_VERSION
      else if has_prefix sensor_name ''AI-ISP'' then AITRIOS_SENSOR_INFO_STRING_AIISP_AI_MODEL_VERSION
      else 0)"

definition get_device_id :: "'w services \<Rightarrow> 'w sys \<Rightarrow> string \<times> 'w sys" where
  "get_device_id S s =
     (let (ret, device_id, w) = EsfSystemGetDeviceID S (world (cx s))
      in (if ret \<noteq> 0 then ''000000000000000'' else device_id, set_world w s))"

text \<open>
  \<open>json_object_get_boolean\<close> gives -1 for a member that is not a boolean, and -1 counts as true.
\<close>

definition image_flag :: "'w env \<Rightarrow> 'w sys \<Rightarrow> bool" where
  "image_flag E s =
     (let port_setting = Some (ps_input_tensor (getPortSettings (cx s)))
      in json_object_has_value E port_setting ''enabled''
         \<and> json_object_get_boolean E port_setting ''enabled'' \<noteq> 0)"

definition meta_head :: "nat \<Rightarrow> string \<Rightarrow> string \<Rightarrow> bool \<Rightarrow> u64 \<Rightarrow> json_buffer" where
  "meta_head n model_id device_id image_flg timestamp =
     (let b = \<lparr>jb_text = '''', jb_offset = 0, jb_overrun = False\<rparr>;
          b = buf_printf n (''{\"ModelID\":\"'' @ model_id @ ''\",'') b;
          b = buf_printf n (''\"DeviceID\":\"'' @ device_id @ ''\",'') b;
          b = buf_printf n (if image_flg then ''\"Image\":true,'' else ''\"Image\":false,'') b
      in buf_printf n (''\"Inferences\":[{\"T\":\"'' @ DataExportFormatTimestamp 32 timestamp @ ''\",'') b)"

definition finish_meta :: "nat \<Rightarrow> string \<Rightarrow> json_buffer \<Rightarrow> ProcessFormatResult \<times> json_buffer" where
  "finish_meta n out b =
     (if n \<le> jb_offset b + length out then (kProcessFormatResultMemoryError, buf_printf n out b)
      else (kProcessFormatResultOk, buf_printf n out b))"

definition meta_body ::
  "'w env \<Rightarrow> nat \<Rightarrow> EdgeAppLibSendDataType \<Rightarrow> u8 list \<Rightarrow> string \<Rightarrow> json_buffer
     \<Rightarrow> ProcessFormatResult \<times> json_buffer" where
  "meta_body E n datatyp in_data json_text b =
     (case datatyp of
        EdgeAppLibSendDataBase64 \<Rightarrow>
          (let b = buf_printf n ''\"O\":\"'' b; b = buf_b64 n (b64_encode E in_data) b
           in finish_meta n ''\",\"F\":0}]}'' b)
      | EdgeAppLibSendDataJson \<Rightarrow> finish_meta n (''\"O\":'' @ json_text @ '',\"F\":1}]}'') b)"

text \<open>
  \<open>ProcessFormatMeta\<close> over the data of \<open>in_size\<close> bytes at \<open>in_data\<close>; the message is the result. As
  \<open>Json\<close>, the data is read as a C string.
\<close>

definition ProcessFormatMeta ::
  "'w env \<Rightarrow> 'w services \<Rightarrow> ptr \<Rightarrow> nat \<Rightarrow> EdgeAppLibSendDataType \<Rightarrow> u64 \<Rightarrow> nat \<Rightarrow> 'w sys
     \<Rightarrow> ProcessFormatResult \<times> string \<times> 'w sys" where
  "ProcessFormatMeta E S in_data in_size datatyp timestamp buffer_size s =
     (let (ret, sensor_name, s) = get_info_string S AITRIOS_SENSOR_INFO_STRING_SENSOR_NAME s
      in if ret \<noteq> 0 then (kProcessFormatResultFailure, '''', s)
         else let (ret, model_id, s) = get_info_string S (version_category sensor_name) s
         in if ret \<noteq> 0 then (kProcessFormatResultFailure, '''', s)
         else let (device_id, s) = get_device_id S s;
                  b = meta_head buffer_size model_id device_id (image_flag E s) timestamp;
                  bytes = load s in_data 0 in_size; text = c_string s in_data
         in if (datatyp = EdgeAppLibSendDataBase64 \<and> bytes = None)
               \<or> (datatyp = EdgeAppLibSendDataJson \<and> text = None)
            then (kProcessFormatResultOther, '''', undef s)
            else let (res, b) = meta_body E buffer_size datatyp (the bytes) (the text) b
                 in (res, jb_text b, if jb_overrun b then undef s else s))"

end
