(* ===== verification/SendData.thy ===== *)
theory SendData
  imports ProcessFormat
begin

text \<open>
  The sending side of \<open>libs/send_data/src/data_export/src/data_export.cpp\<close>: the callback that hands
  out the bytes of a blob, the creation of a future and \<open>DataExportSendData\<close>, with the name of the
  file and the request it makes, and \<open>DataExportAwait\<close>, in which the thread of the application
  sleeps while the main thread processes events.
\<close>

section \<open>blob_io_cb\<close>

datatype EVP_BLOB_IO_RESULT = EVP_BLOB_IO_RESULT_SUCCESS | EVP_BLOB_IO_RESULT_ERROR

definition MODULE_VARS_IDENTIFIER :: u32 where "MODULE_VARS_IDENTIFIER = 0x12345678"

text \<open>
  The agent asks for the next \<open>buflen\<close> bytes; they are the second result. The check before the copy
  compares the offset with the size, not the end of the block.
\<close>

definition blob_io_cb :: "ptr \<Rightarrow> nat \<Rightarrow> 'w sys \<Rightarrow> EVP_BLOB_IO_RESULT \<times> u8 list \<times> 'w sys" where
  "blob_io_cb mv buflen s =
     (if mv = 0 then (EVP_BLOB_IO_RESULT_ERROR, [], s)
      else case module_vars s mv of
          None \<Rightarrow> (EVP_BLOB_IO_RESULT_ERROR, [], undef s)
        | Some m \<Rightarrow>
            if mv_identifier m \<noteq> MODULE_VARS_IDENTIFIER then (EVP_BLOB_IO_RESULT_ERROR, [], s)
            else if blob_buff_size m < blob_buff_offset m then (EVP_BLOB_IO_RESULT_ERROR, [], s)
            else (let s' = s\<lparr>module_vars := (module_vars s)(mv \<mapsto>
                             m\<lparr>blob_buff_offset := blob_buff_offset m + int buflen\<rparr>)\<rparr>
                  in case load s (mv_blob_buff m) (nat (blob_buff_offset m)) buflen of
                      None \<Rightarrow> (EVP_BLOB_IO_RESULT_SUCCESS, [], undef s')
                    | Some bs \<Rightarrow> (EVP_BLOB_IO_RESULT_SUCCESS, bs, s')))"

text \<open>The requests of one transfer, one after the other.\<close>

fun blob_transfer :: "ptr \<Rightarrow> nat list \<Rightarrow> 'w sys \<Rightarrow> EVP_BLOB_IO_RESULT list \<times> u8 list \<times> 'w sys" where
  "blob_transfer mv [] s = ([], [], s)"
| "blob_transfer mv (n # ns) s =
     (let (r, bs, s) = blob_io_cb mv n s; (rs, bss, s) = blob_transfer mv ns s in (r # rs, bs @ bss, s))"

section \<open>Futures\<close>

text \<open>
  The future is a block of \<open>sizeof_future\<close> bytes with its \<open>module_vars\<close> inside; the two numbers stand
  for what the compiler chooses.
\<close>

definition sizeof_future :: nat where "sizeof_future = 128"
definition offsetof_module_vars :: nat where "offsetof_module_vars = 80"

definition InitializeFuture :: "'w services \<Rightarrow> 'w sys \<Rightarrow> ptr \<times> 'w sys" where
  "InitializeFuture S s =
     (let (future, s) = malloc S sizeof_future s
      in if future = 0 then (0, s)
         else (future, on_cx (upd_future future (Some \<lparr>fut_result = EdgeAppLibDataExportResultUninitialized,
                 is_processed = False, is_cleanup_requested = False, is_cleanup_sent_data = False,
                 blob_buff = 0\<rparr>)) s))"

section \<open>The name of a file\<close>

datatype EdgeAppLibDataExportDataType = EdgeAppLibDataExportRaw | EdgeAppLibDataExportMetadata

definition codec_number :: "'w env \<Rightarrow> 'w sys \<Rightarrow> int" where
  "codec_number E s = cast_i32 (undef_conv E) (json_object_get_number E (Some (getCodecSettings (cx s))) ''format'')"

definition DataExportFileSuffix :: "'w env \<Rightarrow> nat \<Rightarrow> EdgeAppLibDataExportDataType \<Rightarrow> 'w sys \<Rightarrow> string" where
  "DataExportFileSuffix E buffer_size datatyp s =
     (let extension =
        (case datatyp of
           EdgeAppLibDataExportRaw \<Rightarrow>
             (let n = codec_number E s
              in if n = 0 then Some ''bin'' else if n = 1 then Some ''jpg''
                 else if n = 2 then Some ''bmp'' else None)
         | EdgeAppLibDataExportMetadata \<Rightarrow> Some ''txt'')
      in case extension of None \<Rightarrow> '''' | Some e \<Rightarrow> snprintf buffer_size (''.'' @ e))"

text \<open>
  The name, and whether it overruns the array \<open>filename[32]\<close>: \<open>strncat\<close> is given the length of
  what it appends, which bounds nothing.
\<close>

definition subframe_text :: "u32 \<Rightarrow> u32 \<Rightarrow> string" where
  "subframe_text current division =
     (if 2 \<le> current \<and> 1 < division
      then snprintf 64 (''_'' @ show_nat (unat current) @ ''_of_'' @ show_nat (unat division)) else '''')"

definition blob_filename ::
  "'w env \<Rightarrow> EdgeAppLibDataExportDataType \<Rightarrow> u64 \<Rightarrow> u32 \<Rightarrow> u32 \<Rightarrow> 'w sys \<Rightarrow> string \<times> bool" where
  "blob_filename E datatyp timestamp current division s =
     (let filename = DataExportFormatTimestamp 32 timestamp @ subframe_text current division
                       @ DataExportFileSuffix E 10 datatyp s
      in (filename, 32 \<le> length filename))"

section \<open>DataExportSendData\<close>

datatype METHOD = METHOD_MQTT | METHOD_BLOB_STORAGE | METHOD_HTTP_STORAGE

definition METHOD_of_int :: "int \<Rightarrow> METHOD option" where
  "METHOD_of_int n = (if n = 0 then Some METHOD_MQTT else if n = 1 then Some METHOD_BLOB_STORAGE
     else if n = 2 then Some METHOD_HTTP_STORAGE else None)"

definition port_setting_of :: "EdgeAppLibDataExportDataType \<Rightarrow> 'w sys \<Rightarrow> jobj" where
  "port_setting_of datatyp s =
     (case datatyp of EdgeAppLibDataExportRaw \<Rightarrow> ps_input_tensor (getPortSettings (cx s))
      | EdgeAppLibDataExportMetadata \<Rightarrow> ps_metadata (getPortSettings (cx s)))"

text \<open>Without a method in the settings the variable is used uninitialised.\<close>

definition send_method :: "'w env \<Rightarrow> 'w services \<Rightarrow> EdgeAppLibDataExportDataType \<Rightarrow> 'w sys \<Rightarrow> METHOD option \<times> 'w sys" where
  "send_method E S datatyp s =
     (let port_setting = Some (port_setting_of datatyp s)
      in if json_object_has_value E port_setting ''method''
         then (METHOD_of_int (cast_i32 (undef_conv E) (json_object_get_number E port_setting ''method'')), s)
         else (METHOD_of_int (uninitialised S s), undef s))"

text \<open>A string printed with \<open>%s\<close>; NULL is undefined and prints as in glibc.\<close>

definition printed :: "string option \<Rightarrow> string" where
  "printed t = (case t of None \<Rightarrow> ''(null)'' | Some x \<Rightarrow> x)"

definition undef_if :: "bool \<Rightarrow> 'w sys \<Rightarrow> 'w sys" where
  "undef_if b s = (if b then undef s else s)"

text \<open>A member of the port settings that may be missing.\<close>

definition port_string :: "'w env \<Rightarrow> EdgeAppLibDataExportDataType \<Rightarrow> string \<Rightarrow> 'w sys \<Rightarrow> string option" where
  "port_string E datatyp k s =
     (let port_setting = Some (port_setting_of datatyp s)
      in if json_object_has_value E port_setting k then json_object_get_string E port_setting k else None)"

definition blob_request ::
  "'w env \<Rightarrow> METHOD \<Rightarrow> EdgeAppLibDataExportDataType \<Rightarrow> string \<Rightarrow> 'w sys \<Rightarrow> EVP_BlobRequest \<times> 'w sys" where
  "blob_request E method datatyp filename s =
     (let path = port_string E datatyp ''path'' s
      in if method = METHOD_HTTP_STORAGE
         then (let endpoint = port_string E datatyp ''endpoint'' s
               in (EVP_BlobRequestHttp
                     (snprintf 420 (printed endpoint @ ''/'' @ printed path @ ''/'' @ filename)),
                   undef_if (endpoint = None \<or> path = None) s))
         else (EVP_BlobRequestEvpExt (snprintf 420 (printed path @ ''/'' @ filename))
                 (port_string E datatyp ''storage_name'' s),
               undef_if (path = None) s))"

definition send_blob ::
  "'w env \<Rightarrow> 'w services \<Rightarrow> METHOD \<Rightarrow> EdgeAppLibDataExportDataType \<Rightarrow> u64 \<Rightarrow> u32 \<Rightarrow> u32 \<Rightarrow> ptr \<Rightarrow> 'w sys
     \<Rightarrow> EVP_RESULT \<times> 'w sys" where
  "send_blob E S method datatyp timestamp current division mv s =
     (let (filename, overrun) = blob_filename E datatyp timestamp current division s;
          (request, s) = blob_request E method datatyp filename (undef_if overrun s);
          (result, w) = EVP_blobOperation S request mv (world (cx s))
      in (result, set_world w s))"

text \<open>The value of a telemetry entry is a C string.\<close>

definition send_telemetry :: "'w services \<Rightarrow> ptr \<Rightarrow> ptr \<Rightarrow> 'w sys \<Rightarrow> EVP_RESULT \<times> 'w sys" where
  "send_telemetry S data mv s =
     (case c_string s data of
        None \<Rightarrow> (EVP_ERROR, undef s)
      | Some t \<Rightarrow> (let (result, w) = EVP_sendTelemetry S ''placeholder'' (bytes_of t) mv (world (cx s))
                   in (result, set_world w s)))"

definition invalid_method_json :: string where
  "invalid_method_json = ''{\"res_info\": {\"res_id\":\"\",\"code\": 3,\"detail_msg\":\"An invalid argument was specified.\"}}''"

definition start_operation ::
  "'w env \<Rightarrow> 'w services \<Rightarrow> EdgeAppLibDataExportDataType \<Rightarrow> ptr \<Rightarrow> u64 \<Rightarrow> u32 \<Rightarrow> u32 \<Rightarrow> ptr \<Rightarrow> 'w sys
     \<Rightarrow> EVP_RESULT \<times> 'w sys" where
  "start_operation E S datatyp data timestamp current division mv s =
     (case send_method E S datatyp s of
        (None, s) \<Rightarrow> (EVP_ERROR, on_cx (DataExportSendState E invalid_method_json) s)
      | (Some METHOD_MQTT, s) \<Rightarrow> send_telemetry S data mv s
      | (Some m, s) \<Rightarrow> send_blob E S m datatyp timestamp current division mv s)"

text \<open>
  The part before the future: images given with their properties are encoded. The results are
  whether to go on, the data, its length, and whether the data is the encoder's.
\<close>

definition encode_input ::
  "'w env \<Rightarrow> 'w services \<Rightarrow> EdgeAppLibDataExportDataType \<Rightarrow> ptr \<Rightarrow> int \<Rightarrow> EdgeAppLibImageProperty option
     \<Rightarrow> 'w sys \<Rightarrow> bool \<times> ptr \<times> int \<times> bool \<times> 'w sys" where
  "encode_input E S datatyp data datalen image_property s =
     (case image_property of
        None \<Rightarrow> (True, data, datalen, False, s)
      | Some ip \<Rightarrow>
          if datatyp = EdgeAppLibDataExportRaw \<and> 0 < datalen
             \<and> ip_stride_bytes ip * ip_height ip \<le> word_of_int datalen
          then (case ProcessFormatInput S (MemoryMap data) (word_of_int datalen) (codec_number E s)
                       image_property s of
                  (ret, codec_buffer, codec_size, s) \<Rightarrow>
                    if ret \<noteq> kProcessFormatResultOk then (False, 0, 0, False, free codec_buffer s)
                    else (True, codec_buffer, codec_size, True, s))
          else (True, data, datalen, False, s))"

definition send_failed :: "ptr \<Rightarrow> ptr \<Rightarrow> bool \<Rightarrow> ptr \<Rightarrow> 'w sys \<Rightarrow> 'w sys" where
  "send_failed future processed_data needs_cleanup data s =
     (let mv = future + offsetof_module_vars;
          s = on_cx (\<lambda>c. case futures c future of
                None \<Rightarrow> undefined_step c
              | Some f \<Rightarrow> (upd_future future (Some (f\<lparr>is_processed := True,
                             fut_result := EdgeAppLibDataExportResultFailure\<rparr>)) c)
                          \<lparr>map_vec := snd (map_pop mv (map_vec c))\<rparr>) s
      in if needs_cleanup \<and> processed_data \<noteq> data then free processed_data s else s)"

definition enqueue ::
  "'w env \<Rightarrow> 'w services \<Rightarrow> EdgeAppLibDataExportDataType \<Rightarrow> ptr \<Rightarrow> int \<Rightarrow> bool \<Rightarrow> ptr \<Rightarrow> u64 \<Rightarrow> u32 \<Rightarrow> u32
     \<Rightarrow> 'w sys \<Rightarrow> ptr \<times> 'w sys" where
  "enqueue E S datatyp processed_data processed_datalen needs_cleanup data timestamp current division s =
     (let (future, s) = InitializeFuture S s;
          mv = future + offsetof_module_vars;
          f = \<lparr>fut_result = EdgeAppLibDataExportResultEnqueued, is_processed = False,
               is_cleanup_requested = False,
               is_cleanup_sent_data = (datatyp \<noteq> EdgeAppLibDataExportMetadata \<or> needs_cleanup),
               blob_buff = processed_data\<rparr>
      in if future = 0 then (0, s)
         else let (m, is_set) = map_set mv future (map_vec (cx s)); s = on_cx (\<lambda>c. c\<lparr>map_vec := m\<rparr>) s
         in if is_set = -1
            then (future, on_cx (upd_future future (Some (f\<lparr>is_processed := True,
                            fut_result := EdgeAppLibDataExportResultDenied\<rparr>))) s)
            else let s = on_cx (upd_future future (Some f)) s;
                     s = s\<lparr>module_vars := (module_vars s)(mv \<mapsto>
                           \<lparr>mv_blob_buff = processed_data, blob_buff_size = processed_datalen,
                            blob_buff_offset = 0, mv_identifier = MODULE_VARS_IDENTIFIER,
                            blob_len = processed_datalen\<rparr>)\<rparr>;
                     (result, s) = start_operation E S datatyp processed_data timestamp current division mv s
                 in (future, if result \<noteq> EVP_OK then send_failed future processed_data needs_cleanup data s
                             else s))"

definition DataExportSendData ::
  "'w env \<Rightarrow> 'w services \<Rightarrow> EdgeAppLibDataExportDataType \<Rightarrow> ptr \<Rightarrow> int \<Rightarrow> u64 \<Rightarrow> u32 \<Rightarrow> u32
     \<Rightarrow> EdgeAppLibImageProperty option \<Rightarrow> 'w sys \<Rightarrow> ptr \<times> 'w sys" where
  "DataExportSendData E S datatyp data datalen timestamp current division image_property s =
     (if \<not> DataExportIsEnabled E (datatyp = EdgeAppLibDataExportRaw) (cx s)
      then (0, if datatyp = EdgeAppLibDataExportRaw then free data s else s)
      else case encode_input E S datatyp data datalen image_property s of
          (go_on, processed_data, processed_datalen, needs_cleanup, s) \<Rightarrow>
            if \<not> go_on then (0, s)
            else enqueue E S datatyp processed_data processed_datalen needs_cleanup data timestamp
                   current division s)"

section \<open>DataExportAwait\<close>

text \<open>
  The timeout is replaced by -1, so the loop ends only when an event completes the operation: each
  turn of the loop is a turn of the main thread's \<open>EVP_processEvent\<close>. \<open>None\<close> is a wait that never
  ends. A null or freed future is dereferenced.
\<close>

partial_function (option) await_loop ::
  "'w env \<Rightarrow> ptr \<Rightarrow> 'w ctx \<Rightarrow> (EdgeAppLibDataExportResult \<times> 'w ctx) option" where
  "await_loop E p c =
     (case futures c p of
        None \<Rightarrow> Some (EdgeAppLibDataExportResultFailure, undefined_step c)
      | Some f \<Rightarrow>
          if fut_result f = EdgeAppLibDataExportResultEnqueued then await_loop E p (snd (processEvent E c))
          else Some (fut_result f, c))"

declare await_loop.simps [code]

definition DataExportAwait ::
  "'w env \<Rightarrow> ptr \<Rightarrow> int \<Rightarrow> 'w sys \<Rightarrow> (EdgeAppLibDataExportResult \<times> 'w sys) option" where
  "DataExportAwait E future timeout_ms s =
     map_option (\<lambda>(res, c). (res, s\<lparr>cx := c\<rparr>)) (await_loop E future (cx s))"

end
