(* ===== verification/SendDataSync.thy ===== *)
theory SendDataSync
  imports SendData
begin

text \<open>
  \<open>libs/send_data/src/send_data.cpp\<close>: sending an image or a message and waiting for the result, and
  the queue that collects the inferences of a model until a message has the number the settings ask
  for. A result of \<open>None\<close> is a wait that never ends.
\<close>

datatype EdgeAppLibSendDataResult =
    EdgeAppLibSendDataResultSuccess | EdgeAppLibSendDataResultFailure
  | EdgeAppLibSendDataResultTimeout | EdgeAppLibSendDataResultInvalidParam
  | EdgeAppLibSendDataResultDataTooLarge | EdgeAppLibSendDataResultDenied
  | EdgeAppLibSendDataResultEnqueued | EdgeAppLibSendDataResultUninitialized

section \<open>SendDataSyncImage\<close>

text \<open>\<open>DataExportAwait\<close> and \<open>DataExportCleanup\<close> of a future that was just made, or of the null pointer.\<close>

definition await_and_cleanup ::
  "'w env \<Rightarrow> ptr \<Rightarrow> int \<Rightarrow> 'w sys \<Rightarrow> (EdgeAppLibSendDataResult \<times> 'w sys) option" where
  "await_and_cleanup E future timeout_ms s =
     (case DataExportAwait E future timeout_ms s of
        None \<Rightarrow> None
      | Some (send_ret, s) \<Rightarrow>
          Some (if send_ret = EdgeAppLibDataExportResultSuccess then EdgeAppLibSendDataResultSuccess
                else EdgeAppLibSendDataResultFailure,
                on_cx (DataExportCleanup future) s))"

definition SendDataSyncImage ::
  "'w env \<Rightarrow> 'w services \<Rightarrow> ptr \<Rightarrow> int \<Rightarrow> EdgeAppLibImageProperty option \<Rightarrow> u64 \<Rightarrow> int \<Rightarrow> u32 \<Rightarrow> u32
     \<Rightarrow> 'w sys \<Rightarrow> (EdgeAppLibSendDataResult \<times> 'w sys) option" where
  "SendDataSyncImage E S data datalen image_property timestamp timeout_ms current division s =
     (case image_property of
        None \<Rightarrow> Some (EdgeAppLibSendDataResultInvalidParam, s)
      | Some ip \<Rightarrow>
          if data = 0 then Some (EdgeAppLibSendDataResultInvalidParam, s)
          else if 0 < datalen \<and> word_of_int datalen < ip_stride_bytes ip * ip_height ip
          then (let (future, s) = DataExportSendData E S EdgeAppLibDataExportRaw data datalen timestamp
                                    current division None s
                in await_and_cleanup E future timeout_ms s)
          else (case ProcessFormatInput S (MemoryMap data) (word_of_int datalen) (codec_number E s)
                       image_property s of
                  (ret, codec_buffer, codec_size, s) \<Rightarrow>
                    if ret \<noteq> kProcessFormatResultOk
                    then Some (EdgeAppLibSendDataResultFailure, free codec_buffer s)
                    else (let (future, s) = DataExportSendData E S EdgeAppLibDataExportRaw codec_buffer
                                              codec_size timestamp current division None s
                          in await_and_cleanup E future timeout_ms s)))"

section \<open>The queue of inferences\<close>

definition MAX_NUMBER_OF_INFERENCE_QUEUE :: nat where "MAX_NUMBER_OF_INFERENCE_QUEUE = 100"

definition json_value_get_object :: "json option \<Rightarrow> jobj option" where
  "json_value_get_object v = Option.bind v json_as_object"

text \<open>
  \<open>json_array_append_value\<close> to the inferences of a queued message; what is missing is NULL, which
  leaves the message as it is.
\<close>

definition append_inference :: "'w env \<Rightarrow> json option \<Rightarrow> json option \<Rightarrow> json option" where
  "append_inference E queued val =
     (case (json_value_get_object queued,
            json_object_get_array E (json_value_get_object queued) ''Inferences'',
            json_object_get_array E (json_value_get_object val) ''Inferences'') of
        (Some obj, Some infs, Some (inf_first # _)) \<Rightarrow>
          Some (JObject (json_object_set_value E obj ''Inferences'' (JArray (infs @ [inf_first]))))
      | _ \<Rightarrow> queued)"

fun append_loop ::
  "'w env \<Rightarrow> string option \<Rightarrow> json option \<Rightarrow> (string option \<times> json option) list
     \<Rightarrow> (string option \<times> json option) list \<times> bool \<times> bool" where
  "append_loop E key val [] = ([], False, False)"
| "append_loop E key val ((k, v) # vec) =
     (if k = None then ((key, val) # vec, True, False)
      else if key = None then ((k, v) # vec, False, True)
      else if k = key then ((k, append_inference E v val) # vec, True, False)
      else let (vec', is_set, ub) = append_loop E key val vec in ((k, v) # vec', is_set, ub))"

text \<open>\<open>strcmp\<close> with a null key is undefined.\<close>

definition SendDataAppendOutputTensor ::
  "'w env \<Rightarrow> string option \<Rightarrow> json option \<Rightarrow> 'w sys \<Rightarrow> EdgeAppLibSendDataResult \<times> 'w sys" where
  "SendDataAppendOutputTensor E key val s =
     (let (vec, is_set, ub) = append_loop E key val (output_tensor_vec s)
      in (if is_set then EdgeAppLibSendDataResultSuccess else EdgeAppLibSendDataResultDataTooLarge,
          undef_if ub (s\<lparr>output_tensor_vec := vec\<rparr>)))"

section \<open>SendDataSyncMeta\<close>

text \<open>A C string in a fresh block, as \<open>json_serialize_to_string\<close> makes it.\<close>

definition new_string :: "'w services \<Rightarrow> string \<Rightarrow> 'w sys \<Rightarrow> ptr \<times> 'w sys" where
  "new_string S t s =
     (let (p, s) = malloc S (length t + 1) s
      in (p, if p = 0 then s else store p (bytes_of t @ [0]) s))"

text \<open>One message of the queue: the time stamp of its first inference names the file.\<close>

definition first_timestamp :: "'w env \<Rightarrow> json option \<Rightarrow> u64 option" where
  "first_timestamp E val =
     (let first_inf = Option.bind (json_object_get_array E (json_value_get_object val) ''Inferences'')
                        (\<lambda>xs. case xs of [] \<Rightarrow> None | x # _ \<Rightarrow> json_as_object x)
      in Option.bind (json_object_get_string E first_inf ''T'') SendDataConvertTimeToNanoseconds)"

definition send_message ::
  "'w env \<Rightarrow> 'w services \<Rightarrow> json option \<Rightarrow> int \<Rightarrow> 'w sys \<Rightarrow> (EdgeAppLibSendDataResult \<times> 'w sys) option" where
  "send_message E S val timeout_ms s =
     (let ts = first_timestamp E val; s = undef_if (ts = None) s
      in case json_serialize_to_string E val of
          None \<Rightarrow> Some (EdgeAppLibSendDataResultFailure, undef s)
        | Some t \<Rightarrow>
            let (send_buffer, s) = new_string S t s;
                s = undef_if (send_buffer = 0) s;
                (future, s) = DataExportSendData E S EdgeAppLibDataExportMetadata send_buffer
                                (int (length t)) (case ts of None \<Rightarrow> 0 | Some n \<Rightarrow> n) 1 1 None s
            in map_option (\<lambda>(r, s). (r, free send_buffer s)) (await_and_cleanup E future timeout_ms s))"

text \<open>The loop over the queue: it stops at the first empty element and empties what it sent.\<close>

fun send_queue ::
  "'w env \<Rightarrow> 'w services \<Rightarrow> int \<Rightarrow> nat \<Rightarrow> EdgeAppLibSendDataResult \<Rightarrow> (string option \<times> json option) list
     \<Rightarrow> 'w sys \<Rightarrow> (EdgeAppLibSendDataResult \<times> 'w sys) option" where
  "send_queue E S timeout_ms i send_ret [] s = Some (send_ret, s)"
| "send_queue E S timeout_ms i send_ret ((k, v) # vec) s =
     (if k = None then Some (send_ret, s)
      else case send_message E S v timeout_ms s of
          None \<Rightarrow> None
        | Some (r, s) \<Rightarrow>
            send_queue E S timeout_ms (i + 1)
              (if r = EdgeAppLibSendDataResultSuccess then send_ret else EdgeAppLibSendDataResultFailure)
              vec (s\<lparr>output_tensor_vec := (output_tensor_vec s)[i := (None, None)]\<rparr>))"

definition meta_buffer_size :: "int \<Rightarrow> nat" where
  "meta_buffer_size datalen = nat ((datalen + 2) div 3 * 4 + 256)"

definition queue_message ::
  "'w env \<Rightarrow> 'w services \<Rightarrow> string \<Rightarrow> int \<Rightarrow> 'w sys \<Rightarrow> (EdgeAppLibSendDataResult \<times> 'w sys) option" where
  "queue_message E S message timeout_ms s =
     (let output_tensor_value = json_parse_string E message;
          model_id = json_object_get_string E (json_value_get_object output_tensor_value) ''ModelID'';
          (res, s) = SendDataAppendOutputTensor E model_id output_tensor_value s
      in if res \<noteq> EdgeAppLibSendDataResultSuccess then Some (EdgeAppLibSendDataResultFailure, s)
         else if inf_cnt s < getNumOfInfPerMsg (cx s)
         then Some (EdgeAppLibSendDataResultEnqueued, s\<lparr>inf_cnt := inf_cnt s + 1\<rparr>)
         else map_option (\<lambda>(r, s). (r, s\<lparr>inf_cnt := 1\<rparr>))
                (send_queue E S timeout_ms 0 EdgeAppLibSendDataResultSuccess (output_tensor_vec s) s))"

definition SendDataSyncMeta ::
  "'w env \<Rightarrow> 'w services \<Rightarrow> ptr \<Rightarrow> int \<Rightarrow> EdgeAppLibSendDataType \<Rightarrow> u64 \<Rightarrow> int \<Rightarrow> 'w sys
     \<Rightarrow> (EdgeAppLibSendDataResult \<times> 'w sys) option" where
  "SendDataSyncMeta E S data datalen datatyp timestamp timeout_ms s =
     (if data = 0 then Some (EdgeAppLibSendDataResultInvalidParam, s)
      else let buffer_size = meta_buffer_size datalen;
               (json_buffer, s) = malloc S buffer_size s
      in if json_buffer = 0 then Some (EdgeAppLibSendDataResultDataTooLarge, s)
      else case ProcessFormatMeta E S data (nat datalen) datatyp timestamp buffer_size s of
          (res, message, s) \<Rightarrow>
            if res \<noteq> kProcessFormatResultOk then Some (EdgeAppLibSendDataResultFailure, free json_buffer s)
            else let s = store json_buffer (bytes_of message @ [0]) s
            in if getNumOfInfPerMsg (cx s) = 1
               then (let (future, s) = DataExportSendData E S EdgeAppLibDataExportMetadata json_buffer
                                         (int (length message)) timestamp 1 1 None s
                     in map_option (\<lambda>(r, s). (r, free json_buffer s))
                          (await_and_cleanup E future timeout_ms s))
               else queue_message E S message timeout_ms (free json_buffer s))"

end
