(* ===== verification/SendProofs.thy ===== *)
theory SendProofs
  imports SendDataSync Demo ExportProperties
begin

text \<open>
  Lemmas on the data path. \<open>quiet s t\<close> says that a step leaves the table of operations and the
  futures as they are and keeps the heap well formed; encoding and the services only take quiet
  steps. \<open>futures_ok\<close> is the invariant that ties the table to the futures: an operation is in the
  table exactly as long as its future is enqueued.
\<close>

section \<open>Quiet steps\<close>

definition quiet :: "'w sys \<Rightarrow> 'w sys \<Rightarrow> bool" where
  "quiet s t \<longleftrightarrow> map_vec (cx t) = map_vec (cx s) \<and> futures (cx t) = futures (cx s)
     \<and> (heap_ok s \<longrightarrow> heap_ok t) \<and> brk s \<le> brk t"

lemma quiet_refl [simp]: "quiet s s"
  by (simp add: quiet_def)

lemma quiet_trans: "quiet s t \<Longrightarrow> quiet t u \<Longrightarrow> quiet s u"
  by (auto simp: quiet_def)

lemma quiet_undef [simp]: "quiet s (undef t) \<longleftrightarrow> quiet s t" "quiet (undef s) t \<longleftrightarrow> quiet s t"
  by (auto simp: quiet_def undefined_step_def heap_ok_def)

lemma quiet_world [simp]: "quiet s (set_world w t) \<longleftrightarrow> quiet s t" "quiet (set_world w s) t \<longleftrightarrow> quiet s t"
  by (auto simp: quiet_def heap_ok_def)

lemma quiet_undef_if [simp]: "quiet s (undef_if b t) \<longleftrightarrow> quiet s t"
  by (simp add: undef_if_def)

lemma quiet_malloc: "malloc S n s = (p, t) \<Longrightarrow> quiet s t"
  using mem.alloc_ok [of s S n p t] by (auto simp: quiet_def malloc_def split: if_splits)

lemma quiet_free: "quiet s (free p s)"
  by (auto simp: quiet_def free_def free_buffer_def undefined_step_def heap_ok_def)

lemma quiet_store: "quiet s (store p bs s)"
  by (auto simp: quiet_def store_def alive_def undefined_step_def heap_ok_def)

lemma quiet_SendState: "quiet s (on_cx (DataExportSendState E t) s)"
  by (auto simp: quiet_def DataExportSendState_def updateCustomSettings_def CustomSettings_Store_def
      EnableNotification_def heap_ok_def split: option.splits)

lemma quiet_into [simp, intro]:
  assumes "quiet s t"
  shows "quiet s (free p t)" and "quiet s (store p bs t)" and "quiet s (on_cx (DataExportSendState E u) t)"
  using quiet_trans [OF assms] quiet_free quiet_store quiet_SendState by blast+

lemma quiet_malloc_into: "quiet s t \<Longrightarrow> malloc S n t = (p, u) \<Longrightarrow> quiet s u"
  by (metis quiet_malloc quiet_trans)

section \<open>Encoding is quiet\<close>

lemma quiet_read_handle: "read_handle S h p n s = (r, q, k, t) \<Longrightarrow> quiet s t"
  by (auto simp: read_handle_def Let_def split: prod.splits if_splits)

lemma quiet_read_handle_into: "quiet s t \<Longrightarrow> read_handle S h p n t = (r, q, k, u) \<Longrightarrow> quiet s u"
  by (metis quiet_read_handle quiet_trans)

lemma quiet_HandleRawFormat: "HandleRawFormat S d n s = (r, q, k, t) \<Longrightarrow> quiet s t"
  by (auto simp: HandleRawFormat_def Let_def split: prod.splits if_splits MemoryRef.splits option.splits
      intro: quiet_malloc quiet_read_handle_into)

lemma quiet_encode_memory: "encode_memory S p info n s = (r, q, k, t) \<Longrightarrow> quiet s t"
  by (auto simp: encode_memory_def Let_def split: prod.splits if_splits option.splits dest!: quiet_malloc)

lemma quiet_encode_handle: "encode_handle S h info s = (r, q, k, t) \<Longrightarrow> quiet s t"
  by (auto simp: encode_handle_def Let_def split: prod.splits if_splits
      intro: quiet_malloc_into quiet_read_handle_into dest: quiet_malloc quiet_read_handle)
    (metis quiet_into(1) quiet_malloc quiet_read_handle quiet_trans quiet_world(1,2))+

lemma quiet_HandleJpegFormat: "HandleJpegFormat S d n ip s = (r, q, k, t) \<Longrightarrow> quiet s t"
  by (auto simp: HandleJpegFormat_def split: if_splits option.splits MemoryRef.splits
      intro: quiet_encode_memory quiet_encode_handle)

lemma quiet_ProcessFormatInput: "ProcessFormatInput S d n dt ip s = (r, q, k, t) \<Longrightarrow> quiet s t"
  by (auto simp: ProcessFormatInput_def split: if_splits
      intro: quiet_HandleRawFormat quiet_HandleJpegFormat)

lemma quiet_encode_input: "encode_input E S dt d n ip s = (b, q, k, c, t) \<Longrightarrow> quiet s t"
  by (auto simp: encode_input_def split: if_splits option.splits prod.splits dest!: quiet_ProcessFormatInput)

section \<open>Starting an operation is quiet\<close>

lemma quiet_send_telemetry: "send_telemetry S d mv s = (r, t) \<Longrightarrow> quiet s t"
  by (auto simp: send_telemetry_def split: option.splits prod.splits)

lemma quiet_blob_request: "blob_request E m dt fn s = (r, t) \<Longrightarrow> quiet u s \<Longrightarrow> quiet u t"
  by (auto simp: blob_request_def Let_def split: if_splits)

lemma quiet_send_blob: "send_blob E S m dt ts c d mv s = (r, t) \<Longrightarrow> quiet s t"
  by (auto simp: send_blob_def Let_def split: prod.splits dest!: quiet_blob_request [where u = s])

lemma quiet_send_method: "send_method E S dt s = (m, t) \<Longrightarrow> quiet s t"
  by (auto simp: send_method_def Let_def split: if_splits)

lemma quiet_start_operation: "start_operation E S dt d ts c dv mv s = (r, t) \<Longrightarrow> quiet s t"
  by (auto simp: start_operation_def split: prod.splits option.splits METHOD.splits
      dest!: quiet_send_method intro: quiet_trans quiet_send_blob quiet_send_telemetry)

section \<open>The table and the futures\<close>

definition table_ok ::
  "(ptr \<Rightarrow> ptr option) \<Rightarrow> (ptr \<Rightarrow> EdgeAppLibDataExportFuture option) \<Rightarrow> ptr \<Rightarrow> bool" where
  "table_ok L F b \<longleftrightarrow>
     (\<forall>k p. L k = Some p \<longrightarrow> k = p + offsetof_module_vars \<and> F p \<noteq> None)
     \<and> (\<forall>p f. F p = Some f \<longrightarrow> 0 < p \<and> p + sizeof_future < b
          \<and> (fut_result f = EdgeAppLibDataExportResultEnqueued \<longleftrightarrow> L (p + offsetof_module_vars) = Some p)
          \<and> (is_processed f \<longleftrightarrow> fut_result f \<noteq> EdgeAppLibDataExportResultEnqueued))"

definition ctx_ok :: "ptr \<Rightarrow> 'w ctx \<Rightarrow> bool" where
  "ctx_ok b c \<longleftrightarrow> map_invar (map_vec c) \<and> table_ok (map_lookup (map_vec c)) (futures c) b"

definition futures_ok :: "'w sys \<Rightarrow> bool" where
  "futures_ok s \<longleftrightarrow> heap_ok s \<and> ctx_ok (brk s) (cx s)"

lemma table_ok_mono: "table_ok L F b \<Longrightarrow> b \<le> b' \<Longrightarrow> table_ok L F b'"
  unfolding table_ok_def by (meson order_less_le_trans)

lemma quiet_ok: "futures_ok s \<Longrightarrow> quiet s t \<Longrightarrow> futures_ok t"
  unfolding futures_ok_def ctx_ok_def quiet_def using table_ok_mono by auto

text \<open>A new future: with its entry in the table, or refused.\<close>

lemma table_enter:
  assumes "table_ok L F b" "b \<le> p" "0 < p" "p + sizeof_future < b'"
    and "fut_result f = EdgeAppLibDataExportResultEnqueued" "\<not> is_processed f"
  shows "table_ok (L(p + offsetof_module_vars \<mapsto> p)) (F(p \<mapsto> f)) b'"
    and "L (p + offsetof_module_vars) = None" "F p = None"
proof -
  have o: "q \<noteq> p" if "F q = Some g" for q g
    using that assms(1,2) unfolding table_ok_def by fastforce
  then show "F p = None" by (cases "F p") auto
  then show n: "L (p + offsetof_module_vars) = None"
    using assms(1) unfolding table_ok_def
    by (cases "L (p + offsetof_module_vars)") (simp, metis add_right_cancel)
  from table_ok_mono [OF assms(1), of b'] assms(2,4) have t: "table_ok L F b'" by simp
  show "table_ok (L(p + offsetof_module_vars \<mapsto> p)) (F(p \<mapsto> f)) b'"
    using t assms(3-6) o unfolding table_ok_def by auto
qed

lemma table_refuse:
  assumes "table_ok L F b" "b \<le> p" "0 < p" "p + sizeof_future < b'"
    and "fut_result f \<noteq> EdgeAppLibDataExportResultEnqueued" "is_processed f"
  shows "table_ok L (F(p \<mapsto> f)) b'"
proof -
  let ?f = "f\<lparr>fut_result := EdgeAppLibDataExportResultEnqueued, is_processed := False\<rparr>"
  note E = table_enter [OF assms(1-4), of ?f]
  have "F p = None" "L (p + offsetof_module_vars) = None" using E(2,3) by simp_all
  then show ?thesis using table_ok_mono [OF assms(1), of b'] assms unfolding table_ok_def by auto
qed

text \<open>A completed operation: its entry goes, its future is deleted or has a result.\<close>

lemma table_finish:
  assumes "table_ok L F b" "L k = Some p"
    and "x = None \<or> (\<exists>f. x = Some f \<and> is_processed f \<and> fut_result f \<noteq> EdgeAppLibDataExportResultEnqueued)"
  shows "table_ok (L(k := None)) (F(p := x)) b"
proof -
  have L: "L k' = Some q \<Longrightarrow> k' = q + offsetof_module_vars \<and> F q \<noteq> None" for k' q
    using assms(1) unfolding table_ok_def by blast
  have F: "F q = Some g \<Longrightarrow> 0 < q \<and> q + sizeof_future < b
      \<and> (fut_result g = EdgeAppLibDataExportResultEnqueued \<longleftrightarrow> L (q + offsetof_module_vars) = Some q)
      \<and> (is_processed g \<longleftrightarrow> fut_result g \<noteq> EdgeAppLibDataExportResultEnqueued)" for q g
    using assms(1) unfolding table_ok_def by blast
  obtain f where f: "F p = Some f" using L [OF assms(2)] by blast
  have k: "k = p + offsetof_module_vars" using L [OF assms(2)] by blast
  have 1: "k' = q + offsetof_module_vars \<and> (F(p := x)) q \<noteq> None" if "(L(k := None)) k' = Some q" for k' q
  proof -
    have "k' \<noteq> k" "L k' = Some q" using that by (auto split: if_splits)
    then show ?thesis using L [of k' q] k by auto
  qed
  have 2: "0 < q \<and> q + sizeof_future < b
      \<and> (fut_result g = EdgeAppLibDataExportResultEnqueued
           \<longleftrightarrow> (L(k := None)) (q + offsetof_module_vars) = Some q)
      \<and> (is_processed g \<longleftrightarrow> fut_result g \<noteq> EdgeAppLibDataExportResultEnqueued)"
    if "(F(p := x)) q = Some g" for q g
  proof (cases "q = p")
    case True
    then show ?thesis using that assms(3) F [OF f] k by auto
  next
    case False
    then show ?thesis using that F [of q g] k by simp
  qed
  show ?thesis unfolding table_ok_def using 1 2 by blast
qed

lemma result_not_enqueued [simp]:
  "SendDataDone_result r \<noteq> EdgeAppLibDataExportResultEnqueued"
  "TelemetryDone_result r' \<noteq> EdgeAppLibDataExportResultEnqueued"
  by (auto simp: SendDataDone_result_def TelemetryDone_result_def
      split: EVP_BLOB_CALLBACK_REASON.splits EVP_TELEMETRY_CALLBACK_REASON.splits)

lemma finish_operation_ok:
  assumes "ctx_ok b c" "k \<noteq> 0" "r \<noteq> EdgeAppLibDataExportResultEnqueued"
  shows "ctx_ok b (finish_operation k r c)"
proof -
  obtain p m where pop: "map_pop k (map_vec c) = (p, m)" by fastforce
  from assms(1) have I: "map_invar (map_vec c)" "table_ok (map_lookup (map_vec c)) (futures c) b"
    by (simp_all add: ctx_ok_def)
  note P = fq.pop_ok [OF I(1) assms(2) pop]
  show ?thesis
  proof (cases "map_lookup (map_vec c) k")
    case None
    then have "map_lookup m = map_lookup (map_vec c)" "p = 0" using P by auto
    with P I pop show ?thesis by (simp add: finish_operation_def ctx_ok_def)
  next
    case (Some q)
    with P have p: "p = q" "map_lookup m = (map_lookup (map_vec c))(k := None)" by auto
    have "p \<noteq> 0" using fq.no_null [OF I(1) Some] p by simp
    obtain f where f: "futures c p = Some f"
      using I(2) Some p unfolding table_ok_def by blast
    note T = table_finish [OF I(2) Some]
    have m: "map_invar m" using P by simp
    from T [of None] T [of "Some (f\<lparr>is_processed := True, fut_result := r\<rparr>)"] assms(3)
    have t: "table_ok (map_lookup m) ((futures c)(p := None)) b"
      "table_ok (map_lookup m) ((futures c)(p \<mapsto> f\<lparr>is_processed := True, fut_result := r\<rparr>)) b"
      unfolding p by simp_all
    show ?thesis using m t pop \<open>p \<noteq> 0\<close> f
      by (simp add: finish_operation_def DataExportCleanupOrUnlock_def free_buffer_def ctx_ok_def
          undefined_step_def Let_def)
  qed
qed

lemma cleanup_ok: "ctx_ok b c \<Longrightarrow> ctx_ok b (DataExportCleanup p c)"
proof -
  assume a: "ctx_ok b c"
  then have I: "map_invar (map_vec c)" "table_ok (map_lookup (map_vec c)) (futures c) b"
    by (simp_all add: ctx_ok_def)
  show ?thesis
  proof (cases "futures c p")
    case None
    with a show ?thesis by (simp add: DataExportCleanup_def ctx_ok_def undefined_step_def)
  next
    case (Some f)
    have 1: "table_ok (map_lookup (map_vec c)) ((futures c)(p \<mapsto> f\<lparr>is_cleanup_requested := True\<rparr>)) b"
      using I(2) Some unfolding table_ok_def by auto
    have 2: "table_ok (map_lookup (map_vec c)) ((futures c)(p := None)) b" if "is_processed f"
    proof -
      have "map_lookup (map_vec c) (p + offsetof_module_vars) \<noteq> Some p"
        using I(2) Some that unfolding table_ok_def by auto
      moreover have "k = p + offsetof_module_vars" if "map_lookup (map_vec c) k = Some p" for k
        using I(2) that unfolding table_ok_def by auto
      ultimately show ?thesis using I(2) unfolding table_ok_def by auto
    qed
    show ?thesis using Some 1 2 I(1)
      by (auto simp: DataExportCleanup_def DataExportCleanupOrUnlock_def free_buffer_def ctx_ok_def
          undefined_step_def)
  qed
qed

lemma configuration_cb_ok: "ctx_ok b (configuration_cb E topic config c) = ctx_ok b c"
  by (simp add: configuration_cb_def SetPendingConfiguration_def SetNextState_def ctx_ok_def
      split: option.split)

lemma handle_event_ok: "ctx_ok b c \<Longrightarrow> event_key ev \<noteq> Some 0 \<Longrightarrow> ctx_ok b (handle_event E ev c)"
  by (cases ev)
    (simp_all add: handle_event_def event_key_def DataExportSendDataDoneCallback_def finish_operation_ok
      DataExportTelemetryDoneCallback_def configuration_cb_ok)

section \<open>DataExportSendData\<close>

text \<open>What the call has done to the table and the futures when it returns the future \<open>p\<close>.\<close>

definition outcome :: "ptr \<Rightarrow> 'w sys \<Rightarrow> 'w sys \<Rightarrow> bool" where
  "outcome p s t \<longleftrightarrow>
     (if p = 0 then map_vec (cx t) = map_vec (cx s) \<and> futures (cx t) = futures (cx s)
      else futures (cx s) p = None
         \<and> (\<exists>f. futures (cx t) = (futures (cx s))(p \<mapsto> f) \<and> \<not> is_cleanup_requested f
              \<and> (if fut_result f = EdgeAppLibDataExportResultEnqueued
                 then map_lookup (map_vec (cx t))
                        = (map_lookup (map_vec (cx s)))(p + offsetof_module_vars \<mapsto> p)
                 else fut_result f \<in> {EdgeAppLibDataExportResultFailure, EdgeAppLibDataExportResultDenied}
                      \<and> map_lookup (map_vec (cx t)) = map_lookup (map_vec (cx s)))))"

lemma send_failed_ok:
  assumes "futures_ok s" "futures (cx s) p = Some f" "fut_result f = EdgeAppLibDataExportResultEnqueued"
    and t: "t = send_failed p d c d' s"
  shows "futures_ok t" and "map_lookup (map_vec (cx t)) = (map_lookup (map_vec (cx s)))(p + offsetof_module_vars := None)"
    and "futures (cx t) = (futures (cx s))(p \<mapsto> f\<lparr>is_processed := True, fut_result := EdgeAppLibDataExportResultFailure\<rparr>)"
proof -
  let ?mv = "p + offsetof_module_vars"
  let ?f = "f\<lparr>is_processed := True, fut_result := EdgeAppLibDataExportResultFailure\<rparr>"
  let ?c = "(upd_future p (Some ?f) (cx s))\<lparr>map_vec := snd (map_pop ?mv (map_vec (cx s)))\<rparr>"
  have I: "heap_ok s" "map_invar (map_vec (cx s))"
    "table_ok (map_lookup (map_vec (cx s))) (futures (cx s)) (brk s)"
    using assms(1) by (simp_all add: futures_ok_def ctx_ok_def)
  have l: "map_lookup (map_vec (cx s)) ?mv = Some p" using I(3) assms(2,3) unfolding table_ok_def by blast
  obtain v m where pop: "map_pop ?mv (map_vec (cx s)) = (v, m)" by fastforce
  have "?mv \<noteq> 0" by (simp add: offsetof_module_vars_def)
  note P = fq.pop_ok [OF I(2) this pop]
  have c: "futures_ok (s\<lparr>cx := ?c\<rparr>)" using P pop I(1) table_finish [OF I(3) l, of "Some ?f"]
    by (simp add: futures_ok_def ctx_ok_def heap_ok_def)
  have t': "t = (if c \<and> d \<noteq> d' then free d (s\<lparr>cx := ?c\<rparr>) else s\<lparr>cx := ?c\<rparr>)"
    using t assms(2) by (simp add: send_failed_def Let_def)
  have q: "quiet (s\<lparr>cx := ?c\<rparr>) t" unfolding t' by (simp add: quiet_free)
  show "futures_ok t" using quiet_ok [OF c q] .
  show "map_lookup (map_vec (cx t)) = (map_lookup (map_vec (cx s)))(?mv := None)"
    "futures (cx t) = (futures (cx s))(p \<mapsto> ?f)"
    using q P pop by (simp_all add: quiet_def)
qed

lemma outcomeI:
  assumes "p \<noteq> 0" "futures (cx s) p = None" "futures (cx t) = (futures (cx s))(p \<mapsto> f)"
    and "\<not> is_cleanup_requested f"
    and "if fut_result f = EdgeAppLibDataExportResultEnqueued
         then map_lookup (map_vec (cx t)) = (map_lookup (map_vec (cx s)))(p + offsetof_module_vars \<mapsto> p)
         else fut_result f \<in> {EdgeAppLibDataExportResultFailure, EdgeAppLibDataExportResultDenied}
              \<and> map_lookup (map_vec (cx t)) = map_lookup (map_vec (cx s))"
  shows "outcome p s t"
  unfolding outcome_def using assms by auto

lemma enqueue_ok:
  assumes "futures_ok s" "enqueue E S dt d n c d' ts cu dv s = (p, t)"
  shows "futures_ok t \<and> outcome p s t"
proof -
  have I: "heap_ok s" "map_invar (map_vec (cx s))"
    "table_ok (map_lookup (map_vec (cx s))) (futures (cx s)) (brk s)"
    using assms(1) by (simp_all add: futures_ok_def ctx_ok_def)
  obtain q s1 where m: "malloc S sizeof_future s = (q, s1)" by fastforce
  show ?thesis
  proof (cases "q = 0")
    case True
    then have "p = 0" "t = s1" using assms(2) m by (auto simp: enqueue_def InitializeFuture_def)
    with quiet_ok [OF assms(1) quiet_malloc [OF m]] quiet_malloc [OF m] show ?thesis
      by (simp add: outcome_def quiet_def)
  next
    case False
    let ?mv = "q + offsetof_module_vars"
    let ?f = "\<lparr>fut_result = EdgeAppLibDataExportResultEnqueued, is_processed = False,
      is_cleanup_requested = False, is_cleanup_sent_data = (dt \<noteq> EdgeAppLibDataExportMetadata \<or> c),
      blob_buff = d\<rparr>"
    let ?d = "?f\<lparr>is_processed := True, fut_result := EdgeAppLibDataExportResultDenied\<rparr>"
    have B: "brk s \<le> q" "0 < q" "q + sizeof_future < brk s1"
      "map_vec (cx s1) = map_vec (cx s)" "futures (cx s1) = futures (cx s)"
      using m False by (auto simp: malloc_def split: if_splits)
    have h: "heap_ok s1" using quiet_malloc [OF m] I(1) by (simp add: quiet_def)
    note T = table_enter [OF I(3) B(1-3), of ?f, simplified]
    obtain mm r where set: "map_set ?mv q (map_vec (cx s)) = (mm, r)" by fastforce
    have "?mv \<noteq> 0" "q \<noteq> 0" using False by simp_all
    note M = fq.set_ok [OF I(2) this T(2) set]
    show ?thesis
    proof (cases "r = -1")
      case True
      then have e: "p = q" "t = s1\<lparr>cx := upd_future q (Some ?d) ((cx s1)\<lparr>map_vec := mm\<rparr>)\<rparr>"
        using assms(2) m False set B(4,5) by (auto simp: enqueue_def InitializeFuture_def)
      have "table_ok (map_lookup (map_vec (cx s))) ((futures (cx s))(q \<mapsto> ?d)) (brk s1)"
        by (rule table_refuse [OF I(3) B(1-3)]) simp_all
      moreover have "outcome p s t"
        by (rule outcomeI [where f = ?d]) (use M True T(3) False e B(4,5) in simp_all)
      ultimately show ?thesis using M True h I(2) e B(4,5)
        by (simp add: futures_ok_def ctx_ok_def heap_ok_def)
    next
      case r: False
      then have r0: "r = 0" using M by blast
      obtain s3 where s3: "s3 = s1\<lparr>cx := upd_future q (Some ?f) ((cx s1)\<lparr>map_vec := mm\<rparr>),
          module_vars := (module_vars s1)(?mv \<mapsto> \<lparr>mv_blob_buff = d, blob_buff_size = n,
            blob_buff_offset = 0, mv_identifier = MODULE_VARS_IDENTIFIER, blob_len = n\<rparr>)\<rparr>" by blast
      obtain res s4 where st: "start_operation E S dt d ts cu dv ?mv s3 = (res, s4)" by fastforce
      have e: "p = q" "t = (if res \<noteq> EVP_OK then send_failed q d c d' s4 else s4)"
        using assms(2) m False set B(4,5) r st unfolding s3
        by (simp_all add: enqueue_def InitializeFuture_def Let_def)
      have ok3: "futures_ok s3" using M r0 h T(1) B(4,5)
        by (simp add: s3 futures_ok_def ctx_ok_def heap_ok_def)
      have q: "quiet s3 s4" using quiet_start_operation [OF st] .
      have ok4: "futures_ok s4" using quiet_ok [OF ok3 q] .
      have v: "futures (cx s4) = (futures (cx s))(q \<mapsto> ?f)"
        "map_lookup (map_vec (cx s4)) = (map_lookup (map_vec (cx s)))(?mv \<mapsto> q)"
        using q M r0 B(4,5) by (simp_all add: quiet_def s3)
      show ?thesis
      proof (cases "res = EVP_OK")
        case True
        have "outcome p s t"
          by (rule outcomeI [where f = ?f]) (use True e v T(3) \<open>q \<noteq> 0\<close> in simp_all)
        then show ?thesis using True e ok4 by simp
      next
        case False
        note X = send_failed_ok [OF ok4 _ _ refl, of q ?f d c d']
        have "(map_lookup (map_vec (cx s)))(?mv := None) = map_lookup (map_vec (cx s))"
          using T(2) by (simp add: fun_upd_idem_iff)
        with False e v X T(3) \<open>q \<noteq> 0\<close> have "outcome p s t"
          by (intro outcomeI [where f = "?f\<lparr>is_processed := True,
                fut_result := EdgeAppLibDataExportResultFailure\<rparr>"]) simp_all
        then show ?thesis using False e v X by simp
      qed
    qed
  qed
qed

lemma SendData_ok:
  assumes "futures_ok s" "DataExportSendData E S dt d n ts cu dv ip s = (p, t)"
  shows "futures_ok t \<and> outcome p s t"
proof -
  have q: "futures_ok u \<and> outcome 0 s u" if "quiet s u" for u
    using quiet_ok [OF assms(1) that] that by (simp add: outcome_def quiet_def)
  have o: "outcome p s t" if "quiet s u" "outcome p u t" for u
    using that by (auto simp: outcome_def quiet_def split: if_splits)
  show ?thesis
  proof (cases "DataExportIsEnabled E (dt = EdgeAppLibDataExportRaw) (cx s)")
    case False
    then have "p = 0" "quiet s t"
      using assms(2) by (auto simp: DataExportSendData_def quiet_free split: if_splits)
    with q show ?thesis by simp
  next
    case True
    obtain g pd pn nc u where e: "encode_input E S dt d n ip s = (g, pd, pn, nc, u)" by (metis prod_cases5)
    note qu = quiet_encode_input [OF e]
    show ?thesis
    proof (cases g)
      case False
      then show ?thesis using assms(2) True e q [OF qu] by (simp add: DataExportSendData_def)
    next
      case True': True
      then have "enqueue E S dt pd pn nc d ts cu dv u = (p, t)"
        using assms(2) True e by (simp add: DataExportSendData_def)
      from enqueue_ok [OF quiet_ok [OF assms(1) qu] this] o [OF qu] show ?thesis by simp
    qed
  qed
qed

section \<open>Waiting\<close>

lemma handle_events_ok:
  "ctx_ok b c \<Longrightarrow> \<forall>ev \<in> set evs. event_key ev \<noteq> Some 0 \<Longrightarrow> ctx_ok b (handle_events E evs c)"
  unfolding handle_events_def by (induction evs arbitrary: c) (simp_all add: handle_event_ok)

lemma processEvent_ok:
  assumes "evp_makes_progress E" "ctx_ok b c"
  shows "ctx_ok b (snd (processEvent E c))"
proof -
  obtain evs res w where e: "EVP_processEvent E c = (evs, res, w)" by (metis prod_cases3)
  from assms(1) [unfolded evp_makes_progress_def, THEN spec, of c] e
  have "\<forall>ev \<in> set evs. event_key ev \<noteq> Some 0" by simp
  moreover have "ctx_ok b (c\<lparr>world := w\<rparr>)" using assms(2) by (simp add: ctx_ok_def)
  ultimately show ?thesis using e by (simp add: processEvent_def handle_events_ok)
qed

lemma await_loop_cases:
  "futures c p = None \<Longrightarrow> await_loop E p c = Some (EdgeAppLibDataExportResultFailure, undefined_step c)"
  "futures c p = Some f \<Longrightarrow> fut_result f \<noteq> EdgeAppLibDataExportResultEnqueued \<Longrightarrow>
     await_loop E p c = Some (fut_result f, c)"
  "futures c p = Some f \<Longrightarrow> fut_result f = EdgeAppLibDataExportResultEnqueued \<Longrightarrow>
     await_loop E p c = await_loop E p (snd (processEvent E c))"
  by (subst await_loop.simps, simp)+

lemma await_loop_ends:
  assumes "evp_makes_progress E"
  shows "ctx_ok b c \<Longrightarrow>
    \<exists>r d. await_loop E p c = Some (r, d) \<and> ctx_ok b d \<and> r \<noteq> EdgeAppLibDataExportResultEnqueued"
proof (induction "fq.pending (map_vec c)" arbitrary: c rule: less_induct)
  case less
  show ?case
  proof (cases "futures c p")
    case None
    with less.prems show ?thesis by (simp add: await_loop_cases(1) ctx_ok_def undefined_step_def)
  next
    case (Some f)
    show ?thesis
    proof (cases "fut_result f = EdgeAppLibDataExportResultEnqueued")
      case False
      with Some less.prems show ?thesis by (simp add: await_loop_cases(2))
    next
      case True
      have I: "map_invar (map_vec c)" using less.prems by (simp add: ctx_ok_def)
      have "map_lookup (map_vec c) (p + offsetof_module_vars) = Some p"
        using less.prems Some True unfolding ctx_ok_def table_ok_def by blast
      then have "DataExportHasPendingOperations c"
        using fq.empty_ok [OF I] unfolding DataExportHasPendingOperations_def by auto
      from less.hyps [OF processEvent_progress(2) [OF assms I this] processEvent_ok [OF assms less.prems]]
        Some True
      show ?thesis by (simp only: await_loop_cases(3) [OF Some True])
    qed
  qed
qed

lemma await_and_cleanup_ends:
  assumes "evp_makes_progress E" "futures_ok s"
  shows "\<exists>r t. await_and_cleanup E p n s = Some (r, t) \<and> futures_ok t
    \<and> r \<in> {EdgeAppLibSendDataResultSuccess, EdgeAppLibSendDataResultFailure}"
proof -
  have c: "ctx_ok (brk s) (cx s)" using assms(2) by (simp add: futures_ok_def)
  from await_loop_ends [OF assms(1) c, of p] obtain r d where
    "await_loop E p (cx s) = Some (r, d)" "ctx_ok (brk s) d" by blast
  then show ?thesis using cleanup_ok [of "brk s" d p] assms(2)
    by (simp add: await_and_cleanup_def DataExportAwait_def futures_ok_def heap_ok_def)
qed

end
