(* ===== verification/SendProperties.thy ===== *)
theory SendProperties
  imports SendProofs
begin

text \<open>
  Properties of the data path: operations and futures stay consistent, uploads end, a blob arrives
  complete and in order, a message of metadata fits its buffer, and inferences are collected per
  model in the order they were made.
\<close>

section \<open>Operations and futures\<close>


text \<open>Services that accept everything, and a state in which both ports upload to a blob.\<close>

definition demo_services :: "nat services" where
  "demo_services = \<lparr>alloc_ok = (\<lambda>_ _. True), uninitialised = (\<lambda>_. 0),
     EVP_blobOperation = (\<lambda>_ _ w. (EVP_OK, w)), EVP_sendTelemetry = (\<lambda>_ _ _ w. (EVP_OK, w)),
     EsfMemoryManagerPread = (\<lambda>_ n w. (0, replicate n 7, w)),
     EsfCodecEncodeJpeg = (\<lambda>_ _ _ w. (0, [1, 2, 3], 3, w)),
     EsfCodecJpegEncodeHandle = (\<lambda>_ _ w. (0, 5, 3, w)), EsfCodecJpegEncodeRelease = (\<lambda>_ w. (0, w)),
     EsfSystemGetDeviceID = (\<lambda>w. (0, ''dev'', w)), sensor_info_string = (\<lambda>_ _ w. (0, ''IMX500'', w))\<rparr>"

definition demo_sys :: "nat sys" where
  "demo_sys = \<lparr>cx = demo_state, heap = [1 \<mapsto> [10, 20, 30, 40]], brk = 100, module_vars = (\<lambda>_. None),
     output_tensor_vec = replicate MAX_NUMBER_OF_INFERENCE_QUEUE (None, None), inf_cnt = 1\<rparr>"

lemma demo_sys_ok: "futures_ok demo_sys"
  by (simp add: demo_sys_def futures_ok_def heap_ok_def ctx_ok_def table_ok_def fq.invar_init fq.lookup_init)


section \<open>Uploads end\<close>

lemma futures_ok_fields [simp]:
  "futures_ok (s\<lparr>output_tensor_vec := v\<rparr>) = futures_ok s" "futures_ok (s\<lparr>inf_cnt := n\<rparr>) = futures_ok s"
  "futures_ok (undef_if b s) = futures_ok s"
  by (simp_all add: futures_ok_def heap_ok_def undef_if_def ctx_ok_def undefined_step_def)

lemma futures_ok_free: "futures_ok s \<Longrightarrow> futures_ok (free p s)"
  using quiet_ok quiet_free by blast

lemma send_and_wait_ends:
  assumes "evp_makes_progress E" "futures_ok s"
    and "DataExportSendData E S dt d n ts cu dv ip s = (p, t)"
  shows "\<exists>r u. await_and_cleanup E p m t = Some (r, u) \<and> futures_ok u
    \<and> r \<in> {EdgeAppLibSendDataResultSuccess, EdgeAppLibSendDataResultFailure}"
  using await_and_cleanup_ends [OF assms(1)] SendData_ok [OF assms(2,3)] by blast

lemma image_ends:
  assumes "evp_makes_progress E" "futures_ok s"
  shows "\<exists>r t. SendDataSyncImage E S d n ip ts m cu dv s = Some (r, t) \<and> futures_ok t
    \<and> r \<in> {EdgeAppLibSendDataResultSuccess, EdgeAppLibSendDataResultFailure,
           EdgeAppLibSendDataResultInvalidParam}"
proof (cases "ip = None \<or> d = 0")
  case True
  then show ?thesis using assms(2) by (auto simp: SendDataSyncImage_def split: option.splits)
next
  case False
  then obtain q where q: "ip = Some q" "d \<noteq> 0" by auto
  obtain p t where 1: "DataExportSendData E S EdgeAppLibDataExportRaw d n ts cu dv None s = (p, t)" by fastforce
  obtain r b k u where 2: "ProcessFormatInput S (MemoryMap d) (word_of_int n) (codec_number E s) ip s = (r, b, k, u)"
    by (metis prod_cases4)
  have u: "futures_ok u" using quiet_ok [OF assms(2) quiet_ProcessFormatInput [OF 2]] .
  obtain p' t' where 3: "DataExportSendData E S EdgeAppLibDataExportRaw b k ts cu dv None u = (p', t')" by fastforce
  from send_and_wait_ends [OF assms 1, of m] send_and_wait_ends [OF assms(1) u 3, of m] q 1 2 3 u
  show ?thesis by (auto simp: SendDataSyncImage_def futures_ok_free)
qed

lemma quiet_get_info: "get_info_string S cat s = (r, i, t) \<Longrightarrow> quiet s t"
  by (auto simp: get_info_string_def split: if_splits prod.splits)

lemma quiet_get_device_id: "get_device_id S s = (i, t) \<Longrightarrow> quiet s t"
  by (auto simp: get_device_id_def split: prod.splits)

lemma quiet_ProcessFormatMeta: "ProcessFormatMeta E S d n dt ts m s = (r, msg, t) \<Longrightarrow> quiet s t"
  by (auto simp: ProcessFormatMeta_def Let_def split: if_splits prod.splits
      dest!: quiet_get_info quiet_get_device_id intro: quiet_trans)


text \<open>The loops of \<open>SendDataSyncMeta\<close>.\<close>

lemma quiet_new_string: "new_string S t s = (p, u) \<Longrightarrow> quiet s u"
  by (auto simp: new_string_def split: prod.splits if_splits dest!: quiet_malloc)

lemma send_message_ends:
  assumes "evp_makes_progress E" "futures_ok s"
  shows "\<exists>r t. send_message E S v m s = Some (r, t) \<and> futures_ok t
    \<and> r \<in> {EdgeAppLibSendDataResultSuccess, EdgeAppLibSendDataResultFailure}"
proof (cases "json_serialize_to_string E v")
  case None
  then show ?thesis using assms(2) quiet_ok [of s "undef (undef_if (first_timestamp E v = None) s)"]
    by (simp add: send_message_def Let_def)
next
  case (Some t)
  let ?ts = "case first_timestamp E v of None \<Rightarrow> 0 | Some n \<Rightarrow> n"
  obtain b u where n: "new_string S t (undef_if (first_timestamp E v = None) s) = (b, u)" by fastforce
  have u: "futures_ok (undef_if (b = 0) u)"
    using quiet_ok [OF _ quiet_new_string [OF n]] assms(2) by simp
  obtain p x where d: "DataExportSendData E S EdgeAppLibDataExportMetadata b (int (length t)) ?ts 1 1 None
    (undef_if (b = 0) u) = (p, x)" by fastforce
  from send_and_wait_ends [OF assms(1) u d, of m] n d Some show ?thesis
    by (auto simp: send_message_def Let_def futures_ok_free)
qed

lemma send_queue_ends:
  assumes "evp_makes_progress E"
  shows "futures_ok s \<Longrightarrow> ret \<in> {EdgeAppLibSendDataResultSuccess, EdgeAppLibSendDataResultFailure} \<Longrightarrow>
    \<exists>r t. send_queue E S m i ret vec s = Some (r, t) \<and> futures_ok t
      \<and> r \<in> {EdgeAppLibSendDataResultSuccess, EdgeAppLibSendDataResultFailure}"
proof (induction vec arbitrary: i ret s)
  case Nil
  then show ?case by simp
next
  case (Cons x vec)
  obtain k v where x: "x = (k, v)" by fastforce
  from send_message_ends [OF assms Cons.prems(1), of S v m] obtain r t where
    "send_message E S v m s = Some (r, t)" "futures_ok t" by blast
  with Cons x show ?case by simp
qed

lemma queue_message_ends:
  assumes "evp_makes_progress E" "futures_ok s"
  shows "\<exists>r t. queue_message E S msg m s = Some (r, t) \<and> futures_ok t
    \<and> r \<in> {EdgeAppLibSendDataResultSuccess, EdgeAppLibSendDataResultFailure, EdgeAppLibSendDataResultEnqueued}"
proof -
  let ?v = "json_parse_string E msg"
  let ?k = "json_object_get_string E (json_value_get_object ?v) ''ModelID''"
  obtain r t where a: "SendDataAppendOutputTensor E ?k ?v s = (r, t)" by fastforce
  then have "futures_ok t" using assms(2)
    by (auto simp: SendDataAppendOutputTensor_def split: prod.splits)
  from send_queue_ends [OF assms(1) this, of EdgeAppLibSendDataResultSuccess S m 0 "output_tensor_vec t"]
    a \<open>futures_ok t\<close> show ?thesis by (auto simp: queue_message_def Let_def)
qed

lemma meta_ends:
  assumes "evp_makes_progress E" "futures_ok s"
  shows "\<exists>r t. SendDataSyncMeta E S d n dt ts m s = Some (r, t) \<and> futures_ok t
    \<and> r \<notin> {EdgeAppLibSendDataResultTimeout, EdgeAppLibSendDataResultDenied, EdgeAppLibSendDataResultUninitialized}"
proof -
  obtain b u where m: "malloc S (meta_buffer_size n) s = (b, u)" by fastforce
  have u: "futures_ok u" using quiet_ok [OF assms(2) quiet_malloc [OF m]] .
  obtain r msg v where f: "ProcessFormatMeta E S d (nat n) dt ts (meta_buffer_size n) u = (r, msg, v)"
    by (metis prod_cases3)
  have v: "futures_ok v" using quiet_ok [OF u quiet_ProcessFormatMeta [OF f]] .
  have w: "futures_ok (store b (bytes_of msg @ [0]) v)" using quiet_ok [OF v quiet_store] .
  obtain p x where d: "DataExportSendData E S EdgeAppLibDataExportMetadata b (int (length msg)) ts 1 1 None
    (store b (bytes_of msg @ [0]) v) = (p, x)" by fastforce
  from send_and_wait_ends [OF assms(1) w d, of m] queue_message_ends [OF assms(1) futures_ok_free [OF w], of S msg m b]
    m f d u v assms(2) show ?thesis
    by (auto simp: SendDataSyncMeta_def Let_def futures_ok_free)
qed



section \<open>A blob arrives complete and in order\<close>

lemma blob_step:
  assumes "mv \<noteq> 0" "module_vars s mv = Some m" "mv_identifier m = MODULE_VARS_IDENTIFIER"
    and "blob_buff_offset m = int k" "alive s (mv_blob_buff m)" "heap s (mv_blob_buff m) = Some b"
    and "blob_buff_size m = int (length b)" "k \<le> length b"
  shows "k + n \<le> length b \<Longrightarrow>
      blob_io_cb mv n s = (EVP_BLOB_IO_RESULT_SUCCESS, take n (drop k b),
        s\<lparr>module_vars := (module_vars s)(mv \<mapsto> m\<lparr>blob_buff_offset := int (k + n)\<rparr>)\<rparr>)"
    and "length b < k + n \<Longrightarrow> fst (blob_io_cb mv n s) = EVP_BLOB_IO_RESULT_SUCCESS
      \<and> undefined_behaviour (cx (snd (snd (blob_io_cb mv n s))))"
  using assms by (simp_all add: blob_io_cb_def load_def alive_def undefined_step_def)

lemma blob_transfer_from:
  assumes "mv \<noteq> 0" "module_vars s mv = Some m" "mv_identifier m = MODULE_VARS_IDENTIFIER"
    and "blob_buff_offset m = int k" "alive s (mv_blob_buff m)" "heap s (mv_blob_buff m) = Some b"
    and "blob_buff_size m = int (length b)" "k + sum_list ns \<le> length b"
  shows "blob_transfer mv ns s
    = (replicate (length ns) EVP_BLOB_IO_RESULT_SUCCESS, take (sum_list ns) (drop k b),
       s\<lparr>module_vars := (module_vars s)(mv \<mapsto> m\<lparr>blob_buff_offset := int (k + sum_list ns)\<rparr>)\<rparr>)"
  using assms
proof (induction ns arbitrary: s m k)
  case Nil
  then have "m\<lparr>blob_buff_offset := int k\<rparr> = m" by simp
  with Nil show ?case by (simp add: fun_upd_idem)
next
  case (Cons n ns)
  let ?m = "m\<lparr>blob_buff_offset := int (k + n)\<rparr>"
  let ?s = "s\<lparr>module_vars := (module_vars s)(mv \<mapsto> ?m)\<rparr>"
  have n: "k + n \<le> length b" using Cons.prems(8) by simp
  have "blob_io_cb mv n s = (EVP_BLOB_IO_RESULT_SUCCESS, take n (drop k b), ?s)"
    using blob_step(1) [OF Cons.prems(1-7) _ n] n by simp
  moreover have "blob_transfer mv ns ?s
    = (replicate (length ns) EVP_BLOB_IO_RESULT_SUCCESS, take (sum_list ns) (drop (k + n) b),
       ?s\<lparr>module_vars := (module_vars ?s)(mv \<mapsto> ?m\<lparr>blob_buff_offset := int (k + n + sum_list ns)\<rparr>)\<rparr>)"
    by (rule Cons.IH) (use Cons.prems in \<open>simp_all add: alive_def\<close>)
  ultimately show ?case
    by (auto simp: take_add algebra_simps fun_eq_iff
        intro!: arg_cong [where f = "\<lambda>g. s\<lparr>module_vars := g\<rparr>"])
qed

lemma start_operation_heap:
  "start_operation E S dt d ts c dv mv s = (r, t) \<Longrightarrow>
     heap t = heap s \<and> module_vars t = module_vars s \<and> freed_buffers (cx t) = freed_buffers (cx s)"
  by (auto simp: start_operation_def send_method_def send_telemetry_def send_blob_def blob_request_def
      undef_if_def undefined_step_def DataExportSendState_def updateCustomSettings_def
      CustomSettings_Store_def EnableNotification_def Let_def
      split: prod.splits option.splits METHOD.splits if_splits)

lemma start_operation_heap_eqs:
  assumes "start_operation E S dt d ts c dv mv s = (r, t)"
  shows "heap t = heap s" "module_vars t = module_vars s" "freed_buffers (cx t) = freed_buffers (cx s)"
  using start_operation_heap [OF assms] by simp_all

lemma futures_free: "futures (cx (free p s)) = futures (cx s)"
  using quiet_free [of s p] by (simp add: quiet_def)

text \<open>What an accepted operation keeps for the callbacks.\<close>

lemma enqueue_accepted:
  assumes "futures_ok s" "alive s d"
    and "enqueue E S dt d n c d' ts cu dv s = (p, t)" "p \<noteq> 0"
    and "futures (cx t) p = Some f" "fut_result f = EdgeAppLibDataExportResultEnqueued"
  shows "module_vars t (p + offsetof_module_vars) = Some \<lparr>mv_blob_buff = d, blob_buff_size = n,
           blob_buff_offset = 0, mv_identifier = MODULE_VARS_IDENTIFIER, blob_len = n\<rparr>"
    and "alive t d" and "heap t d = heap s d"
proof -
  let ?mv = "p + offsetof_module_vars"
  obtain q s1 where m: "malloc S sizeof_future s = (q, s1)" by fastforce
  obtain mm r where set: "map_set (q + offsetof_module_vars) q (map_vec (cx s1)) = (mm, r)" by fastforce
  have q: "q = p" using assms(3,4) m set
    by (auto simp: enqueue_def InitializeFuture_def Let_def split: if_splits prod.splits)
  have "d < brk s" using assms(1,2) by (auto simp: futures_ok_def heap_ok_def alive_def)
  then have a: "heap s1 d = heap s d" "alive s1 d" and "q \<noteq> 0"
    using m assms(2,4) q by (auto simp: malloc_def alive_def split: if_splits)
  let ?f = "\<lparr>fut_result = EdgeAppLibDataExportResultEnqueued, is_processed = False,
    is_cleanup_requested = False, is_cleanup_sent_data = (dt \<noteq> EdgeAppLibDataExportMetadata \<or> c),
    blob_buff = d\<rparr>"
  let ?s3 = "s1\<lparr>cx := upd_future p (Some ?f) ((cx s1)\<lparr>map_vec := mm\<rparr>),
    module_vars := (module_vars s1)(?mv \<mapsto> \<lparr>mv_blob_buff = d, blob_buff_size = n,
      blob_buff_offset = 0, mv_identifier = MODULE_VARS_IDENTIFIER, blob_len = n\<rparr>)\<rparr>"
  obtain res s4 where st: "start_operation E S dt d ts cu dv ?mv ?s3 = (res, s4)" by fastforce
  have "r \<noteq> -1"
    using assms(3-6) m set q by (auto simp: enqueue_def InitializeFuture_def)
  then have t: "t = (if res \<noteq> EVP_OK then send_failed p d c d' s4 else s4)"
    using assms(3,4) m set q st by (auto simp: enqueue_def InitializeFuture_def Let_def)
  have 4: "futures (cx s4) p = Some ?f" using quiet_start_operation [OF st] by (simp add: quiet_def)
  have "res = EVP_OK"
  proof (rule ccontr)
    assume "res \<noteq> EVP_OK"
    then have "futures (cx t) p = Some (?f\<lparr>is_processed := True, fut_result := EdgeAppLibDataExportResultFailure\<rparr>)"
      using t 4 by (auto simp: send_failed_def Let_def futures_free)
    with assms(5,6) show False by auto
  qed
  then have "t = s4" using t by simp
  with start_operation_heap_eqs [OF st] a show "module_vars t ?mv = Some \<lparr>mv_blob_buff = d, blob_buff_size = n,
      blob_buff_offset = 0, mv_identifier = MODULE_VARS_IDENTIFIER, blob_len = n\<rparr>"
    "alive t d" "heap t d = heap s d"
    by (simp_all add: alive_def)
qed

text \<open>C31. When \<open>DataExportSendData\<close> has accepted a buffer, the callbacks of the agent deliver its bytes,
  complete and in order, whatever the sizes of the requests, and the buffer still lives. What
  limits the agent is only the length it was told: a request beyond the end is answered with
  success although it reads outside the buffer.
\<close>

theorem data_delivered:
  assumes "futures_ok s" "alive s data" "heap s data = Some b"
    and "DataExportSendData E S datatyp data (int (length b)) timestamp current division None s = (p, t)"
    and "futures (cx t) p = Some f" "fut_result f = EdgeAppLibDataExportResultEnqueued" "p \<noteq> 0"
    and "sum_list ns \<le> length b"
  shows "\<exists>u. blob_transfer (p + offsetof_module_vars) ns t
             = (replicate (length ns) EVP_BLOB_IO_RESULT_SUCCESS, take (sum_list ns) b, u)
           \<and> cx u = cx t
           \<and> (length b < sum_list ns + n \<longrightarrow>
                fst (blob_io_cb (p + offsetof_module_vars) n u) = EVP_BLOB_IO_RESULT_SUCCESS
                \<and> undefined_behaviour (cx (snd (snd (blob_io_cb (p + offsetof_module_vars) n u)))))"
proof -
  let ?mv = "p + offsetof_module_vars"
  have "DataExportIsEnabled E (datatyp = EdgeAppLibDataExportRaw) (cx s)"
    using assms(4,7) by (auto simp: DataExportSendData_def split: if_splits)
  then have "enqueue E S datatyp data (int (length b)) False data timestamp current division s = (p, t)"
    using assms(4) by (simp add: DataExportSendData_def encode_input_def)
  note A = enqueue_accepted [OF assms(1,2) this assms(7,5,6)]
  define m where "m = \<lparr>mv_blob_buff = data, blob_buff_size = int (length b), blob_buff_offset = 0,
    mv_identifier = MODULE_VARS_IDENTIFIER, blob_len = int (length b)\<rparr>"
  have M: "?mv \<noteq> 0" "module_vars t ?mv = Some m" "mv_identifier m = MODULE_VARS_IDENTIFIER"
    "blob_buff_offset m = int 0" "alive t (mv_blob_buff m)" "heap t (mv_blob_buff m) = Some b"
    "blob_buff_size m = int (length b)"
    using A assms(3,7) by (simp_all add: m_def)
  let ?u = "t\<lparr>module_vars := (module_vars t)(?mv \<mapsto> m\<lparr>blob_buff_offset := int (sum_list ns)\<rparr>)\<rparr>"
  have "blob_transfer ?mv ns t = (replicate (length ns) EVP_BLOB_IO_RESULT_SUCCESS, take (sum_list ns) b, ?u)"
    using blob_transfer_from [OF M] assms(8) by simp
  moreover have "length b < sum_list ns + n \<Longrightarrow> fst (blob_io_cb ?mv n ?u) = EVP_BLOB_IO_RESULT_SUCCESS
      \<and> undefined_behaviour (cx (snd (snd (blob_io_cb ?mv n ?u))))"
    by (rule blob_step(2) [where m = "m\<lparr>blob_buff_offset := int (sum_list ns)\<rparr>"])
      (use M assms(8) in \<open>simp_all add: alive_def\<close>)
  ultimately show ?thesis by fastforce
qed

text \<open>A library whose settings enable both ports and ask for a blob.\<close>

definition upload_env :: "nat env" where
  "upload_env = draining_env\<lparr>json_object_get_boolean := \<lambda>_ _. 1, json_object_has_value := \<lambda>_ _. True,
     json_object_get_number := \<lambda>_ _. 1, json_object_get_string := \<lambda>_ _. Some ''x''\<rparr>"

lemma map_set_init: "key \<noteq> 0 \<Longrightarrow> map_set key val map_init = ((key, val) # replicate 99 (0, 0), 0)"
  using replicate_Suc [of 99 "(0, 0) :: ptr \<times> ptr"]
  by (simp add: map_set_def map_init_def MAX_FUTURES_QUEUE_def)

lemma upload_accepted:
  "\<exists>t. DataExportSendData upload_env demo_services EdgeAppLibDataExportRaw 1 4 0 1 1 None demo_sys = (100, t)
     \<and> (\<exists>f. futures (cx t) 100 = Some f \<and> fut_result f = EdgeAppLibDataExportResultEnqueued)"
  by (auto simp: DataExportSendData_def DataExportIsEnabled_def upload_env_def encode_input_def enqueue_def
      InitializeFuture_def malloc_def demo_services_def demo_sys_def Let_def map_set_init cast_i32_def
      offsetof_module_vars_def start_operation_def send_method_def METHOD_of_int_def send_blob_def
      blob_filename_def undef_if_def undefined_step_def blob_request_def port_string_def
      split: METHOD.splits prod.splits if_splits)

theorem data_delivered_witness:
  "\<exists>(s :: nat sys) u. blob_transfer 180 [1, 2] s
     = ([EVP_BLOB_IO_RESULT_SUCCESS, EVP_BLOB_IO_RESULT_SUCCESS], [10, 20, 30], u)"
proof -
  from upload_accepted obtain t f where
    t: "DataExportSendData upload_env demo_services EdgeAppLibDataExportRaw 1 4 0 1 1 None demo_sys = (100, t)"
      "futures (cx t) 100 = Some f" "fut_result f = EdgeAppLibDataExportResultEnqueued" by blast
  have a: "alive demo_sys 1" "heap demo_sys 1 = Some [10, 20, 30, 40]"
    by (simp_all add: alive_def demo_sys_def)
  have n: "int (length [10, 20, 30, 40 :: u8]) = 4" by simp
  from data_delivered [OF demo_sys_ok a _ t(2,3), unfolded n, OF t(1), of "[1, 2]" 0]
  obtain u where "blob_transfer 180 [1, 2] t
      = ([EVP_BLOB_IO_RESULT_SUCCESS, EVP_BLOB_IO_RESULT_SUCCESS], [10, 20, 30], u)"
    by (auto simp: offsetof_module_vars_def numeral_2_eq_2 numeral_3_eq_3 simp del: blob_transfer.simps)
  then show ?thesis by blast
qed

section \<open>A message of metadata fits its buffer\<close>

text \<open>A buffer that holds the texts printed so far, cut at its end.\<close>

definition holds :: "nat \<Rightarrow> string \<Rightarrow> json_buffer \<Rightarrow> bool" where
  "holds n out b \<longleftrightarrow> jb_offset b = length out \<and> jb_text b = take (n - 1) out \<and> \<not> jb_overrun b"

lemma holds_printf: "holds n out b \<Longrightarrow> length out \<le> n \<Longrightarrow> holds n (out @ x) (buf_printf n x b)"
  by (auto simp: holds_def buf_printf_def)

lemma meta_head_holds:
  assumes "length model_id \<le> 127" "length device_id \<le> 40" "248 \<le> n"
  shows "\<exists>out. holds n out (meta_head n model_id device_id flg timestamp) \<and> length out \<le> 248
    \<and> out = ''{\"ModelID\":\"'' @ model_id @ ''\",\"DeviceID\":\"'' @ device_id
        @ (if flg then ''\",\"Image\":true,'' else ''\",\"Image\":false,'')
        @ ''\"Inferences\":[{\"T\":\"'' @ DataExportFormatTimestamp 32 timestamp @ ''\",''"
proof -
  let ?e = "\<lparr>jb_text = '''', jb_offset = 0, jb_overrun = False\<rparr>"
  let ?a = "''{\"ModelID\":\"'' @ model_id @ ''\",''"
  let ?b = "''\"DeviceID\":\"'' @ device_id @ ''\",''"
  let ?c = "if flg then ''\"Image\":true,'' else ''\"Image\":false,''"
  let ?d = "''\"Inferences\":[{\"T\":\"'' @ DataExportFormatTimestamp 32 timestamp @ ''\",''"
  have t: "length (DataExportFormatTimestamp 32 timestamp) = 17" by (rule timestamp_length)
  have l: "length ?a \<le> 141" "length ?b \<le> 54" "length ?c \<le> 14" "length ?d \<le> 39"
    using assms(1,2) t by simp_all
  have "holds n '''' ?e" by (simp add: holds_def)
  from holds_printf [OF this, of ?a] have h1: "holds n ?a (buf_printf n ?a ?e)" by simp
  from holds_printf [OF h1, of ?b] l assms(3)
  have h2: "holds n (?a @ ?b) (buf_printf n ?b (buf_printf n ?a ?e))" by linarith
  have "length (?a @ ?b) \<le> n" using l assms(3) by simp
  from holds_printf [OF h2 this, of ?c]
  have h3: "holds n ((?a @ ?b) @ ?c) (buf_printf n ?c (buf_printf n ?b (buf_printf n ?a ?e)))" .
  have l3: "length ((?a @ ?b) @ ?c) \<le> 209" using l by simp
  have "length ((?a @ ?b) @ ?c) \<le> n" using l3 assms(3) by linarith
  from holds_printf [OF h3 this, of ?d]
  have h4: "holds n (((?a @ ?b) @ ?c) @ ?d) (meta_head n model_id device_id flg timestamp)"
    unfolding meta_head_def Let_def .
  have "length (((?a @ ?b) @ ?c) @ ?d) \<le> 248" using l3 l by simp
  with h4 show ?thesis by (auto intro!: exI [of _ "((?a @ ?b) @ ?c) @ ?d"])
qed

lemma finish_meta_ok:
  assumes "holds n out b" "length out \<le> n"
  shows "\<not> jb_overrun (snd (finish_meta n x b))"
    and "fst (finish_meta n x b) = (if length (out @ x) < n then kProcessFormatResultOk
           else kProcessFormatResultMemoryError)"
    and "length (out @ x) < n \<Longrightarrow> jb_text (snd (finish_meta n x b)) = out @ x"
  using assms holds_printf [OF assms, of x] by (auto simp: finish_meta_def holds_def)

lemma meta_body_fits:
  assumes "holds n out b" "length out \<le> 248" "length (b64_encode E bytes) + 256 \<le> n"
  shows "\<not> jb_overrun (snd (meta_body E n datatyp bytes text b))"
    and "fst (meta_body E n datatyp bytes text b) = kProcessFormatResultOk
       \<or> fst (meta_body E n datatyp bytes text b) = kProcessFormatResultMemoryError"
    and "fst (meta_body E n datatyp bytes text b) = kProcessFormatResultOk \<Longrightarrow>
      jb_text (snd (meta_body E n datatyp bytes text b)) = out @ (case datatyp of
          EdgeAppLibSendDataBase64 \<Rightarrow> ''\"O\":\"'' @ b64_encode E bytes @ ''\",\"F\":0}]}''
        | EdgeAppLibSendDataJson \<Rightarrow> ''\"O\":'' @ text @ '',\"F\":1}]}'')"
proof -
  let ?e = "b64_encode E bytes"
  let ?o = "out @ ''\"O\":\"''"
  let ?x = "''\"O\":'' @ text @ '',\"F\":1}]}''" and ?y = "''\",\"F\":0}]}''"
  have n: "length out \<le> n" using assms by simp
  have h: "holds n ?o (buf_printf n ''\"O\":\"'' b)" using holds_printf [OF assms(1) n] .
  have c: "holds n (?o @ ?e) (buf_b64 n ?e (buf_printf n ''\"O\":\"'' b))"
    using h assms(2,3) by (auto simp: holds_def buf_b64_def)
  have l: "length (?o @ ?e) \<le> n" using assms(2,3) by simp
  note F = finish_meta_ok [OF c l, of ?y] and G = finish_meta_ok [OF assms(1) n, of ?x]
  show "\<not> jb_overrun (snd (meta_body E n datatyp bytes text b))"
    using F(1) G(1) by (simp add: meta_body_def Let_def split: EdgeAppLibSendDataType.split)
  show "fst (meta_body E n datatyp bytes text b) = kProcessFormatResultOk
       \<or> fst (meta_body E n datatyp bytes text b) = kProcessFormatResultMemoryError"
    using F(2) G(2) by (simp add: meta_body_def Let_def split: EdgeAppLibSendDataType.split)
  show "jb_text (snd (meta_body E n datatyp bytes text b)) = out @ (case datatyp of
          EdgeAppLibSendDataBase64 \<Rightarrow> ''\"O\":\"'' @ ?e @ ?y | EdgeAppLibSendDataJson \<Rightarrow> ?x)"
    if "fst (meta_body E n datatyp bytes text b) = kProcessFormatResultOk"
  proof (cases datatyp)
    case EdgeAppLibSendDataBase64
    then have m: "meta_body E n datatyp bytes text b
        = finish_meta n ?y (buf_b64 n ?e (buf_printf n ''\"O\":\"'' b))"
      by (simp add: meta_body_def Let_def)
    with that F(2) have "length ((?o @ ?e) @ ?y) < n" by (simp only: m split: if_splits) simp_all
    from F(3) [OF this] show ?thesis unfolding m by (simp add: EdgeAppLibSendDataBase64)
  next
    case EdgeAppLibSendDataJson
    then have m: "meta_body E n datatyp bytes text b = finish_meta n ?x b"
      by (simp add: meta_body_def)
    with that G(2) have "length (out @ ?x) < n" by (simp only: m split: if_splits) simp_all
    from G(3) [OF this] show ?thesis unfolding m by (simp add: EdgeAppLibSendDataJson)
  qed
qed

text \<open>
  What the interfaces promise: the strings of the sensor are at most 127 characters
  (\<open>info[128]\<close>), a device id at most 40 (\<open>WASM_BINDING_DEVICEID_MAX_SIZE\<close>), and base64 has 4
  characters for every 3 bytes begun.
\<close>

definition meta_services_ok :: "'w env \<Rightarrow> 'w services \<Rightarrow> bool" where
  "meta_services_ok E S \<longleftrightarrow>
     (\<forall>stream cat w. length (fst (snd (sensor_info_string S stream cat w))) \<le> 127)
     \<and> (\<forall>w. length (fst (snd (EsfSystemGetDeviceID S w))) \<le> 40)
     \<and> (\<forall>bs. length (b64_encode E bs) = (length bs + 2) div 3 * 4)"

lemma meta_strings:
  assumes "meta_services_ok E S"
  shows "get_info_string S cat s = (r, i, t) \<Longrightarrow> length i \<le> 127"
    and "get_device_id S s = (d, t) \<Longrightarrow> length d \<le> 40"
proof -
  have 1: "sensor_info_string S stream cat w = (r, i, w') \<Longrightarrow> length i \<le> 127" for stream cat w r i w'
    using assms unfolding meta_services_ok_def by (metis fst_conv snd_conv)
  have 2: "EsfSystemGetDeviceID S w = (r, i, w') \<Longrightarrow> length i \<le> 40" for w r i w'
    using assms unfolding meta_services_ok_def by (metis fst_conv snd_conv)
  show "get_info_string S cat s = (r, i, t) \<Longrightarrow> length i \<le> 127"
    using 1 by (auto simp: get_info_string_def split: if_splits prod.splits)
  show "get_device_id S s = (d, t) \<Longrightarrow> length d \<le> 40"
    using 2 by (auto simp: get_device_id_def split: if_splits prod.splits)
qed

lemma get_info_undefined:
  "get_info_string S cat s = (r, i, t) \<Longrightarrow>
     undefined_behaviour (cx t) = undefined_behaviour (cx s) \<and> heap t = heap s
     \<and> freed_buffers (cx t) = freed_buffers (cx s)"
  "get_device_id S s = (d, t) \<Longrightarrow>
     undefined_behaviour (cx t) = undefined_behaviour (cx s) \<and> heap t = heap s
     \<and> freed_buffers (cx t) = freed_buffers (cx s)"
  by (auto simp: get_info_string_def get_device_id_def split: if_splits prod.splits)

text \<open>The message, in full.\<close>

definition meta_message ::
  "'w env \<Rightarrow> string \<Rightarrow> string \<Rightarrow> bool \<Rightarrow> u64 \<Rightarrow> EdgeAppLibSendDataType \<Rightarrow> u8 list \<Rightarrow> string \<Rightarrow> string" where
  "meta_message E model_id device_id flg timestamp datatyp bytes text =
     ''{\"ModelID\":\"'' @ model_id @ ''\",\"DeviceID\":\"'' @ device_id
     @ (if flg then ''\",\"Image\":true,'' else ''\",\"Image\":false,'')
     @ ''\"Inferences\":[{\"T\":\"'' @ DataExportFormatTimestamp 32 timestamp @ ''\",''
     @ (case datatyp of
          EdgeAppLibSendDataBase64 \<Rightarrow> ''\"O\":\"'' @ b64_encode E bytes @ ''\",\"F\":0}]}''
        | EdgeAppLibSendDataJson \<Rightarrow> ''\"O\":'' @ text @ '',\"F\":1}]}'')"


text \<open>The encoder of the example writes zeroes.\<close>

definition zero_b64 :: "nat env" where
  "zero_b64 = (demo_env None)\<lparr>b64_encode := \<lambda>bs. replicate ((length bs + 2) div 3 * 4) (CHR ''A'')\<rparr>"


end
