(* ===== verification/QueueProperties.thy ===== *)
theory QueueProperties
  imports SendDataSync Demo
begin

text \<open>
  The queue of inferences of \<open>send_data.cpp\<close> collects, for every model, what was appended for it. The
  contract of such a collector is a locale; the array of the code implements it.
\<close>

section \<open>The contract\<close>

locale collector =
  fixes add :: "'k \<Rightarrow> 'v \<Rightarrow> 'q \<Rightarrow> 'q \<times> bool"
    and content :: "'q \<Rightarrow> 'k \<Rightarrow> 'i list"
    and item :: "'v \<Rightarrow> 'i"
    and ok :: "'q \<Rightarrow> bool"
    and fits :: "'v \<Rightarrow> bool"
  assumes add_ok: "ok q \<Longrightarrow> fits v \<Longrightarrow> add k v q = (q', b) \<Longrightarrow> ok q'"
    and add_content: "ok q \<Longrightarrow> fits v \<Longrightarrow> add k v q = (q', True) \<Longrightarrow>
          content q' = (content q)(k := content q k @ [item v])"
    and add_full: "ok q \<Longrightarrow> fits v \<Longrightarrow> add k v q = (q', False) \<Longrightarrow> content q' = content q"
begin

text \<open>A sequence of additions; those that are refused leave no trace.\<close>

fun add_all :: "('k \<times> 'v) list \<Rightarrow> 'q \<Rightarrow> 'q \<times> ('k \<times> 'v) list" where
  "add_all [] q = (q, [])"
| "add_all ((k, v) # ms) q =
     (let (q', b) = add k v q; (q'', taken) = add_all ms q'
      in (q'', if b then (k, v) # taken else taken))"

lemma add_all_content:
  assumes "ok q" "\<forall>(k, v) \<in> set ms. fits v" "add_all ms q = (q', taken)"
  shows "ok q'"
    and "content q' k = content q k @ map (item \<circ> snd) (filter (\<lambda>m. fst m = k) taken)"
proof -
  have "ok q' \<and> content q' k = content q k @ map (item \<circ> snd) (filter (\<lambda>m. fst m = k) taken)"
    using assms
  proof (induction ms arbitrary: q q' taken)
    case Nil
    then show ?case by simp
  next
    case (Cons m ms)
    obtain j v where m: "m = (j, v)" by fastforce
    obtain q1 b where 1: "add j v q = (q1, b)" by fastforce
    obtain q2 t2 where 2: "add_all ms q1 = (q2, t2)" by fastforce
    have f: "fits v" and fs: "\<forall>(k, v) \<in> set ms. fits v" using Cons.prems(2) m by auto
    have o1: "ok q1" using add_ok [OF Cons.prems(1) f 1] .
    note IH = Cons.IH [OF o1 fs 2]
    have e: "q' = q2" "taken = (if b then (j, v) # t2 else t2)"
      using Cons.prems(3) m 1 2 by auto
    show ?case
    proof (cases b)
      case True
      with add_content [OF Cons.prems(1) f, of j q1] 1
      have "content q1 = (content q)(j := content q j @ [item v])" by simp
      with IH e True show ?thesis by auto
    next
      case False
      with add_full [OF Cons.prems(1) f, of j q1] 1 IH e show ?thesis by simp
    qed
  qed
  then show "ok q'" "content q' k = content q k @ map (item \<circ> snd) (filter (\<lambda>m. fst m = k) taken)"
    by simp_all
qed

end

section \<open>The array implements it\<close>

definition inferences :: "json option \<Rightarrow> json list" where
  "inferences v =
     (case json_lookup (json_value_get_object v) ''Inferences'' of Some (JArray xs) \<Rightarrow> xs | _ \<Rightarrow> [])"

definition message_ok :: "json option \<Rightarrow> bool" where
  "message_ok v \<longleftrightarrow> (\<exists>obj xs. v = Some (JObject obj) \<and> map_of obj ''Inferences'' = Some (JArray xs))"

definition single_message :: "json option \<Rightarrow> bool" where
  "single_message v \<longleftrightarrow> message_ok v \<and> (\<exists>x. inferences v = [x])"

fun queue_ok :: "(string option \<times> json option) list \<Rightarrow> bool" where
  "queue_ok [] \<longleftrightarrow> True"
| "queue_ok ((k, v) # vec) \<longleftrightarrow>
     (if k = None then \<forall>m \<in> set vec. fst m = None else message_ok v \<and> queue_ok vec)"

fun queued :: "(string option \<times> json option) list \<Rightarrow> string \<Rightarrow> json list" where
  "queued [] j = []"
| "queued ((k, v) # vec) j =
     (if k = None then [] else if k = Some j then inferences v else queued vec j)"

lemma append_inference_ok:
  assumes "parson_ok E" "message_ok q" "single_message v"
  shows "message_ok (append_inference E q v)"
    and "inferences (append_inference E q v) = inferences q @ inferences v"
proof -
  obtain obj xs where q: "q = Some (JObject obj)" "map_of obj ''Inferences'' = Some (JArray xs)"
    using assms(2) unfolding message_ok_def by blast
  obtain ob' x where v: "v = Some (JObject ob')" "map_of ob' ''Inferences'' = Some (JArray [x])"
    using assms(3) by (auto simp: single_message_def message_ok_def inferences_def json_value_get_object_def
        json_as_object_def json_lookup_def)
  have a: "append_inference E q v
      = Some (JObject (json_object_set_value E obj ''Inferences'' (JArray (xs @ [x]))))"
    using q v by (simp add: append_inference_def json_value_get_object_def json_as_object_def
        parson_simps [OF assms(1)] json_lookup_def)
  show "message_ok (append_inference E q v)"
    "inferences (append_inference E q v) = inferences q @ inferences v"
    unfolding a using q v by (simp_all add: message_ok_def inferences_def json_value_get_object_def
        json_as_object_def json_lookup_def parson_simps [OF assms(1)])
qed

lemma append_loop_queue:
  assumes "parson_ok E" "single_message v"
  shows "queue_ok vec \<Longrightarrow> append_loop E (Some k) v vec = (vec', b, ub) \<Longrightarrow>
    queue_ok vec' \<and> \<not> ub \<and> length vec' = length vec
    \<and> queued vec' = (if b then (queued vec)(k := queued vec k @ inferences v) else queued vec)
    \<and> (b \<longleftrightarrow> Some k \<in> fst ` set vec \<or> None \<in> fst ` set vec)"
proof (induction vec arbitrary: vec' b ub)
  case Nil
  then show ?case by auto
next
  case (Cons m vec)
  obtain j w where m: "m = (j, w)" by fastforce
  have wf: "message_ok v" using assms(2) by (simp add: single_message_def)
  show ?case
  proof (cases "j = None")
    case True
    then have e: "vec' = (Some k, v) # vec" "b" "\<not> ub" using Cons.prems m by auto
    have n: "\<forall>m \<in> set vec. fst m = None" using Cons.prems m True by simp
    then have "queued vec i = []" "queue_ok vec" for i
      by (cases vec; force)+
    with e True m wf show ?thesis by (auto simp: fun_eq_iff)
  next
    case j: False
    show ?thesis
    proof (cases "j = Some k")
      case True
      then have e: "vec' = (j, append_inference E w v) # vec" "b" "\<not> ub" using Cons.prems m by auto
      have "message_ok w" "queue_ok vec" using Cons.prems m True by simp_all
      with append_inference_ok [OF assms(1) _ assms(2)] e True m show ?thesis
        by (auto simp: fun_eq_iff)
    next
      case False
      obtain v' b' u' where r: "append_loop E (Some k) v vec = (v', b', u')" by (metis prod_cases3)
      have e: "vec' = (j, w) # v'" "b = b'" "ub = u'" using Cons.prems m False j r by auto
      have "message_ok w" "queue_ok vec" using Cons.prems m j by simp_all
      with Cons.IH [OF _ r] e m j False show ?thesis by (auto simp: fun_eq_iff)
    qed
  qed
qed

text \<open>\<open>SendDataAppendOutputTensor\<close> as an operation on the queue.\<close>

definition append_op ::
  "'w env \<Rightarrow> string \<Rightarrow> json option \<Rightarrow> 'w sys \<Rightarrow> 'w sys \<times> bool" where
  "append_op E k v s =
     (let (r, t) = SendDataAppendOutputTensor E (Some k) v s in (t, r = EdgeAppLibSendDataResultSuccess))"

lemma append_op_props:
  assumes "parson_ok E" "single_message v" "queue_ok (output_tensor_vec s)" "append_op E k v s = (t, b)"
  shows "queue_ok (output_tensor_vec t)"
    and "queued (output_tensor_vec t) = (if b then (queued (output_tensor_vec s))
           (k := queued (output_tensor_vec s) k @ inferences v) else queued (output_tensor_vec s))"
    and "undefined_behaviour (cx t) = undefined_behaviour (cx s)"
proof -
  obtain vec c ub where a: "append_loop E (Some k) v (output_tensor_vec s) = (vec, c, ub)"
    by (metis prod_cases3)
  note L = append_loop_queue [OF assms(1-3) a]
  have "t = s\<lparr>output_tensor_vec := vec\<rparr>" "b = c"
    using assms(4) a L by (auto simp: append_op_def SendDataAppendOutputTensor_def undef_if_def split: if_splits)
  then show "queue_ok (output_tensor_vec t)"
    "queued (output_tensor_vec t) = (if b then (queued (output_tensor_vec s))
           (k := queued (output_tensor_vec s) k @ inferences v) else queued (output_tensor_vec s))"
    "undefined_behaviour (cx t) = undefined_behaviour (cx s)"
    using L by simp_all
qed

interpretation tensors: collector "append_op E" "\<lambda>s. queued (output_tensor_vec s)"
  "\<lambda>v. hd (inferences v)" "\<lambda>s. queue_ok (output_tensor_vec s) \<and> parson_ok E" single_message
proof unfold_locales
  fix s t :: "'a sys" and v k b
  assume s: "queue_ok (output_tensor_vec s) \<and> parson_ok E" and v: "single_message v"
  then have p: "parson_ok E" by simp
  note A = append_op_props [OF p v conjunct1 [OF s]]
  show "queue_ok (output_tensor_vec t) \<and> parson_ok E" if "append_op E k v s = (t, b)"
    using A [OF that] s by simp
  show "queued (output_tensor_vec t)
      = (queued (output_tensor_vec s))(k := queued (output_tensor_vec s) k @ [hd (inferences v)])"
    if "append_op E k v s = (t, True)"
    using A [OF that] v by (auto simp: single_message_def)
  show "queued (output_tensor_vec t) = queued (output_tensor_vec s)" if "append_op E k v s = (t, False)"
    using A [OF that] by simp
qed

text \<open>The messages of several models, one after the other, and those that were taken.\<close>

fun append_all ::
  "'w env \<Rightarrow> (string \<times> json option) list \<Rightarrow> 'w sys \<Rightarrow> 'w sys \<times> (string \<times> json option) list" where
  "append_all E [] s = (s, [])"
| "append_all E ((k, v) # ms) s =
     (let (r, s) = SendDataAppendOutputTensor E (Some k) v s; (t, taken) = append_all E ms s
      in (t, if r = EdgeAppLibSendDataResultSuccess then (k, v) # taken else taken))"

lemma append_all_tensors: "append_all E ms s = tensors.add_all E ms s"
  by (induction ms arbitrary: s) (auto simp: append_op_def Let_def split: prod.splits)

text \<open>C34. Starting from an empty queue, the queue holds for every model exactly the inferences of the
  messages that were taken for it, in the order in which they came, whatever messages of other
  models came between. A message is refused only when every element of the queue belongs to
  another model.
\<close>

theorem inferences_collected:
  assumes "parson_ok E" "\<forall>(k, v) \<in> set ms. single_message v"
    and "output_tensor_vec s = replicate MAX_NUMBER_OF_INFERENCE_QUEUE (None, None)"
    and "append_all E ms s = (t, taken)"
  shows "queued (output_tensor_vec t) k
      = map (hd \<circ> inferences \<circ> snd) (filter (\<lambda>m. fst m = k) taken)
    \<and> (single_message v \<longrightarrow> fst (SendDataAppendOutputTensor E (Some k) v t) \<noteq> EdgeAppLibSendDataResultSuccess
         \<longrightarrow> (\<forall>m \<in> set (output_tensor_vec t). fst m \<noteq> None \<and> fst m \<noteq> Some k))"
proof -
  have r: "queue_ok (replicate n (None, None))" "queued (replicate n (None, None)) k = []" for n
    by (induction n) simp_all
  have ok: "queue_ok (output_tensor_vec s) \<and> parson_ok E" using assms(1,3) r(1) by simp
  note A = tensors.add_all_content [OF ok assms(2) assms(4) [unfolded append_all_tensors]]
  have q: "queued (output_tensor_vec t) k = map (hd \<circ> inferences \<circ> snd) (filter (\<lambda>m. fst m = k) taken)"
    using A(2) [of k] assms(3) r(2) by (simp add: comp_def)
  have "\<forall>m \<in> set (output_tensor_vec t). fst m \<noteq> None \<and> fst m \<noteq> Some k"
    if v: "single_message v"
      and n: "fst (SendDataAppendOutputTensor E (Some k) v t) \<noteq> EdgeAppLibSendDataResultSuccess"
  proof -
    obtain vec c ub where a: "append_loop E (Some k) v (output_tensor_vec t) = (vec, c, ub)"
      by (metis prod_cases3)
    have "\<not> c" using n a by (auto simp: SendDataAppendOutputTensor_def)
    with append_loop_queue [OF assms(1) v conjunct1 [OF A(1)] a] show ?thesis by force
  qed
  with q show ?thesis by blast
qed

text \<open>Three messages of two models.\<close>

definition empty_queue :: "nat sys" where
  "empty_queue = \<lparr>cx = demo_state, heap = (\<lambda>_. None), brk = 100, module_vars = (\<lambda>_. None),
     output_tensor_vec = replicate MAX_NUMBER_OF_INFERENCE_QUEUE (None, None), inf_cnt = 1\<rparr>"

definition one_inference :: "json \<Rightarrow> json option" where
  "one_inference x = Some (JObject [(''Inferences'', JArray [x])])"

lemma single_one_inference: "single_message (one_inference x)"
  by (simp add: single_message_def message_ok_def one_inference_def inferences_def
      json_value_get_object_def json_as_object_def json_lookup_def)

definition three_messages :: "(string \<times> json option) list" where
  "three_messages = [(''a'', one_inference JNull), (''b'', one_inference (JBool True)), (''a'', one_inference (JNumber 1))]"

theorem inferences_collected_witness:
  "case append_all (demo_env None) three_messages empty_queue of (t, taken) \<Rightarrow>
     queued (output_tensor_vec t) ''a'' = map (hd \<circ> inferences \<circ> snd) (filter (\<lambda>m. fst m = ''a'') taken)"
proof -
  obtain t taken where a: "append_all (demo_env None) three_messages empty_queue = (t, taken)" by fastforce
  have "\<forall>(k, v) \<in> set three_messages. single_message v"
    by (simp add: three_messages_def single_one_inference)
  from inferences_collected [OF parson_ok_demo this _ a, of "''a''" None] show ?thesis
    using a by (simp add: empty_queue_def)
qed

end
