(* ===== verification/ReceiveData.thy ===== *)
theory ReceiveData
  imports ExportProperties
begin

text \<open>
  \<open>libs/receive_data\<close>: the download of a file with the check of its hash and the retries
  (\<open>receive_data.cpp\<close>), and the functions on files it uses (\<open>receive_data_utils.cpp\<close>). The file
  system, SHA-256, the parser of URIs and the EVP agent are parameters.
\<close>

section \<open>State and services\<close>

record EdgeAppLibReceiveDataInfo =
  info_url :: "string option"
  info_filename :: "string option"
  info_hash :: "string option"

text \<open>
  \<open>recv_result p\<close> is the result in the future at \<open>p\<close> while it lives; its \<open>module_vars\<close>, the key of
  its operation in the table, is at \<open>p + offsetof_recv_vars\<close>. \<open>retry\<close> is the static counter.
\<close>

record 'w recv =
  rcx :: "'w ctx"
  recv_result :: "ptr \<Rightarrow> EdgeAppLibReceiveDataResult option"
  recv_brk :: ptr
  retry :: int

definition offsetof_recv_vars :: nat where "offsetof_recv_vars = 80"
definition sizeof_recv_future :: nat where "sizeof_recv_future = 128"

text \<open>
  \<open>uri_path_tail\<close> is the last segment of the path of a URL that uriparser accepts,
  \<open>file_bytes\<close> what \<open>fopen\<close> and \<open>fread\<close> give, \<open>dir_entries\<close> the names of \<open>readdir\<close> with whether
  they are regular files. \<open>on_main_thread\<close> is the test of \<open>is_main_thread\<close>; \<open>wait_timed_out\<close> says
  whether a timed wait of another thread ended by its timeout.
\<close>

record 'w file_services =
  EVP_getWorkspaceDirectory :: "'w \<Rightarrow> string option"
  EVP_blobGet :: "string \<Rightarrow> string \<Rightarrow> ptr \<Rightarrow> 'w \<Rightarrow> EVP_RESULT \<times> 'w"
  uri_path_tail :: "string \<Rightarrow> string option"
  file_bytes :: "string \<Rightarrow> 'w \<Rightarrow> u8 list option"
  sha256_hex :: "u8 list \<Rightarrow> string"
  dir_entries :: "string \<Rightarrow> 'w \<Rightarrow> (string \<times> bool) list option"
  unlink :: "string \<Rightarrow> 'w \<Rightarrow> bool \<times> 'w"
  on_main_thread :: bool
  wait_timed_out :: "'w \<Rightarrow> bool"

abbreviation on_rcx :: "('w ctx \<Rightarrow> 'w ctx) \<Rightarrow> 'w recv \<Rightarrow> 'w recv" where
  "on_rcx f s \<equiv> s\<lparr>rcx := f (rcx s)\<rparr>"

section \<open>receive_data_utils\<close>

text \<open>The index of the last dot of a name, 0 when there is none.\<close>

fun last_dot :: "nat \<Rightarrow> string \<Rightarrow> nat" where
  "last_dot 0 t = 0"
| "last_dot (Suc n) t = (if t ! n = CHR ''.'' then n else last_dot n t)"

definition GetSuffixFromUrl :: "'w file_services \<Rightarrow> string \<Rightarrow> string option" where
  "GetSuffixFromUrl D url =
     (case uri_path_tail D url of
        None \<Rightarrow> None
      | Some tail \<Rightarrow>
          (let p = last_dot (length tail) tail in if p \<noteq> 0 then Some (drop p tail) else None))"

definition SHA256_HEX_SIZE :: nat where "SHA256_HEX_SIZE = 65"
definition SHA256_BUFSIZE :: nat where "SHA256_BUFSIZE = 4096"

text \<open>The file is read and hashed in pieces of the size of the buffer.\<close>

function read_chunks :: "u8 list \<Rightarrow> u8 list list" where
  "read_chunks bs = (if bs = [] then [] else take SHA256_BUFSIZE bs # read_chunks (drop SHA256_BUFSIZE bs))"
  by auto
termination by (relation "measure length") (auto simp: SHA256_BUFSIZE_def)

declare read_chunks.simps [simp del]

definition tolower :: "char \<Rightarrow> char" where
  "tolower c = (let n = of_char c :: nat in if 65 \<le> n \<and> n \<le> 90 then char_of (n + 32) else c)"

definition IsFileHashCorrect :: "'w file_services \<Rightarrow> string option \<Rightarrow> string \<Rightarrow> 'w \<Rightarrow> bool" where
  "IsFileHashCorrect D hash path w =
     (case hash of
        None \<Rightarrow> False
      | Some h \<Rightarrow>
          if min (length h) SHA256_HEX_SIZE \<noteq> SHA256_HEX_SIZE - 1 then False
          else case file_bytes D path w of
              None \<Rightarrow> False
            | Some bs \<Rightarrow>
                (let file_hash = sha256_hex D (concat (read_chunks bs))
                 in map tolower (take SHA256_HEX_SIZE h) = map tolower (take SHA256_HEX_SIZE file_hash)))"

definition IsRealFilename :: "string \<Rightarrow> string \<Rightarrow> bool" where
  "IsRealFilename filename real_filename =
     (if take (length real_filename) filename \<noteq> real_filename then False
      else if length filename = length real_filename then True
      else if length filename > length real_filename then filename ! length real_filename = CHR ''.''
      else False)"

definition MAX_PATH_LEN :: nat where "MAX_PATH_LEN = 256"
definition OPEN_DIR_FAILED :: int where "OPEN_DIR_FAILED = -1"
definition REMOVE_FILE_ATTEMPT :: int where "REMOVE_FILE_ATTEMPT = 1"
definition REMOVE_FILE_FAILED :: int where "REMOVE_FILE_FAILED = 9999"

fun remove_files ::
  "'w file_services \<Rightarrow> string \<Rightarrow> string \<Rightarrow> (string \<times> bool) list \<Rightarrow> int \<Rightarrow> 'w \<Rightarrow> int \<times> 'w" where
  "remove_files D dir filename [] ret w = (ret, w)"
| "remove_files D dir filename ((d_name, is_reg) # es) ret w =
     (if is_reg \<and> IsRealFilename d_name filename
      then (let (failed, w) = unlink D (snprintf MAX_PATH_LEN (dir @ ''/'' @ d_name)) w
            in remove_files D dir filename es
                 (ret + REMOVE_FILE_ATTEMPT + (if failed then REMOVE_FILE_FAILED else 0)) w)
      else remove_files D dir filename es ret w)"

definition RemoveOutdatedFile :: "'w file_services \<Rightarrow> string \<Rightarrow> string \<Rightarrow> 'w \<Rightarrow> int \<times> 'w" where
  "RemoveOutdatedFile D dir filename w =
     (case dir_entries D dir w of
        None \<Rightarrow> (OPEN_DIR_FAILED, w)
      | Some es \<Rightarrow> remove_files D dir filename es 0 w)"

section \<open>The callback\<close>

definition blob_cb_result :: "EVP_BLOB_CALLBACK_REASON \<Rightarrow> EdgeAppLibReceiveDataResult" where
  "blob_cb_result reason =
     (case reason of
        EVP_BLOB_CALLBACK_REASON_DONE _ _ \<Rightarrow> EdgeAppLibReceiveDataResultSuccess
      | EVP_BLOB_CALLBACK_REASON_EXIT \<Rightarrow> EdgeAppLibReceiveDataResultDenied
      | EVP_BLOB_CALLBACK_REASON_OTHER \<Rightarrow> EdgeAppLibReceiveDataResultFailure)"

definition blob_cb :: "ptr \<Rightarrow> EVP_BLOB_CALLBACK_REASON \<Rightarrow> 'w recv \<Rightarrow> 'w recv" where
  "blob_cb mv reason s =
     (let (p, m) = map_pop mv (map_vec (rcx s)); s = on_rcx (\<lambda>c. c\<lparr>map_vec := m\<rparr>) s
      in if p = 0 then on_rcx undefined_step s
         else if recv_result s p = None then on_rcx undefined_step s
         else s\<lparr>recv_result := (recv_result s)(p \<mapsto> blob_cb_result reason)\<rparr>)"

text \<open>
  An event of the agent: the operation decides whose callback is called, and a download was given
  \<open>blob_cb\<close>.
\<close>

definition blob_reason :: "evp_event \<Rightarrow> EVP_BLOB_CALLBACK_REASON" where
  "blob_reason ev = (case ev of BlobDoneEvent _ reason \<Rightarrow> reason | _ \<Rightarrow> EVP_BLOB_CALLBACK_REASON_OTHER)"

definition is_download :: "'w recv \<Rightarrow> ptr \<Rightarrow> bool" where
  "is_download s mv \<longleftrightarrow>
     (case map_lookup (map_vec (rcx s)) mv of None \<Rightarrow> False | Some p \<Rightarrow> recv_result s p \<noteq> None)"

definition recv_event :: "'w env \<Rightarrow> evp_event \<Rightarrow> 'w recv \<Rightarrow> 'w recv" where
  "recv_event E ev s =
     (case event_key ev of
        None \<Rightarrow> on_rcx (handle_event E ev) s
      | Some mv \<Rightarrow> if is_download s mv then blob_cb mv (blob_reason ev) s else on_rcx (handle_event E ev) s)"

definition recv_process :: "'w env \<Rightarrow> 'w recv \<Rightarrow> EVP_RESULT \<times> 'w recv" where
  "recv_process E s =
     (let (evs, res, w) = EVP_processEvent E (rcx s)
      in (res, fold (recv_event E) evs (on_rcx (\<lambda>c. c\<lparr>world := w\<rparr>) s)))"

section \<open>The download\<close>

definition recv_InitializeFuture :: "'w env \<Rightarrow> 'w recv \<Rightarrow> ptr \<times> 'w recv" where
  "recv_InitializeFuture E s =
     (if malloc_ok E (world (rcx s))
      then (recv_brk s,
            s\<lparr>recv_result := (recv_result s)(recv_brk s \<mapsto> EdgeAppLibReceiveDataResultUninitialized),
              recv_brk := recv_brk s + sizeof_recv_future + 1\<rparr>)
      else (0, s))"

definition full_path :: "'w file_services \<Rightarrow> string \<Rightarrow> string \<Rightarrow> string \<Rightarrow> string" where
  "full_path D workspace filename url =
     (case GetSuffixFromUrl D url of
        Some suffix \<Rightarrow> snprintf MAX_PATH_LEN (workspace @ ''/'' @ filename @ suffix)
      | None \<Rightarrow> snprintf MAX_PATH_LEN (workspace @ ''/'' @ filename))"

definition set_recv :: "ptr \<Rightarrow> EdgeAppLibReceiveDataResult \<Rightarrow> 'w recv \<Rightarrow> 'w recv" where
  "set_recv p r s = s\<lparr>recv_result := (recv_result s)(p \<mapsto> r)\<rparr>"

text \<open>\<open>EVP_blobGet url path mv\<close> is \<open>EVP_blobOperation\<close> with \<open>EVP_BLOB_OP_GET\<close>.\<close>

definition Download_Blob ::
  "'w env \<Rightarrow> 'w file_services \<Rightarrow> string \<Rightarrow> string \<Rightarrow> string option \<Rightarrow> 'w recv \<Rightarrow> ptr \<times> 'w recv" where
  "Download_Blob E D url filename hash s =
     (let (future, s) = recv_InitializeFuture E s; mv = future + offsetof_recv_vars
      in if future = 0 then (0, s)
         else case EVP_getWorkspaceDirectory D (world (rcx s)) of
             None \<Rightarrow> (future, set_recv future EdgeAppLibReceiveDataResultUninitialized s)
           | Some workspace \<Rightarrow>
               let path = full_path D workspace filename url
               in if IsFileHashCorrect D hash path (world (rcx s))
                  then (future, set_recv future EdgeAppLibReceiveDataResultSuccess s)
                  else let w = snd (RemoveOutdatedFile D workspace filename (world (rcx s)));
                           s = on_rcx (\<lambda>c. c\<lparr>world := w\<rparr>) s;
                           (m, is_set) = map_set mv future (map_vec (rcx s));
                           s = on_rcx (\<lambda>c. c\<lparr>map_vec := m\<rparr>) s
                       in if is_set = -1
                          then (future, set_recv future EdgeAppLibReceiveDataResultDataTooLarge s)
                          else let (result, w) = EVP_blobGet D url path mv (world (rcx s));
                                   s = on_rcx (\<lambda>c. c\<lparr>world := w\<rparr>) s
                               in (future, set_recv future
                                     (if result \<noteq> EVP_OK then EdgeAppLibReceiveDataResultFailure
                                      else EdgeAppLibReceiveDataResultEnqueued) s))"

text \<open>
  The loop of \<open>ReceiveDataAwait\<close>. The main thread processes events itself; another thread waits
  while the main thread does. Only the last wait is asked whether it timed out.
\<close>

partial_function (option) recv_wait ::
  "'w env \<Rightarrow> 'w file_services \<Rightarrow> ptr \<Rightarrow> int \<Rightarrow> bool \<Rightarrow> 'w recv \<Rightarrow> (bool \<times> 'w recv) option" where
  "recv_wait E D p timeout_ms timed_out s =
     (if recv_result s p \<noteq> Some EdgeAppLibReceiveDataResultEnqueued then Some (timed_out, s)
      else let (evp_res, t) = recv_process E s
           in if on_main_thread D
              then (if evp_res = EVP_SHOULDEXIT
                    then Some (timed_out, set_recv p EdgeAppLibReceiveDataResultFailure t)
                    else recv_wait E D p timeout_ms timed_out t)
              else recv_wait E D p timeout_ms (0 \<le> timeout_ms \<and> wait_timed_out D (world (rcx t))) t)"

definition ReceiveDataAwait ::
  "'w env \<Rightarrow> 'w file_services \<Rightarrow> ptr \<Rightarrow> int \<Rightarrow> 'w recv
     \<Rightarrow> (EdgeAppLibReceiveDataResult \<times> 'w recv) option" where
  "ReceiveDataAwait E D p timeout_ms s =
     (case recv_wait E D p timeout_ms False s of
        None \<Rightarrow> None
      | Some (timed_out, s) \<Rightarrow>
          (case recv_result s p of
             None \<Rightarrow> Some (EdgeAppLibReceiveDataResultFailure, on_rcx undefined_step s)
           | Some r \<Rightarrow> Some (if timed_out then EdgeAppLibReceiveDataResultTimeout else r,
                             s\<lparr>recv_result := (recv_result s)(p := None)\<rparr>)))"

section \<open>The check of the hash and the retries\<close>

definition MAX_AI_MODEL_DOWNLOAD_RETRY :: int where "MAX_AI_MODEL_DOWNLOAD_RETRY = 2"

text \<open>With an item \<open>HashCheckAndRetry\<close> counts and checks, without one it resets the counter.\<close>

definition HashCheckAndRetry ::
  "'w file_services \<Rightarrow> (string \<times> string \<times> string option) option \<Rightarrow> 'w recv \<Rightarrow> int \<times> 'w recv" where
  "HashCheckAndRetry D info s =
     (case info of
        None \<Rightarrow> (0, s\<lparr>retry := 0\<rparr>)
      | Some (url, filename, hash) \<Rightarrow>
          (let n = retry s + 1
           in case EVP_getWorkspaceDirectory D (world (rcx s)) of
               None \<Rightarrow> (n, s\<lparr>retry := n\<rparr>)
             | Some workspace \<Rightarrow>
                 if IsFileHashCorrect D hash (full_path D workspace filename url) (world (rcx s))
                 then (0, s\<lparr>retry := 0\<rparr>) else (n, s\<lparr>retry := n\<rparr>)))"

text \<open>One download, up to the check.\<close>

definition download_once ::
  "'w env \<Rightarrow> 'w file_services \<Rightarrow> string \<Rightarrow> string \<Rightarrow> string option \<Rightarrow> int \<Rightarrow> 'w recv
     \<Rightarrow> (EdgeAppLibReceiveDataResult \<times> 'w recv) option" where
  "download_once E D url filename hash timeout_ms s =
     (let (future, s) = Download_Blob E D url filename hash s
      in if future = 0 then Some (EdgeAppLibReceiveDataResultDataTooLarge, on_rcx undefined_step s)
         else let result = (case recv_result s future of None \<Rightarrow> EdgeAppLibReceiveDataResultFailure | Some r \<Rightarrow> r)
              in if result \<notin> {EdgeAppLibReceiveDataResultFailure, EdgeAppLibReceiveDataResultDataTooLarge,
                              EdgeAppLibReceiveDataResultDenied}
                 then ReceiveDataAwait E D future timeout_ms s
                 else Some (result, s\<lparr>recv_result := (recv_result s)(future := None)\<rparr>))"

partial_function (option) receive_loop ::
  "'w env \<Rightarrow> 'w file_services \<Rightarrow> string \<Rightarrow> string \<Rightarrow> string option \<Rightarrow> int \<Rightarrow> 'w recv
     \<Rightarrow> (EdgeAppLibReceiveDataResult \<times> 'w recv) option" where
  "receive_loop E D url filename hash timeout_ms s =
     (case download_once E D url filename hash timeout_ms s of
        None \<Rightarrow> None
      | Some (result, s) \<Rightarrow>
          if result = EdgeAppLibReceiveDataResultSuccess
          then (let (n, s) = HashCheckAndRetry D (Some (url, filename, hash)) s
                in if MAX_AI_MODEL_DOWNLOAD_RETRY < n
                   then Some (EdgeAppLibReceiveDataResultFailure, snd (HashCheckAndRetry D None s))
                   else if 0 < n then receive_loop E D url filename hash timeout_ms s
                   else Some (result, s))
          else Some (result, snd (HashCheckAndRetry D None s)))"

definition EdgeAppLibReceiveData ::
  "'w env \<Rightarrow> 'w file_services \<Rightarrow> bool \<Rightarrow> EdgeAppLibReceiveDataInfo option \<Rightarrow> int \<Rightarrow> 'w recv
     \<Rightarrow> (EdgeAppLibReceiveDataResult \<times> 'w recv) option" where
  "EdgeAppLibReceiveData E D has_client info timeout_ms s =
     (if \<not> has_client then Some (EdgeAppLibReceiveDataResultUninitialized, s)
      else case info of
          None \<Rightarrow> Some (EdgeAppLibReceiveDataResultInvalidParam, s)
        | Some i \<Rightarrow>
            (case (info_url i, info_filename i) of
               (Some url, Some filename) \<Rightarrow> receive_loop E D url filename (info_hash i) timeout_ms s
             | _ \<Rightarrow> Some (EdgeAppLibReceiveDataResultInvalidParam, s)))"

definition EdgeAppLibReceiveDataStorePath :: "'w file_services \<Rightarrow> 'w recv \<Rightarrow> string option" where
  "EdgeAppLibReceiveDataStorePath D s = EVP_getWorkspaceDirectory D (world (rcx s))"

end
