(* ===== verification/ReceiveProperties.thy ===== *)
theory ReceiveProperties
  imports ReceiveData
begin

text \<open>
  Properties of a download: success means that the hash of the file is the one asked for, at most
  three downloads are made, and the call returns when the agent makes progress.
\<close>

section \<open>Files\<close>

text \<open>Reading in pieces gives the whole file.\<close>

lemma concat_read_chunks: "concat (read_chunks bs) = bs"
proof (induction bs rule: read_chunks.induct)
  case (1 bs)
  then show ?case by (cases "bs = []") (simp_all add: read_chunks.simps [of bs] read_chunks.simps [of "[]"])
qed

lemma IsFileHashCorrect_iff:
  "IsFileHashCorrect D hash path w \<longleftrightarrow>
     (\<exists>h bs. hash = Some h \<and> length h = 64 \<and> file_bytes D path w = Some bs
       \<and> map tolower h = map tolower (take SHA256_HEX_SIZE (sha256_hex D bs)))"
  by (auto simp: IsFileHashCorrect_def SHA256_HEX_SIZE_def concat_read_chunks min_def
      split: option.splits if_splits)

section \<open>The counter of retries\<close>

lemma blob_cb_retry: "retry (blob_cb mv r s) = retry s"
  by (simp add: blob_cb_def Let_def split: prod.split)

lemma recv_event_retry: "retry (recv_event E ev s) = retry s"
  by (simp add: recv_event_def blob_cb_retry split: option.split)

lemma recv_process_retry: "recv_process E s = (res, t) \<Longrightarrow> retry t = retry s"
proof -
  have "retry (fold (recv_event E) evs s) = retry s" for evs and s :: "'a recv"
    by (induction evs arbitrary: s) (simp_all add: recv_event_retry)
  then show "recv_process E s = (res, t) \<Longrightarrow> retry t = retry s"
    by (auto simp: recv_process_def split: prod.splits)
qed

lemma recv_wait_retry:
  assumes "recv_wait E D p n b s = Some r"
  shows "retry (snd r) = retry s"
  using assms
proof (rule recv_wait.raw_induct [where P = "\<lambda>E D p n b s r. retry (snd r) = retry s", rotated])
  fix rw and E :: "'a env" and D p n b and s :: "'a recv" and r :: "bool \<times> 'a recv"
  assume IH: "\<And>D p n b s E r. rw D p n b s E = Some r \<Longrightarrow> retry (snd r) = retry E"
    and r: "(if recv_result s p \<noteq> Some EdgeAppLibReceiveDataResultEnqueued then Some (b, s)
      else let (evp_res, t) = recv_process E s
           in if on_main_thread D
              then (if evp_res = EVP_SHOULDEXIT
                    then Some (b, set_recv p EdgeAppLibReceiveDataResultFailure t) else rw E D p n b t)
              else rw E D p n (0 \<le> n \<and> wait_timed_out D (world (rcx t))) t) = Some r"
  obtain e t where t: "recv_process E s = (e, t)" by fastforce
  from r t recv_process_retry [OF t] show "retry (snd r) = retry s"
    by (auto simp: set_recv_def split: if_splits dest!: IH)
qed

lemma Await_retry: "ReceiveDataAwait E D p n s = Some (r, t) \<Longrightarrow> retry t = retry s"
  by (auto simp: ReceiveDataAwait_def split: option.splits dest!: recv_wait_retry)

lemma Download_retry: "Download_Blob E D url filename hash s = (p, t) \<Longrightarrow> retry t = retry s"
  by (auto simp: Download_Blob_def recv_InitializeFuture_def set_recv_def Let_def
      split: if_splits option.splits prod.splits)

lemma download_once_retry:
  "download_once E D url filename hash n s = Some (r, t) \<Longrightarrow> retry t = retry s"
  by (auto simp: download_once_def Let_def split: prod.splits if_splits
      dest!: Download_retry Await_retry)

section \<open>What success means\<close>

definition verified :: "'w file_services \<Rightarrow> string \<Rightarrow> string \<Rightarrow> string option \<Rightarrow> 'w recv \<Rightarrow> bool" where
  "verified D url filename hash s \<longleftrightarrow>
     (\<exists>workspace. EVP_getWorkspaceDirectory D (world (rcx s)) = Some workspace
        \<and> IsFileHashCorrect D hash (full_path D workspace filename url) (world (rcx s)))"

lemma HashCheck_cases:
  assumes "HashCheckAndRetry D (Some (url, filename, hash)) s = (n, t)"
  shows "t = s\<lparr>retry := n\<rparr>" and "(n = 0 \<and> verified D url filename hash t) \<or> n = retry s + 1"
  using assms by (auto simp: HashCheckAndRetry_def Let_def verified_def split: option.splits if_splits)

text \<open>The recursion, unrolled at most \<open>k\<close> times.\<close>

fun receive_upto ::
  "nat \<Rightarrow> 'w env \<Rightarrow> 'w file_services \<Rightarrow> string \<Rightarrow> string \<Rightarrow> string option \<Rightarrow> int \<Rightarrow> 'w recv
     \<Rightarrow> (EdgeAppLibReceiveDataResult \<times> 'w recv) option" where
  "receive_upto 0 E D url filename hash n s = Some (EdgeAppLibReceiveDataResultTimeout, s)"
| "receive_upto (Suc k) E D url filename hash n s =
     (case download_once E D url filename hash n s of
        None \<Rightarrow> None
      | Some (result, t) \<Rightarrow>
          if result = EdgeAppLibReceiveDataResultSuccess
          then (let (m, u) = HashCheckAndRetry D (Some (url, filename, hash)) t
                in if MAX_AI_MODEL_DOWNLOAD_RETRY < m
                   then Some (EdgeAppLibReceiveDataResultFailure, snd (HashCheckAndRetry D None u))
                   else if 0 < m then receive_upto k E D url filename hash n u
                   else Some (result, u))
          else Some (result, snd (HashCheckAndRetry D None t)))"

lemma receive_loop_bounded:
  "0 \<le> retry s \<Longrightarrow> 3 \<le> retry s + int k \<Longrightarrow> 0 < k \<Longrightarrow>
     receive_loop E D url filename hash n s = receive_upto k E D url filename hash n s"
proof (induction k arbitrary: s)
  case 0
  then show ?case by simp
next
  case (Suc k)
  show ?case
  proof (cases "download_once E D url filename hash n s")
    case None
    then show ?thesis by (subst receive_loop.simps) simp
  next
    case (Some p)
    obtain r t where p: "p = (r, t)" by fastforce
    obtain m u where h: "HashCheckAndRetry D (Some (url, filename, hash)) t = (m, u)" by fastforce
    have rt: "retry t = retry s" using download_once_retry Some p by blast
    have u: "u = t\<lparr>retry := m\<rparr>" "m = 0 \<or> m = retry t + 1" using HashCheck_cases [OF h] by blast+
    have "receive_loop E D url filename hash n u = receive_upto k E D url filename hash n u"
      if "0 < m" "m \<le> 2"
      using Suc.IH [of u] u rt that Suc.prems by (cases k) auto
    then show ?thesis using Some p h
      by (subst receive_loop.simps) (simp add: MAX_AI_MODEL_DOWNLOAD_RETRY_def)
  qed
qed

lemma receive_upto_result:
  assumes "receive_upto k E D url filename hash n s = Some (r, t)" "0 \<le> retry s" "3 \<le> retry s + int k" "0 < k"
  shows "retry t = 0 \<and> (r = EdgeAppLibReceiveDataResultSuccess \<longrightarrow> verified D url filename hash t)"
  using assms
proof (induction k arbitrary: s)
  case 0
  then show ?case by simp
next
  case (Suc k)
  from Suc.prems(1) obtain r1 t1 where d: "download_once E D url filename hash n s = Some (r1, t1)"
    by (cases "download_once E D url filename hash n s") auto
  obtain m u where h: "HashCheckAndRetry D (Some (url, filename, hash)) t1 = (m, u)" by fastforce
  note H = HashCheck_cases [OF h]
  have rt: "retry t1 = retry s" using download_once_retry [OF d] .
  show ?case
  proof (cases "r1 = EdgeAppLibReceiveDataResultSuccess \<and> 0 < m \<and> m \<le> 2")
    case True
    then have "receive_upto k E D url filename hash n u = Some (r, t)"
      using Suc.prems(1) d h by (simp add: MAX_AI_MODEL_DOWNLOAD_RETRY_def)
    then show ?thesis using Suc.IH [of u] H rt True Suc.prems by (cases k) auto
  next
    case False
    then show ?thesis using Suc.prems(1) d h H rt Suc.prems(2)
      by (auto simp: MAX_AI_MODEL_DOWNLOAD_RETRY_def HashCheckAndRetry_def split: if_splits)
  qed
qed

section \<open>Waiting ends\<close>

text \<open>A download is in the table while its future is enqueued; addresses are below \<open>recv_brk\<close>.\<close>

definition recv_ok :: "'w recv \<Rightarrow> bool" where
  "recv_ok s \<longleftrightarrow> map_invar (map_vec (rcx s)) \<and> 0 < recv_brk s
     \<and> (\<forall>k p. map_lookup (map_vec (rcx s)) k = Some p \<longrightarrow> k < recv_brk s)
     \<and> (\<forall>p. recv_result s p \<noteq> None \<longrightarrow> p < recv_brk s)
     \<and> (\<forall>p. recv_result s p = Some EdgeAppLibReceiveDataResultEnqueued \<longrightarrow>
          map_lookup (map_vec (rcx s)) (p + offsetof_recv_vars) = Some p)"

lemma blob_cb_map: "map_vec (rcx (blob_cb mv r s)) = snd (map_pop mv (map_vec (rcx s)))"
  by (simp add: blob_cb_def undefined_step_def Let_def split: prod.split)

lemma recv_event_map: "map_vec (rcx (recv_event E ev s)) = map_vec (handle_event E ev (rcx s))"
  by (simp add: recv_event_def handle_event_map blob_cb_map split: option.split)

lemma recv_event_ok:
  assumes "recv_ok s" "event_key ev \<noteq> Some 0"
  shows "recv_ok (recv_event E ev s)"
proof -
  have I: "map_invar (map_vec (rcx s))" using assms(1) by (simp add: recv_ok_def)
  note H = handle_event_pending [OF I assms(2), where E = E]
  show ?thesis
  proof (cases "\<exists>mv. event_key ev = Some mv \<and> is_download s mv")
    case False
    then have e: "recv_event E ev s = on_rcx (handle_event E ev) s"
      by (auto simp: recv_event_def split: option.split)
    have l: "map_lookup (map_vec (handle_event E ev (rcx s))) k = Some p \<Longrightarrow>
        map_lookup (map_vec (rcx s)) k = Some p" for k p
    proof (cases "event_key ev = Some k")
      case True
      then have "k \<noteq> 0" using assms(2) by auto
      moreover obtain v m where "map_pop k (map_vec (rcx s)) = (v, m)" by fastforce
      ultimately have "map_lookup (map_vec (handle_event E ev (rcx s))) k = None"
        using fq.pop_ok [OF I] True by (auto simp: handle_event_map)
      then show "map_lookup (map_vec (handle_event E ev (rcx s))) k = Some p \<Longrightarrow>
        map_lookup (map_vec (rcx s)) k = Some p" by simp
    qed (simp add: H(4))
    have "event_key ev \<noteq> Some (p + offsetof_recv_vars)"
      if "recv_result s p = Some EdgeAppLibReceiveDataResultEnqueued" for p
      using that False assms(1) by (auto simp: recv_ok_def is_download_def)
    then have q: "map_lookup (map_vec (handle_event E ev (rcx s))) (p + offsetof_recv_vars) = Some p"
      if "recv_result s p = Some EdgeAppLibReceiveDataResultEnqueued" for p
      using that assms(1) H(4) by (simp add: recv_ok_def)
    have "k < recv_brk s" if "map_lookup (map_vec (handle_event E ev (rcx s))) k = Some p" for k p
      using l [OF that] assms(1) by (simp add: recv_ok_def)
    with q H(1) assms(1) show ?thesis unfolding e recv_ok_def by simp
  next
    case True
    then obtain mv p where mv: "event_key ev = Some mv" "map_lookup (map_vec (rcx s)) mv = Some p"
      "recv_result s p \<noteq> None" by (auto simp: is_download_def split: option.splits)
    obtain v m where pop: "map_pop mv (map_vec (rcx s)) = (v, m)" by fastforce
    have "mv \<noteq> 0" using assms(2) mv by auto
    note P = fq.pop_ok [OF I this pop]
    have "p \<noteq> 0" using fq.no_null [OF I mv(2)] by simp
    then have e: "recv_event E ev s = s\<lparr>rcx := (rcx s)\<lparr>map_vec := m\<rparr>,
        recv_result := (recv_result s)(p \<mapsto> blob_cb_result (blob_reason ev))\<rparr>"
      using True mv pop P by (auto simp: recv_event_def blob_cb_def)
    have n: "blob_cb_result r \<noteq> EdgeAppLibReceiveDataResultEnqueued" for r
      by (simp add: blob_cb_result_def split: EVP_BLOB_CALLBACK_REASON.split)
    have "mv \<noteq> q + offsetof_recv_vars"
      if "recv_result s q = Some EdgeAppLibReceiveDataResultEnqueued" "q \<noteq> p" for q
      using that assms(1) mv(2) by (auto simp: recv_ok_def)
    then have q: "map_lookup m (q + offsetof_recv_vars) = Some q"
      if "((recv_result s)(p \<mapsto> blob_cb_result (blob_reason ev))) q
        = Some EdgeAppLibReceiveDataResultEnqueued" for q
      using that assms(1) P n by (cases "q = p") (auto simp: recv_ok_def)
    have "q < recv_brk s" if "((recv_result s)(p \<mapsto> blob_cb_result (blob_reason ev))) q \<noteq> None" for q
      using that assms(1) mv(3) by (cases "q = p") (auto simp: recv_ok_def)
    with q P assms(1) show ?thesis unfolding e recv_ok_def by auto
  qed
qed

lemma recv_events_map:
  "map_vec (rcx s) = map_vec c \<Longrightarrow>
     map_vec (rcx (fold (recv_event E) evs s)) = map_vec (handle_events E evs c)"
proof (induction evs arbitrary: s c)
  case Nil
  then show ?case by (simp add: handle_events_def)
next
  case (Cons ev evs)
  have "map_vec (rcx (recv_event E ev s)) = map_vec (handle_event E ev c)"
    unfolding recv_event_map handle_event_map Cons.prems ..
  from Cons.IH [OF this] show ?case by (simp add: handle_events_def)
qed

lemma recv_events_ok:
  "recv_ok s \<Longrightarrow> \<forall>ev \<in> set evs. event_key ev \<noteq> Some 0 \<Longrightarrow> recv_ok (fold (recv_event E) evs s)"
  by (induction evs arbitrary: s) (simp_all add: recv_event_ok)

lemma recv_process_ok:
  assumes "evp_makes_progress E" "recv_ok s" "recv_process E s = (res, t)"
  shows "recv_ok t"
    and "DataExportHasPendingOperations (rcx s) \<Longrightarrow>
      fq.pending (map_vec (rcx t)) < fq.pending (map_vec (rcx s))"
proof -
  obtain evs r w where e: "EVP_processEvent E (rcx s) = (evs, r, w)" by (metis prod_cases3)
  from assms(1) [unfolded evp_makes_progress_def, THEN spec, of "rcx s"] e
  have k: "\<forall>ev \<in> set evs. event_key ev \<noteq> Some 0" by simp
  have t: "t = fold (recv_event E) evs (on_rcx (\<lambda>c. c\<lparr>world := w\<rparr>) s)"
    using assms(3) e by (simp add: recv_process_def)
  have "recv_ok (on_rcx (\<lambda>c. c\<lparr>world := w\<rparr>) s)" using assms(2) by (simp add: recv_ok_def)
  from recv_events_ok [OF this k] show "recv_ok t" unfolding t .
  have "map_vec (rcx t) = map_vec (snd (processEvent E (rcx s)))"
    using recv_events_map [of "on_rcx (\<lambda>c. c\<lparr>world := w\<rparr>) s" "(rcx s)\<lparr>world := w\<rparr>" E evs] e
    by (simp add: t processEvent_def)
  then show "DataExportHasPendingOperations (rcx s) \<Longrightarrow>
      fq.pending (map_vec (rcx t)) < fq.pending (map_vec (rcx s))"
    using processEvent_progress(2) [OF assms(1), of "rcx s"] assms(2) by (simp add: recv_ok_def)
qed

lemma recv_ok_set:
  "recv_ok s \<Longrightarrow> p < recv_brk s \<Longrightarrow> r \<noteq> EdgeAppLibReceiveDataResultEnqueued \<Longrightarrow> recv_ok (set_recv p r s)"
  by (auto simp: recv_ok_def set_recv_def)

lemma recv_ok_clear: "recv_ok s \<Longrightarrow> recv_ok (s\<lparr>recv_result := (recv_result s)(p := None)\<rparr>)"
  by (auto simp: recv_ok_def)

lemma recv_ok_undef: "recv_ok (on_rcx undefined_step s) = recv_ok s"
  by (simp add: recv_ok_def undefined_step_def)

lemma recv_wait_ends:
  assumes "evp_makes_progress E"
  shows "recv_ok s \<Longrightarrow> \<exists>c t. recv_wait E D p n b s = Some (c, t) \<and> recv_ok t"
proof (induction "fq.pending (map_vec (rcx s))" arbitrary: s b rule: less_induct)
  case less
  show ?case
  proof (cases "recv_result s p = Some EdgeAppLibReceiveDataResultEnqueued")
    case False
    with less.prems show ?thesis by (subst recv_wait.simps) simp
  next
    case True
    obtain res t where t: "recv_process E s = (res, t)" by fastforce
    have I: "map_invar (map_vec (rcx s))" using less.prems by (simp add: recv_ok_def)
    have l: "map_lookup (map_vec (rcx s)) (p + offsetof_recv_vars) = Some p" "p < recv_brk s"
      using less.prems True by (simp_all add: recv_ok_def)
    then have "DataExportHasPendingOperations (rcx s)"
      using fq.empty_ok [OF I] unfolding DataExportHasPendingOperations_def by auto
    note P = recv_process_ok [OF assms less.prems t] recv_process_ok(2) [OF assms less.prems t this]
    have "recv_brk t = recv_brk s"
    proof -
      have "recv_brk (recv_event E ev u) = recv_brk u" for ev and u :: "'a recv"
        by (simp add: recv_event_def blob_cb_def Let_def split: option.split prod.split)
      then have "recv_brk (fold (recv_event E) evs u) = recv_brk u" for evs and u :: "'a recv"
        by (induction evs arbitrary: u) simp_all
      with t show ?thesis by (auto simp: recv_process_def split: prod.splits)
    qed
    then have "recv_ok (set_recv p EdgeAppLibReceiveDataResultFailure t)"
      using recv_ok_set [OF P(1)] l(2) by simp
    with less.hyps [OF P(3) P(1)] True t show ?thesis by (subst recv_wait.simps) simp
  qed
qed

section \<open>The whole call\<close>

lemma recv_new_ok:
  assumes "recv_ok s" "recv_InitializeFuture E s = (p, t)"
  shows "recv_ok t" and "p \<noteq> 0 \<Longrightarrow> p + offsetof_recv_vars < recv_brk t
    \<and> map_lookup (map_vec (rcx t)) (p + offsetof_recv_vars) = None"
proof -
  have k: "map_lookup (map_vec (rcx s)) (recv_brk s + j) = None" for j
    using assms(1) by (cases "map_lookup (map_vec (rcx s)) (recv_brk s + j)") (auto simp: recv_ok_def)
  have b: "k' < Suc (recv_brk s + m)" if "map_lookup (map_vec (rcx s)) k' = Some q" for k' q m
    using that assms(1) by (auto simp: recv_ok_def intro!: less_SucI trans_less_add1)
  have c: "q < Suc (recv_brk s + m)" if "recv_result s q = Some r" for q r m
    using that assms(1) by (auto simp: recv_ok_def intro!: less_SucI trans_less_add1)
  have d: "map_lookup (map_vec (rcx s)) (q + offsetof_recv_vars) = Some q"
    if "recv_result s q = Some EdgeAppLibReceiveDataResultEnqueued" for q
    using that assms(1) by (simp add: recv_ok_def)
  show "recv_ok t" using assms b c d
    by (auto simp: recv_InitializeFuture_def recv_ok_def split: if_splits)
  show "p \<noteq> 0 \<Longrightarrow> p + offsetof_recv_vars < recv_brk t
      \<and> map_lookup (map_vec (rcx t)) (p + offsetof_recv_vars) = None"
    using assms(2) k by (auto simp: recv_InitializeFuture_def sizeof_recv_future_def
        offsetof_recv_vars_def split: if_splits)
qed

lemma recv_ok_world: "recv_ok (on_rcx (\<lambda>c. c\<lparr>world := w\<rparr>) s) = recv_ok s"
  by (simp add: recv_ok_def)

lemma recv_enter:
  assumes "recv_ok s" "0 < p" "p + offsetof_recv_vars < recv_brk s"
    and "map_lookup (map_vec (rcx s)) (p + offsetof_recv_vars) = None"
    and set: "map_set (p + offsetof_recv_vars) p (map_vec (rcx s)) = (m, r)"
  shows "recv_ok (set_recv p EdgeAppLibReceiveDataResultDataTooLarge (on_rcx (\<lambda>c. c\<lparr>map_vec := m\<rparr>) s))"
    and "recv_ok (set_recv p EdgeAppLibReceiveDataResultFailure
            (on_rcx (\<lambda>c. c\<lparr>world := w\<rparr>) (on_rcx (\<lambda>c. c\<lparr>map_vec := m\<rparr>) s)))"
    and "r \<noteq> -1 \<Longrightarrow> recv_ok (set_recv p EdgeAppLibReceiveDataResultEnqueued
            (on_rcx (\<lambda>c. c\<lparr>world := w\<rparr>) (on_rcx (\<lambda>c. c\<lparr>map_vec := m\<rparr>) s)))"
proof -
  have I: "map_invar (map_vec (rcx s))" using assms(1) by (simp add: recv_ok_def)
  have "p + offsetof_recv_vars \<noteq> 0" "p \<noteq> 0" using assms(2) by simp_all
  note M = fq.set_ok [OF I this assms(4) set]
  then have l: "map_lookup m = map_lookup (map_vec (rcx s))
      \<or> map_lookup m = (map_lookup (map_vec (rcx s)))(p + offsetof_recv_vars \<mapsto> p)" by auto
  have q: "q \<noteq> p" if "recv_result s q = Some EdgeAppLibReceiveDataResultEnqueued" for q
    using that assms(1,4) by (auto simp: recv_ok_def)
  have n: "map_lookup m (q + offsetof_recv_vars) = Some q"
    if "recv_result s q = Some EdgeAppLibReceiveDataResultEnqueued" for q
    using that l q assms(1) by (auto simp: recv_ok_def)
  have b: "k < recv_brk s" if "map_lookup m k = Some v" for k v
    using that l assms(1,3) by (auto simp: recv_ok_def split: if_splits)
  have ok: "recv_ok (on_rcx (\<lambda>c. c\<lparr>map_vec := m\<rparr>) s)"
    using assms(1) M n b by (simp add: recv_ok_def)
  have p: "p < recv_brk s" using assms(3) by simp
  show "recv_ok (set_recv p EdgeAppLibReceiveDataResultDataTooLarge (on_rcx (\<lambda>c. c\<lparr>map_vec := m\<rparr>) s))"
    by (rule recv_ok_set [OF ok]) (simp_all add: p)
  show "recv_ok (set_recv p EdgeAppLibReceiveDataResultFailure
            (on_rcx (\<lambda>c. c\<lparr>world := w\<rparr>) (on_rcx (\<lambda>c. c\<lparr>map_vec := m\<rparr>) s)))"
    by (rule recv_ok_set) (use ok p in \<open>simp_all add: recv_ok_def\<close>)
  show "r \<noteq> -1 \<Longrightarrow> recv_ok (set_recv p EdgeAppLibReceiveDataResultEnqueued
            (on_rcx (\<lambda>c. c\<lparr>world := w\<rparr>) (on_rcx (\<lambda>c. c\<lparr>map_vec := m\<rparr>) s)))"
  proof -
    assume "r \<noteq> -1"
    then have "map_lookup m = (map_lookup (map_vec (rcx s)))(p + offsetof_recv_vars \<mapsto> p)"
      using M by blast
    then have "map_lookup m (p + offsetof_recv_vars) = Some p" by (rule ssubst) simp
    then show "recv_ok (set_recv p EdgeAppLibReceiveDataResultEnqueued
            (on_rcx (\<lambda>c. c\<lparr>world := w\<rparr>) (on_rcx (\<lambda>c. c\<lparr>map_vec := m\<rparr>) s)))"
      using ok p unfolding recv_ok_def set_recv_def by simp
  qed
qed

lemma Download_ok:
  assumes "recv_ok s" "Download_Blob E D url filename hash s = (p, t)"
  shows "recv_ok t"
proof -
  obtain q s1 where i: "recv_InitializeFuture E s = (q, s1)" by fastforce
  note N = recv_new_ok [OF assms(1) i]
  show ?thesis
  proof (cases "q = 0")
    case True
    then show ?thesis using assms(2) i N(1) by (simp add: Download_Blob_def)
  next
    case False
    then have q: "0 < q" "q < recv_brk s1" "q + offsetof_recv_vars < recv_brk s1"
      "map_lookup (map_vec (rcx s1)) (q + offsetof_recv_vars) = None" using N(2) by auto
    have set: "recv_ok (set_recv q r s1)" if "r \<noteq> EdgeAppLibReceiveDataResultEnqueued" for r
      using recv_ok_set [OF N(1) q(2) that] .
    show ?thesis
    proof (cases "EVP_getWorkspaceDirectory D (world (rcx s1))")
      case None
      then show ?thesis using assms(2) i False set by (auto simp: Download_Blob_def)
    next
      case (Some ws)
      let ?path = "full_path D ws filename url"
      show ?thesis
      proof (cases "IsFileHashCorrect D hash ?path (world (rcx s1))")
        case True
        then show ?thesis using assms(2) i False Some set by (auto simp: Download_Blob_def Let_def)
      next
        case h: False
        define w where "w = snd (RemoveOutdatedFile D ws filename (world (rcx s1)))"
        define s2 where "s2 = on_rcx (\<lambda>c. c\<lparr>world := w\<rparr>) s1"
        have ok2: "recv_ok s2" using N(1) by (simp add: s2_def recv_ok_def)
        obtain m r where m: "map_set (q + offsetof_recv_vars) q (map_vec (rcx s2)) = (m, r)" by fastforce
        have q2: "q + offsetof_recv_vars < recv_brk s2"
          "map_lookup (map_vec (rcx s2)) (q + offsetof_recv_vars) = None" using q by (simp_all add: s2_def)
        note R = recv_enter [OF ok2 q(1) q2 m]
        obtain res w' where g: "EVP_blobGet D url ?path (q + offsetof_recv_vars) w = (res, w')" by fastforce
        have "t = (if r = -1
            then set_recv q EdgeAppLibReceiveDataResultDataTooLarge (on_rcx (\<lambda>c. c\<lparr>map_vec := m\<rparr>) s2)
            else set_recv q (if res \<noteq> EVP_OK then EdgeAppLibReceiveDataResultFailure
                             else EdgeAppLibReceiveDataResultEnqueued)
                   (on_rcx (\<lambda>c. c\<lparr>world := w'\<rparr>) (on_rcx (\<lambda>c. c\<lparr>map_vec := m\<rparr>) s2)))"
          using assms(2) i False Some h m g by (auto simp: Download_Blob_def Let_def w_def s2_def)
        then show ?thesis using R by auto
      qed
    qed
  qed
qed

lemma download_once_ends:
  assumes "evp_makes_progress E" "recv_ok s"
  shows "\<exists>r t. download_once E D url filename hash n s = Some (r, t) \<and> recv_ok t"
proof -
  obtain p s1 where d: "Download_Blob E D url filename hash s = (p, s1)" by fastforce
  have ok: "recv_ok s1" using Download_ok [OF assms(2) d] .
  obtain c t where w: "recv_wait E D p n False s1 = Some (c, t)" "recv_ok t"
    using recv_wait_ends [OF assms(1) ok] by blast
  have "\<exists>r u. ReceiveDataAwait E D p n s1 = Some (r, u) \<and> recv_ok u"
    using w recv_ok_clear [OF w(2), of p]
    by (cases "recv_result t p") (simp_all add: ReceiveDataAwait_def recv_ok_undef)
  then show ?thesis using d ok recv_ok_clear [OF ok, of p]
    by (auto simp: download_once_def recv_ok_undef Let_def)
qed

lemma recv_ok_retry [simp]: "recv_ok (s\<lparr>retry := n\<rparr>) = recv_ok s"
  by (simp add: recv_ok_def)

lemma HashCheck_ok: "recv_ok s \<Longrightarrow> recv_ok (snd (HashCheckAndRetry D i s))"
  by (simp add: HashCheckAndRetry_def Let_def split: option.split prod.split)

lemma receive_upto_ends:
  assumes "evp_makes_progress E"
  shows "recv_ok s \<Longrightarrow> \<exists>r t. receive_upto k E D url filename hash n s = Some (r, t) \<and> recv_ok t"
proof (induction k arbitrary: s)
  case 0
  then show ?case by simp
next
  case (Suc k)
  obtain r t where d: "download_once E D url filename hash n s = Some (r, t)" "recv_ok t"
    using download_once_ends [OF assms Suc.prems] by blast
  obtain m u where h: "HashCheckAndRetry D (Some (url, filename, hash)) t = (m, u)" by fastforce
  have u: "recv_ok u" using HashCheck_ok [OF d(2), of D "Some (url, filename, hash)"] h by simp
  with Suc.IH [OF u] d h show ?case by (simp add: HashCheck_ok)
qed


text \<open>A file system with one file, and an agent that has nothing to do.\<close>

definition demo_files :: "nat file_services" where
  "demo_files = \<lparr>EVP_getWorkspaceDirectory = (\<lambda>_. Some ''/w''), EVP_blobGet = (\<lambda>_ _ _ w. (EVP_OK, w)),
     uri_path_tail = (\<lambda>_. Some ''m.bin''), file_bytes = (\<lambda>_ _. Some [1, 2, 3]),
     sha256_hex = (\<lambda>_. replicate 64 (CHR ''a'')), dir_entries = (\<lambda>_ _. Some []),
     unlink = (\<lambda>_ w. (False, w)), on_main_thread = True, wait_timed_out = (\<lambda>_. False)\<rparr>"

definition demo_recv :: "nat recv" where
  "demo_recv = \<lparr>rcx = demo_state, recv_result = (\<lambda>_. None), recv_brk = 100, retry = 0\<rparr>"

lemma demo_recv_ok: "recv_ok demo_recv" "retry demo_recv = 0"
  by (simp_all add: demo_recv_def recv_ok_def fq.invar_init fq.lookup_init)


end
