(* ===== verification/Nn.thy ===== *)
theory Nn
  imports SendDataSync Draw
begin

text \<open>
  \<open>libs/nn/src/nn.cpp\<close>: the calls of WASI-NN. The input of a model is normalised channel by channel
  in single precision into a buffer of its own. The back end of WASI-NN is a parameter; sizes are
  \<open>size_t\<close> of 32 bits.
\<close>

section \<open>Services\<close>

text \<open>
  The data of a tensor: an array of floats, \<open>None\<close> being a value that is not a finite number (or was
  not written), or an address.
\<close>

datatype tensor_data = FloatData "rat option list" | AddressData ptr

record tensor =
  tensor_dimensions :: "u32 list"
  tensor_type :: int
  tensor_data :: tensor_data

text \<open>\<open>get_output\<close> gives the bytes it writes and the size it reports.\<close>

record 'w wasi_nn =
  load_by_name :: "string \<Rightarrow> nat \<Rightarrow> 'w \<Rightarrow> int \<times> u32 \<times> 'w"
  init_execution_context :: "u32 \<Rightarrow> 'w \<Rightarrow> int \<times> u32 \<times> 'w"
  set_input :: "u32 \<Rightarrow> u32 \<Rightarrow> tensor \<Rightarrow> 'w sys \<Rightarrow> int \<times> 'w"
  compute_graph :: "u32 \<Rightarrow> 'w \<Rightarrow> int \<times> 'w"
  get_output :: "u32 \<Rightarrow> u32 \<Rightarrow> u32 \<Rightarrow> 'w \<Rightarrow> int \<times> u8 list \<times> u32 \<times> 'w"

definition EDGEAPP_LIB_NN_INVALID_ARGUMENT :: int where "EDGEAPP_LIB_NN_INVALID_ARGUMENT = 1"
definition EDGEAPP_LIB_NN_TOO_LARGE :: int where "EDGEAPP_LIB_NN_TOO_LARGE = 6"
definition INPUT_TENSOR_DIMS :: nat where "INPUT_TENSOR_DIMS = 4"
definition fp32 :: int where "fp32 = 1"

text \<open>Writing bytes from offset \<open>k\<close> of a block.\<close>

definition store_at :: "ptr \<Rightarrow> nat \<Rightarrow> u8 list \<Rightarrow> 'w sys \<Rightarrow> 'w sys" where
  "store_at p k bs s =
     (if bs = [] then s
      else if alive s p \<and> k + length bs \<le> length (the (heap s p))
      then s\<lparr>heap := (heap s)(p \<mapsto> take k (the (heap s p)) @ bs @ drop (k + length bs) (the (heap s p)))\<rparr>
      else undef s)"

section \<open>Models and contexts\<close>

text \<open>The null pointer is \<open>None\<close>; \<open>g\<close> and \<open>ctx\<close> are the values after the call.\<close>

definition nn_LoadModel ::
  "'w wasi_nn \<Rightarrow> string option \<Rightarrow> u32 option \<Rightarrow> 'w sys \<Rightarrow> int \<times> u32 option \<times> 'w sys" where
  "nn_LoadModel N model_name g s =
     (case (model_name, g) of
        (Some name, Some _) \<Rightarrow>
          (let (err, g, w) = load_by_name N name (length name) (world (cx s)) in (err, Some g, set_world w s))
      | _ \<Rightarrow> (EDGEAPP_LIB_NN_INVALID_ARGUMENT, g, s))"

definition InitContext :: "'w wasi_nn \<Rightarrow> u32 \<Rightarrow> 'w sys \<Rightarrow> int \<times> u32 \<times> 'w sys" where
  "InitContext N g s =
     (let (err, ctx, w) = init_execution_context N g (world (cx s)) in (err, ctx, set_world w s))"

definition Compute :: "'w wasi_nn \<Rightarrow> u32 \<Rightarrow> 'w sys \<Rightarrow> int \<times> 'w sys" where
  "Compute N ctx s = (let (err, w) = compute_graph N ctx (world (cx s)) in (err, set_world w s))"

text \<open>The output goes to offset \<open>k\<close> of the block at \<open>out_tensor\<close>.\<close>

definition nn_GetOutput ::
  "'w wasi_nn \<Rightarrow> u32 \<Rightarrow> u32 \<Rightarrow> ptr \<Rightarrow> nat \<Rightarrow> u32 \<Rightarrow> 'w sys \<Rightarrow> int \<times> u32 \<times> 'w sys" where
  "nn_GetOutput N ctx index out_tensor k out_size s =
     (let (err, bs, out_size, w) = get_output N ctx index out_size (world (cx s))
      in (err, out_size, store_at out_tensor k bs (set_world w s)))"

section \<open>The input\<close>

definition SetInputFromTensor ::
  "'w wasi_nn \<Rightarrow> 'w services \<Rightarrow> u32 \<Rightarrow> ptr \<Rightarrow> u32 list \<Rightarrow> int \<Rightarrow> 'w sys \<Rightarrow> int \<times> 'w sys" where
  "SetInputFromTensor N S ctx input_tensor dims type_num s =
     (let (dims_buf, s) = malloc S (INPUT_TENSOR_DIMS * 4) s
      in if dims_buf = 0 then (EDGEAPP_LIB_NN_TOO_LARGE, s)
         else let (err, w) = set_input N ctx 0 \<lparr>tensor_dimensions = take INPUT_TENSOR_DIMS dims,
                    tensor_type = type_num, tensor_data = AddressData input_tensor\<rparr> s
              in (err, free dims_buf (set_world w s)))"

text \<open>
  \<open>(val / 255.0f - mean) / norm\<close> in single precision, for finite mean and norm. A division by zero
  and a quotient out of range are not finite.
\<close>

definition finite_f32 :: "rat \<Rightarrow> rat option" where
  "finite_f32 r = (if \<bar>r\<bar> < 2 ^ 128 then Some r else None)"

definition normalise :: "u8 \<Rightarrow> rat \<Rightarrow> rat \<Rightarrow> rat option" where
  "normalise x mean nrm =
     (if nrm = 0 then None
      else finite_f32 (f32 (f32 (f32 (of_int (uint x) / 255) - mean) / nrm)))"

text \<open>
  One element: it reads the byte, the mean and the norm of the channel and writes the float. An index
  outside an array is undefined.
\<close>

definition norm_step ::
  "u8 list \<Rightarrow> rat list \<Rightarrow> rat list \<Rightarrow> u32 \<Rightarrow> u32 \<Rightarrow> rat option list \<times> bool \<Rightarrow> rat option list \<times> bool" where
  "norm_step input means norms ci i t =
     (case t of (buf, ub) \<Rightarrow>
        if unat i < length input \<and> unat ci < length means \<and> unat ci < length norms \<and> unat i < length buf
        then (buf[unat i := normalise (input ! unat i) (means ! unat ci) (norms ! unat ci)], ub)
        else (buf, True))"

text \<open>The inner loop: \<open>i += c\<close> is unsigned, so the loop need not end.\<close>

partial_function (option) channel_loop ::
  "u32 \<Rightarrow> u32 \<Rightarrow> (u32 \<Rightarrow> 'a \<Rightarrow> 'a) \<Rightarrow> u32 \<Rightarrow> 'a \<Rightarrow> 'a option" where
  "channel_loop c num_elements body i t =
     (if i < num_elements then channel_loop c num_elements body (i + c) (body i t) else Some t)"

definition norm_loops ::
  "u32 \<Rightarrow> u32 \<Rightarrow> (u32 \<Rightarrow> u32 \<Rightarrow> 'a \<Rightarrow> 'a) \<Rightarrow> 'a \<Rightarrow> 'a option" where
  "norm_loops c num_elements body t =
     foldM (\<lambda>ci. channel_loop c num_elements (body ci) ci) (map of_nat [0..<unat c]) t"

text \<open>
  A null pointer or a freed block has no elements to read. The buffer holds as many floats as fit the
  bytes that were allocated.
\<close>

definition SetInput ::
  "'w wasi_nn \<Rightarrow> 'w services \<Rightarrow> u32 \<Rightarrow> ptr \<Rightarrow> u32 \<times> u32 \<times> u32 \<times> u32 \<Rightarrow> rat list option \<Rightarrow> rat list option
     \<Rightarrow> 'w sys \<Rightarrow> (int \<times> 'w sys) option" where
  "SetInput N S ctx input_tensor dims mean_values norm_values s =
     (let (dims_buf, s) = malloc S (INPUT_TENSOR_DIMS * 4) s
      in if dims_buf = 0 then Some (EDGEAPP_LIB_NN_TOO_LARGE, s)
         else case dims of (n, h, w, c) \<Rightarrow>
           let num_elements = n * c * h * w;
               (float_buffer, s) = malloc S (unat (num_elements * 4)) s
           in if float_buffer = 0 then Some (EDGEAPP_LIB_NN_TOO_LARGE, free dims_buf s)
              else let input = (if alive s input_tensor then the (heap s input_tensor) else []);
                       means = (case mean_values of None \<Rightarrow> [] | Some m \<Rightarrow> m);
                       norms = (case norm_values of None \<Rightarrow> [] | Some m \<Rightarrow> m)
              in case norm_loops c num_elements (norm_step input means norms)
                        (replicate (unat (num_elements * 4) div 4) None, False) of
                  None \<Rightarrow> None
                | Some (floats, ub) \<Rightarrow>
                    let s = undef_if ub s;
                        (err, world') = set_input N ctx 0 \<lparr>tensor_dimensions = [n, h, w, c],
                           tensor_type = fp32, tensor_data = FloatData floats\<rparr> s
                    in Some (err, free dims_buf (free float_buffer (set_world world' s))))"

end
