(* ===== verification/NnProperties.thy ===== *)
theory NnProperties
  imports Nn SendProperties DrawProperties
begin

text \<open>
  The input of a model (\<open>Nn\<close>): the strided loops over the channels compute the same tensor as the
  direct normalisation of every element, and the buffers they use are given back.
\<close>

section \<open>The loops\<close>

text \<open>The tensor element by element.\<close>

definition normalised :: "u8 list \<Rightarrow> rat list \<Rightarrow> rat list \<Rightarrow> nat \<Rightarrow> nat \<Rightarrow> rat option list" where
  "normalised input means norms c n =
     map (\<lambda>i. normalise (input ! i) (means ! (i mod c)) (norms ! (i mod c))) [0..<n]"

lemma unat_u32_lt: "unat (x :: u32) < 4294967296"
proof -
  have "unat x < 2 ^ LENGTH(32)" by (rule unsigned_less)
  then show ?thesis by simp
qed

text \<open>What one channel fills in from index \<open>i\<close> on.\<close>

definition fill :: "(nat \<Rightarrow> 'v) \<Rightarrow> (nat \<Rightarrow> bool) \<Rightarrow> 'v list \<Rightarrow> 'v list" where
  "fill v P buf = map (\<lambda>k. if P k then v k else buf ! k) [0..<length buf]"

lemma length_fill [simp]: "length (fill v P buf) = length buf"
  by (simp add: fill_def)

lemma nth_fill [simp]: "k < length buf \<Longrightarrow> fill v P buf ! k = (if P k then v k else buf ! k)"
  by (simp add: fill_def)

lemma fill_none: "(\<And>k. k < length buf \<Longrightarrow> \<not> P k) \<Longrightarrow> fill v P buf = buf"
  by (rule nth_equalityI) auto

lemma fill_fill: "fill v P (fill v Q buf) = fill v (\<lambda>k. P k \<or> Q k) buf"
  by (rule nth_equalityI) auto

lemma fill_cong: "(\<And>k. k < length buf \<Longrightarrow> P k = Q k) \<Longrightarrow> fill v P buf = fill v Q buf"
  by (rule nth_equalityI) auto

lemma fill_update: "k < length buf \<Longrightarrow> buf[k := v k] = fill v (\<lambda>j. j = k) buf"
  by (rule nth_equalityI) (auto simp: nth_list_update)

lemma next_in_channel:
  assumes "i mod c = r" "(0 :: nat) < c"
  shows "k = i \<or> i + c \<le> k \<and> k mod c = r \<longleftrightarrow> i \<le> k \<and> k mod c = r"
proof -
  have "i + c \<le> k" if "i < k" "k mod c = i mod c"
  proof -
    have "c dvd k - i" using that by (metis less_imp_le_nat mod_eq_dvd_iff_nat)
    with that show ?thesis by (auto dest: dvd_imp_le)
  qed
  with assms show ?thesis by (cases "k = i") (auto simp: le_less)
qed

lemma channel_loop_fill:
  assumes c: "0 < unat c" and small: "unat num + unat c < 2 ^ 32"
    and body: "\<And>i buf. unat i < unat num \<Longrightarrow> length buf = unat num
       \<Longrightarrow> unat i mod unat c = r \<Longrightarrow> body i (buf, ub) = (buf[unat i := v (unat i)], ub)"
  shows "unat i mod unat c = r \<Longrightarrow> length buf = unat num \<Longrightarrow>
    channel_loop c num body i (buf, ub) = Some (fill v (\<lambda>k. unat i \<le> k \<and> k mod unat c = r) buf, ub)"
proof (induction "unat num - unat i" arbitrary: i buf rule: less_induct)
  case less
  show ?case
  proof (cases "i < num")
    case False
    then have "unat num \<le> unat i" by (simp add: word_le_nat_alt not_less)
    then have "fill v (\<lambda>k. unat i \<le> k \<and> k mod unat c = r) buf = buf"
      using less.prems by (intro fill_none) auto
    with False show ?thesis by (subst channel_loop.simps) simp
  next
    case True
    then have lt: "unat i < unat num" by (simp add: word_less_nat_alt)
    then have next': "unat (i + c) = unat i + unat c" using small by (simp add: unat_add_lem [THEN iffD1])
    have "channel_loop c num body (i + c) (body i (buf, ub))
      = Some (fill v (\<lambda>k. unat (i + c) \<le> k \<and> k mod unat c = r) (buf[unat i := v (unat i)]), ub)"
    proof -
      have "unat num - unat (i + c) < unat num - unat i" using lt c next' by linarith
      from less.hyps [OF this] less.prems next' body [OF lt, of buf] show ?thesis by simp
    qed
    also have "fill v (\<lambda>k. unat (i + c) \<le> k \<and> k mod unat c = r) (buf[unat i := v (unat i)])
      = fill v (\<lambda>k. unat i \<le> k \<and> k mod unat c = r) buf"
      using lt less.prems(2) next' next_in_channel [OF less.prems(1) c]
      by (simp add: fill_update [of "unat i" buf v] fill_fill disj_commute)
    finally show ?thesis using True by (subst channel_loop.simps) simp
  qed
qed


lemma norm_loops_fill:
  assumes c: "unat num + unat c < 2 ^ 32"
    and body: "\<And>ci i buf. unat ci < unat c \<Longrightarrow> unat i < unat num \<Longrightarrow> length buf = unat num
       \<Longrightarrow> unat i mod unat c = unat ci \<Longrightarrow> body ci i (buf, ub) = (buf[unat i := v (unat i)], ub)"
  shows "m \<le> unat c \<Longrightarrow> length buf = unat num \<Longrightarrow>
    foldM (\<lambda>ci. channel_loop c num (body ci) ci) (map of_nat [0..<m]) (buf, ub)
      = Some (fill v (\<lambda>k. k mod unat c < m) buf, ub)"
proof (induction m)
  case 0
  then show ?case by (simp add: fill_none)
next
  case (Suc m)
  let ?ci = "of_nat m :: u32"
  have m: "unat ?ci = m" using Suc.prems(1) unat_u32_lt [of c] by (simp add: unat_of_nat)
  have "channel_loop c num (body ?ci) ?ci (fill v (\<lambda>k. k mod unat c < m) buf, ub)
    = Some (fill v (\<lambda>k. m \<le> k \<and> k mod unat c = m) (fill v (\<lambda>k. k mod unat c < m) buf), ub)"
    using channel_loop_fill [of c num m "body ?ci" ub v ?ci] Suc.prems m c body [of ?ci] by simp
  also have "fill v (\<lambda>k. m \<le> k \<and> k mod unat c = m) (fill v (\<lambda>k. k mod unat c < m) buf)
    = fill v (\<lambda>k. k mod unat c < Suc m) buf"
    unfolding fill_fill by (rule fill_cong) (auto simp: less_Suc_eq mod_less_eq_dividend intro: order_trans)
  finally show ?case using Suc by (simp add: foldM_append)
qed


section \<open>Memory that is given back\<close>

text \<open>The same blocks with the same contents, and nothing undefined has happened in between.\<close>

definition same_memory :: "'w sys \<Rightarrow> 'w sys \<Rightarrow> bool" where
  "same_memory s t \<longleftrightarrow> heap_ok t \<and> (\<forall>q. block t q = block s q)
     \<and> undefined_behaviour (cx t) = undefined_behaviour (cx s)"

lemma same_memory_refl [simp]: "heap_ok s \<Longrightarrow> same_memory s s"
  by (simp add: same_memory_def)

lemma block_set_world [simp]: "block (set_world w s) q = block s q" "alive (set_world w s) q = alive s q"
  by (simp_all add: block_def alive_def)

lemma same_memory_world [simp]: "same_memory s (set_world w t) = same_memory s t"
  by (simp add: same_memory_def heap_ok_def)

text \<open>A block that is allocated and freed again: what happens in between is seen outside.\<close>

lemma scope_of_block:
  assumes "heap_ok s" "malloc S n s = (p, s1)" "p \<noteq> 0" "same_memory s1 t"
  shows "same_memory s (free p t)"
proof -
  have f: "block s p = None" "block s1 p \<noteq> None" using mem.alloc_fresh [OF assms(1-3)] by simp_all
  have t: "heap_ok t" "block t p \<noteq> None" using assms(4) f(2) by (simp_all add: same_memory_def)
  have "undefined_behaviour (cx (free p t)) = undefined_behaviour (cx t)"
    using t(2) assms(3) by (auto simp: free_def free_buffer_def block_def alive_def split: if_splits)
  moreover have "undefined_behaviour (cx s1) = undefined_behaviour (cx s)"
    using assms(2) by (auto simp: malloc_def split: if_splits)
  moreover have "block (free p t) q = block s q" for q
    using mem.release_block [OF t, of q] assms(4) mem.alloc_others [OF assms(2), of q] f(1)
    by (cases "q = p") (simp_all add: same_memory_def)
  ultimately show ?thesis using mem.release_ok [OF t] assms(4) by (simp add: same_memory_def)
qed

lemma world_free [simp]: "world (cx (free p s)) = world (cx s)"
  by (simp add: free_def free_buffer_def undefined_step_def)

lemma world_malloc: "malloc S n s = (p, t) \<Longrightarrow> world (cx t) = world (cx s)"
  by (auto simp: malloc_def split: if_splits)

lemma malloc_refused: "malloc S n s = (0, t) \<Longrightarrow> heap_ok s \<Longrightarrow> t = s \<and> \<not> alloc_ok S s n"
  by (auto simp: malloc_def heap_ok_def split: if_splits)

lemma alive_after: "heap_ok s \<Longrightarrow> malloc S n s = (p, t) \<Longrightarrow> alive s q \<Longrightarrow> alive t q \<and> heap t q = heap s q"
  by (auto simp: malloc_def alive_def heap_ok_def split: if_splits)

section \<open>SetInput\<close>

lemma product_no_wrap:
  fixes a b c d :: u32
  assumes "unat a * unat b * unat c * unat d * 4 < 2 ^ 32"
  shows "unat (a * b * c * d) = unat a * unat b * unat c * unat d"
    and "unat (a * b * c * d * 4) = unat a * unat b * unat c * unat d * 4"
proof -
  have "unat (a * b * c * d) = unat (of_nat (unat a * unat b * unat c * unat d) :: u32)" by simp
  then show "unat (a * b * c * d) = unat a * unat b * unat c * unat d"
    unfolding unat_of_nat using assms by simp
  have "unat (a * b * c * d * 4) = unat (of_nat (unat a * unat b * unat c * unat d * 4) :: u32)" by simp
  then show "unat (a * b * c * d * 4) = unat a * unat b * unat c * unat d * 4"
    unfolding unat_of_nat using assms by simp
qed

lemma norm_step_in_range:
  assumes "unat i < length input" "unat ci < length means" "unat ci < length norms" "unat i < length buf"
    and "unat i mod c = unat ci"
  shows "norm_step input means norms ci i (buf, ub)
    = (buf[unat i := normalise (input ! unat i) (means ! (unat i mod c)) (norms ! (unat i mod c))], ub)"
  using assms by (simp add: norm_step_def)

lemma norm_loops_normalised:
  assumes "unat num * 4 < 2 ^ 32" "unat c dvd unat num" "unat num \<le> length input"
    and "unat c \<le> length means" "unat c \<le> length norms"
  shows "norm_loops c num (norm_step input means norms) (replicate (unat num) None, ub)
    = Some (normalised input means norms (unat c) (unat num), ub)"
proof -
  let ?v = "\<lambda>i. normalise (input ! i) (means ! (i mod unat c)) (norms ! (i mod unat c))"
  have small: "unat num + unat c < 2 ^ 32"
  proof (cases "unat num = 0")
    case True
    then show ?thesis using unat_u32_lt [of c] by simp
  next
    case False
    then show ?thesis using assms(1) dvd_imp_le [OF assms(2)] by simp
  qed
  have "norm_loops c num (norm_step input means norms) (replicate (unat num) None, ub)
    = Some (fill ?v (\<lambda>k. k mod unat c < unat c) (replicate (unat num) None), ub)"
    unfolding norm_loops_def using assms
    by (intro norm_loops_fill [OF small, where v = ?v] norm_step_in_range) auto
  also have "fill ?v (\<lambda>k. k mod unat c < unat c) (replicate (unat num) None)
    = normalised input means norms (unat c) (unat num)"
    using assms(2) by (intro nth_equalityI) (auto simp: normalised_def intro!: mod_less_divisor intro: gr0I)
  finally show ?thesis .
qed


text \<open>C39. The input of a model. \<open>SetInput\<close> hands WASI-NN the tensor of the given dimensions in which element
  \<open>i\<close> is the byte \<open>i\<close> scaled to [0, 1], less the mean and divided by the norm of channel
  \<open>i mod c\<close>, every element exactly once, and returns the result of WASI-NN; or memory was refused and
  it says so. The loops end and stay in the arrays when the image and the parameters are large enough
  and the floats fit the address space, and both buffers are given back on every path.
\<close>

theorem input_normalised:
  assumes "heap_ok s" "alive s p" "heap s p = Some input"
    and "unat n * unat c * unat h * unat w * 4 < 2 ^ 32"
    and "unat n * unat c * unat h * unat w \<le> length input"
    and "unat c \<le> length means" "unat c \<le> length norms"
  shows "\<exists>r t. SetInput N S ctx p (n, h, w, c) (Some means) (Some norms) s = Some (r, t) \<and> same_memory s t
    \<and> (r = EDGEAPP_LIB_NN_TOO_LARGE \<and> world (cx t) = world (cx s) \<and> (\<exists>u k. \<not> alloc_ok S u k)
       \<or> (\<exists>u. world (cx u) = world (cx s) \<and> (r, world (cx t)) = set_input N ctx 0
              \<lparr>tensor_dimensions = [n, h, w, c], tensor_type = fp32, tensor_data = FloatData
                (normalised input means norms (unat c) (unat n * unat c * unat h * unat w))\<rparr> u))"
proof -
  let ?num = "n * c * h * w"
  have num: "unat ?num = unat n * unat c * unat h * unat w" "unat (?num * 4) = unat ?num * 4"
    using product_no_wrap [OF assms(4)] by simp_all
  obtain d s1 where d: "malloc S (INPUT_TENSOR_DIMS * 4) s = (d, s1)" by fastforce
  obtain f s2 where f: "malloc S (unat (?num * 4)) s1 = (f, s2)" by fastforce
  have ok1: "heap_ok s1" using mem.alloc_ok [OF assms(1) d] .
  have ok2: "heap_ok s2" using mem.alloc_ok [OF ok1 f] .
  have w1: "world (cx s1) = world (cx s)" "world (cx s2) = world (cx s)"
    using world_malloc [OF d] world_malloc [OF f] by simp_all
  consider "d = 0" | "d \<noteq> 0" "f = 0" | "d \<noteq> 0" "f \<noteq> 0" by blast
  then show ?thesis
  proof cases
    case 1
    with d malloc_refused [of S "INPUT_TENSOR_DIMS * 4" s s1] assms(1) show ?thesis
      by (auto simp: SetInput_def)
  next
    case 2
    with f malloc_refused [of S "unat (?num * 4)" s1 s2] ok1
    have "s2 = s1" "\<not> alloc_ok S s1 (unat (?num * 4))" by simp_all
    with d f 2 w1 scope_of_block [OF assms(1) d 2(1), of s1] ok1 show ?thesis
      by (auto simp: SetInput_def Let_def)
  next
    case 3
    have "alive s2 p" "heap s2 p = Some input"
      using alive_after [OF assms(1) d assms(2)] alive_after [OF ok1 f] assms(3) by auto
    moreover have "norm_loops c ?num (norm_step input means norms) (replicate (unat ?num) None, False)
      = Some (normalised input means norms (unat c) (unat ?num), False)"
      using assms(4-7) num by (intro norm_loops_normalised) simp_all
    moreover have "same_memory s (free d (free f (set_world w' s2)))" for w'
      using scope_of_block [OF assms(1) d 3(1) scope_of_block [OF ok1 f 3(2), of "set_world w' s2"]] ok2
      by simp
    ultimately show ?thesis using d f 3 num w1
      by (simp add: SetInput_def Let_def undef_if_def split: prod.split) metis
  qed
qed

text \<open>A back end that accepts everything, and an image of two pixels with two channels.\<close>

definition demo_nn :: "nat wasi_nn" where
  "demo_nn = \<lparr>load_by_name = (\<lambda>_ _ w. (0, 1, w)), init_execution_context = (\<lambda>_ w. (0, 1, w)),
     set_input = (\<lambda>_ _ _ s. (0, world (cx s))), compute_graph = (\<lambda>_ w. (0, w)),
     get_output = (\<lambda>_ _ _ w. (0, [], 0, w))\<rparr>"

theorem input_normalised_witness:
  "\<exists>r t. SetInput demo_nn demo_services 1 1 (1, 1, 2, 2) (Some [0, 1 / 2]) (Some [1, 2]) demo_sys = Some (r, t)
     \<and> same_memory demo_sys t"
proof -
  have s: "heap_ok demo_sys" "alive demo_sys 1" "heap demo_sys 1 = Some [10, 20, 30, 40]"
    by (simp_all add: demo_sys_def heap_ok_def alive_def)
  show ?thesis
    using input_normalised [OF s, of 1 2 1 2 "[0, 1 / 2]" "[1, 2]" demo_nn demo_services 1] by auto
qed

end
