(* ===== verification/Frames.thy ===== *)
theory Frames
  imports SendDataSync
begin

text \<open>
  Frames, channels and raw data of the sensor: the rest of \<open>libs/sensor/src/sensor.cpp\<close> and of
  \<open>sensor_wrapper.cpp\<close>. Raw data is mapped into memory, or read through the memory manager of the
  host and encoded when the device is short of memory; which of the two is found out once, when a
  stream is started. SensCord and the latency service are parameters.
\<close>

section \<open>State and services\<close>

record EdgeAppLibSensorRawData =
  raw_address :: ptr
  raw_size :: u32
  raw_timestamp :: u64

record senscord_raw_data_handle_t =
  rdh_address :: u32
  rdh_size :: u32
  rdh_timestamp :: u64

text \<open>
  The functions of SensCord. One that fills a structure is given what the structure held before;
  the key of \<open>get_property\<close> is in its name. A result of 0 is success.
\<close>

record 'w senscord =
  senscord_stream_start :: "u64 \<Rightarrow> 'w \<Rightarrow> int \<times> 'w"
  senscord_stream_stop :: "u64 \<Rightarrow> 'w \<Rightarrow> int \<times> 'w"
  senscord_stream_get_frame :: "u64 \<Rightarrow> int \<Rightarrow> u64 \<Rightarrow> 'w \<Rightarrow> int \<times> u64 \<times> 'w"
  senscord_stream_release_frame :: "u64 \<Rightarrow> u64 \<Rightarrow> 'w \<Rightarrow> int \<times> 'w"
  senscord_frame_get_channel_from_channel_id :: "u64 \<Rightarrow> u32 \<Rightarrow> 'w \<Rightarrow> int \<times> u64 \<times> 'w"
  senscord_frame_get_sequence_number :: "u64 \<Rightarrow> u64 \<Rightarrow> 'w \<Rightarrow> int \<times> u64 \<times> 'w"
  senscord_channel_get_channel_id :: "u64 \<Rightarrow> 'w \<Rightarrow> int \<times> u32 \<times> 'w"
  senscord_channel_get_raw_data :: "u64 \<Rightarrow> EdgeAppLibSensorRawData \<Rightarrow> 'w \<Rightarrow> int \<times> EdgeAppLibSensorRawData \<times> 'w"
  senscord_channel_get_raw_data_handle :: "u64 \<Rightarrow> 'w \<Rightarrow> int \<times> senscord_raw_data_handle_t \<times> 'w"
  senscord_channel_get_image_property :: "u64 \<Rightarrow> EdgeAppLibImageProperty \<Rightarrow> 'w \<Rightarrow> int \<times> EdgeAppLibImageProperty \<times> 'w"
  senscord_channel_get_tensor_shapes :: "u64 \<Rightarrow> u32 list \<Rightarrow> 'w \<Rightarrow> int \<times> u32 list \<times> 'w"
  senscord_get_last_error_string :: "'w \<Rightarrow> int \<times> string"
  EsfSensorLatencySetMode :: "bool \<Rightarrow> u32 \<Rightarrow> 'w \<Rightarrow> int \<times> 'w"
  EsfSensorLatencyGetTimestamps :: "u64 \<Rightarrow> u64 list \<Rightarrow> 'w \<Rightarrow> int \<times> u64 list \<times> 'w"

text \<open>
  The state of the process with the flag \<open>mapped_flag\<close> of the sensor library. \<open>frame_calls\<close> lists
  the frames taken from a stream and the calls that give one back.
\<close>

datatype frame_call = FrameTaken u64 u64 | FrameReleased u64 u64

record 'w cam =
  sx :: "'w sys"
  mapped_flag :: int
  frame_calls :: "frame_call list"

abbreviation cam_world :: "('w, 'b) cam_scheme \<Rightarrow> 'w" where
  "cam_world s \<equiv> world (cx (sx s))"

abbreviation set_cam_world :: "'w \<Rightarrow> ('w, 'b) cam_scheme \<Rightarrow> ('w, 'b) cam_scheme" where
  "set_cam_world w s \<equiv> s\<lparr>sx := set_world w (sx s)\<rparr>"

abbreviation on_sx :: "('w sys \<Rightarrow> 'w sys) \<Rightarrow> ('w, 'b) cam_scheme \<Rightarrow> ('w, 'b) cam_scheme" where
  "on_sx f s \<equiv> s\<lparr>sx := f (sx s)\<rparr>"

definition AITRIOS_SENSOR_CHANNEL_ID_INFERENCE_OUTPUT :: u32 where
  "AITRIOS_SENSOR_CHANNEL_ID_INFERENCE_OUTPUT = 0"
definition AITRIOS_SENSOR_CHANNEL_ID_INFERENCE_INPUT_IMAGE :: u32 where
  "AITRIOS_SENSOR_CHANNEL_ID_INFERENCE_INPUT_IMAGE = 1"
definition AITRIOS_SENSOR_CHANNEL_ID_INFERENCE_RAW_IMAGE :: u32 where
  "AITRIOS_SENSOR_CHANNEL_ID_INFERENCE_RAW_IMAGE = 0x80000000"

section \<open>Frames\<close>

definition SensorGetFrame ::
  "'w senscord \<Rightarrow> u64 \<Rightarrow> u64 \<Rightarrow> int \<Rightarrow> ('w, 'b) cam_scheme \<Rightarrow> int \<times> u64 \<times> ('w, 'b) cam_scheme" where
  "SensorGetFrame C stream frame timeout_msec s =
     (if stream = 0 then (-1, frame, s)
      else let (result, frame, w) = senscord_stream_get_frame C stream timeout_msec frame (cam_world s);
               s = set_cam_world w s
           in (result, frame,
               if result = 0 then s\<lparr>frame_calls := frame_calls s @ [FrameTaken stream frame]\<rparr> else s))"

text \<open>\<open>strstr (t, p) != NULL\<close>\<close>

fun strstr :: "string \<Rightarrow> string \<Rightarrow> bool" where
  "strstr [] p \<longleftrightarrow> p = []"
| "strstr (c # t) p \<longleftrightarrow> take (length p) (c # t) = p \<or> strstr t p"

definition SensorReleaseFrame ::
  "'w senscord \<Rightarrow> u64 \<Rightarrow> u64 \<Rightarrow> ('w, 'b) cam_scheme \<Rightarrow> int \<times> ('w, 'b) cam_scheme" where
  "SensorReleaseFrame C stream frame s =
     (if stream = 0 \<or> frame = 0 then (-1, s)
      else let (result, w) = senscord_stream_release_frame C stream frame (cam_world s);
               s = (set_cam_world w s)\<lparr>frame_calls := frame_calls s @ [FrameReleased stream frame]\<rparr>
           in (if result \<noteq> 0
                  \<and> strstr (snprintf 256 (snd (senscord_get_last_error_string C w))) ''not managed frame''
               then 0 else result, s))"

definition SensorLatencySetMode ::
  "'w senscord \<Rightarrow> bool \<Rightarrow> u32 \<Rightarrow> ('w, 'b) cam_scheme \<Rightarrow> int \<times> ('w, 'b) cam_scheme" where
  "SensorLatencySetMode C is_enable backlog s =
     (let (result, w) = EsfSensorLatencySetMode C is_enable backlog (cam_world s)
      in (result, set_cam_world w s))"

text \<open>The null pointer is \<open>None\<close>; \<open>info\<close> is the structure of time stamps.\<close>

definition SensorGetFrameLatency ::
  "'w senscord \<Rightarrow> u64 \<Rightarrow> u64 option \<Rightarrow> u64 list option \<Rightarrow> ('w, 'b) cam_scheme
     \<Rightarrow> int \<times> u64 option \<times> u64 list option \<times> ('w, 'b) cam_scheme" where
  "SensorGetFrameLatency C frame sequence_number info s =
     (case (sequence_number, info) of
        (Some n, Some ts) \<Rightarrow>
          if frame = 0 then (-1, Some n, Some ts, s)
          else let (result, n, w) = senscord_frame_get_sequence_number C frame n (cam_world s)
          in if result \<noteq> 0 then (result, Some n, Some ts, set_cam_world w s)
             else let (result, ts, w) = EsfSensorLatencyGetTimestamps C n ts w
                  in (result, Some n, Some ts, set_cam_world w s)
      | _ \<Rightarrow> (-1, sequence_number, info, s))"

definition SensorFrameGetChannelFromChannelId ::
  "'w senscord \<Rightarrow> u64 \<Rightarrow> u32 \<Rightarrow> ('w, 'b) cam_scheme \<Rightarrow> int \<times> u64 \<times> ('w, 'b) cam_scheme" where
  "SensorFrameGetChannelFromChannelId C frame channel_id s =
     (let (result, channel, w) = senscord_frame_get_channel_from_channel_id C frame channel_id (cam_world s)
      in (result, channel, set_cam_world w s))"

section \<open>Starting and stopping a stream\<close>

text \<open>
  The first byte of a channel is read through the memory manager: 0 when that works, 1 when it does
  not, -1 when there is nothing to try it on.
\<close>

definition IsMappedMemory ::
  "'w senscord \<Rightarrow> 'w services \<Rightarrow> u64 \<Rightarrow> ('w, 'b) cam_scheme \<Rightarrow> int \<times> ('w, 'b) cam_scheme" where
  "IsMappedMemory C S stream s =
     (let (result, frame, w) = senscord_stream_get_frame C stream (-1) 0 (cam_world s)
      in if result \<noteq> 0 then (-1, set_cam_world w s)
      else let s = s\<lparr>frame_calls := frame_calls s @ [FrameTaken stream frame, FrameReleased stream frame]\<rparr>;
               (result, channel, w) = senscord_frame_get_channel_from_channel_id C frame
                  AITRIOS_SENSOR_CHANNEL_ID_INFERENCE_OUTPUT w;
               (result, channel, w) = (if result \<noteq> 0
                  then senscord_frame_get_channel_from_channel_id C frame
                         AITRIOS_SENSOR_CHANNEL_ID_INFERENCE_INPUT_IMAGE w
                  else (result, channel, w))
      in if result \<noteq> 0 then (-1, set_cam_world (snd (senscord_stream_release_frame C stream frame w)) s)
      else let (result, handle, w) = senscord_channel_get_raw_data_handle C channel w
      in if result \<noteq> 0 then (-1, set_cam_world (snd (senscord_stream_release_frame C stream frame w)) s)
      else let (mem_err, _, w) = EsfMemoryManagerPread S (rdh_address handle) 1 w;
               (result, w) = senscord_stream_release_frame C stream frame w
      in (if result \<noteq> 0 then -1 else if mem_err = 0 then 0 else 1, set_cam_world w s))"

definition SensorStart ::
  "'w senscord \<Rightarrow> 'w services \<Rightarrow> u64 \<Rightarrow> ('w, 'b) cam_scheme \<Rightarrow> int \<times> ('w, 'b) cam_scheme" where
  "SensorStart C S stream s =
     (if stream = 0 then (-1, s)
      else let (result, w) = senscord_stream_start C stream (cam_world s); s = set_cam_world w s
      in if result \<noteq> 0 then (result, s)
         else if mapped_flag s = -1
         then (let (flag, s) = IsMappedMemory C S stream s in (result, s\<lparr>mapped_flag := flag\<rparr>))
         else (result, s))"

definition SensorStop ::
  "'w senscord \<Rightarrow> u64 \<Rightarrow> ('w, 'b) cam_scheme \<Rightarrow> int \<times> ('w, 'b) cam_scheme" where
  "SensorStop C stream s =
     (if stream = 0 then (-1, s)
      else let (result, w) = senscord_stream_stop C stream (cam_world s) in (result, set_cam_world w s))"

section \<open>Raw data\<close>

definition no_image_property :: EdgeAppLibImageProperty where
  "no_image_property = \<lparr>ip_width = 0, ip_height = 0, ip_stride_bytes = 0, ip_pixel_format = ''''\<rparr>"

text \<open>
  \<open>MemoryRefAccess\<close>. Through the memory manager the data is encoded into a buffer of its own. The
  result of the last call is that of reading the image property.
\<close>

definition MemoryRefAccess ::
  "'w env \<Rightarrow> 'w senscord \<Rightarrow> 'w services \<Rightarrow> u64 \<Rightarrow> EdgeAppLibSensorRawData \<Rightarrow> int \<Rightarrow> ('w, 'b) cam_scheme
     \<Rightarrow> int \<times> EdgeAppLibSensorRawData \<times> ('w, 'b) cam_scheme" where
  "MemoryRefAccess E C S channel raw_data flag s =
     (if flag = 0
      then (let (ret, h, w) = senscord_channel_get_raw_data_handle C channel (cam_world s); s = set_cam_world w s
            in if ret \<noteq> 0 then (-1, raw_data, s)
            else let (ret, ip, w) = senscord_channel_get_image_property C channel no_image_property (cam_world s);
                     s = set_cam_world w s
            in case ProcessFormatInput S (MemoryFile (rdh_address h)) (rdh_size h) (codec_number E (sx s))
                      (Some ip) (sx s) of
                (process_format_ret, codec_buffer, codec_size, t) \<Rightarrow>
                  if process_format_ret \<noteq> kProcessFormatResultOk then (-1, raw_data, s\<lparr>sx := t\<rparr>)
                  else (ret, \<lparr>raw_address = codec_buffer, raw_size = word_of_int codec_size,
                              raw_timestamp = rdh_timestamp h\<rparr>, s\<lparr>sx := t\<rparr>))
      else (let (ret, tmp, w) = senscord_channel_get_raw_data C channel
                                  \<lparr>raw_address = 0, raw_size = 0, raw_timestamp = 0\<rparr> (cam_world s);
                s = set_cam_world w s
            in if ret \<noteq> 0 then (-1, raw_data, s) else (ret, tmp, s)))"

definition DataAccess ::
  "'w senscord \<Rightarrow> u64 \<Rightarrow> EdgeAppLibSensorRawData \<Rightarrow> ('w, 'b) cam_scheme
     \<Rightarrow> int \<times> EdgeAppLibSensorRawData \<times> ('w, 'b) cam_scheme" where
  "DataAccess C channel raw_data s =
     (let (result, raw_data, w) = senscord_channel_get_raw_data C channel raw_data (cam_world s)
      in (result, raw_data, set_cam_world w s))"

definition IsInferenceMetaChannel :: "u32 \<Rightarrow> bool" where
  "IsInferenceMetaChannel channel_id \<longleftrightarrow>
     channel_id = AITRIOS_SENSOR_CHANNEL_ID_INFERENCE_OUTPUT
     \<or> channel_id = AITRIOS_SENSOR_CHANNEL_ID_INFERENCE_RAW_IMAGE"

definition SensorChannelGetRawData ::
  "'w env \<Rightarrow> 'w senscord \<Rightarrow> 'w services \<Rightarrow> u64 \<Rightarrow> EdgeAppLibSensorRawData \<Rightarrow> ('w, 'b) cam_scheme
     \<Rightarrow> int \<times> EdgeAppLibSensorRawData \<times> ('w, 'b) cam_scheme" where
  "SensorChannelGetRawData E C S channel raw_data s =
     (let (ret, channel_id, w) = senscord_channel_get_channel_id C channel (cam_world s); s = set_cam_world w s
      in if ret \<noteq> 0 then (-1, raw_data, s)
         else if mapped_flag s \<noteq> -1
         then if IsInferenceMetaChannel channel_id then DataAccess C channel raw_data s
              else MemoryRefAccess E C S channel raw_data (mapped_flag s) s
         else DataAccess C channel raw_data s)"

text \<open>\<open>SensorChannelGetProperty\<close> for the properties of images and of tensor shapes.\<close>

definition SensorChannelGetImageProperty ::
  "'w senscord \<Rightarrow> u64 \<Rightarrow> EdgeAppLibImageProperty \<Rightarrow> ('w, 'b) cam_scheme
     \<Rightarrow> int \<times> EdgeAppLibImageProperty \<times> ('w, 'b) cam_scheme" where
  "SensorChannelGetImageProperty C channel ip s =
     (if channel = 0 then (-1, ip, s)
      else let (result, ip, w) = senscord_channel_get_image_property C channel ip (cam_world s)
           in (result, ip, set_cam_world w s))"

definition SensorChannelGetTensorShapes ::
  "'w senscord \<Rightarrow> u64 \<Rightarrow> u32 list \<Rightarrow> ('w, 'b) cam_scheme \<Rightarrow> int \<times> u32 list \<times> ('w, 'b) cam_scheme" where
  "SensorChannelGetTensorShapes C channel shapes s =
     (if channel = 0 then (-1, shapes, s)
      else let (result, shapes, w) = senscord_channel_get_tensor_shapes C channel shapes (cam_world s)
           in (result, shapes, set_cam_world w s))"

end
