(* ===== verification/EdgeAppCore.thy ===== *)
theory EdgeAppCore
  imports Frames Nn ReceiveData
begin

text \<open>
  \<open>libs/nn/src/edgeapp_core.cpp\<close>, the interface of applications to models: loading and unloading of
  models for the sensor (IMX500) or for WASI-NN, and the tensors of input and output. A model has a
  context \<open>EdgeAppCoreCtx\<close> that the application owns; contexts are named by numbers, as
  \<open>pending_ctx\<close> points to one of them.
\<close>

section \<open>Contexts\<close>

datatype EdgeAppCoreResult =
    EdgeAppCoreResultSuccess | EdgeAppCoreResultFailure | EdgeAppCoreResultTimeout
  | EdgeAppCoreResultInvalidParam | EdgeAppCoreResultDataTooLarge | EdgeAppCoreResultDenied

definition edge_cpu :: nat where "edge_cpu = 0"
definition edge_gpu :: nat where "edge_gpu = 1"
definition edge_npu :: nat where "edge_npu = 2"
definition edge_imx500 :: nat where "edge_imx500 = 3"

datatype TensorMemoryOwner = OwnerUnknown | OwnerSensor | OwnerApp

record TempTensorInfo =
  tti_buffer :: ptr
  tti_size :: u32
  tti_width :: u32
  tti_height :: u32
  tti_timestamp :: u64
  tti_memory_owner :: TensorMemoryOwner

definition no_temp_tensor :: TempTensorInfo where
  "no_temp_tensor = \<lparr>tti_buffer = 0, tti_size = 0, tti_width = 0, tti_height = 0, tti_timestamp = 0,
     tti_memory_owner = OwnerUnknown\<rparr>"

record EdgeAppCoreModelInfo =
  model_name :: "string option"
  model_target :: nat
  model_mean_values :: "rat list option"
  model_norm_values :: "rat list option"

text \<open>The pointers are addresses of blocks that hold a handle.\<close>

record EdgeAppCoreCtx =
  ec_sensor_core :: ptr
  ec_sensor_stream :: ptr
  ec_graph_ctx :: ptr
  ec_target :: nat
  ec_temp_input :: TempTensorInfo
  ec_model_idx :: u32
  ec_mean_values :: "rat list option"
  ec_norm_values :: "rat list option"

text \<open>\<open>handles p\<close> is the handle in the block at \<open>p\<close>, once it was written.\<close>

record 'w core = "'w cam" +
  handles :: "ptr \<Rightarrow> u64 option"
  ctxs :: "nat \<Rightarrow> EdgeAppCoreCtx"
  model_count :: u32
  pending_sensor_shutdown :: bool
  pending_ctx :: "nat option"

abbreviation upd_ec :: "nat \<Rightarrow> (EdgeAppCoreCtx \<Rightarrow> EdgeAppCoreCtx) \<Rightarrow> 'w core \<Rightarrow> 'w core" where
  "upd_ec i f s \<equiv> s\<lparr>ctxs := (ctxs s)(i := f (ctxs s i))\<rparr>"

abbreviation core_undef :: "'w core \<Rightarrow> 'w core" where
  "core_undef s \<equiv> on_sx undef s"

definition deref :: "'w core \<Rightarrow> ptr \<Rightarrow> u64 option" where
  "deref s p = (if alive (sx s) p then handles s p else None)"

definition new_block :: "'w services \<Rightarrow> nat \<Rightarrow> 'w core \<Rightarrow> ptr \<times> 'w core" where
  "new_block S n s = (let (p, t) = malloc S n (sx s) in (p, s\<lparr>sx := t\<rparr>))"

definition set_handle :: "ptr \<Rightarrow> u64 \<Rightarrow> 'w core \<Rightarrow> 'w core" where
  "set_handle p v s = s\<lparr>handles := (handles s)(p \<mapsto> v)\<rparr>"

text \<open>A call of the sensor library, which works on \<open>'w ctx\<close>.\<close>

abbreviation set_cx :: "'w ctx \<Rightarrow> 'w core \<Rightarrow> 'w core" where
  "set_cx c s \<equiv> s\<lparr>sx := (sx s)\<lparr>cx := c\<rparr>\<rparr>"

section \<open>Loading a model\<close>

definition MAX_MODEL_PATH_LEN :: nat where "MAX_MODEL_PATH_LEN = 256"
definition AI_MODEL_BUNDLE_ID_SIZE :: nat where "AI_MODEL_BUNDLE_ID_SIZE = 128"
definition ResponseCodeFailedPrecondition :: int where "ResponseCodeFailedPrecondition = 9"

definition GetConfigureErrorJsonSm :: "int \<Rightarrow> string \<Rightarrow> string \<Rightarrow> string" where
  "GetConfigureErrorJsonSm code message resid =
     ''{\"res_info\": {\"res_id\":\"'' @ resid @ ''\",\"code\": '' @ show_int code @ '',\"detail_msg\":\"'' @ message @ ''\"}}''"

text \<open>The name of the first regular file; the copy of it is not tested for a null pointer.\<close>

definition FindFilenameByRealFilename ::
  "'w services \<Rightarrow> 'w file_services \<Rightarrow> string \<Rightarrow> string \<Rightarrow> 'w core \<Rightarrow> string option \<times> ptr \<times> 'w core" where
  "FindFilenameByRealFilename S D dir real_filename s =
     (case dir_entries D dir (cam_world s) of
        None \<Rightarrow> (None, 0, s)
      | Some es \<Rightarrow>
          (case find (\<lambda>(d_name, is_reg). is_reg \<and> IsRealFilename d_name real_filename) es of
             None \<Rightarrow> (None, 0, s)
           | Some (d_name, _) \<Rightarrow>
               (let (p, s) = new_block S (length d_name + 1) s
                in (Some d_name, p, on_sx (undef_if (p = 0)) s))))"

text \<open>The local function \<open>cleanup\<close>.\<close>

definition core_cleanup :: "nat \<Rightarrow> 'w core \<Rightarrow> 'w core" where
  "core_cleanup i s =
     (let c = ctxs s i;
          s = on_sx (free (ec_graph_ctx c)) (on_sx (free (ec_sensor_core c)) (on_sx (free (ec_sensor_stream c)) s))
      in upd_ec i (\<lambda>c. c\<lparr>ec_sensor_stream := 0, ec_sensor_core := 0, ec_graph_ctx := 0\<rparr>) s)"

definition core_failed :: "nat \<Rightarrow> 'w core \<Rightarrow> EdgeAppCoreResult \<times> 'w core" where
  "core_failed i s = (EdgeAppCoreResultFailure, core_cleanup i s)"

text \<open>A stream for the model, and the model selected on it.\<close>

definition start_sensor_model ::
  "'w env \<Rightarrow> 'w senscord \<Rightarrow> 'w services \<Rightarrow> string \<Rightarrow> nat \<Rightarrow> u64 \<Rightarrow> u64 \<Rightarrow> 'w core \<Rightarrow> EdgeAppCoreResult \<times> 'w core" where
  "start_sensor_model E C S name i core stream s =
     (let (res, c) = SensorStreamSetProperty E stream
            (AiModelBundleId (snprintf AI_MODEL_BUNDLE_ID_SIZE name)) (cx (sx s));
          s = set_cx c s
      in if res < 0 then core_failed i s
         else let (res, s) = SensorStart C S stream s
              in if res \<noteq> 0
                 then core_failed i (set_cx (snd (SensorCoreCloseStream E core stream (cx (sx s)))) s)
                 else (EdgeAppCoreResultSuccess, s))"

definition load_sensor_model ::
  "'w env \<Rightarrow> 'w senscord \<Rightarrow> 'w services \<Rightarrow> string \<Rightarrow> nat \<Rightarrow> 'w core \<Rightarrow> EdgeAppCoreResult \<times> 'w core" where
  "load_sensor_model E C S name i s =
     (let (p, s) = new_block S 8 s; s = upd_ec i (\<lambda>c. c\<lparr>ec_sensor_core := p\<rparr>) s
      in if p = 0 then core_failed i s
      else let (res, core, c) = SensorCoreInit E (cx (sx s)); s = set_handle p core (set_cx c s)
      in if res \<noteq> 0 then core_failed i s
      else let (q, s) = new_block S 8 s; s = upd_ec i (\<lambda>c. c\<lparr>ec_sensor_stream := q\<rparr>) s;
               (res, stream, c) = (if q = 0 then (-1, 0, cx (sx s))
                                   else SensorCoreOpenStream E core ''inference_stream'' (cx (sx s)));
               s = set_cx c s
      in if res \<noteq> 0
         then (let s = core_cleanup i s
               in (EdgeAppCoreResultFailure,
                   set_cx (DataExportSendState E
                     (GetConfigureErrorJsonSm ResponseCodeFailedPrecondition ''Error SensorCoreOpenStream'' '''')
                     (cx (sx s))) s))
         else start_sensor_model E C S name i core stream (set_handle q stream s))"

definition load_graph_model ::
  "'w services \<Rightarrow> 'w wasi_nn \<Rightarrow> 'w file_services \<Rightarrow> string \<Rightarrow> nat \<Rightarrow> 'w core \<Rightarrow> EdgeAppCoreResult \<times> 'w core" where
  "load_graph_model S N D name i s =
     (case EVP_getWorkspaceDirectory D (cam_world s) of
        None \<Rightarrow> core_failed i (core_undef s)
      | Some path \<Rightarrow>
          (case FindFilenameByRealFilename S D path name s of
             (None, _, s) \<Rightarrow> core_failed i s
           | (Some model_file, p, s) \<Rightarrow>
               (let out = path @ ''/'' @ model_file; s = on_sx (free p) s
                in if MAX_MODEL_PATH_LEN \<le> length out then core_failed i s
                else let (err, g, t) = nn_LoadModel N (Some (snprintf MAX_MODEL_PATH_LEN out)) (Some 0) (sx s);
                         s = s\<lparr>sx := t\<rparr>
                in if err \<noteq> 0 then core_failed i s
                else let (q, s) = new_block S 4 s; s = upd_ec i (\<lambda>c. c\<lparr>ec_graph_ctx := q\<rparr>) s
                in if q = 0 then (EdgeAppCoreResultFailure, s)
                else let (err, gc, t) = InitContext N (the g) (sx s); s = set_handle q (ucast gc) (s\<lparr>sx := t\<rparr>)
                in if err \<noteq> 0 then core_failed i s else (EdgeAppCoreResultSuccess, s))))"

definition LoadModel ::
  "'w env \<Rightarrow> 'w senscord \<Rightarrow> 'w services \<Rightarrow> 'w wasi_nn \<Rightarrow> 'w file_services \<Rightarrow> EdgeAppCoreModelInfo \<Rightarrow> nat
     \<Rightarrow> 'w core \<Rightarrow> EdgeAppCoreResult \<times> 'w core" where
  "LoadModel E C S N D model i s =
     (case model_name model of
        None \<Rightarrow> (EdgeAppCoreResultInvalidParam, s)
      | Some name \<Rightarrow>
          if name = '''' \<or> edge_imx500 < model_target model then (EdgeAppCoreResultInvalidParam, s)
          else let s = upd_ec i (\<lambda>c. c\<lparr>ec_target := model_target model, ec_temp_input := no_temp_tensor,
                     ec_mean_values := model_mean_values model, ec_norm_values := model_norm_values model\<rparr>) s;
                   (res, s) = (if model_target model = edge_imx500 then load_sensor_model E C S name i s
                               else load_graph_model S N D name i s)
               in if res \<noteq> EdgeAppCoreResultSuccess then (res, s)
                  else (EdgeAppCoreResultSuccess,
                        (upd_ec i (\<lambda>c. c\<lparr>ec_model_idx := model_count s\<rparr>) s)\<lparr>model_count := model_count s + 1\<rparr>))"

section \<open>Unloading a model\<close>

text \<open>The sensor is stopped with the last model, through the context that was unloaded last.\<close>

definition shutdown_sensor :: "'w env \<Rightarrow> 'w senscord \<Rightarrow> nat \<Rightarrow> 'w core \<Rightarrow> 'w core" where
  "shutdown_sensor E C j s =
     (case (deref s (ec_sensor_core (ctxs s j)), deref s (ec_sensor_stream (ctxs s j))) of
        (Some core, Some stream) \<Rightarrow>
          (let s = snd (SensorStop C stream s);
               s = set_cx (snd (SensorCoreCloseStream E core stream (cx (sx s)))) s;
               s = on_sx (free (ec_sensor_core (ctxs s j))) (on_sx (free (ec_sensor_stream (ctxs s j))) s)
           in (upd_ec j (\<lambda>c. c\<lparr>ec_sensor_stream := 0, ec_sensor_core := 0\<rparr>) s)
                \<lparr>pending_sensor_shutdown := False, pending_ctx := None\<rparr>)
      | _ \<Rightarrow> core_undef s)"

definition UnloadModel :: "'w env \<Rightarrow> 'w senscord \<Rightarrow> nat \<Rightarrow> 'w core \<Rightarrow> EdgeAppCoreResult \<times> 'w core" where
  "UnloadModel E C i s =
     (let s = (if ec_target (ctxs s i) = edge_imx500
               then s\<lparr>pending_sensor_shutdown := True, pending_ctx := Some i, model_count := model_count s - 1\<rparr>
               else s);
          temp = ec_temp_input (ctxs s i);
          s = (if tti_buffer temp \<noteq> 0 \<and> ec_target (ctxs s i) \<noteq> edge_imx500
               then upd_ec i (\<lambda>c. c\<lparr>ec_temp_input := temp\<lparr>tti_buffer := 0, tti_memory_owner := OwnerUnknown\<rparr>\<rparr>)
                      (if tti_memory_owner temp = OwnerApp then on_sx (free (tti_buffer temp)) s else s)
               else s);
          s = (if ec_graph_ctx (ctxs s i) \<noteq> 0
               then (upd_ec i (\<lambda>c. c\<lparr>ec_graph_ctx := 0\<rparr>) (on_sx (free (ec_graph_ctx (ctxs s i))) s))
                      \<lparr>model_count := model_count s - 1\<rparr>
               else s)
      in (EdgeAppCoreResultSuccess,
          case pending_ctx s of
            None \<Rightarrow> s
          | Some j \<Rightarrow> if model_count s = 0 \<and> pending_sensor_shutdown s \<and> ec_sensor_stream (ctxs s j) \<noteq> 0
                     then shutdown_sensor E C j s else s))"

end
