(* ===== verification/Tensors.thy ===== *)
theory Tensors
  imports EdgeAppCore
begin

text \<open>
  The tensors of a model (\<open>libs/nn/src/edgeapp_core.cpp\<close>): reading the shapes the sensor reports, the
  output of a model as one tensor or as a vector of tensors, its input, and sending them.
\<close>

section \<open>Tensors\<close>

definition MAX_TENSOR_DIMS :: nat where "MAX_TENSOR_DIMS = 4"
definition MAX_OUTPUT_TENSORS_SIZE :: u32 where "MAX_OUTPUT_TENSORS_SIZE = 512 * 1024"
definition MAX_OUTPUT_TENSOR_NUM :: nat where "MAX_OUTPUT_TENSOR_NUM = 4"
definition AITRIOS_SENSOR_SHAPES_ARRAY_LENGTH :: nat where "AITRIOS_SENSOR_SHAPES_ARRAY_LENGTH = 192"

datatype TensorDataType =
  TensorTypeFloat16 | TensorTypeFloat32 | TensorTypeUInt8 | TensorTypeInt32 | TensorTypeInt64

definition TensorDataType_num :: "TensorDataType \<Rightarrow> int" where
  "TensorDataType_num t =
     (case t of TensorTypeFloat16 \<Rightarrow> 0 | TensorTypeFloat32 \<Rightarrow> 1 | TensorTypeUInt8 \<Rightarrow> 2
      | TensorTypeInt32 \<Rightarrow> 3 | TensorTypeInt64 \<Rightarrow> 4)"

record TensorShapeInfo =
  ndim :: u32
  dims :: "u32 list"

record Tensor =
  t_data :: ptr
  shape_info :: TensorShapeInfo
  t_type :: TensorDataType
  t_size :: u32
  t_timestamp :: u64
  t_name :: string
  t_format :: int
  t_memory_owner :: TensorMemoryOwner

definition empty_tensor :: Tensor where
  "empty_tensor = \<lparr>t_data = 0, shape_info = \<lparr>ndim = 0, dims = replicate MAX_TENSOR_DIMS 0\<rparr>,
     t_type = TensorTypeFloat16, t_size = 0, t_timestamp = 0, t_name = '''',
     t_format = AITRIOS_DRAW_FORMAT_UNDEFINED, t_memory_owner = OwnerUnknown\<rparr>"

text \<open>The product of the dimensions; an index outside the array is undefined (\<open>None\<close>).\<close>

definition NumElements :: "TensorShapeInfo \<Rightarrow> u32 option" where
  "NumElements shape =
     (if unat (ndim shape) \<le> length (dims shape)
      then Some (fold (\<lambda>d count. count * d) (take (unat (ndim shape)) (dims shape)) 1) else None)"

section \<open>Shapes\<close>

text \<open>
  The array of shapes is a list of lengths, each followed by as many dimensions, up to a length of
  zero. \<open>Imx500FetchOutputOnce\<close> stops at the end of the array; \<open>GetOutputByIndexInternal\<close> does not
  test the end inside a shape, so it is also told whether it has read past the array.
\<close>

function parse_shapes :: "u32 list \<Rightarrow> u32 list list" where
  "parse_shapes [] = []"
| "parse_shapes (d # xs) =
     (if d = 0 then [] else take (unat d) xs # parse_shapes (drop (unat d) xs))"
  by pat_completeness auto
termination by (relation "measure length") auto

function parse_shapes_unchecked :: "u32 list \<Rightarrow> u32 list list \<times> bool" where
  "parse_shapes_unchecked [] = ([], False)"
| "parse_shapes_unchecked (d # xs) =
     (if d = 0 then ([], False)
      else if length xs < unat d then ([xs], True)
      else let (shapes, ub) = parse_shapes_unchecked (drop (unat d) xs) in (take (unat d) xs # shapes, ub))"
  by pat_completeness auto
termination by (relation "measure length") auto

text \<open>A product of \<open>size_t\<close>, and of \<open>uint32_t\<close>, which have the same width.\<close>

definition elements :: "u32 list \<Rightarrow> u32" where
  "elements shape = fold (\<lambda>s n. n * s) shape 1"

definition no_raw_data :: EdgeAppLibSensorRawData where
  "no_raw_data = \<lparr>raw_address = 0, raw_size = 0, raw_timestamp = 0\<rparr>"

definition no_shapes :: "u32 list" where
  "no_shapes = replicate AITRIOS_SENSOR_SHAPES_ARRAY_LENGTH 0"

text \<open>
  The channel of the output with its data and its shapes; the results are those of the first call
  that failed. \<open>GetOutputByIndexInternal\<close> makes the same calls.
\<close>

definition fetch_output ::
  "'w env \<Rightarrow> 'w senscord \<Rightarrow> 'w services \<Rightarrow> u64 \<Rightarrow> 'w core
     \<Rightarrow> (EdgeAppLibSensorRawData \<times> u32 list) option \<times> 'w core" where
  "fetch_output E C S frame s =
     (let (ret, channel, s) = SensorFrameGetChannelFromChannelId C frame
                                AITRIOS_SENSOR_CHANNEL_ID_INFERENCE_OUTPUT s
      in if ret < 0 then (None, s)
      else let (ret, data, s) = SensorChannelGetRawData E C S channel no_raw_data s
      in if ret < 0 then (None, s)
      else let (ret, shapes_array, s) = SensorChannelGetTensorShapes C channel no_shapes s
      in if ret \<noteq> 0 then (None, s) else (Some (data, shapes_array), s))"

definition Imx500FetchOutputOnce ::
  "'w env \<Rightarrow> 'w senscord \<Rightarrow> 'w services \<Rightarrow> u64 \<Rightarrow> 'w core
     \<Rightarrow> (EdgeAppLibSensorRawData \<times> u32 list list) option \<times> 'w core" where
  "Imx500FetchOutputOnce E C S frame s =
     (case fetch_output E C S frame s of
        (None, s) \<Rightarrow> (None, s)
      | (Some (data, shapes_array), s) \<Rightarrow> (Some (data, parse_shapes shapes_array), s))"

section \<open>One tensor\<close>

definition sensor_output :: "EdgeAppLibSensorRawData \<Rightarrow> u32 list list \<Rightarrow> Tensor" where
  "sensor_output data shapes =
     (let sizes = take MAX_OUTPUT_TENSOR_NUM (map elements shapes)
      in empty_tensor\<lparr>t_data := raw_address data, t_size := raw_size data, t_timestamp := raw_timestamp data,
           t_type := TensorTypeFloat32,
           shape_info := \<lparr>ndim = of_nat (length sizes), dims = sizes @ replicate (MAX_TENSOR_DIMS - length sizes) 0\<rparr>\<rparr>)"

text \<open>
  The loop over the outputs of a graph. The sizes WASI-NN reports are bytes, \<open>remaining\<close> counts
  elements; a dimension that the array of four has no room for is written outside it.
\<close>

fun read_outputs ::
  "'w wasi_nn \<Rightarrow> u32 \<Rightarrow> ptr \<Rightarrow> u32 list \<Rightarrow> nat \<Rightarrow> u32 \<Rightarrow> u32 list \<Rightarrow> 'w sys \<Rightarrow> u32 list \<times> u32 \<times> 'w sys" where
  "read_outputs N g base [] offset tot sizes s = (sizes, tot, s)"
| "read_outputs N g base (j # js) offset tot sizes s =
     (let (err, outsize, s) = nn_GetOutput N g j base offset (MAX_OUTPUT_TENSORS_SIZE - tot) s
      in if err \<noteq> 0 then read_outputs N g base js offset tot sizes s
         else read_outputs N g base js (offset + unat outsize div 4 * 4) (tot + outsize)
                (sizes @ [outsize div 4]) (undef_if (MAX_TENSOR_DIMS \<le> length sizes) s))"

text \<open>\<open>realloc\<close> makes a new block with the old bytes, as far as there is room, and frees the old one.\<close>

definition realloc :: "'w services \<Rightarrow> ptr \<Rightarrow> nat \<Rightarrow> 'w sys \<Rightarrow> ptr \<times> 'w sys" where
  "realloc S p n s =
     (let (q, t) = malloc S n s
      in if q = 0 then (0, t)
         else (q, free p (store q (take n (the (heap s p))) t)))"

definition graph_outputs ::
  "'w services \<Rightarrow> 'w wasi_nn \<Rightarrow> u32 \<Rightarrow> nat \<Rightarrow> u32 \<Rightarrow> 'w core \<Rightarrow> Tensor \<times> 'w core" where
  "graph_outputs S N g i max_tensor_num s =
     (let (base, s) = new_block S (unat (MAX_OUTPUT_TENSORS_SIZE * 4)) s
      in if base = 0 then (empty_tensor, s)
      else let (sizes, tot, t) = read_outputs N g base (map of_nat [0..<unat max_tensor_num]) 0 0 [] (sx s);
               (tmp, t) = realloc S base (unat tot) t
      in if tmp = 0 then (empty_tensor, s\<lparr>sx := free base t\<rparr>)
         else let tensor = empty_tensor\<lparr>t_data := tmp, t_size := tot, t_type := TensorTypeFloat32,
                    t_memory_owner := OwnerApp, t_timestamp := tti_timestamp (ec_temp_input (ctxs s i)),
                    shape_info := \<lparr>ndim = of_nat (length sizes),
                      dims = take MAX_TENSOR_DIMS (sizes @ replicate MAX_TENSOR_DIMS 0)\<rparr>\<rparr>
              in if sizes = [] then (tensor\<lparr>t_data := 0, t_size := 0\<rparr>, s\<lparr>sx := free tmp t\<rparr>)
                 else (tensor, s\<lparr>sx := t\<rparr>))"

definition graph_output ::
  "'w services \<Rightarrow> 'w wasi_nn \<Rightarrow> u32 \<Rightarrow> nat \<Rightarrow> u32 \<Rightarrow> 'w core \<Rightarrow> Tensor \<times> 'w core" where
  "graph_output S N g i index s =
     (let (output_data, s) = new_block S (unat MAX_OUTPUT_TENSORS_SIZE) s
      in if output_data = 0 then (empty_tensor, s)
      else let (err, outsize, t) = nn_GetOutput N g index output_data 0 MAX_OUTPUT_TENSORS_SIZE (sx s)
      in if err \<noteq> 0 then (empty_tensor, s\<lparr>sx := free output_data t\<rparr>)
         else (empty_tensor\<lparr>t_data := output_data, t_size := outsize, t_type := TensorTypeFloat32,
                 t_memory_owner := OwnerApp, t_timestamp := tti_timestamp (ec_temp_input (ctxs s i)),
                 shape_info := \<lparr>ndim = 1, dims = outsize div 4 # replicate (MAX_TENSOR_DIMS - 1) 0\<rparr>\<rparr>,
               s\<lparr>sx := t\<rparr>))"

definition GetOutputByIndexInternal ::
  "'w env \<Rightarrow> 'w senscord \<Rightarrow> 'w services \<Rightarrow> 'w wasi_nn \<Rightarrow> nat \<Rightarrow> u64 \<Rightarrow> int \<Rightarrow> u32 \<Rightarrow> 'w core
     \<Rightarrow> Tensor \<times> 'w core" where
  "GetOutputByIndexInternal E C S N i frame tensor_index max_tensor_num s =
     (if ec_target (ctxs s i) = edge_imx500
      then (case fetch_output E C S frame s of
              (None, s) \<Rightarrow> (empty_tensor, s)
            | (Some (data, shapes_array), s) \<Rightarrow>
                (let (shapes, ub) = parse_shapes_unchecked shapes_array
                 in (sensor_output data shapes, on_sx (undef_if ub) s)))
      else if ec_graph_ctx (ctxs s i) = 0 then (empty_tensor, s)
      else case deref s (ec_graph_ctx (ctxs s i)) of
          None \<Rightarrow> (empty_tensor, core_undef s)
        | Some g \<Rightarrow> if tensor_index < 0 then graph_outputs S N (ucast g) i max_tensor_num s
                    else graph_output S N (ucast g) i (word_of_int tensor_index) s)"

definition GetOutput ::
  "'w env \<Rightarrow> 'w senscord \<Rightarrow> 'w services \<Rightarrow> 'w wasi_nn \<Rightarrow> nat \<Rightarrow> u64 \<Rightarrow> u32 \<Rightarrow> 'w core \<Rightarrow> Tensor \<times> 'w core" where
  "GetOutput E C S N i frame max_tensor_num s =
     GetOutputByIndexInternal E C S N i frame (-1) max_tensor_num s"

section \<open>The vector of tensors\<close>

definition tensor_offset :: "u32 list list \<Rightarrow> nat \<Rightarrow> u32" where
  "tensor_offset shapes k = fold (\<lambda>shape offset. offset + elements shape * 4) (take k shapes) 0"

definition sensor_tensor :: "EdgeAppLibSensorRawData \<Rightarrow> u32 list list \<Rightarrow> nat \<Rightarrow> Tensor" where
  "sensor_tensor data shapes k =
     (let shape = shapes ! k
      in empty_tensor\<lparr>t_data := raw_address data + unat (tensor_offset shapes k), t_size := elements shape * 4,
           t_timestamp := raw_timestamp data, t_type := TensorTypeFloat32,
           shape_info := \<lparr>ndim = of_nat (length shape),
             dims = take MAX_TENSOR_DIMS (shape @ replicate MAX_TENSOR_DIMS 0)\<rparr>\<rparr>)"

fun collect_outputs ::
  "'w env \<Rightarrow> 'w senscord \<Rightarrow> 'w services \<Rightarrow> 'w wasi_nn \<Rightarrow> nat \<Rightarrow> u64 \<Rightarrow> u32 \<Rightarrow> u32 list \<Rightarrow> 'w core
     \<Rightarrow> Tensor list \<times> 'w core" where
  "collect_outputs E C S N i frame max_tensor_num [] s = ([], s)"
| "collect_outputs E C S N i frame max_tensor_num (j # js) s =
     (let (tensor, s) = GetOutputByIndexInternal E C S N i frame (sint j) max_tensor_num s
      in if t_data tensor = 0 \<or> t_size tensor = 0 then ([], s)
         else let (outputs, s) = collect_outputs E C S N i frame max_tensor_num js s in (tensor # outputs, s))"

definition GetOutputs ::
  "'w env \<Rightarrow> 'w senscord \<Rightarrow> 'w services \<Rightarrow> 'w wasi_nn \<Rightarrow> nat \<Rightarrow> u64 \<Rightarrow> u32 \<Rightarrow> 'w core
     \<Rightarrow> Tensor list \<times> 'w core" where
  "GetOutputs E C S N i frame max_tensor_num s =
     (if ec_target (ctxs s i) = edge_imx500
      then (case Imx500FetchOutputOnce E C S frame s of
              (None, s) \<Rightarrow> ([], s)
            | (Some (data, shapes), s) \<Rightarrow> (map (sensor_tensor data shapes) [0..<length shapes], s))
      else collect_outputs E C S N i frame max_tensor_num (map of_nat [0..<unat max_tensor_num]) s)"

section \<open>The input\<close>

text \<open>The format of the pixels; \<open>strncmp\<close> compares the terminating NUL too.\<close>

definition input_format :: "string \<Rightarrow> int option" where
  "input_format pixel_format =
     (if pixel_format = AITRIOS_SENSOR_PIXEL_FORMAT_RGB8_PLANAR then Some AITRIOS_DRAW_FORMAT_RGB8_PLANAR
      else if pixel_format = AITRIOS_SENSOR_PIXEL_FORMAT_RGB24 then Some AITRIOS_DRAW_FORMAT_RGB8
      else None)"

definition image_tensor ::
  "ptr \<Rightarrow> u32 \<Rightarrow> u64 \<Rightarrow> u32 \<Rightarrow> u32 \<Rightarrow> int \<Rightarrow> TensorMemoryOwner \<Rightarrow> string \<Rightarrow> Tensor" where
  "image_tensor data size' timestamp h w fmt owner name =
     empty_tensor\<lparr>t_data := data, t_size := size', t_timestamp := timestamp, t_type := TensorTypeUInt8,
       shape_info := \<lparr>ndim = 4, dims = [1, h, w, 3]\<rparr>, t_format := fmt, t_memory_owner := owner,
       t_name := snprintf 64 name\<rparr>"

definition sensor_input ::
  "'w env \<Rightarrow> 'w senscord \<Rightarrow> 'w services \<Rightarrow> u64 \<Rightarrow> 'w core \<Rightarrow> Tensor \<times> 'w core" where
  "sensor_input E C S frame s =
     (let (ret, channel, s) = SensorFrameGetChannelFromChannelId C frame
                                AITRIOS_SENSOR_CHANNEL_ID_INFERENCE_INPUT_IMAGE s
      in if ret < 0 then (empty_tensor, s)
      else let (ret, data, s) = SensorChannelGetRawData E C S channel no_raw_data s
      in if ret < 0 then (empty_tensor, s)
      else let (ret, ip, s) = SensorChannelGetImageProperty C channel no_image_property s
      in if ret \<noteq> 0 then (empty_tensor, on_sx (free (raw_address data)) s)
      else case input_format (ip_pixel_format ip) of
          None \<Rightarrow> (empty_tensor, on_sx (free (raw_address data)) s)
        | Some fmt \<Rightarrow> (image_tensor (raw_address data) (raw_size data) (raw_timestamp data) (ip_height ip)
                         (ip_width ip) fmt OwnerSensor ''imx500_input'', s))"

text \<open>The buffer of the last input goes to the caller when the application owns it.\<close>

definition graph_input :: "nat \<Rightarrow> 'w core \<Rightarrow> Tensor \<times> 'w core" where
  "graph_input i s =
     (let temp = ec_temp_input (ctxs s i)
      in if tti_buffer temp = 0 \<or> tti_width temp = 0 \<or> tti_height temp = 0 then (empty_tensor, s)
         else (image_tensor (tti_buffer temp) (tti_size temp) (tti_timestamp temp) (tti_height temp)
                 (tti_width temp) AITRIOS_DRAW_FORMAT_RGB8 (tti_memory_owner temp)
                 (''wasi_nn_input_'' @ show_int (sint (ec_model_idx (ctxs s i)))),
               if tti_memory_owner temp = OwnerApp
               then upd_ec i (\<lambda>c. c\<lparr>ec_temp_input := temp\<lparr>tti_buffer := 0, tti_size := 0,
                      tti_memory_owner := OwnerUnknown\<rparr>\<rparr>) s
               else s))"

definition GetInput ::
  "'w env \<Rightarrow> 'w senscord \<Rightarrow> 'w services \<Rightarrow> nat \<Rightarrow> u64 \<Rightarrow> 'w core \<Rightarrow> Tensor \<times> 'w core" where
  "GetInput E C S i frame s =
     (if frame = 0 then (empty_tensor, s)
      else if ec_target (ctxs s i) = edge_imx500 then sensor_input E C S frame s
      else graph_input i s)"

section \<open>Sending\<close>

definition core_result :: "EdgeAppLibSendDataResult \<Rightarrow> EdgeAppCoreResult" where
  "core_result r = (if r = EdgeAppLibSendDataResultSuccess then EdgeAppCoreResultSuccess
                    else EdgeAppCoreResultFailure)"

definition SendInference ::
  "'w env \<Rightarrow> 'w services \<Rightarrow> ptr \<Rightarrow> u32 \<Rightarrow> EdgeAppLibSendDataType \<Rightarrow> u64 \<Rightarrow> 'w core
     \<Rightarrow> (EdgeAppCoreResult \<times> 'w core) option" where
  "SendInference E S data datalen datatyp timestamp s =
     map_option (\<lambda>(r, t). (core_result r, s\<lparr>sx := t\<rparr>))
       (SendDataSyncMeta E S data (sint datalen) datatyp timestamp (-1) (sx s))"

definition tensor_image_property :: "Tensor \<Rightarrow> EdgeAppLibImageProperty" where
  "tensor_image_property t =
     (let d = dims (shape_info t); w = d ! 2;
          ip = \<lparr>ip_width = w, ip_height = d ! 1, ip_stride_bytes = 0,
                ip_pixel_format = AITRIOS_SENSOR_PIXEL_FORMAT_RGB8_PLANAR\<rparr>
      in if t_format t = AITRIOS_DRAW_FORMAT_RGB8
         then ip\<lparr>ip_pixel_format := AITRIOS_SENSOR_PIXEL_FORMAT_RGB24, ip_stride_bytes := w * 3\<rparr>
         else if t_format t = AITRIOS_DRAW_FORMAT_RGB8_PLANAR then ip\<lparr>ip_stride_bytes := w\<rparr>
         else ip)"

definition SendInputTensor ::
  "'w env \<Rightarrow> 'w services \<Rightarrow> Tensor option \<Rightarrow> 'w core \<Rightarrow> (EdgeAppCoreResult \<times> Tensor option \<times> 'w core) option" where
  "SendInputTensor E S input_tensor s =
     (case input_tensor of
        None \<Rightarrow> Some (EdgeAppCoreResultInvalidParam, None, s)
      | Some t \<Rightarrow>
          if t_data t = 0 then Some (EdgeAppCoreResultInvalidParam, Some t, s)
          else map_option (\<lambda>(r, u). (core_result r,
                   Some (if t_memory_owner t = OwnerApp then t\<lparr>t_data := 0\<rparr> else t),
                   s\<lparr>sx := if t_memory_owner t = OwnerApp then free (t_data t) u else u\<rparr>))
                 (SendDataSyncImage E S (t_data t) (sint (t_size t)) (Some (tensor_image_property t))
                    (t_timestamp t) (-1) 1 1 (sx s)))"

end
