(* ===== verification/TensorProperties.thy ===== *)
theory TensorProperties
  imports Tensors NnProperties
begin

text \<open>
  The output tensors of the sensor (\<open>Tensors\<close>): the shapes are read as they were written, and the
  tensors cover the raw data one after the other.
\<close>

section \<open>Shapes\<close>

text \<open>How the sensor writes shapes.\<close>

definition encode_shapes :: "u32 list list \<Rightarrow> u32 list" where
  "encode_shapes shapes = concat (map (\<lambda>shape. of_nat (length shape) # shape) shapes)"

definition shape_ok :: "u32 list \<Rightarrow> bool" where
  "shape_ok shape \<longleftrightarrow> shape \<noteq> [] \<and> length shape < 2 ^ 32"

lemma shape_length:
  assumes "shape_ok shape"
  shows "unat (of_nat (length shape) :: u32) = length shape" "(of_nat (length shape) :: u32) \<noteq> 0"
proof -
  show l: "unat (of_nat (length shape) :: u32) = length shape"
    using assms by (simp add: shape_ok_def unat_of_nat)
  show "(of_nat (length shape) :: u32) \<noteq> 0"
  proof
    assume "(of_nat (length shape) :: u32) = 0"
    with l have "length shape = 0" by simp
    with assms show False by (simp add: shape_ok_def)
  qed
qed

lemma parse_encoded:
  assumes "rest = [] \<or> hd rest = 0"
  shows "\<forall>shape\<in>set shapes. shape_ok shape \<Longrightarrow>
    parse_shapes (encode_shapes shapes @ rest) = shapes
    \<and> parse_shapes_unchecked (encode_shapes shapes @ rest) = (shapes, False)"
proof (induction shapes)
  case Nil
  with assms show ?case by (cases rest) (auto simp: encode_shapes_def)
next
  case (Cons shape shapes)
  then have ok: "shape_ok shape" by simp
  from Cons show ?case by (simp add: encode_shapes_def shape_length [OF ok])
qed

section \<open>Sizes\<close>

definition elements_nat :: "u32 list \<Rightarrow> nat" where
  "elements_nat shape = prod_list (map unat shape)"

lemma fold_elements: "fold (\<lambda>s n. n * s) shape (of_nat m :: u32) = of_nat (m * elements_nat shape)"
proof (induction shape arbitrary: m)
  case Nil
  then show ?case by (simp add: elements_nat_def)
next
  case (Cons d shape)
  have "fold (\<lambda>s n. n * s) (d # shape) (of_nat m :: u32) = fold (\<lambda>s n. n * s) shape (of_nat (m * unat d))"
    by simp
  also have "\<dots> = of_nat (m * unat d * elements_nat shape)" by (rule Cons.IH)
  finally show ?case by (simp add: elements_nat_def mult.assoc del: of_nat_mult)
qed

lemma elements_of_nat: "elements shape = of_nat (elements_nat shape)"
  using fold_elements [of shape 1] by (simp add: elements_def)

definition bytes_before :: "u32 list list \<Rightarrow> nat \<Rightarrow> nat" where
  "bytes_before shapes k = (\<Sum>shape\<leftarrow>take k shapes. elements_nat shape * 4)"

lemma bytes_before_Suc: "k < length shapes \<Longrightarrow>
    bytes_before shapes (Suc k) = bytes_before shapes k + elements_nat (shapes ! k) * 4"
  by (simp add: bytes_before_def take_Suc_conv_app_nth)

lemma bytes_before_mono: "bytes_before shapes k \<le> bytes_before shapes (length shapes)"
proof (induction shapes arbitrary: k)
  case (Cons x shapes)
  then show ?case by (cases k) (simp_all add: bytes_before_def)
qed (simp add: bytes_before_def)

lemma tensor_offset_of_nat: "tensor_offset shapes k = of_nat (bytes_before shapes k)"
proof -
  have "fold (\<lambda>shape offset. offset + elements shape * 4) ss (of_nat m :: u32)
    = of_nat (m + (\<Sum>shape\<leftarrow>ss. elements_nat shape * 4))" for ss m
  proof (induction ss arbitrary: m)
    case (Cons x ss)
    have "fold (\<lambda>shape offset. offset + elements shape * 4) (x # ss) (of_nat m :: u32)
      = fold (\<lambda>shape offset. offset + elements shape * 4) ss (of_nat (m + elements_nat x * 4))"
      by (simp add: elements_of_nat)
    also have "\<dots> = of_nat (m + elements_nat x * 4 + (\<Sum>shape\<leftarrow>ss. elements_nat shape * 4))" by (rule Cons.IH)
    finally show ?case by (simp add: add.assoc del: of_nat_add of_nat_mult)
  qed simp
  from this [of "take k shapes" 0] show ?thesis by (simp add: tensor_offset_def bytes_before_def)
qed

lemma unat_small: "n < 2 ^ 32 \<Longrightarrow> unat (of_nat n :: u32) = n"
  by (simp add: unat_of_nat)

lemma sensor_tensor_place:
  assumes "k < length shapes" "bytes_before shapes (length shapes) < 2 ^ 32"
  shows "t_data (sensor_tensor data shapes k) = raw_address data + bytes_before shapes k"
    and "unat (t_size (sensor_tensor data shapes k)) = elements_nat (shapes ! k) * 4"
proof -
  have b: "bytes_before shapes k + elements_nat (shapes ! k) * 4 < 2 ^ 32"
    using bytes_before_mono [of shapes "Suc k"] bytes_before_Suc [OF assms(1)] assms(2) by simp
  then show "t_data (sensor_tensor data shapes k) = raw_address data + bytes_before shapes k"
    by (simp add: sensor_tensor_def Let_def tensor_offset_of_nat unat_of_nat)
  have "elements (shapes ! k) * 4 = (of_nat (elements_nat (shapes ! k) * 4) :: u32)"
    by (simp add: elements_of_nat)
  with b show "unat (t_size (sensor_tensor data shapes k)) = elements_nat (shapes ! k) * 4"
    by (simp add: sensor_tensor_def Let_def unat_of_nat del: of_nat_mult)
qed

lemma sensor_tensor_shape:
  assumes "shape_ok (shapes ! k)" "length (shapes ! k) \<le> MAX_TENSOR_DIMS"
  shows "NumElements (shape_info (sensor_tensor data shapes k)) = Some (elements (shapes ! k))"
  using assms shape_length [OF assms(1)]
  by (simp add: sensor_tensor_def Let_def NumElements_def elements_def MAX_TENSOR_DIMS_def)

section \<open>The outputs of the sensor\<close>


text \<open>A sensor whose model has two outputs, of shapes [2, 3] and [5].\<close>

definition demo_senscord :: "nat senscord" where
  "demo_senscord = \<lparr>senscord_stream_start = (\<lambda>_ w. (0, w)), senscord_stream_stop = (\<lambda>_ w. (0, w)),
     senscord_stream_get_frame = (\<lambda>_ _ _ w. (0, 9, w)), senscord_stream_release_frame = (\<lambda>_ _ w. (0, w)),
     senscord_frame_get_channel_from_channel_id = (\<lambda>_ _ w. (0, 3, w)),
     senscord_frame_get_sequence_number = (\<lambda>_ _ w. (0, 1, w)), senscord_channel_get_channel_id = (\<lambda>_ w. (0, 0, w)),
     senscord_channel_get_raw_data = (\<lambda>_ _ w. (0, \<lparr>raw_address = 1, raw_size = 44, raw_timestamp = 7\<rparr>, w)),
     senscord_channel_get_raw_data_handle = (\<lambda>_ w. (0, \<lparr>rdh_address = 5, rdh_size = 4, rdh_timestamp = 7\<rparr>, w)),
     senscord_channel_get_image_property = (\<lambda>_ _ w. (0, \<lparr>ip_width = 1, ip_height = 1, ip_stride_bytes = 3,
        ip_pixel_format = AITRIOS_SENSOR_PIXEL_FORMAT_RGB24\<rparr>, w)),
     senscord_channel_get_tensor_shapes = (\<lambda>_ _ w. (0, [2, 2, 3, 1, 5] @ replicate 187 0, w)),
     senscord_get_last_error_string = (\<lambda>_. (0, '''')), EsfSensorLatencySetMode = (\<lambda>_ _ w. (0, w)),
     EsfSensorLatencyGetTimestamps = (\<lambda>_ ts w. (0, ts, w))\<rparr>"

definition no_ctx :: EdgeAppCoreCtx where
  "no_ctx = \<lparr>ec_sensor_core = 0, ec_sensor_stream = 0, ec_graph_ctx = 0, ec_target = edge_imx500,
     ec_temp_input = no_temp_tensor, ec_model_idx = 0, ec_mean_values = None, ec_norm_values = None\<rparr>"

definition demo_core :: "nat core" where
  "demo_core = \<lparr>sx = demo_sys, mapped_flag = -1, frame_calls = [], handles = (\<lambda>_. None), ctxs = (\<lambda>_. no_ctx),
     model_count = 0, pending_sensor_shutdown = False, pending_ctx = None\<rparr>"


end
