(* ===== verification/ModelProperties.thy ===== *)
theory ModelProperties
  imports EdgeAppCore TensorProperties ReceiveProperties
begin

text \<open>
  Loading and unloading models (\<open>EdgeAppCore\<close>): the handles of the loaded models are alive, their
  number is counted, and with the last model the sensor is stopped and all memory is given back.
\<close>

section \<open>Blocks that are held\<close>

text \<open>
  \<open>holds b P s\<close>: \<open>P\<close> is the set of the blocks that were allocated since \<open>b\<close> and are still alive;
  every other block is as it was. A copy that cannot be allocated and a missing workspace are not
  tested for, so nothing is claimed about undefined behaviour in these cases.
\<close>

definition excused :: "'w services \<Rightarrow> 'w file_services \<Rightarrow> bool" where
  "excused S D \<longleftrightarrow> (\<exists>u k. \<not> alloc_ok S u k) \<or> (\<exists>w. EVP_getWorkspaceDirectory D w = None)"

definition holds :: "bool \<Rightarrow> 'w sys \<Rightarrow> ptr set \<Rightarrow> 'w sys \<Rightarrow> bool" where
  "holds x b P s \<longleftrightarrow> heap_ok s \<and> 0 \<notin> P \<and> (\<forall>q. q \<notin> P \<longrightarrow> block s q = block b q)
     \<and> (\<forall>q\<in>P. block s q \<noteq> None \<and> block b q = None)
     \<and> (x \<or> undefined_behaviour (cx s) = undefined_behaviour (cx b))"

lemma holds_none: "holds x b {} s \<longleftrightarrow> heap_ok s \<and> (\<forall>q. block s q = block b q)
    \<and> (x \<or> undefined_behaviour (cx s) = undefined_behaviour (cx b))"
  by (simp add: holds_def)

lemma holds_cx:
  assumes "holds x b P s" "freed_buffers c = freed_buffers (cx s)"
    "undefined_behaviour c = undefined_behaviour (cx s)"
  shows "holds x b P (s\<lparr>cx := c\<rparr>)"
proof -
  have "block (s\<lparr>cx := c\<rparr>) q = block s q" for q using assms(2) by (simp add: block_def alive_def)
  with assms show ?thesis by (simp add: holds_def heap_ok_def)
qed

lemma holds_world [simp]: "holds x b P (set_world w s) = holds x b P s"
  by (simp add: holds_def heap_ok_def)

lemma holds_undef: "holds True b P s \<Longrightarrow> holds True b P (undef s)"
proof -
  have "block (undef s) q = block s q" for q by (simp add: block_def alive_def undefined_step_def)
  then show "holds True b P s \<Longrightarrow> holds True b P (undef s)" by (simp add: holds_def heap_ok_def)
qed

lemma holds_malloc:
  assumes "holds x b P s" "malloc S n s = (p, t)"
  shows "p = 0 \<and> t = s \<and> \<not> alloc_ok S s n \<or> p \<noteq> 0 \<and> p \<notin> P \<and> holds x b (insert p P) t"
proof (cases "p = 0")
  case True
  with assms malloc_refused [of S n s t] show ?thesis by (simp add: holds_def)
next
  case False
  have ok: "heap_ok s" using assms(1) by (simp add: holds_def)
  have f: "block s p = None" "block t p \<noteq> None" using mem.alloc_fresh [OF ok assms(2) False] by simp_all
  have u: "undefined_behaviour (cx t) = undefined_behaviour (cx s)"
    using assms(2) by (auto simp: malloc_def split: if_splits)
  have P: "p \<notin> P" using f(1) assms(1) by (auto simp: holds_def)
  have "holds x b (insert p P) t" unfolding holds_def
  proof (intro conjI ballI allI impI)
    show "heap_ok t" using mem.alloc_ok [OF ok assms(2)] .
    show "0 \<notin> insert p P" using False assms(1) by (auto simp: holds_def)
    fix q
    show "block t q = block b q" if "q \<notin> insert p P"
      using that mem.alloc_others [OF assms(2), of q] assms(1) by (simp add: holds_def)
    show "block t q \<noteq> None" "block b q = None" if "q \<in> insert p P"
      using that mem.alloc_others [OF assms(2), of q] f assms(1) P
      by (cases "q = p"; auto simp: holds_def)+
    show "x \<or> undefined_behaviour (cx t) = undefined_behaviour (cx b)" using u assms(1) by (simp add: holds_def)
  qed
  with P False show ?thesis by simp
qed

lemma holds_free:
  assumes "holds x b P s" "p \<in> P"
  shows "holds x b (P - {p}) (free p s)"
proof -
  have s: "heap_ok s" "block s p \<noteq> None" "p \<noteq> 0" using assms by (auto simp: holds_def intro: gr0I)
  have u: "undefined_behaviour (cx (free p s)) = undefined_behaviour (cx s)"
    using s(2,3) by (auto simp: free_def free_buffer_def block_def alive_def split: if_splits)
  show ?thesis unfolding holds_def
  proof (intro conjI ballI allI impI)
    show "heap_ok (free p s)" using mem.release_ok [OF s(1,2)] .
    show "0 \<notin> P - {p}" using assms(1) by (simp add: holds_def)
    fix q
    show "block (free p s) q = block b q" if "q \<notin> P - {p}"
      using that mem.release_block [OF s(1,2), of q] assms by (cases "q = p") (auto simp: holds_def)
    show "block (free p s) q \<noteq> None" "block b q = None" if "q \<in> P - {p}"
      using that mem.release_block [OF s(1,2), of q] assms by (auto simp: holds_def)
    show "x \<or> undefined_behaviour (cx (free p s)) = undefined_behaviour (cx b)"
      using u assms(1) by (simp add: holds_def)
  qed
qed

lemma free_null [simp]: "free 0 s = s"
  by (simp add: free_def)


section \<open>Calls of the sensor\<close>

text \<open>What the calls of the sensor library leave alone.\<close>

definition same_models :: "'w core \<Rightarrow> 'w core \<Rightarrow> bool" where
  "same_models s t \<longleftrightarrow> handles t = handles s \<and> ctxs t = ctxs s \<and> model_count t = model_count s
     \<and> pending_sensor_shutdown t = pending_sensor_shutdown s \<and> pending_ctx t = pending_ctx s
     \<and> (\<forall>x b P. holds x b P (sx t) = holds x b P (sx s))"

lemma SensorStart_same: "SensorStart C S stream s = (r, t) \<Longrightarrow> same_models s t"
  by (auto simp: same_models_def SensorStart_def IsMappedMemory_def Let_def split: prod.splits if_splits)

lemma SensorStop_same: "same_models s (snd (SensorStop C stream s))"
  by (auto simp: same_models_def SensorStop_def Let_def split: prod.splits if_splits)

lemma ctx_calls:
  "SensorCoreInit E c = (r, core, d) \<Longrightarrow> freed_buffers d = freed_buffers c \<and> undefined_behaviour d = undefined_behaviour c"
  "SensorCoreOpenStream E core k c = (r, st, d) \<Longrightarrow> freed_buffers d = freed_buffers c \<and> undefined_behaviour d = undefined_behaviour c"
  "freed_buffers (snd (SensorCoreCloseStream E core st c)) = freed_buffers c
   \<and> undefined_behaviour (snd (SensorCoreCloseStream E core st c)) = undefined_behaviour c"
  "SensorStreamSetProperty E st (AiModelBundleId name) c = (r, d) \<Longrightarrow> freed_buffers d = freed_buffers c
   \<and> undefined_behaviour d = undefined_behaviour c"
  "freed_buffers (DataExportSendState E state c) = freed_buffers c
   \<and> undefined_behaviour (DataExportSendState E state c) = undefined_behaviour c"
  by (auto simp: SensorCoreInit_def SensorCoreOpenStream_def SensorCoreCloseStream_def SensorStreamSetProperty_def
      updateProperty_def DataExportSendState_def updateCustomSettings_def CustomSettings_Store_def
      EnableNotification_def Let_def split: prod.splits if_splits option.splits)


section \<open>Loading\<close>

definition no_ptrs :: "EdgeAppCoreCtx \<Rightarrow> bool" where
  "no_ptrs c \<longleftrightarrow> ec_sensor_core c = 0 \<and> ec_sensor_stream c = 0 \<and> ec_graph_ctx c = 0"

definition ptrs :: "EdgeAppCoreCtx \<Rightarrow> ptr set" where
  "ptrs c = {ec_sensor_core c, ec_sensor_stream c, ec_graph_ctx c} - {0}"

text \<open>A context as its target needs it.\<close>

definition ptrs_ok :: "EdgeAppCoreCtx \<Rightarrow> bool" where
  "ptrs_ok c \<longleftrightarrow>
     (if ec_target c = edge_imx500
      then ec_sensor_core c \<noteq> 0 \<and> ec_sensor_stream c \<noteq> 0 \<and> ec_sensor_core c \<noteq> ec_sensor_stream c \<and> ec_graph_ctx c = 0
      else ec_sensor_core c = 0 \<and> ec_sensor_stream c = 0 \<and> ec_graph_ctx c \<noteq> 0)"

lemma no_ptrs_set [simp]: "no_ptrs c \<Longrightarrow> ptrs c = {}"
  by (simp add: no_ptrs_def ptrs_def)

text \<open>
  What loading into context \<open>i\<close> does: other contexts, the count and the pending shutdown stay; either
  everything that was allocated is freed again, or the blocks of the context are new.
\<close>

definition load_outcome ::
  "bool \<Rightarrow> 'w sys \<Rightarrow> ptr set \<Rightarrow> nat \<Rightarrow> 'w core \<Rightarrow> EdgeAppCoreResult \<Rightarrow> 'w core \<Rightarrow> bool" where
  "load_outcome x b P i s r t \<longleftrightarrow>
     (\<forall>j. j \<noteq> i \<longrightarrow> ctxs t j = ctxs s j) \<and> model_count t = model_count s
     \<and> pending_sensor_shutdown t = pending_sensor_shutdown s \<and> pending_ctx t = pending_ctx s
     \<and> (\<forall>q\<in>P. handles t q = handles s q)
     \<and> ec_target (ctxs t i) = ec_target (ctxs s i) \<and> ec_temp_input (ctxs t i) = ec_temp_input (ctxs s i)
     \<and> (if r \<noteq> EdgeAppCoreResultSuccess then holds x b P (sx t) \<and> no_ptrs (ctxs t i)
        else ptrs_ok (ctxs t i) \<and> ptrs (ctxs t i) \<inter> P = {} \<and> holds x b (ptrs (ctxs t i) \<union> P) (sx t)
             \<and> (\<forall>p\<in>ptrs (ctxs t i). handles t p \<noteq> None))"

lemma holds_free0: "holds x b P s \<Longrightarrow> p = 0 \<or> p \<in> P \<Longrightarrow> holds x b (P - {p}) (free p s)"
  using holds_free [of x b P s p] by (auto simp: holds_def)

lemma core_cleanup_outcome:
  assumes "holds x b Q (sx s)" "Q - {st, co, gr} = P"
    and "ec_sensor_stream (ctxs s i) = st" "ec_sensor_core (ctxs s i) = co" "ec_graph_ctx (ctxs s i) = gr"
    and "st = 0 \<or> st \<in> Q" "co = 0 \<or> co \<in> Q \<and> co \<noteq> st" "gr = 0 \<or> gr \<in> Q \<and> gr \<noteq> st \<and> gr \<noteq> co"
    and "core_failed i s = (r, t)"
  shows "r \<noteq> EdgeAppCoreResultSuccess" "holds x b P (sx t)" "no_ptrs (ctxs t i)" "\<And>j. j \<noteq> i \<Longrightarrow> ctxs t j = ctxs s j"
    "model_count t = model_count s" "pending_sensor_shutdown t = pending_sensor_shutdown s"
    "pending_ctx t = pending_ctx s" "handles t = handles s"
    "ec_target (ctxs t i) = ec_target (ctxs s i)" "ec_temp_input (ctxs t i) = ec_temp_input (ctxs s i)"
proof -
  have "holds x b (Q - {st}) (free st (sx s))" using holds_free0 [OF assms(1)] assms(6) by blast
  then have "holds x b (Q - {st} - {co}) (free co (free st (sx s)))" by (rule holds_free0) (use assms(7) in blast)
  then have "holds x b (Q - {st} - {co} - {gr}) (free gr (free co (free st (sx s))))"
    by (rule holds_free0) (use assms(8) in blast)
  moreover have "Q - {st} - {co} - {gr} = P" using assms(2) by blast
  ultimately have h: "holds x b P (free gr (free co (free st (sx s))))" by simp
  then show "holds x b P (sx t)" using assms(3-5,9) by (auto simp: core_failed_def core_cleanup_def Let_def)
  show "r \<noteq> EdgeAppCoreResultSuccess" "no_ptrs (ctxs t i)" "\<And>j. j \<noteq> i \<Longrightarrow> ctxs t j = ctxs s j"
    "model_count t = model_count s" "pending_sensor_shutdown t = pending_sensor_shutdown s"
    "pending_ctx t = pending_ctx s" "handles t = handles s"
    "ec_target (ctxs t i) = ec_target (ctxs s i)" "ec_temp_input (ctxs t i) = ec_temp_input (ctxs s i)"
    using assms(9) by (auto simp: core_failed_def core_cleanup_def no_ptrs_def Let_def)
qed

lemma failed_outcome:
  assumes "holds x b Q (sx s)" "Q - {st, co, gr} = P"
    and "ec_sensor_stream (ctxs s i) = st" "ec_sensor_core (ctxs s i) = co" "ec_graph_ctx (ctxs s i) = gr"
    and "st = 0 \<or> st \<in> Q" "co = 0 \<or> co \<in> Q \<and> co \<noteq> st" "gr = 0 \<or> gr \<in> Q \<and> gr \<noteq> st \<and> gr \<noteq> co"
    and "core_failed i s = (r, t)"
    and "\<And>j. j \<noteq> i \<Longrightarrow> ctxs s j = ctxs u j" "model_count s = model_count u"
    "pending_sensor_shutdown s = pending_sensor_shutdown u" "pending_ctx s = pending_ctx u"
    "\<And>q. q \<in> P \<Longrightarrow> handles s q = handles u q"
    "ec_target (ctxs s i) = ec_target (ctxs u i)" "ec_temp_input (ctxs s i) = ec_temp_input (ctxs u i)"
  shows "load_outcome x b P i u r t"
  using core_cleanup_outcome [OF assms(1-9)] assms(10-) by (simp add: load_outcome_def)

lemma same_models_holds: "same_models s t \<Longrightarrow> holds x b P (sx t) = holds x b P (sx s)"
  by (simp add: same_models_def)

lemma start_sensor_outcome:
  assumes "start_sensor_model E C S name i core stream s = (r, t)"
    and "holds x b (insert q (insert p P)) (sx s)" "p \<notin> P" "q \<notin> P" "p \<noteq> q" "p \<noteq> 0" "q \<noteq> 0"
    and "ec_sensor_core (ctxs s i) = p" "ec_sensor_stream (ctxs s i) = q" "ec_graph_ctx (ctxs s i) = 0"
    and "handles s p \<noteq> None" "handles s q \<noteq> None" "ec_target (ctxs s i) = edge_imx500"
    and "\<And>j. j \<noteq> i \<Longrightarrow> ctxs s j = ctxs u j" "model_count s = model_count u"
    "pending_sensor_shutdown s = pending_sensor_shutdown u" "pending_ctx s = pending_ctx u"
    "\<And>q. q \<in> P \<Longrightarrow> handles s q = handles u q"
    "ec_target (ctxs s i) = ec_target (ctxs u i)" "ec_temp_input (ctxs s i) = ec_temp_input (ctxs u i)"
  shows "load_outcome x b P i u r t"
proof -
  obtain res c where c: "SensorStreamSetProperty E stream (AiModelBundleId (snprintf AI_MODEL_BUNDLE_ID_SIZE name))
      (cx (sx s)) = (res, c)" by fastforce
  let ?s = "set_cx c s"
  have h: "holds x b (insert q (insert p P)) (sx ?s)"
    using holds_cx [OF assms(2)] ctx_calls(4) [OF c] by simp
  note at = assms(3-10) assms(13-)
  have diff: "insert q (insert p P) - {q, p, 0} = P" using assms(2-4) by (auto simp: holds_def)
  show ?thesis
  proof (cases "res < 0")
    case True
    with c assms(1) have "core_failed i ?s = (r, t)" by (simp add: start_sensor_model_def)
    from failed_outcome [OF h diff _ _ _ _ _ _ this] show ?thesis using at by simp
  next
    case False
    obtain res' s' where st: "SensorStart C S stream ?s = (res', s')" by fastforce
    have sm: "same_models ?s s'" using SensorStart_same [OF st] .
    then have h': "holds x b (insert q (insert p P)) (sx s')" using h same_models_holds by blast
    let ?s' = "set_cx (snd (SensorCoreCloseStream E core stream (cx (sx s')))) s'"
    show ?thesis
    proof (cases "res' = 0")
      case True
      with c st False assms(1) have "r = EdgeAppCoreResultSuccess" "t = s'"
        by (simp_all add: start_sensor_model_def)
      moreover have "ptrs (ctxs s' i) = {q, p}" using sm at by (auto simp: ptrs_def same_models_def)
      ultimately show ?thesis using sm at h' assms(11,12) by (auto simp: load_outcome_def ptrs_ok_def same_models_def)
    next
      case False
      with c st \<open>\<not> res < 0\<close> assms(1) have "core_failed i ?s' = (r, t)" by (simp add: start_sensor_model_def)
      moreover have "holds x b (insert q (insert p P)) (sx ?s')"
        using holds_cx [OF h'] ctx_calls(3) [of E core stream "cx (sx s')"] by simp
      ultimately show ?thesis using failed_outcome [OF _ diff _ _ _ _ _ _, of x b ?s' i r t u] at sm
        by (simp add: same_models_def)
    qed
  qed
qed

lemma new_block_frame:
  "new_block S n s = (p, t) \<Longrightarrow> handles t = handles s \<and> ctxs t = ctxs s \<and> model_count t = model_count s
     \<and> pending_sensor_shutdown t = pending_sensor_shutdown s \<and> pending_ctx t = pending_ctx s"
  by (auto simp: new_block_def split: prod.splits)

lemma new_block_holds:
  assumes "holds x b P (sx s)" "new_block S n s = (p, t)"
  shows "p = 0 \<and> sx t = sx s \<and> (\<exists>u k. \<not> alloc_ok S u k) \<or> p \<noteq> 0 \<and> p \<notin> P \<and> holds x b (insert p P) (sx t)"
proof -
  obtain u where m: "malloc S n (sx s) = (p, u)" "t = s\<lparr>sx := u\<rparr>"
    using assms(2) by (auto simp: new_block_def split: prod.splits)
  then show ?thesis using holds_malloc [OF assms(1) m(1)] by auto
qed

lemma outcome_state:
  assumes "load_outcome x b P i u r t" "r \<noteq> EdgeAppCoreResultSuccess"
  shows "load_outcome x b P i u r (set_cx (DataExportSendState E state (cx (sx t))) t)"
  using assms holds_cx [of x b P "sx t" "DataExportSendState E state (cx (sx t))"]
    ctx_calls(5) [of E state "cx (sx t)"]
  by (simp add: load_outcome_def)

lemma load_sensor_outcome:
  assumes "load_sensor_model E C S name i s = (r, t)" "holds x b P (sx s)" "no_ptrs (ctxs s i)"
    and "ec_target (ctxs s i) = edge_imx500"
  shows "load_outcome x b P i s r t"
proof -
  have null: "ec_sensor_core (ctxs s i) = 0" "ec_sensor_stream (ctxs s i) = 0" "ec_graph_ctx (ctxs s i) = 0"
    using assms(3) by (simp_all add: no_ptrs_def)
  have P0: "0 \<notin> P" using assms(2) by (simp add: holds_def)
  obtain p s1 where n1: "new_block S 8 s = (p, s1)" by fastforce
  let ?s1 = "upd_ec i (\<lambda>c. c\<lparr>ec_sensor_core := p\<rparr>) s1"
  obtain res core c where init: "SensorCoreInit E (cx (sx ?s1)) = (res, core, c)" by (metis prod_cases3)
  let ?s2 = "set_handle p core (set_cx c ?s1)"
  obtain q s3 where n2: "new_block S 8 ?s2 = (q, s3)" by fastforce
  let ?s3 = "upd_ec i (\<lambda>c. c\<lparr>ec_sensor_stream := q\<rparr>) s3"
  obtain res' stream d where opn: "(if q = 0 then (-1, 0, cx (sx ?s3))
      else SensorCoreOpenStream E core ''inference_stream'' (cx (sx ?s3))) = (res', stream, d)" by (metis prod_cases3)
  let ?s4 = "set_cx d ?s3"
  let ?json = "GetConfigureErrorJsonSm ResponseCodeFailedPrecondition ''Error SensorCoreOpenStream'' ''''"
  have run: "(r, t) = (if p = 0 then core_failed i ?s1 else if res \<noteq> 0 then core_failed i ?s2
    else if res' \<noteq> 0 then (EdgeAppCoreResultFailure, set_cx (DataExportSendState E ?json
           (cx (sx (core_cleanup i ?s4)))) (core_cleanup i ?s4))
    else start_sensor_model E C S name i core stream (set_handle q stream ?s4))"
    using assms(1) unfolding load_sensor_model_def n1 Let_def prod.case init n2 opn by (rule sym)
  show ?thesis
  proof (cases "p = 0")
    case True
    with new_block_holds [OF assms(2) n1] have "holds x b P (sx ?s1)" using assms(2) by auto
    with True run null new_block_frame [OF n1] P0 show ?thesis
      by (intro failed_outcome [of x b P ?s1 0 0 0]) simp_all
  next
    case p: False
    then have h1: "p \<notin> P" "holds x b (insert p P) (sx s1)" using new_block_holds [OF assms(2) n1] by auto
    have h2: "holds x b (insert p P) (sx ?s2)"
      using holds_cx [OF h1(2), of c] ctx_calls(1) [OF init] by (simp add: set_handle_def)
    show ?thesis
    proof (cases "res = 0")
      case False
      with p h1(1) run null new_block_frame [OF n1] P0 show ?thesis
        by (intro failed_outcome [OF h2, of 0 p 0]) (auto simp: set_handle_def)
    next
      case res: True
      have h4: "q = 0 \<and> holds x b (insert p P) (sx ?s4) \<or> q \<noteq> 0 \<and> q \<notin> insert p P
          \<and> holds x b (insert q (insert p P)) (sx ?s4)"
      proof (cases "q = 0")
        case True
        with new_block_holds [OF h2 n2] opn h2 show ?thesis by auto
      next
        case False
        with new_block_holds [OF h2 n2] have "q \<notin> insert p P" "holds x b (insert q (insert p P)) (sx s3)" by auto
        with False opn holds_cx [OF this(2), of d] ctx_calls(2) [of E core "''inference_stream''" _ res' stream d]
        show ?thesis by simp
      qed
      have st4: "ec_sensor_stream (ctxs ?s4 i) = q" "ec_sensor_core (ctxs ?s4 i) = p" "ec_graph_ctx (ctxs ?s4 i) = 0"
        "ec_target (ctxs ?s4 i) = edge_imx500" "ec_temp_input (ctxs ?s4 i) = ec_temp_input (ctxs s i)"
        "\<And>j. j \<noteq> i \<Longrightarrow> ctxs ?s4 j = ctxs s j" "model_count ?s4 = model_count s"
        "pending_sensor_shutdown ?s4 = pending_sensor_shutdown s" "pending_ctx ?s4 = pending_ctx s"
        "handles ?s4 = (handles s)(p \<mapsto> core)"
        using new_block_frame [OF n1] new_block_frame [OF n2] null assms(4) by (simp_all add: set_handle_def)
      show ?thesis
      proof (cases "res' = 0")
        case False
        have "load_outcome x b P i s EdgeAppCoreResultFailure (core_cleanup i ?s4)"
        proof (cases "q = 0")
          case True
          with h4 have h: "holds x b (insert p P) (sx ?s4)" by simp
          show ?thesis by (rule failed_outcome [OF h, of 0 p 0]) (use True p h1(1) st4 assms(4) P0 in \<open>auto simp: core_failed_def\<close>)
        next
          case False
          with h4 have h: "holds x b (insert q (insert p P)) (sx ?s4)" "q \<notin> insert p P" by auto
          show ?thesis by (rule failed_outcome [OF h(1), of q p 0])
            (use False h p h1(1) st4 assms(4) P0 in \<open>auto simp: core_failed_def\<close>)
        qed
        from outcome_state [OF this] run p res False show ?thesis by simp
      next
        case True
        with opn have q: "q \<noteq> 0" by (auto split: if_splits)
        with h4 have h: "q \<notin> insert p P" "holds x b (insert q (insert p P)) (sx ?s4)" by auto
        have "start_sensor_model E C S name i core stream (set_handle q stream ?s4) = (r, t)"
          using run p res True by simp
        then show ?thesis
          by (rule start_sensor_outcome [where p = p and q = q])
            (use q h p h1(1) st4 assms(4) in \<open>auto simp: set_handle_def\<close>)
      qed
    qed
  qed
qed

lemma find_filename_holds:
  assumes "FindFilenameByRealFilename S D dir name s = (f, p, t)" "holds (excused S D) b P (sx s)"
  shows "handles t = handles s \<and> ctxs t = ctxs s \<and> model_count t = model_count s
      \<and> pending_sensor_shutdown t = pending_sensor_shutdown s \<and> pending_ctx t = pending_ctx s"
    and "holds (excused S D) b P (free p (sx t))"
    and "f = None \<Longrightarrow> p = 0"
proof -
  consider "f = None" "p = 0" "t = s"
    | d u where "new_block S (length d + 1) s = (p, u)" "t = on_sx (undef_if (p = 0)) u" "f = Some d"
    using assms(1) by (auto simp: FindFilenameByRealFilename_def Let_def split: option.splits prod.splits)
  then have "handles t = handles s \<and> ctxs t = ctxs s \<and> model_count t = model_count s
      \<and> pending_sensor_shutdown t = pending_sensor_shutdown s \<and> pending_ctx t = pending_ctx s
      \<and> holds (excused S D) b P (free p (sx t)) \<and> (f = None \<longrightarrow> p = 0)"
  proof cases
    case 1
    with assms(2) show ?thesis by simp
  next
    case 2
    have fr: "handles u = handles s" "ctxs u = ctxs s" "model_count u = model_count s"
      "pending_sensor_shutdown u = pending_sensor_shutdown s" "pending_ctx u = pending_ctx s"
      using new_block_frame [OF 2(1)] by simp_all
    show ?thesis
    proof (cases "p = 0")
      case True
      with new_block_holds [OF assms(2) 2(1)] have "excused S D" "sx u = sx s" by (auto simp: excused_def)
      with True 2 fr holds_undef assms(2) show ?thesis by (simp add: undef_if_def)
    next
      case False
      with new_block_holds [OF assms(2) 2(1)] have h: "p \<notin> P" "holds (excused S D) b (insert p P) (sx u)" by auto
      have "holds (excused S D) b P (free p (sx u))" using holds_free [OF h(2), of p] h(1) by simp
      with False 2 fr show ?thesis by (simp add: undef_if_def)
    qed
  qed
  then show "handles t = handles s \<and> ctxs t = ctxs s \<and> model_count t = model_count s
      \<and> pending_sensor_shutdown t = pending_sensor_shutdown s \<and> pending_ctx t = pending_ctx s"
    "holds (excused S D) b P (free p (sx t))" "f = None \<Longrightarrow> p = 0" by simp_all
qed

lemma nn_LoadModel_holds:
  "nn_LoadModel N (Some name) (Some g) u = (err, g', t) \<Longrightarrow> holds x b P t = holds x b P u"
  by (auto simp: nn_LoadModel_def split: prod.splits)

lemma InitContext_holds: "InitContext N g u = (err, gc, t) \<Longrightarrow> holds x b P t = holds x b P u"
  by (auto simp: InitContext_def split: prod.splits)

lemma load_graph_outcome:
  assumes "load_graph_model S N D name i s = (r, t)" "holds (excused S D) b P (sx s)" "no_ptrs (ctxs s i)"
    and "ec_target (ctxs s i) \<noteq> edge_imx500"
  shows "load_outcome (excused S D) b P i s r t"
proof -
  let ?x = "excused S D"
  have null: "ec_sensor_core (ctxs s i) = 0" "ec_sensor_stream (ctxs s i) = 0" "ec_graph_ctx (ctxs s i) = 0"
    using assms(3) by (simp_all add: no_ptrs_def)
  have P0: "0 \<notin> P" using assms(2) by (simp add: holds_def)
  have failed: "load_outcome ?x b P i s r t"
    if "core_failed i u = (r, t)" "holds ?x b P (sx u)" "handles u = handles s" "ctxs u = ctxs s"
      "model_count u = model_count s" "pending_sensor_shutdown u = pending_sensor_shutdown s"
      "pending_ctx u = pending_ctx s" for u
    using that null P0 by (intro failed_outcome [of ?x b P u 0 0 0]) simp_all
  show ?thesis
  proof (cases "EVP_getWorkspaceDirectory D (cam_world s)")
    case None
    then have "?x" by (auto simp: excused_def)
    with None assms(1,2) show ?thesis
      by (intro failed [of "core_undef s"]) (simp_all add: load_graph_model_def holds_undef)
  next
    case (Some path)
    obtain f p s1 where f: "FindFilenameByRealFilename S D path name s = (f, p, s1)" by (metis prod_cases3)
    note ff = find_filename_holds [OF f assms(2)]
    show ?thesis
    proof (cases f)
      case None
      with f Some assms(1) ff show ?thesis by (intro failed [of s1]) (simp_all add: load_graph_model_def)
    next
      case (Some fl)
      let ?out = "path @ ''/'' @ fl" let ?s1 = "on_sx (free p) s1"
      obtain err g u where l: "nn_LoadModel N (Some (snprintf MAX_MODEL_PATH_LEN ?out)) (Some 0) (sx ?s1) = (err, g, u)"
        by (metis prod_cases3)
      let ?s2 = "?s1\<lparr>sx := u\<rparr>"
      have h2: "holds ?x b P (sx ?s2)" using ff(2) nn_LoadModel_holds [OF l] by simp
      obtain q s3 where n: "new_block S 4 ?s2 = (q, s3)" by fastforce
      let ?s3 = "upd_ec i (\<lambda>c. c\<lparr>ec_graph_ctx := q\<rparr>) s3"
      obtain err' gc v where ic: "InitContext N (the g) (sx ?s3) = (err', gc, v)" by (metis prod_cases3)
      let ?s4 = "set_handle q (ucast gc) (?s3\<lparr>sx := v\<rparr>)"
      have run: "(r, t) = (if MAX_MODEL_PATH_LEN \<le> length ?out then core_failed i ?s1
        else if err \<noteq> 0 then core_failed i ?s2 else if q = 0 then (EdgeAppCoreResultFailure, ?s3)
        else if err' \<noteq> 0 then core_failed i ?s4 else (EdgeAppCoreResultSuccess, ?s4))"
        using assms(1) unfolding load_graph_model_def \<open>EVP_getWorkspaceDirectory D _ = _\<close> option.case
          f \<open>f = _\<close> Let_def prod.case l n ic by (rule sym)
      note st = new_block_frame [OF n] ff(1)
      consider "MAX_MODEL_PATH_LEN \<le> length ?out" | "length ?out < MAX_MODEL_PATH_LEN" "err \<noteq> 0"
        | "length ?out < MAX_MODEL_PATH_LEN" "err = 0" "q = 0"
        | "length ?out < MAX_MODEL_PATH_LEN" "err = 0" "q \<noteq> 0" by linarith
      then show ?thesis
      proof cases
        case 1
        with run ff show ?thesis by (intro failed [of ?s1]) simp_all
      next
        case 2
        with run ff h2 show ?thesis by (intro failed [of ?s2]) simp_all
      next
        case 3
        with new_block_holds [OF h2 n] h2 have "holds ?x b P (sx s3)" by auto
        with 3 run st null show ?thesis by (auto simp: load_outcome_def no_ptrs_def)
      next
        case 4
        with new_block_holds [OF h2 n] have q: "q \<notin> P" "holds ?x b (insert q P) (sx s3)" by auto
        then have h4: "holds ?x b (insert q P) (sx ?s4)"
          using InitContext_holds [OF ic] by (simp add: set_handle_def)
        have st4: "ec_sensor_stream (ctxs ?s4 i) = 0" "ec_sensor_core (ctxs ?s4 i) = 0" "ec_graph_ctx (ctxs ?s4 i) = q"
          "ec_target (ctxs ?s4 i) = ec_target (ctxs s i)" "ec_temp_input (ctxs ?s4 i) = ec_temp_input (ctxs s i)"
          "\<And>j. j \<noteq> i \<Longrightarrow> ctxs ?s4 j = ctxs s j" "model_count ?s4 = model_count s"
          "pending_sensor_shutdown ?s4 = pending_sensor_shutdown s" "pending_ctx ?s4 = pending_ctx s"
          "handles ?s4 = (handles s)(q \<mapsto> ucast gc)"
          using st null by (simp_all add: set_handle_def)
        show ?thesis
        proof (cases "err' = 0")
          case True
          with run 4 have "r = EdgeAppCoreResultSuccess" "t = ?s4" by simp_all
          moreover have "ptrs (ctxs ?s4 i) = {q}" using st4 4 by (auto simp: ptrs_def)
          ultimately show ?thesis using st4 4 q h4 assms(4) by (auto simp: load_outcome_def ptrs_ok_def)
        next
          case False
          show ?thesis
            by (rule failed_outcome [OF h4, of 0 0 q]) (use False run 4 st4 q P0 in auto)
        qed
      qed
    qed
  qed
qed

lemma LoadModel_outcome:
  assumes "LoadModel E C S N D model i s = (r, t)" "holds (excused S D) b P (sx s)" "no_ptrs (ctxs s i)"
    and "tti_buffer (ec_temp_input (ctxs s i)) = 0"
  shows "\<And>j. j \<noteq> i \<Longrightarrow> ctxs t j = ctxs s j" "pending_sensor_shutdown t = pending_sensor_shutdown s"
    "pending_ctx t = pending_ctx s" "\<And>q. q \<in> P \<Longrightarrow> handles t q = handles s q"
    "tti_buffer (ec_temp_input (ctxs t i)) = 0"
    "if r \<noteq> EdgeAppCoreResultSuccess
     then holds (excused S D) b P (sx t) \<and> no_ptrs (ctxs t i) \<and> model_count t = model_count s
     else ptrs_ok (ctxs t i) \<and> ptrs (ctxs t i) \<inter> P = {} \<and> holds (excused S D) b (ptrs (ctxs t i) \<union> P) (sx t)
          \<and> (\<forall>p\<in>ptrs (ctxs t i). handles t p \<noteq> None) \<and> model_count t = model_count s + 1
          \<and> ec_target (ctxs t i) = model_target model"
proof -
  let ?s = "upd_ec i (\<lambda>c. c\<lparr>ec_target := model_target model, ec_temp_input := no_temp_tensor,
     ec_mean_values := model_mean_values model, ec_norm_values := model_norm_values model\<rparr>) s"
  let ?load = "\<lambda>name. if model_target model = edge_imx500 then load_sensor_model E C S name i ?s
     else load_graph_model S N D name i ?s"
  consider "r = EdgeAppCoreResultInvalidParam" "t = s"
    | name u where "?load name = (r, u)" "r \<noteq> EdgeAppCoreResultSuccess" "t = u"
    | name u where "?load name = (r, u)" "r = EdgeAppCoreResultSuccess"
        "t = (upd_ec i (\<lambda>c. c\<lparr>ec_model_idx := model_count u\<rparr>) u)\<lparr>model_count := model_count u + 1\<rparr>"
    using assms(1) by (auto simp: LoadModel_def Let_def split: option.splits if_splits prod.splits)
  then have "(\<forall>j. j \<noteq> i \<longrightarrow> ctxs t j = ctxs s j) \<and> pending_sensor_shutdown t = pending_sensor_shutdown s
    \<and> pending_ctx t = pending_ctx s \<and> (\<forall>q\<in>P. handles t q = handles s q)
    \<and> tti_buffer (ec_temp_input (ctxs t i)) = 0
    \<and> (if r \<noteq> EdgeAppCoreResultSuccess
       then holds (excused S D) b P (sx t) \<and> no_ptrs (ctxs t i) \<and> model_count t = model_count s
       else ptrs_ok (ctxs t i) \<and> ptrs (ctxs t i) \<inter> P = {} \<and> holds (excused S D) b (ptrs (ctxs t i) \<union> P) (sx t)
          \<and> (\<forall>p\<in>ptrs (ctxs t i). handles t p \<noteq> None) \<and> model_count t = model_count s + 1
          \<and> ec_target (ctxs t i) = model_target model)"
  proof cases
    case 1
    with assms show ?thesis by simp
  next
    case 2
    have "load_outcome (excused S D) b P i ?s r u"
      using 2(1) assms(2,3) load_sensor_outcome [of E C S name i ?s r u] load_graph_outcome [of S N D name i ?s r u]
      by (auto simp: no_ptrs_def split: if_splits)
    with 2 show ?thesis by (simp add: load_outcome_def no_temp_tensor_def)
  next
    case 3
    have "load_outcome (excused S D) b P i ?s r u"
      using 3(1) assms(2,3) load_sensor_outcome [of E C S name i ?s r u] load_graph_outcome [of S N D name i ?s r u]
      by (auto simp: no_ptrs_def split: if_splits)
    with 3 show ?thesis by (simp add: load_outcome_def no_temp_tensor_def ptrs_def ptrs_ok_def)
  qed
  then show "\<And>j. j \<noteq> i \<Longrightarrow> ctxs t j = ctxs s j" "pending_sensor_shutdown t = pending_sensor_shutdown s"
    "pending_ctx t = pending_ctx s" "\<And>q. q \<in> P \<Longrightarrow> handles t q = handles s q"
    "tti_buffer (ec_temp_input (ctxs t i)) = 0"
    "if r \<noteq> EdgeAppCoreResultSuccess
     then holds (excused S D) b P (sx t) \<and> no_ptrs (ctxs t i) \<and> model_count t = model_count s
     else ptrs_ok (ctxs t i) \<and> ptrs (ctxs t i) \<inter> P = {} \<and> holds (excused S D) b (ptrs (ctxs t i) \<union> P) (sx t)
          \<and> (\<forall>p\<in>ptrs (ctxs t i). handles t p \<noteq> None) \<and> model_count t = model_count s + 1
          \<and> ec_target (ctxs t i) = model_target model" by simp_all
qed

section \<open>Unloading\<close>

lemma holds_alive: "holds x b Q s \<Longrightarrow> q \<in> Q \<Longrightarrow> alive s q"
  by (auto simp: holds_def block_def split: if_splits)

lemma shutdown_outcome:
  assumes "holds x b Q (sx s)" "co \<in> Q" "st \<in> Q" "co \<noteq> st" "handles s co \<noteq> None" "handles s st \<noteq> None"
    and "ec_sensor_core (ctxs s j) = co" "ec_sensor_stream (ctxs s j) = st" "ec_graph_ctx (ctxs s j) = 0"
    and "shutdown_sensor E C j s = t"
  shows "holds x b (Q - {co, st}) (sx t)" "\<And>k. k \<noteq> j \<Longrightarrow> ctxs t k = ctxs s k" "no_ptrs (ctxs t j)"
    "ec_temp_input (ctxs t j) = ec_temp_input (ctxs s j)" "handles t = handles s" "model_count t = model_count s"
    "pending_ctx t = None" "\<not> pending_sensor_shutdown t"
proof -
  obtain core stream where d: "deref s co = Some core" "deref s st = Some stream"
    using assms(5,6) holds_alive [OF assms(1,2)] holds_alive [OF assms(1,3)] by (auto simp: deref_def)
  let ?s1 = "snd (SensorStop C stream s)"
  have sm: "same_models s ?s1" by (rule SensorStop_same)
  let ?s2 = "set_cx (snd (SensorCoreCloseStream E core stream (cx (sx ?s1)))) ?s1"
  have "holds x b Q (sx ?s1)" using sm assms(1) same_models_holds by blast
  then have "holds x b Q (sx ?s2)"
    using holds_cx [of x b Q "sx ?s1"] ctx_calls(3) [of E core stream "cx (sx ?s1)"] by simp
  then have "holds x b (Q - {st}) (free st (sx ?s2))" using assms(3) by (rule holds_free)
  then have "holds x b (Q - {st} - {co}) (free co (free st (sx ?s2)))" by (rule holds_free) (use assms(2,4) in simp)
  moreover have "Q - {st} - {co} = Q - {co, st}" by blast
  ultimately show "holds x b (Q - {co, st}) (sx t)"
    using d assms(7,8,10) sm by (auto simp: shutdown_sensor_def Let_def same_models_def)
  show "\<And>k. k \<noteq> j \<Longrightarrow> ctxs t k = ctxs s k" "no_ptrs (ctxs t j)"
    "ec_temp_input (ctxs t j) = ec_temp_input (ctxs s j)" "handles t = handles s" "model_count t = model_count s"
    "pending_ctx t = None" "\<not> pending_sensor_shutdown t"
    using d assms(7-10) sm by (auto simp: shutdown_sensor_def Let_def same_models_def no_ptrs_def)
qed

section \<open>Sequences of loads and unloads\<close>

text \<open>
  What an application may do: load a model into a context that is not in use, as long as at most one
  sensor stream is open at a time; unload a loaded model; anything outside the contexts.
\<close>

inductive model_run ::
  "'w env \<Rightarrow> 'w senscord \<Rightarrow> 'w services \<Rightarrow> 'w wasi_nn \<Rightarrow> 'w file_services \<Rightarrow> 'w core \<Rightarrow> nat set \<Rightarrow> 'w core \<Rightarrow> bool"
  for E C S N D s0 where
  model_start: "model_run E C S N D s0 {} s0"
| model_load: "model_run E C S N D s0 L s \<Longrightarrow> no_ptrs (ctxs s i) \<Longrightarrow> card L + 1 < 2 ^ 32
    \<Longrightarrow> (model_target model = edge_imx500 \<longrightarrow> (\<forall>j. ec_sensor_stream (ctxs s j) = 0))
    \<Longrightarrow> LoadModel E C S N D model i s = (r, t)
    \<Longrightarrow> model_run E C S N D s0 (if r = EdgeAppCoreResultSuccess then insert i L else L) t"
| model_unload: "model_run E C S N D s0 L s \<Longrightarrow> i \<in> L \<Longrightarrow> UnloadModel E C i s = (r, t)
    \<Longrightarrow> model_run E C S N D s0 (L - {i}) t"
| model_world: "model_run E C S N D s0 L s \<Longrightarrow> model_run E C S N D s0 L (set_cam_world w s)"

definition fresh_core :: "'w core \<Rightarrow> bool" where
  "fresh_core s \<longleftrightarrow> heap_ok (sx s) \<and> (\<forall>i. no_ptrs (ctxs s i) \<and> tti_buffer (ec_temp_input (ctxs s i)) = 0)
     \<and> model_count s = 0 \<and> pending_ctx s = None \<and> \<not> pending_sensor_shutdown s"

text \<open>\<open>model_pre\<close> holds before the last step of \<open>UnloadModel\<close>, the test for the last model.\<close>

definition model_pre :: "bool \<Rightarrow> 'w sys \<Rightarrow> nat set \<Rightarrow> 'w core \<Rightarrow> bool" where
  "model_pre x b L s \<longleftrightarrow> finite L \<and> card L < 2 ^ 32 \<and> model_count s = of_nat (card L)
     \<and> holds x b (\<Union>j. ptrs (ctxs s j)) (sx s)
     \<and> (\<forall>j k. j \<noteq> k \<longrightarrow> ptrs (ctxs s j) \<inter> ptrs (ctxs s k) = {})
     \<and> (\<forall>j. j \<in> L \<or> pending_ctx s = Some j \<longrightarrow> ptrs_ok (ctxs s j))
     \<and> (\<forall>j. j \<notin> L \<and> pending_ctx s \<noteq> Some j \<longrightarrow> no_ptrs (ctxs s j))
     \<and> (\<forall>j. pending_ctx s = Some j \<longrightarrow> j \<notin> L \<and> ec_target (ctxs s j) = edge_imx500 \<and> pending_sensor_shutdown s)
     \<and> (\<forall>j k. ec_sensor_stream (ctxs s j) \<noteq> 0 \<and> ec_sensor_stream (ctxs s k) \<noteq> 0 \<longrightarrow> j = k)
     \<and> (\<forall>j. \<forall>p\<in>ptrs (ctxs s j). handles s p \<noteq> None)
     \<and> (\<forall>j. tti_buffer (ec_temp_input (ctxs s j)) = 0)"

definition model_inv :: "bool \<Rightarrow> 'w sys \<Rightarrow> nat set \<Rightarrow> 'w core \<Rightarrow> bool" where
  "model_inv x b L s \<longleftrightarrow> model_pre x b L s \<and> (pending_ctx s \<noteq> None \<longrightarrow> L \<noteq> {})"

lemma model_preE:
  assumes "model_pre x b L s"
  shows "finite L" "card L < 2 ^ 32" "model_count s = of_nat (card L)"
    "holds x b (\<Union>j. ptrs (ctxs s j)) (sx s)"
    "\<And>j k. j \<noteq> k \<Longrightarrow> ptrs (ctxs s j) \<inter> ptrs (ctxs s k) = {}"
    "\<And>j. j \<in> L \<or> pending_ctx s = Some j \<Longrightarrow> ptrs_ok (ctxs s j)"
    "\<And>j. j \<notin> L \<Longrightarrow> pending_ctx s \<noteq> Some j \<Longrightarrow> no_ptrs (ctxs s j)"
    "\<And>j. pending_ctx s = Some j \<Longrightarrow> j \<notin> L \<and> ec_target (ctxs s j) = edge_imx500 \<and> pending_sensor_shutdown s"
    "\<And>j k. ec_sensor_stream (ctxs s j) \<noteq> 0 \<Longrightarrow> ec_sensor_stream (ctxs s k) \<noteq> 0 \<Longrightarrow> j = k"
    "\<And>j p. p \<in> ptrs (ctxs s j) \<Longrightarrow> handles s p \<noteq> None"
    "\<And>j. tti_buffer (ec_temp_input (ctxs s j)) = 0"
  using assms unfolding model_pre_def by blast+

lemma ptrs_not_ok: "no_ptrs c \<Longrightarrow> \<not> ptrs_ok c"
  by (simp add: no_ptrs_def ptrs_ok_def)

lemma union_ptrs: "(\<Union>j. ptrs (c j)) = ptrs (c i) \<union> (\<Union>j\<in>- {i}. ptrs (c j))"
  by auto

lemma inv_load:
  assumes "model_inv (excused S D) b L s" "no_ptrs (ctxs s i)" "card L + 1 < 2 ^ 32"
    and stream: "model_target model = edge_imx500 \<longrightarrow> (\<forall>j. ec_sensor_stream (ctxs s j) = 0)"
    and "LoadModel E C S N D model i s = (r, t)"
  shows "model_inv (excused S D) b (if r = EdgeAppCoreResultSuccess then insert i L else L) t"
proof -
  let ?P = "\<Union>j. ptrs (ctxs s j)"
  have pre: "model_pre (excused S D) b L s" and ne: "pending_ctx s \<noteq> None \<Longrightarrow> L \<noteq> {}"
    using assms(1) by (simp_all add: model_inv_def)
  note I = model_preE(1,3-) [OF pre]
  have i: "i \<notin> L" "pending_ctx s \<noteq> Some i" using I(5) [of i] ptrs_not_ok [OF assms(2)] by auto
  have rest: "(\<Union>j\<in>- {i}. ptrs (ctxs s j)) = ?P" using union_ptrs [of "ctxs s" i] assms(2) by simp
  note out = LoadModel_outcome [OF assms(5) I(3) assms(2) I(10)]
  have same: "ctxs t j = ctxs s j" if "j \<noteq> i" for j using out(1) that .
  have rest': "(\<Union>j. ptrs (ctxs t j)) = ptrs (ctxs t i) \<union> ?P"
    using union_ptrs [of "ctxs t" i] same rest by simp
  have inP: "ptrs (ctxs s j) \<subseteq> ?P" for j by blast
  show ?thesis
  proof (cases "r = EdgeAppCoreResultSuccess")
    case False
    with out(6) have f: "holds (excused S D) b ?P (sx t)" "no_ptrs (ctxs t i)" "model_count t = model_count s" by auto
    have eq: "ptrs (ctxs t j) = ptrs (ctxs s j)" for j using same f(2) assms(2) by (cases "j = i") simp_all
    have st: "ec_sensor_stream (ctxs t j) = ec_sensor_stream (ctxs s j)" for j
      using same f(2) assms(2) by (cases "j = i") (simp_all add: no_ptrs_def)
    have L': "(if r = EdgeAppCoreResultSuccess then insert i L else L) = L" using False by simp
    show ?thesis unfolding model_inv_def model_pre_def L'
    proof (intro conjI allI impI ballI)
      show "finite L" "card L < 2 ^ 32" using I(1) assms(3) by simp_all
      show "model_count t = of_nat (card L)" using f(3) I(2) by simp
      show "holds (excused S D) b (\<Union>j. ptrs (ctxs t j)) (sx t)" using f(1) eq by simp
      fix j k
      show "ptrs (ctxs t j) \<inter> ptrs (ctxs t k) = {}" if "j \<noteq> k" using I(4) [OF that] eq by simp
      show "ptrs_ok (ctxs t j)" if "j \<in> L \<or> pending_ctx t = Some j"
        using that I(5) [of j] i same [of j] out(3) by (cases "j = i") auto
      show "no_ptrs (ctxs t j)" if "j \<notin> L \<and> pending_ctx t \<noteq> Some j"
        using that I(6) [of j] f(2) same [of j] out(3) by (cases "j = i") auto
      show "j \<notin> L" "ec_target (ctxs t j) = edge_imx500" "pending_sensor_shutdown t" if "pending_ctx t = Some j"
        using that I(7) [of j] i same [of j] out(2,3) by (cases "j = i"; auto)+
      show "j = k" if "ec_sensor_stream (ctxs t j) \<noteq> 0 \<and> ec_sensor_stream (ctxs t k) \<noteq> 0"
        using that I(8) st by simp
      show "handles t p \<noteq> None" if "p \<in> ptrs (ctxs t j)" for p
        using that I(9) [of p j] out(4) [OF subsetD [OF inP [of j]], of p] eq by auto
      show "tti_buffer (ec_temp_input (ctxs t j)) = 0" using I(10) [of j] out(5) same [of j] by (cases "j = i") simp_all
    next
      show "L \<noteq> {}" if "pending_ctx t \<noteq> None" using that ne out(3) by simp
    qed
  next
    case True
    with out(6) have f: "ptrs_ok (ctxs t i)" "ptrs (ctxs t i) \<inter> ?P = {}"
      "holds (excused S D) b (ptrs (ctxs t i) \<union> ?P) (sx t)" "\<forall>p\<in>ptrs (ctxs t i). handles t p \<noteq> None"
      "model_count t = model_count s + 1" "ec_target (ctxs t i) = model_target model" by auto
    have L': "(if r = EdgeAppCoreResultSuccess then insert i L else L) = insert i L" using True by simp
    show ?thesis unfolding model_inv_def model_pre_def L'
    proof (intro conjI allI impI ballI)
      show "finite (insert i L)" "card (insert i L) < 2 ^ 32" using I(1) assms(3) i by simp_all
      show "model_count t = of_nat (card (insert i L))" using f(5) I(1,2) i by simp
      show "holds (excused S D) b (\<Union>j. ptrs (ctxs t j)) (sx t)" using f(3) rest' by simp
      fix j k
      show "ptrs (ctxs t j) \<inter> ptrs (ctxs t k) = {}" if "j \<noteq> k"
        using that I(4) [OF that] f(2) inP [of j] inP [of k] same [of j] same [of k]
        by (cases "j = i"; cases "k = i") auto
      show "ptrs_ok (ctxs t j)" if "j \<in> insert i L \<or> pending_ctx t = Some j"
        using that I(5) [of j] f(1) i same [of j] out(3) by (cases "j = i") auto
      show "no_ptrs (ctxs t j)" if "j \<notin> insert i L \<and> pending_ctx t \<noteq> Some j"
        using that I(6) [of j] same [of j] out(3) by auto
      show "j \<notin> insert i L" "ec_target (ctxs t j) = edge_imx500" "pending_sensor_shutdown t"
        if "pending_ctx t = Some j"
        using that I(7) [of j] i same [of j] out(2,3) by (cases "j = i"; auto)+
      show "j = k" if "ec_sensor_stream (ctxs t j) \<noteq> 0 \<and> ec_sensor_stream (ctxs t k) \<noteq> 0"
      proof (cases "model_target model = edge_imx500")
        case True
        with stream that same show ?thesis by (cases "j = i"; cases "k = i") auto
      next
        case False
        with f(1,6) have "ec_sensor_stream (ctxs t i) = 0" by (simp add: ptrs_ok_def)
        with that I(8) same show ?thesis by (cases "j = i"; cases "k = i") auto
      qed
      show "handles t p \<noteq> None" if "p \<in> ptrs (ctxs t j)" for p
        using that I(9) [of p j] out(4) [OF subsetD [OF inP [of j]], of p] f(4) same [of j] by (cases "j = i") auto
      show "tti_buffer (ec_temp_input (ctxs t j)) = 0" using I(10) [of j] out(5) same [of j] by (cases "j = i") simp_all
    next
      show "insert i L \<noteq> {}" by simp
    qed
  qed
qed

lemma count_zero:
  assumes "finite L" "card L < 2 ^ 32"
  shows "(of_nat (card L) :: u32) = 0 \<longleftrightarrow> L = {}"
proof
  assume "(of_nat (card L) :: u32) = 0"
  then have "unat (of_nat (card L) :: u32) = 0" by simp
  with assms show "L = {}" by (simp add: unat_of_nat)
qed simp

lemma inv_finish:
  assumes "model_pre x b L s"
  shows "model_inv x b L (case pending_ctx s of
            None \<Rightarrow> s
          | Some j \<Rightarrow> if model_count s = 0 \<and> pending_sensor_shutdown s \<and> ec_sensor_stream (ctxs s j) \<noteq> 0
                     then shutdown_sensor E C j s else s)"
proof (cases "pending_ctx s")
  case None
  with assms show ?thesis by (simp add: model_inv_def)
next
  case (Some j)
  note I = model_preE [OF assms]
  have j: "j \<notin> L" "ec_target (ctxs s j) = edge_imx500" "pending_sensor_shutdown s" "ptrs_ok (ctxs s j)"
    using I(6) [of j] I(8) [of j] Some by simp_all
  let ?co = "ec_sensor_core (ctxs s j)" let ?st = "ec_sensor_stream (ctxs s j)"
  have p: "?co \<noteq> 0" "?st \<noteq> 0" "?co \<noteq> ?st" "ec_graph_ctx (ctxs s j) = 0" "ptrs (ctxs s j) = {?co, ?st}"
    using j(2,4) by (auto simp: ptrs_ok_def ptrs_def)
  show ?thesis
  proof (cases "L = {}")
    case False
    with I(1-3) count_zero [of L] Some assms show ?thesis by (simp add: model_inv_def)
  next
    case True
    define t where "t = shutdown_sensor E C j s"
    have none: "no_ptrs (ctxs s k)" if "k \<noteq> j" for k using I(7) [of k] True Some that by simp
    have Q: "(\<Union>k. ptrs (ctxs s k)) = {?co, ?st}" using p(5) none by (auto split: if_splits; metis empty_iff no_ptrs_set insert_iff)
    have h: "handles s ?co \<noteq> None" "handles s ?st \<noteq> None" using I(10) [of _ j] p(5) by simp_all
    note out = shutdown_outcome [OF I(4) _ _ p(3) h refl refl p(4) t_def [symmetric], unfolded Q, simplified]
    have all: "no_ptrs (ctxs t k)" for k using out(2) [of k] out(3) none by (cases "k = j") simp_all
    have zero: "ec_sensor_stream (ctxs t k) = 0" for k using all by (simp add: no_ptrs_def)
    have "model_inv x b L t"
      unfolding model_inv_def model_pre_def
      using True I(3,11) out all zero by (auto simp: fun_eq_iff) (metis out(2))+
    with Some True I(3) j(3) p(2) show ?thesis by (simp add: t_def)
  qed
qed

lemma inv_unload:
  assumes "model_inv x b L s" "i \<in> L" "UnloadModel E C i s = (r, t)"
  shows "model_inv x b (L - {i}) t"
proof -
  have pre: "model_pre x b L s" using assms(1) by (simp add: model_inv_def)
  note I = model_preE [OF pre]
  have ok: "ptrs_ok (ctxs s i)" and np: "pending_ctx s \<noteq> Some i" using I(6) [of i] I(8) [of i] assms(2) by auto
  obtain n where n: "card L = Suc n" using I(1) assms(2) by (cases "card L") auto
  then have "card (L - {i}) = n" using assms(2) by simp
  then have L: "finite (L - {i})" "card (L - {i}) < 2 ^ 32" "model_count s - 1 = of_nat (card (L - {i}))"
    using I(1-3) n by simp_all
  let ?fin = "\<lambda>s. case pending_ctx s of None \<Rightarrow> s
    | Some j \<Rightarrow> if model_count s = 0 \<and> pending_sensor_shutdown s \<and> ec_sensor_stream (ctxs s j) \<noteq> 0
               then shutdown_sensor E C j s else s"
  show ?thesis
  proof (cases "ec_target (ctxs s i) = edge_imx500")
    case True
    define u where "u = s\<lparr>pending_sensor_shutdown := True, pending_ctx := Some i, model_count := model_count s - 1\<rparr>"
    have p: "ec_sensor_stream (ctxs s i) \<noteq> 0" "ec_graph_ctx (ctxs s i) = 0" using ok True by (auto simp: ptrs_ok_def)
    have none: "pending_ctx s = None"
    proof (rule ccontr)
      assume "pending_ctx s \<noteq> None"
      then obtain j where j: "pending_ctx s = Some j" by blast
      then have "ec_sensor_stream (ctxs s j) \<noteq> 0" using I(6) [of j] I(8) [of j] by (simp add: ptrs_ok_def)
      with I(9) [of j i] p(1) I(8) [of j] j assms(2) show False by auto
    qed
    have "model_pre x b (L - {i}) u"
      unfolding model_pre_def u_def using L I(4-11) ok True none assms(2) by auto
    moreover have "t = ?fin u"
      using assms(3) True p(2) I(11) [of i] by (auto simp: UnloadModel_def Let_def u_def)
    ultimately show ?thesis using inv_finish by blast
  next
    case False
    let ?g = "ec_graph_ctx (ctxs s i)"
    have p: "?g \<noteq> 0" "ec_sensor_core (ctxs s i) = 0" "ec_sensor_stream (ctxs s i) = 0" "ptrs (ctxs s i) = {?g}"
      using ok False by (auto simp: ptrs_ok_def ptrs_def)
    define u where "u = (upd_ec i (\<lambda>c. c\<lparr>ec_graph_ctx := 0\<rparr>) (on_sx (free ?g) s))\<lparr>model_count := model_count s - 1\<rparr>"
    have ctx: "ctxs u j = (if j = i then (ctxs s i)\<lparr>ec_graph_ctx := 0\<rparr> else ctxs s j)" for j by (simp add: u_def)
    have none: "no_ptrs (ctxs u i)" using p ctx by (simp add: no_ptrs_def)
    have pt: "ptrs (ctxs u j) = (if j = i then {} else ptrs (ctxs s j))" for j using none ctx by simp
    have notin: "?g \<notin> ptrs (ctxs s j)" if "j \<noteq> i" for j using I(5) [OF that] p(4) by auto
    have Q: "(\<Union>j. ptrs (ctxs u j)) = (\<Union>j. ptrs (ctxs s j)) - {?g}"
      using p(4) notin pt by (auto split: if_splits; metis insertI1 singletonD)
    have h: "holds x b (\<Union>j. ptrs (ctxs u j)) (sx u)"
      using holds_free [OF I(4), of ?g] p(4) Q by (auto simp: u_def)
    have "model_pre x b (L - {i}) u"
      unfolding model_pre_def
    proof (intro conjI allI impI ballI)
      show "finite (L - {i})" "card (L - {i}) < 2 ^ 32" "model_count u = of_nat (card (L - {i}))"
        using L by (simp_all add: u_def)
      show "holds x b (\<Union>j. ptrs (ctxs u j)) (sx u)" using h .
      fix j k
      show "ptrs (ctxs u j) \<inter> ptrs (ctxs u k) = {}" if "j \<noteq> k" using I(5) [OF that] pt by simp
      show "ptrs_ok (ctxs u j)" if "j \<in> L - {i} \<or> pending_ctx u = Some j"
        using that I(6) [of j] np ctx by (auto simp: u_def)
      show "no_ptrs (ctxs u j)" if "j \<notin> L - {i} \<and> pending_ctx u \<noteq> Some j"
        using that I(7) [of j] none ctx by (cases "j = i") (auto simp: u_def)
      show "j \<notin> L - {i}" "ec_target (ctxs u j) = edge_imx500" "pending_sensor_shutdown u" if "pending_ctx u = Some j"
        using that I(8) [of j] np ctx by (auto simp: u_def)
      show "j = k" if "ec_sensor_stream (ctxs u j) \<noteq> 0 \<and> ec_sensor_stream (ctxs u k) \<noteq> 0"
        using that I(9) [of j k] p(3) ctx by (auto split: if_splits)
      show "handles u p \<noteq> None" if "p \<in> ptrs (ctxs u j)" for p
        using that I(10) [of p j] pt by (auto simp: u_def split: if_splits)
      show "tti_buffer (ec_temp_input (ctxs u j)) = 0" using I(11) [of j] I(11) [of i] ctx by simp
    qed
    moreover have "UnloadModel E C i s = (EdgeAppCoreResultSuccess, ?fin u)"
      unfolding UnloadModel_def Let_def by (simp add: False p(1) I(11) u_def split: option.split)
    then have "t = ?fin u" using assms(3) by simp
    ultimately show ?thesis using inv_finish by blast
  qed
qed

lemma model_run_inv: "model_run E C S N D s0 L t \<Longrightarrow> fresh_core s0 \<Longrightarrow> model_inv (excused S D) (sx s0) L t"
proof (induction rule: model_run.induct)
  case model_start
  then have none: "no_ptrs (ctxs s0 j)" "tti_buffer (ec_temp_input (ctxs s0 j)) = 0" for j
    by (simp_all add: fresh_core_def)
  then have "ec_sensor_stream (ctxs s0 j) = 0" for j by (simp add: no_ptrs_def)
  with none model_start show ?case
    by (simp add: model_inv_def model_pre_def holds_def fresh_core_def)
next
  case (model_load L s i model r t)
  then show ?case by (intro inv_load [where model = model]) simp_all
next
  case (model_unload L s i r t)
  then show ?case by (intro inv_unload) simp_all
next
  case (model_world L s w)
  then show ?case by (simp add: model_inv_def model_pre_def)
qed


definition demo_model :: EdgeAppCoreModelInfo where
  "demo_model = \<lparr>model_name = Some ''m'', model_target = edge_imx500, model_mean_values = None,
     model_norm_values = None\<rparr>"

lemma demo_load:
  "\<exists>t. LoadModel (demo_env None) demo_senscord demo_services demo_nn demo_files demo_model 0 demo_core
     = (EdgeAppCoreResultSuccess, t)"
  by (simp add: LoadModel_def demo_model_def load_sensor_model_def start_sensor_model_def new_block_def malloc_def
      demo_services_def demo_core_def demo_sys_def no_ctx_def edge_imx500_def SensorCoreInit_def demo_env_def
      SensorCoreOpenStream_def set_handle_def SensorStreamSetProperty_def SensorStart_def IsMappedMemory_def
      demo_senscord_def Let_def)


end
