(* ===== verification/ProcessedFrames.thy ===== *)
theory ProcessedFrames
  imports Tensors
begin

text \<open>
  \<open>ProcessedFrame\<close> (\<open>include/edgeapp_core.h\<close>, \<open>libs/nn/src/edgeapp_core.cpp\<close>): the handle of a frame
  that a model has processed. It owns the frame or borrows it; moving hands the ownership over, and
  the destructor gives an owned frame back to the sensor. Processing sets the region on the sensor,
  or crops the raw image, preprocesses it and runs the graph.
\<close>

section \<open>The handle of a frame\<close>

text \<open>
  The preprocessing of the application: a function on the image and its property that gives a tensor,
  or an image with its property. At most one of the two callbacks is set.
\<close>

datatype (dead 'w) preprocess =
    NoPreprocess
  | PreprocessCallbackTensor
      "ptr \<Rightarrow> EdgeAppLibImageProperty \<Rightarrow> Tensor \<Rightarrow> 'w sys \<Rightarrow> EdgeAppCoreResult \<times> Tensor \<times> 'w sys"
  | PreprocessCallback
      "ptr \<Rightarrow> EdgeAppLibImageProperty \<Rightarrow> 'w sys \<Rightarrow> EdgeAppCoreResult \<times> ptr \<times> EdgeAppLibImageProperty \<times> 'w sys"

record 'w processed_frame =
  pf_ctx :: "nat option"
  pf_shared_ctx :: "nat option"
  pf_stream :: ptr
  pf_frame :: u64
  pf_roi :: "ImageCropProperty option"
  pf_preprocess :: "'w preprocess"
  is_computed :: bool
  preprocessed_data :: ptr
  preprocessed_memory_owner :: TensorMemoryOwner
  owns_frame :: bool

text \<open>The three constructors.\<close>

definition frame_handle :: "ptr \<Rightarrow> u64 \<Rightarrow> 'w processed_frame" where
  "frame_handle stream frame =
     \<lparr>pf_ctx = None, pf_shared_ctx = None, pf_stream = stream, pf_frame = frame, pf_roi = None,
      pf_preprocess = NoPreprocess, is_computed = True, preprocessed_data = 0,
      preprocessed_memory_owner = OwnerUnknown, owns_frame = True\<rparr>"

definition new_ProcessedFrame :: "nat \<Rightarrow> nat option \<Rightarrow> u64 \<Rightarrow> 'w core \<Rightarrow> 'w processed_frame" where
  "new_ProcessedFrame i shared frame s =
     \<lparr>pf_ctx = Some i, pf_shared_ctx = shared,
      pf_stream = (case shared of None \<Rightarrow> 0 | Some j \<Rightarrow> ec_sensor_stream (ctxs s j)),
      pf_frame = frame, pf_roi = None, pf_preprocess = NoPreprocess, is_computed = False,
      preprocessed_data = 0, preprocessed_memory_owner = OwnerUnknown, owns_frame = False\<rparr>"

definition empty_frame :: "'w processed_frame" where
  "empty_frame =
     \<lparr>pf_ctx = None, pf_shared_ctx = None, pf_stream = 0, pf_frame = 0, pf_roi = None,
      pf_preprocess = NoPreprocess, is_computed = False, preprocessed_data = 0,
      preprocessed_memory_owner = OwnerUnknown, owns_frame = False\<rparr>"

text \<open>The move constructor: the new object and what is left of the source.\<close>

definition move_frame :: "'w processed_frame \<Rightarrow> 'w processed_frame \<times> 'w processed_frame" where
  "move_frame source = (source, empty_frame)"

text \<open>
  The move assignment to a different object frees preprocessed data the target owns. The frame of the
  target is not given back. The callbacks of the target stay.
\<close>

definition move_assign ::
  "'w processed_frame \<Rightarrow> 'w processed_frame \<Rightarrow> 'w core \<Rightarrow> 'w processed_frame \<times> 'w processed_frame \<times> 'w core" where
  "move_assign target source s =
     (source\<lparr>pf_preprocess := pf_preprocess target\<rparr>,
      empty_frame\<lparr>pf_preprocess := pf_preprocess source\<rparr>,
      if preprocessed_data target \<noteq> 0 \<and> preprocessed_memory_owner target = OwnerApp
      then on_sx (free (preprocessed_data target)) s else s)"

definition destroy_frame :: "'w senscord \<Rightarrow> 'w processed_frame \<Rightarrow> 'w core \<Rightarrow> 'w core" where
  "destroy_frame C f s =
     (if owns_frame f \<and> pf_stream f \<noteq> 0 \<and> pf_frame f \<noteq> 0
      then case deref s (pf_stream f) of
          None \<Rightarrow> core_undef s
        | Some stream \<Rightarrow> snd (SensorReleaseFrame C stream (pf_frame f) s)
      else s)"

text \<open>The conversion to \<open>EdgeAppLibSensorFrame\<close>.\<close>

definition frame_of :: "'w processed_frame \<Rightarrow> u64" where
  "frame_of f = (if \<not> is_computed f then 0 else pf_frame f)"

definition withROI :: "ImageCropProperty \<Rightarrow> 'w processed_frame \<Rightarrow> 'w processed_frame" where
  "withROI roi f = f\<lparr>pf_roi := Some roi\<rparr>"

definition withPreprocessing :: "'w preprocess \<Rightarrow> 'w processed_frame \<Rightarrow> 'w processed_frame" where
  "withPreprocessing callback f = f\<lparr>pf_preprocess := callback\<rparr>"

definition frame_empty :: "'w processed_frame \<Rightarrow> bool" where
  "frame_empty f = (if \<not> is_computed f then True else pf_frame f = 0 \<or> pf_stream f = 0)"

section \<open>Preparing the image\<close>

text \<open>The raw image of the frame, when it has the one format that is supported.\<close>

definition raw_image ::
  "'w env \<Rightarrow> 'w senscord \<Rightarrow> 'w services \<Rightarrow> u64 \<Rightarrow> 'w core
     \<Rightarrow> (EdgeAppLibSensorRawData \<times> EdgeAppLibImageProperty) option \<times> 'w core" where
  "raw_image E C S frame s =
     (let (ret, channel, s) = SensorFrameGetChannelFromChannelId C frame
                                AITRIOS_SENSOR_CHANNEL_ID_INFERENCE_RAW_IMAGE s
      in if ret < 0 then (None, s)
      else let (_, data, s) = SensorChannelGetRawData E C S channel no_raw_data s;
               (ret, ip, s) = SensorChannelGetImageProperty C channel no_image_property s;
               s = on_sx (undef_if (ret \<noteq> 0)) s
      in (if ip_pixel_format ip = AITRIOS_SENSOR_PIXEL_FORMAT_RGB24 then Some (data, ip) else None, s))"

text \<open>The region is given in pixels of the input image and scaled to the raw image.\<close>

definition scale_roi ::
  "EdgeAppLibImageProperty \<Rightarrow> EdgeAppLibImageProperty \<Rightarrow> ImageCropProperty \<Rightarrow> ImageCropProperty" where
  "scale_roi ip it roi =
     (let roi = (if ip_width it < icr_width roi then roi\<lparr>icr_width := ip_width it\<rparr> else roi);
          roi = (if ip_height it < icr_height roi then roi\<lparr>icr_height := ip_height it\<rparr> else roi);
          roi = (if ip_width it \<noteq> 0
                 then roi\<lparr>icr_width := icr_width roi * ip_width ip div ip_width it,
                          icr_left := icr_left roi * ip_width ip div ip_width it\<rparr> else roi)
      in if ip_height it \<noteq> 0
         then roi\<lparr>icr_height := icr_height roi * ip_height ip div ip_height it,
                  icr_top := icr_top roi * ip_height ip div ip_height it\<rparr>
         else roi)"

definition adjusted_roi ::
  "'w senscord \<Rightarrow> u64 \<Rightarrow> EdgeAppLibImageProperty \<Rightarrow> ImageCropProperty \<Rightarrow> 'w core
     \<Rightarrow> ImageCropProperty option \<times> 'w core" where
  "adjusted_roi C frame ip roi s =
     (let (ret, channel, s) = SensorFrameGetChannelFromChannelId C frame
                                AITRIOS_SENSOR_CHANNEL_ID_INFERENCE_INPUT_IMAGE s
      in if ret < 0 then (None, s)
      else let (ret, it, s) = SensorChannelGetImageProperty C channel no_image_property s
           in (Some (scale_roi ip it roi), on_sx (undef_if (ret \<noteq> 0)) s))"

record cropped_image =
  ci_address :: ptr
  ci_size :: u32
  ci_width :: u32
  ci_height :: u32
  ci_stride_byte :: u32
  dst_was_allocated :: bool

definition draw_buffer :: "'w sys \<Rightarrow> ptr \<Rightarrow> u32 \<Rightarrow> u32 \<Rightarrow> u32 \<Rightarrow> u32 \<Rightarrow> EdgeAppLibDrawBuffer" where
  "draw_buffer s p n w h stride =
     \<lparr>address = (if p = 0 then None else Some (if alive s p then the (heap s p) else [])), buf_size = n,
      format = AITRIOS_DRAW_FORMAT_RGB8, width = w, height = h, stride_byte = stride\<rparr>"

text \<open>
  The region as an image of its own, or the whole image when the region is empty. The result of
  \<open>CropRectangle\<close> is not looked at. \<open>None\<close>: no memory.
\<close>

definition crop_image ::
  "'w services \<Rightarrow> EdgeAppLibSensorRawData \<Rightarrow> EdgeAppLibImageProperty \<Rightarrow> ImageCropProperty \<Rightarrow> 'w core
     \<Rightarrow> cropped_image option \<times> 'w core" where
  "crop_image S data ip roi s =
     (let w = icr_width roi; h = icr_height roi
      in if w \<noteq> 0 \<and> h \<noteq> 0
         then (let (p, s) = new_block S (unat (w * h * 3)) s
               in if p = 0 then (None, s)
               else let src = draw_buffer (sx s) (raw_address data) (raw_size data) (ip_width ip) (ip_height ip)
                                (ip_stride_bytes ip);
                        dst = draw_buffer (sx s) p (w * h * 3) w h (w * 3)
                    in (Some \<lparr>ci_address = p, ci_size = w * h * 3, ci_width = w, ci_height = h,
                              ci_stride_byte = w * 3, dst_was_allocated = True\<rparr>,
                        case CropRectangle (Some src) (Some dst) (icr_left roi) (icr_top roi)
                               (icr_left roi + w - 1) (icr_top roi + h - 1) of
                          None \<Rightarrow> core_undef s
                        | Some (_, _, d) \<Rightarrow> on_sx (store p (the (address (the d)))) s))
         else (Some \<lparr>ci_address = raw_address data, ci_size = raw_size data, ci_width = ip_width ip,
                     ci_height = ip_height ip, ci_stride_byte = ip_stride_bytes ip, dst_was_allocated = False\<rparr>,
               s))"

definition free_cropped :: "cropped_image \<Rightarrow> 'w core \<Rightarrow> 'w core" where
  "free_cropped ci s = (if dst_was_allocated ci then on_sx (free (ci_address ci)) s else s)"

text \<open>
  The callback of the application turns the image into the input of the model; without one it is the
  image itself. With the input, the tensor of a tensor callback. \<open>None\<close>: the callback failed.
\<close>

definition preprocess_input ::
  "'w preprocess \<Rightarrow> u64 \<Rightarrow> EdgeAppLibImageProperty \<Rightarrow> cropped_image \<Rightarrow> 'w core
     \<Rightarrow> (TempTensorInfo \<times> Tensor option) option \<times> 'w core" where
  "preprocess_input pre timestamp ip ci s =
     (let input_property = \<lparr>ip_width = ci_width ci, ip_height = ci_height ci, ip_stride_bytes = ci_stride_byte ci,
                            ip_pixel_format = snprintf 64 (ip_pixel_format ip)\<rparr>
      in case pre of
          PreprocessCallbackTensor f \<Rightarrow>
            (case f (ci_address ci) input_property empty_tensor (sx s) of (r, t, u) \<Rightarrow>
               let s = free_cropped ci (s\<lparr>sx := u\<rparr>); n = ndim (shape_info t)
               in if r \<noteq> EdgeAppCoreResultSuccess then (None, s)
                  else (Some (\<lparr>tti_buffer = t_data t, tti_size = t_size t,
                               tti_width = (if 3 \<le> n then dims (shape_info t) ! 2 else 0),
                               tti_height = (if 2 \<le> n then dims (shape_info t) ! 1 else 0),
                               tti_timestamp = timestamp, tti_memory_owner = t_memory_owner t\<rparr>, Some t), s))
        | PreprocessCallback f \<Rightarrow>
            (case f (ci_address ci) input_property (sx s) of (r, p, out, u) \<Rightarrow>
               let s = free_cropped ci (s\<lparr>sx := u\<rparr>)
               in if r \<noteq> EdgeAppCoreResultSuccess then (None, s)
                  else (Some (\<lparr>tti_buffer = p, tti_size = ip_width out * ip_height out * 3,
                               tti_width = ip_width out, tti_height = ip_height out,
                               tti_timestamp = timestamp, tti_memory_owner = OwnerApp\<rparr>, None), s))
        | NoPreprocess \<Rightarrow>
            (Some (\<lparr>tti_buffer = ci_address ci, tti_size = ci_size ci, tti_width = ci_width ci,
                    tti_height = ci_height ci, tti_timestamp = timestamp,
                    tti_memory_owner = (if dst_was_allocated ci then OwnerApp else OwnerSensor)\<rparr>, None), s))"

section \<open>Processing\<close>

text \<open>The first part of \<open>ProcessInternal\<close>: a frame from the stream, when none was given. The result is an \<open>int8_t\<close>.\<close>

definition acquire_frame ::
  "'w senscord \<Rightarrow> nat \<Rightarrow> u64 \<Rightarrow> 'w processed_frame \<Rightarrow> 'w core
     \<Rightarrow> u64 option \<times> 'w processed_frame \<times> 'w core" where
  "acquire_frame C j frame f s =
     (if frame \<noteq> 0 \<or> ec_sensor_stream (ctxs s j) = 0 then (Some frame, f, s)
      else case deref s (ec_sensor_stream (ctxs s j)) of
          None \<Rightarrow> (None, f, core_undef s)
        | Some stream \<Rightarrow>
            (let (ret, frame, s) = SensorGetFrame C stream 0 (-1) s
             in if sint (word_of_int ret :: 8 word) < 0 then (None, f, s)
                else (Some frame, f\<lparr>owns_frame := True\<rparr>, s)))"

definition set_sensor_roi :: "'w env \<Rightarrow> nat \<Rightarrow> ImageCropProperty \<Rightarrow> 'w core \<Rightarrow> 'w core" where
  "set_sensor_roi E i roi s =
     (if icr_width roi = 0 \<or> icr_height roi = 0 then s
      else case deref s (ec_sensor_stream (ctxs s i)) of
          None \<Rightarrow> core_undef s
        | Some stream \<Rightarrow> set_cx (snd (SensorStreamSetProperty E stream (ImageCrop roi) (cx (sx s)))) s)"

text \<open>The graph on the input of the context. A tensor that is refused makes the frame 0.\<close>

definition run_graph ::
  "'w services \<Rightarrow> 'w wasi_nn \<Rightarrow> nat \<Rightarrow> Tensor option \<Rightarrow> u64 \<Rightarrow> 'w core \<Rightarrow> (u64 \<times> 'w core) option" where
  "run_graph S N i pre_t frame s =
     (let c = ctxs s i; temp = ec_temp_input c
      in if ec_graph_ctx c = 0 then Some (frame, s)
         else case deref s (ec_graph_ctx c) of
             None \<Rightarrow> Some (frame, core_undef s)
           | Some g \<Rightarrow>
               map_option (\<lambda>(frame, t). (frame, s\<lparr>sx := snd (Compute N (ucast g) t)\<rparr>))
                 (case pre_t of
                    Some pt \<Rightarrow>
                      (let (err, t) = SetInputFromTensor N S (ucast g) (tti_buffer temp) (dims (shape_info pt))
                                        (TensorDataType_num (t_type pt)) (sx s)
                       in Some (if err \<noteq> 0 then 0 else frame, t))
                  | None \<Rightarrow>
                      map_option (\<lambda>(err, t). (frame, t))
                        (SetInput N S (ucast g) (tti_buffer temp) (1, tti_height temp, tti_width temp, 3)
                           (ec_mean_values c) (ec_norm_values c) (sx s))))"

text \<open>Crop, preprocess and run. \<open>Some None\<close>: \<open>ProcessInternal\<close> returns early.\<close>

definition process_graph ::
  "'w env \<Rightarrow> 'w senscord \<Rightarrow> 'w services \<Rightarrow> 'w wasi_nn \<Rightarrow> nat \<Rightarrow> 'w preprocess \<Rightarrow> u64 \<Rightarrow> ImageCropProperty
     \<Rightarrow> 'w core \<Rightarrow> (u64 option \<times> 'w core) option" where
  "process_graph E C S N i pre frame roi s =
     (let temp = ec_temp_input (ctxs s i);
          s = (if tti_buffer temp \<noteq> 0 \<and> tti_memory_owner temp = OwnerApp
               then on_sx (free (tti_buffer temp)) s else s);
          s = upd_ec i (\<lambda>c. c\<lparr>ec_temp_input := no_temp_tensor\<rparr>) s
      in case raw_image E C S frame s of
          (None, s) \<Rightarrow> Some (None, s)
        | (Some (data, ip), s) \<Rightarrow>
            (case adjusted_roi C frame ip roi s of
               (None, s) \<Rightarrow> Some (None, s)
             | (Some roi, s) \<Rightarrow>
                 (case crop_image S data ip roi s of
                    (None, s) \<Rightarrow> Some (None, s)
                  | (Some ci, s) \<Rightarrow>
                      (case preprocess_input pre (raw_timestamp data) ip ci s of
                         (None, s) \<Rightarrow> Some (None, s)
                       | (Some (temp, pre_t), s) \<Rightarrow>
                           map_option (\<lambda>(frame, s). (Some frame, s))
                             (run_graph S N i pre_t frame (upd_ec i (\<lambda>c. c\<lparr>ec_temp_input := temp\<rparr>) s))))))"

definition ProcessInternal ::
  "'w env \<Rightarrow> 'w senscord \<Rightarrow> 'w services \<Rightarrow> 'w wasi_nn \<Rightarrow> nat \<Rightarrow> nat \<Rightarrow> u64 \<Rightarrow> ImageCropProperty
     \<Rightarrow> 'w processed_frame \<Rightarrow> 'w core \<Rightarrow> ('w processed_frame \<times> 'w core) option" where
  "ProcessInternal E C S N i j frame roi f s =
     (case acquire_frame C j frame f s of
        (None, f, s) \<Rightarrow> Some (f, s)
      | (Some frame, f, s) \<Rightarrow>
          map_option (\<lambda>(frame, s).
            (case frame of
               None \<Rightarrow> f
             | Some fr \<Rightarrow> f\<lparr>pf_stream := ec_sensor_stream (ctxs s j), pf_frame := fr, pf_ctx := Some i,
                             pf_shared_ctx := Some j, is_computed := True\<rparr>, s))
            (if ec_target (ctxs s i) = edge_imx500 then Some (Some frame, set_sensor_roi E i roi s)
             else process_graph E C S N i (pf_preprocess f) frame roi s))"

text \<open>
  \<open>compute\<close> gives the result and what is left of the object. A frame that is only borrowed goes to a
  new object, which owns it.
\<close>

definition compute ::
  "'w env \<Rightarrow> 'w senscord \<Rightarrow> 'w services \<Rightarrow> 'w wasi_nn \<Rightarrow> 'w processed_frame \<Rightarrow> 'w core
     \<Rightarrow> ('w processed_frame \<times> 'w processed_frame \<times> 'w core) option" where
  "compute E C S N f s =
     (case (pf_ctx f, pf_shared_ctx f) of
        (Some i, Some j) \<Rightarrow>
          (let roi = (case pf_roi f of None \<Rightarrow> \<lparr>icr_left = 0, icr_top = 0, icr_width = 0, icr_height = 0\<rparr>
                      | Some r \<Rightarrow> r)
           in if \<not> owns_frame f \<and> pf_frame f \<noteq> 0
              then map_option (\<lambda>(g, s). (fst (move_frame (g\<lparr>is_computed := True, owns_frame := True\<rparr>)), f, s))
                     (ProcessInternal E C S N i j (pf_frame f) roi
                        (withPreprocessing (pf_preprocess f)
                          (frame_handle (ec_sensor_stream (ctxs s j)) (pf_frame f))) s)
              else map_option (\<lambda>(g, s). let (res, rest) = move_frame (g\<lparr>is_computed := True\<rparr>) in (res, rest, s))
                     (ProcessInternal E C S N i j (pf_frame f) roi f s))
      | _ \<Rightarrow> (let (res, rest) = move_frame (f\<lparr>is_computed := False\<rparr>) in Some (res, rest, s)))"

text \<open>\<open>Process\<close> without a region only makes the object; with one it also computes.\<close>

definition Process_chain :: "nat \<Rightarrow> nat option \<Rightarrow> u64 \<Rightarrow> 'w core \<Rightarrow> 'w processed_frame" where
  "Process_chain i shared frame s = new_ProcessedFrame i shared frame s"

definition Process ::
  "'w env \<Rightarrow> 'w senscord \<Rightarrow> 'w services \<Rightarrow> 'w wasi_nn \<Rightarrow> nat \<Rightarrow> nat option \<Rightarrow> u64 \<Rightarrow> ImageCropProperty
     \<Rightarrow> 'w core \<Rightarrow> ('w processed_frame \<times> 'w core) option" where
  "Process E C S N i shared frame roi s =
     (let f = withROI roi (new_ProcessedFrame i shared frame s)
      in map_option (\<lambda>(res, rest, s). (res, destroy_frame C rest s)) (compute E C S N f s))"

end
