(* ===== verification/FrameProperties.thy ===== *)
theory FrameProperties
  imports ProcessedFrames ModelProperties
begin

text \<open>
  Frames in a chain of models (\<open>ProcessedFrames\<close>): processing keeps the handle of the stream alive
  and takes or gives back no frame on its own, so that the frame of a chain is given back once.
\<close>

section \<open>A block that processing does not touch\<close>

definition sane :: "ptr \<Rightarrow> 'w sys \<Rightarrow> bool" where
  "sane p s \<longleftrightarrow> heap_ok s \<and> alive s p"

lemma sane_simps [simp]:
  "sane p (set_world w s) = sane p s" "sane p (undef s) = sane p s" "sane p (undef_if b s) = sane p s"
  by (simp_all add: sane_def heap_ok_def alive_def undef_if_def undefined_step_def)

lemma sane_cx: "sane p s \<Longrightarrow> freed_buffers c = freed_buffers (cx s) \<Longrightarrow> sane p (s\<lparr>cx := c\<rparr>)"
  by (simp add: sane_def heap_ok_def alive_def)

lemma sane_free: "sane p s \<Longrightarrow> q \<noteq> p \<Longrightarrow> sane p (free q s)"
  by (auto simp: sane_def heap_ok_def alive_def free_def free_buffer_def undefined_step_def)

lemma sane_store: "sane p s \<Longrightarrow> sane p (store q bs s)"
  by (auto simp: sane_def heap_ok_def alive_def store_def undefined_step_def)

lemma sane_store_at: "sane p s \<Longrightarrow> sane p (store_at q k bs s)"
  by (auto simp: sane_def heap_ok_def alive_def store_at_def undefined_step_def)

lemma sane_malloc:
  assumes "sane p s" "malloc S n s = (q, t)"
  shows "sane p t" "q \<noteq> p"
proof -
  have s: "heap_ok s" "alive s p" using assms(1) by (simp_all add: sane_def)
  show "sane p t" using mem.alloc_ok [OF s(1) assms(2)] alive_after [OF s(1) assms(2) s(2)] by (simp add: sane_def)
  show "q \<noteq> p"
    using assms(2) s by (auto simp: malloc_def heap_ok_def alive_def split: if_splits)
qed

lemma sane_read_handle:
  "sane p s \<Longrightarrow> img \<noteq> p \<Longrightarrow> read_handle S h img n s = (r, q, k, t) \<Longrightarrow> sane p t \<and> q \<noteq> p"
  by (auto simp: read_handle_def Let_def sane_free sane_store split: prod.splits if_splits)

lemma sane_HandleRawFormat: "sane p s \<Longrightarrow> HandleRawFormat S d n s = (r, q, k, t) \<Longrightarrow> sane p t"
  by (auto simp: HandleRawFormat_def Let_def sane_store split: prod.splits if_splits MemoryRef.splits option.splits
      dest: sane_malloc sane_read_handle)

lemma sane_encode_memory: "sane p s \<Longrightarrow> encode_memory S a info n s = (r, q, k, t) \<Longrightarrow> sane p t"
  by (auto simp: encode_memory_def Let_def intro!: sane_store sane_free split: prod.splits if_splits option.splits
      dest: sane_malloc)

lemma sane_encode_handle:
  assumes "sane p s" "encode_handle S h info s = (r, q, k, t)"
  shows "sane p t"
proof -
  obtain err oh size w where e: "EsfCodecJpegEncodeHandle S h info (world (cx s)) = (err, oh, size, w)"
    by (metis prod_cases4)
  obtain img s1 where m: "malloc S (unat (word_of_int size :: u32)) (set_world w s) = (img, s1)" by fastforce
  have 1: "sane p s1" "img \<noteq> p" using sane_malloc [OF _ m, of p] assms(1) by simp_all
  obtain res q2 k2 s2 where h: "read_handle S oh img (unat (word_of_int size :: u32)) s1 = (res, q2, k2, s2)"
    by (metis prod_cases4)
  have 2: "sane p s2" "q2 \<noteq> p" using sane_read_handle [OF 1 h] by simp_all
  show ?thesis
    using assms e m h 1 2 by (auto simp: encode_handle_def Let_def sane_free split: if_splits prod.splits)
qed

lemma sane_ProcessFormatInput: "sane p s \<Longrightarrow> ProcessFormatInput S d n dt ip s = (r, q, k, t) \<Longrightarrow> sane p t"
  by (auto simp: ProcessFormatInput_def HandleJpegFormat_def split: if_splits option.splits MemoryRef.splits
      dest: sane_HandleRawFormat sane_encode_memory sane_encode_handle)

lemma sane_SetInput:
  assumes "sane p s" "SetInput N S g a (n, h, w, c) means norms s = Some (r, t)"
  shows "sane p t"
proof -
  obtain d s1 where d: "malloc S (INPUT_TENSOR_DIMS * 4) s = (d, s1)" by fastforce
  obtain f s2 where f: "malloc S (unat (n * c * h * w * 4)) s1 = (f, s2)" by fastforce
  have 1: "sane p s1" "d \<noteq> p" using sane_malloc [OF assms(1) d] by simp_all
  have 2: "sane p s2" "f \<noteq> p" using sane_malloc [OF 1(1) f] by simp_all
  have 3: "sane p (free d (free f (set_world w' (undef_if ub s2))))" for w' ub
    using 1(2) 2 by (intro sane_free) simp_all
  from assms(2) d f 1 2 3 show ?thesis
    by (auto simp: SetInput_def Let_def sane_free simp del: sane_simps split: prod.splits if_splits option.splits)
qed

lemma sane_Compute: "sane p s \<Longrightarrow> sane p (snd (Compute N g s))"
  by (auto simp: Compute_def split: prod.splits)

lemma sane_SetProperty: "sane p s \<Longrightarrow> sane p (s\<lparr>cx := snd (SensorStreamSetProperty E stream v (cx s))\<rparr>)"
  using SensorStreamSetProperty_core [of E stream v "cx s"]
  by (cases "SensorStreamSetProperty E stream v (cx s)") (auto intro: sane_cx dest: core_of_eq(11))

section \<open>Processing\<close>

text \<open>No context owns the block as the buffer of its input.\<close>

definition temps_ok :: "ptr \<Rightarrow> 'w core \<Rightarrow> bool" where
  "temps_ok p s \<longleftrightarrow> (\<forall>i. tti_memory_owner (ec_temp_input (ctxs s i)) = OwnerApp
     \<longrightarrow> tti_buffer (ec_temp_input (ctxs s i)) \<noteq> p)"

definition steady :: "ptr \<Rightarrow> 'w core \<Rightarrow> 'w core \<Rightarrow> bool" where
  "steady p s t \<longleftrightarrow> (sane p (sx s) \<and> temps_ok p s \<longrightarrow> sane p (sx t) \<and> temps_ok p t)
     \<and> frame_calls t = frame_calls s \<and> handles t = handles s
     \<and> (\<forall>j. ec_sensor_stream (ctxs t j) = ec_sensor_stream (ctxs s j))"

lemma steady_refl [simp]: "steady p s s"
  by (simp add: steady_def)

lemma steady_trans: "steady p s t \<Longrightarrow> steady p t u \<Longrightarrow> steady p s u"
  by (simp add: steady_def)

lemma steady_sx: "(sane p (sx s) \<Longrightarrow> sane p u) \<Longrightarrow> steady p s (s\<lparr>sx := u\<rparr>)"
  by (simp add: steady_def temps_ok_def)

lemma steady_simps [simp]:
  "steady p s (set_cam_world w s)" "steady p s (core_undef s)" "steady p s (on_sx (undef_if b) s)"
  by (simp_all add: steady_sx)

lemma steady_undef: "steady p s t \<Longrightarrow> steady p s (on_sx (undef_if b) t)"
  by (rule steady_trans [OF _ steady_simps(3)])

lemma steady_channel: "SensorFrameGetChannelFromChannelId C frame c s = (r, ch, t) \<Longrightarrow> steady p s t"
  by (auto simp: SensorFrameGetChannelFromChannelId_def split: prod.splits)

lemma steady_image_property: "SensorChannelGetImageProperty C ch ip s = (r, ip', t) \<Longrightarrow> steady p s t"
  by (auto simp: SensorChannelGetImageProperty_def split: prod.splits if_splits)

lemma steady_raw_data: "SensorChannelGetRawData E C S ch d s = (r, d', t) \<Longrightarrow> steady p s t"
  by (auto simp: SensorChannelGetRawData_def DataAccess_def MemoryRefAccess_def Let_def steady_def temps_ok_def
      split: prod.splits if_splits dest: sane_ProcessFormatInput [rotated])

lemma steady_set_roi: "steady p s (set_sensor_roi E i roi s)"
  using sane_SetProperty by (auto simp: set_sensor_roi_def split: option.splits intro!: steady_sx)

lemma steady_raw_image:
  assumes "raw_image E C S frame s = (r, t)"
  shows "steady p s t"
proof -
  obtain r1 ch s1 where 1: "SensorFrameGetChannelFromChannelId C frame
      AITRIOS_SENSOR_CHANNEL_ID_INFERENCE_RAW_IMAGE s = (r1, ch, s1)" by (metis prod_cases3)
  obtain r2 d s2 where 2: "SensorChannelGetRawData E C S ch no_raw_data s1 = (r2, d, s2)" by (metis prod_cases3)
  obtain r3 ip s3 where 3: "SensorChannelGetImageProperty C ch no_image_property s2 = (r3, ip, s3)"
    by (metis prod_cases3)
  have "t = (if r1 < 0 then s1 else on_sx (undef_if (r3 \<noteq> 0)) s3)"
    using assms 1 2 3 by (auto simp: raw_image_def Let_def)
  with steady_channel [OF 1, of p] steady_raw_data [OF 2, of p] steady_image_property [OF 3, of p]
  show ?thesis by (auto intro: steady_undef steady_trans)
qed

lemma steady_adjusted_roi:
  assumes "adjusted_roi C frame ip roi s = (r, t)"
  shows "steady p s t"
proof -
  obtain r1 ch s1 where 1: "SensorFrameGetChannelFromChannelId C frame
      AITRIOS_SENSOR_CHANNEL_ID_INFERENCE_INPUT_IMAGE s = (r1, ch, s1)" by (metis prod_cases3)
  obtain r2 it s2 where 2: "SensorChannelGetImageProperty C ch no_image_property s1 = (r2, it, s2)"
    by (metis prod_cases3)
  have "t = (if r1 < 0 then s1 else on_sx (undef_if (r2 \<noteq> 0)) s2)"
    using assms 1 2 by (auto simp: adjusted_roi_def Let_def)
  with steady_channel [OF 1, of p] steady_image_property [OF 2, of p] show ?thesis
    by (auto intro: steady_undef steady_trans)
qed

lemma steady_crop:
  assumes "crop_image S data ip roi s = (r, t)"
  shows "steady p s t" and "sane p (sx s) \<Longrightarrow> r = Some ci \<Longrightarrow> dst_was_allocated ci \<Longrightarrow> ci_address ci \<noteq> p"
proof -
  obtain q u where q: "malloc S (unat (icr_width roi * icr_height roi * 3)) (sx s) = (q, u)" by fastforce
  have sane: "sane p (sx s) \<Longrightarrow> sane p u \<and> q \<noteq> p" using sane_malloc [OF _ q] by blast
  have st: "steady p s (s\<lparr>sx := u\<rparr>)" "\<And>bs. steady p s (s\<lparr>sx := store q bs u\<rparr>)" "steady p s (s\<lparr>sx := undef u\<rparr>)"
    using sane by (auto intro!: steady_sx sane_store)
  show "steady p s t"
    using assms q st by (auto simp: crop_image_def new_block_def Let_def split: prod.splits if_splits option.splits)
  show "sane p (sx s) \<Longrightarrow> r = Some ci \<Longrightarrow> dst_was_allocated ci \<Longrightarrow> ci_address ci \<noteq> p"
    using assms q sane by (auto simp: crop_image_def new_block_def Let_def split: if_splits)
qed

lemma steady_temp:
  "(tti_memory_owner temp = OwnerApp \<Longrightarrow> sane p (sx s) \<Longrightarrow> tti_buffer temp \<noteq> p)
     \<Longrightarrow> steady p s (upd_ec i (\<lambda>c. c\<lparr>ec_temp_input := temp\<rparr>) s)"
  by (auto simp: steady_def temps_ok_def)

lemma steady_run_graph: "run_graph S N i None frame s = Some (fr, t) \<Longrightarrow> steady p s t \<and> fr = frame"
  by (auto simp: run_graph_def Let_def split: if_splits option.splits intro!: steady_sx sane_Compute
      dest: sane_SetInput)

lemma steady_upd: "steady p s t \<Longrightarrow> steady p t (f t) \<Longrightarrow> steady p s (f t)"
  by (rule steady_trans)

lemma sane_steady: "steady p s t \<Longrightarrow> sane p (sx s) \<Longrightarrow> temps_ok p s \<Longrightarrow> sane p (sx t) \<and> temps_ok p t"
  by (simp add: steady_def)

lemma steady_free_temp:
  assumes "temps_ok p s" "sane p (sx s)"
  shows "steady p s (upd_ec i (\<lambda>c. c\<lparr>ec_temp_input := no_temp_tensor\<rparr>)
    (if tti_buffer (ec_temp_input (ctxs s i)) \<noteq> 0 \<and> tti_memory_owner (ec_temp_input (ctxs s i)) = OwnerApp
     then on_sx (free (tti_buffer (ec_temp_input (ctxs s i)))) s else s))"
  using assms by (auto simp: steady_def temps_ok_def no_temp_tensor_def intro: sane_free)

lemma steady_process_graph:
  assumes "process_graph E C S N i NoPreprocess frame roi s = Some (r, t)" "sane p (sx s)" "temps_ok p s"
  shows "steady p s t \<and> (r = None \<or> r = Some frame)"
proof -
  define s0 where "s0 = upd_ec i (\<lambda>c. c\<lparr>ec_temp_input := no_temp_tensor\<rparr>)
    (if tti_buffer (ec_temp_input (ctxs s i)) \<noteq> 0 \<and> tti_memory_owner (ec_temp_input (ctxs s i)) = OwnerApp
     then on_sx (free (tti_buffer (ec_temp_input (ctxs s i)))) s else s)"
  have 0: "steady p s s0" unfolding s0_def using steady_free_temp [OF assms(3,2)] .
  note run = assms(1) [unfolded process_graph_def Let_def, folded s0_def]
  obtain r1 s1 where 1: "raw_image E C S frame s0 = (r1, s1)" by fastforce
  have st1: "steady p s s1" using steady_trans [OF 0 steady_raw_image [OF 1]] .
  show ?thesis
  proof (cases r1)
    case None
    with run 1 st1 show ?thesis by simp
  next
    case (Some di)
    obtain d ip where di: "di = (d, ip)" by fastforce
    obtain r2 s2 where 2: "adjusted_roi C frame ip roi s1 = (r2, s2)" by fastforce
    have st2: "steady p s s2" using steady_trans [OF st1 steady_adjusted_roi [OF 2]] .
    show ?thesis
    proof (cases r2)
      case None
      with run 1 2 Some di st2 show ?thesis by simp
    next
      case (Some roi')
      obtain r3 s3 where 3: "crop_image S d ip roi' s2 = (r3, s3)" by fastforce
      have st3: "steady p s s3" using steady_trans [OF st2 steady_crop(1) [OF 3]] .
      show ?thesis
      proof (cases r3)
        case None
        with run 1 2 3 \<open>r1 = _\<close> \<open>r2 = _\<close> di st3 show ?thesis by simp
      next
        case (Some ci)
        obtain temp where temp: "preprocess_input NoPreprocess (raw_timestamp d) ip ci s3 = (Some (temp, None), s3)"
          "tti_buffer temp = ci_address ci" "tti_memory_owner temp = (if dst_was_allocated ci then OwnerApp else OwnerSensor)"
          by (simp add: preprocess_input_def)
        have "tti_buffer temp \<noteq> p" if "tti_memory_owner temp = OwnerApp"
          using steady_crop(2) [OF 3 _ Some] sane_steady [OF st2 assms(2,3)] temp(2,3) that
          by (auto split: if_splits)
        then have st4: "steady p s3 (upd_ec i (\<lambda>c. c\<lparr>ec_temp_input := temp\<rparr>) s3)" by (intro steady_temp)
        from run 1 2 3 \<open>r1 = _\<close> \<open>r2 = _\<close> Some di temp(1)
        obtain fr where "run_graph S N i None frame (upd_ec i (\<lambda>c. c\<lparr>ec_temp_input := temp\<rparr>) s3) = Some (fr, t)"
          "r = Some fr" by auto
        with steady_run_graph [of S N i frame _ fr t p] st3 st4 show ?thesis by (blast intro: steady_trans)
      qed
    qed
  qed
qed

lemma steady_process:
  assumes "ProcessInternal E C S N i j frame0 roi f0 s0 = Some (g, t)"
    and a: "acquire_frame C j frame0 f0 s0 = (Some frame, f, s)" and "pf_preprocess f = NoPreprocess"
    and "sane p (sx s)" "temps_ok p s" "ec_sensor_stream (ctxs s j) = p"
  shows "steady p s t \<and> owns_frame g = owns_frame f \<and> preprocessed_data g = preprocessed_data f
    \<and> (pf_frame g = frame \<and> pf_stream g = p \<or> pf_frame g = pf_frame f \<and> pf_stream g = pf_stream f)"
proof (cases "ec_target (ctxs s i) = edge_imx500")
  case True
  have st: "steady p s (set_sensor_roi E i roi s)" by (rule steady_set_roi)
  with True a assms(1,6) show ?thesis by (auto simp: ProcessInternal_def steady_def)
next
  case False
  with a assms(1,3) obtain r where r: "process_graph E C S N i NoPreprocess frame roi s = Some (r, t)"
    "g = (case r of None \<Rightarrow> f | Some fr \<Rightarrow> f\<lparr>pf_stream := ec_sensor_stream (ctxs t j), pf_frame := fr,
            pf_ctx := Some i, pf_shared_ctx := Some j, is_computed := True\<rparr>)"
    by (auto simp: ProcessInternal_def split: prod.splits)
  from steady_process_graph [OF r(1) assms(4,5)] r(2) assms(6) show ?thesis
    by (auto simp: steady_def)
qed

section \<open>The chain\<close>

text \<open>
  The pattern of an application with several models: the handle of the frame is passed to the next
  model, and the result is assigned to it. The moved-from temporary is destroyed.
\<close>

fun process_chain ::
  "'w env \<Rightarrow> 'w senscord \<Rightarrow> 'w services \<Rightarrow> 'w wasi_nn \<Rightarrow> nat \<Rightarrow> (nat \<times> ImageCropProperty) list
     \<Rightarrow> 'w processed_frame \<Rightarrow> 'w core \<Rightarrow> ('w processed_frame \<times> 'w core) option" where
  "process_chain E C S N j [] f s = Some (f, s)"
| "process_chain E C S N j ((i, roi) # ms) f s =
     (case Process E C S N i (Some j) (frame_of f) roi s of
        None \<Rightarrow> None
      | Some (g, s) \<Rightarrow>
          (let (f, rest, s) = move_assign f g s in process_chain E C S N j ms f (destroy_frame C rest s)))"

definition owner_of :: "ptr \<Rightarrow> u64 \<Rightarrow> 'w processed_frame \<Rightarrow> bool" where
  "owner_of p frame f \<longleftrightarrow> owns_frame f \<and> pf_frame f = frame \<and> pf_stream f = p \<and> is_computed f \<and> preprocessed_data f = 0"

lemma Process_borrowed:
  assumes "Process E C S N i (Some j) frame roi s = Some (g, t)" "frame \<noteq> 0"
    and "sane p (sx s)" "temps_ok p s" "ec_sensor_stream (ctxs s j) = p"
  shows "steady p s t \<and> owner_of p frame g"
proof -
  obtain h u where h: "ProcessInternal E C S N i j frame roi (frame_handle p frame) s = Some (h, u)"
    "g = h\<lparr>is_computed := True, owns_frame := True\<rparr>" "t = u"
    using assms(1,2,5)
    by (auto simp: Process_def Let_def compute_def new_ProcessedFrame_def withROI_def withPreprocessing_def
        move_frame_def destroy_frame_def frame_handle_def)
  have "acquire_frame C j frame (frame_handle p frame :: 'a processed_frame) s = (Some frame, frame_handle p frame, s)"
    using assms(2) by (simp add: acquire_frame_def)
  from steady_process [OF h(1) this _ assms(3-5)] h(2,3) show ?thesis
    by (auto simp: owner_of_def frame_handle_def)
qed

lemma chain_keeps_owner:
  assumes "process_chain E C S N j ms f s = Some (g, t)" "frame \<noteq> 0" "owner_of p frame f"
    and "sane p (sx s)" "temps_ok p s" "ec_sensor_stream (ctxs s j) = p"
  shows "steady p s t \<and> owner_of p frame g"
  using assms
proof (induction ms arbitrary: f s)
  case Nil
  then show ?case by simp
next
  case (Cons m ms)
  obtain i roi where m: "m = (i, roi)" by fastforce
  have fr: "frame_of f = frame" using Cons.prems(3) by (simp add: frame_of_def owner_of_def)
  obtain h u where h: "Process E C S N i (Some j) frame roi s = Some (h, u)"
    using Cons.prems(1) m fr by (auto split: option.splits)
  note st = Process_borrowed [OF h Cons.prems(2,4-6)]
  have mv: "move_assign f h u = (h\<lparr>pf_preprocess := pf_preprocess f\<rparr>, empty_frame\<lparr>pf_preprocess := pf_preprocess h\<rparr>, u)"
    using Cons.prems(3) by (simp add: move_assign_def owner_of_def)
  have "process_chain E C S N j ms (h\<lparr>pf_preprocess := pf_preprocess f\<rparr>) u = Some (g, t)"
    using Cons.prems(1) m fr h mv by (simp add: destroy_frame_def empty_frame_def)
  moreover have "owner_of p frame (h\<lparr>pf_preprocess := pf_preprocess f\<rparr>)" using st by (simp add: owner_of_def)
  moreover have "sane p (sx u) \<and> temps_ok p u" using sane_steady st Cons.prems(4,5) by blast
  moreover have "ec_sensor_stream (ctxs u j) = p" using st Cons.prems(6) by (simp add: steady_def)
  ultimately have "steady p u t \<and> owner_of p frame g" using Cons.IH Cons.prems(2) by blast
  with st show ?case by (blast intro: steady_trans)
qed

text \<open>The first model takes a frame from the stream.\<close>

lemma Process_first:
  assumes "Process E C S N i (Some j) 0 roi s = Some (g, t)" "frame_of g \<noteq> 0"
    and get: "\<And>st fr w. fst (senscord_stream_get_frame C st (-1) fr w) \<in> {0, -1}"
    and "sane p (sx s)" "temps_ok p s" "ec_sensor_stream (ctxs s j) = p" "p \<noteq> 0" "handles s p = Some stream"
  shows "owner_of p (frame_of g) g \<and> stream \<noteq> 0 \<and> sane p (sx t) \<and> temps_ok p t
    \<and> ec_sensor_stream (ctxs t j) = p \<and> handles t p = Some stream
    \<and> frame_calls t = frame_calls s @ [FrameTaken stream (frame_of g)]"
proof -
  define f where "f = withROI roi (new_ProcessedFrame i (Some j) 0 s)"
  have f: "\<not> owns_frame f" "pf_frame f = 0" "pf_ctx f = Some i" "pf_shared_ctx f = Some j" "pf_roi f = Some roi"
    "pf_preprocess f = NoPreprocess" "preprocessed_data f = 0" "pf_stream f = p"
    using assms(6) by (simp_all add: f_def withROI_def new_ProcessedFrame_def)
  obtain h where h: "ProcessInternal E C S N i j 0 roi f s = Some (h, t)" "g = h\<lparr>is_computed := True\<rparr>"
    using assms(1) f by (auto simp: Process_def Let_def compute_def move_frame_def destroy_frame_def empty_frame_def
        simp flip: f_def)
  have pf: "pf_frame h \<noteq> 0" "frame_of g = pf_frame h" using assms(2) h(2) by (simp_all add: frame_of_def)
  have "deref s p = Some stream" using assms(4,8) by (simp add: deref_def sane_def)
  then have acq: "acquire_frame C j 0 f s = (case SensorGetFrame C stream 0 (-1) s of (ret, frame, s) \<Rightarrow>
      if sint (word_of_int ret :: 8 word) < 0 then (None, f, s) else (Some frame, f\<lparr>owns_frame := True\<rparr>, s))"
    using assms(6,7) by (simp add: acquire_frame_def)
  obtain ret frame w where gf: "senscord_stream_get_frame C stream (-1) 0 (cam_world s) = (ret, frame, w)"
    by (metis prod_cases3)
  have ret: "ret = 0 \<or> ret = -1" using get [of stream 0 "cam_world s"] gf by simp
  have ok: "stream \<noteq> 0 \<and> ret = 0"
  proof (rule ccontr)
    assume "\<not> (stream \<noteq> 0 \<and> ret = 0)"
    then have "\<exists>u. acquire_frame C j 0 f s = (None, f, u)" using acq ret gf by (auto simp: SensorGetFrame_def)
    with h(1) f(2) pf(1) show False by (auto simp: ProcessInternal_def)
  qed
  define s1 where "s1 = (set_cam_world w s)\<lparr>frame_calls := frame_calls s @ [FrameTaken stream frame]\<rparr>"
  have acq': "acquire_frame C j 0 f s = (Some frame, f\<lparr>owns_frame := True\<rparr>, s1)"
    using acq gf ok by (simp add: SensorGetFrame_def s1_def)
  have s1: "sane p (sx s1)" "temps_ok p s1" "ec_sensor_stream (ctxs s1 j) = p" "handles s1 p = Some stream"
    using assms(4-8) by (simp_all add: s1_def temps_ok_def)
  have "steady p s1 t \<and> owns_frame h \<and> preprocessed_data h = 0 \<and> pf_frame h = frame \<and> pf_stream h = p"
    using steady_process [OF h(1) acq' _ s1(1-3)] f pf(1) by simp
  with s1 sane_steady [of p s1 t] ok h(2) pf show ?thesis
    by (auto simp: owner_of_def steady_def s1_def)
qed


text \<open>Two models on the sensor, the stream with handle 2 in block 1.\<close>

definition demo_stream :: "nat core" where
  "demo_stream = demo_core\<lparr>ctxs := (\<lambda>_. no_ctx\<lparr>ec_sensor_stream := 1\<rparr>), handles := [1 \<mapsto> 2]\<rparr>"

definition demo_roi :: ImageCropProperty where
  "demo_roi = \<lparr>icr_left = 0, icr_top = 0, icr_width = 0, icr_height = 0\<rparr>"

lemmas demo_process_defs = Process_def compute_def new_ProcessedFrame_def withROI_def withPreprocessing_def
  move_frame_def destroy_frame_def empty_frame_def ProcessInternal_def acquire_frame_def deref_def alive_def
  SensorGetFrame_def set_sensor_roi_def frame_handle_def frame_of_def move_assign_def Let_def

lemma demo_first:
  "\<exists>f t. Process (demo_env None) demo_senscord demo_services demo_nn 0 (Some 0) 0 demo_roi demo_stream = Some (f, t)
     \<and> frame_of f = 9 \<and> (\<exists>g u. process_chain (demo_env None) demo_senscord demo_services demo_nn 0 [(1, demo_roi)]
         f t = Some (g, u))"
  by (simp add: demo_process_defs demo_stream_def demo_roi_def demo_core_def demo_sys_def demo_senscord_def
      no_ctx_def demo_state_def StateMachine_init_def)


end
